(* ===== verification/Prelude.thy ===== *)
theory Prelude
  imports Main "HOL-Library.Word"
begin

text \<open>
  Shared vocabulary of the development: the fixed-width integer types of
  \<^verbatim>\<open>vmlinux.h\<close> and \<^verbatim>\<open>profi_events.h\<close>, the collections of rewrite rules the component
  theories feed, and the generic facts on words, lists and maps that more than one
  component needs.
\<close>

section \<open>Machine integers\<close>

text \<open>
  \<^verbatim>\<open>__u8\<close>, \<^verbatim>\<open>__u32\<close> and \<^verbatim>\<open>__u64\<close> of the C sources; arithmetic on them wraps around,
  which is what unsigned C arithmetic does.
\<close>

type_synonym u8 = "8 word"
type_synonym u16 = "16 word"
type_synonym u32 = "32 word"
type_synonym u64 = "64 word"

text \<open>A CPU number, the implicit index of every per-CPU map operation.\<close>

type_synonym cpu = nat

section \<open>Collections\<close>

named_theorems event_defs \<open>the event type constants of profi_events.h\<close>
named_theorems map_defs \<open>the BPF map operations\<close>
named_theorems probe_defs \<open>the uprobe and uretprobe handlers\<close>
named_theorems layout_simps \<open>sizes and alignments of C types\<close>

section \<open>Words\<close>

lemma take_bit_add_narrow:
  fixes a b :: int
  assumes "m \<le> n"
  shows "take_bit m (take_bit n a + take_bit n b) = take_bit m (a + b)"
proof -
  have "take_bit m (take_bit n a + take_bit n b)
      = take_bit m (take_bit m (take_bit n a) + take_bit m (take_bit n b))"
    by (simp only: take_bit_add)
  also have "\<dots> = take_bit m (take_bit m a + take_bit m b)"
    using assms by (simp add: min_absorb1)
  also have "\<dots> = take_bit m (a + b)"
    by (simp only: take_bit_add)
  finally show ?thesis .
qed

lemma take_bit_mult_narrow:
  fixes a b :: int
  assumes "m \<le> n"
  shows "take_bit m (take_bit n a * take_bit n b) = take_bit m (a * b)"
proof -
  have "take_bit m (take_bit n a * take_bit n b)
      = take_bit m (take_bit m (take_bit n a) * take_bit m (take_bit n b))"
    by (simp only: take_bit_mult)
  also have "\<dots> = take_bit m (take_bit m a * take_bit m b)"
    using assms by (simp add: min_absorb1)
  also have "\<dots> = take_bit m (a * b)"
    by (simp only: take_bit_mult)
  finally show ?thesis .
qed

lemma ucast_add_down:
  fixes a b :: "'a::len word"
  assumes "LENGTH('b) \<le> LENGTH('a)"
  shows "(ucast (a + b) :: 'b::len word) = ucast a + ucast b"
  using assms by transfer (simp add: take_bit_add_narrow)

lemma ucast_mult_down:
  fixes a b :: "'a::len word"
  assumes "LENGTH('b) \<le> LENGTH('a)"
  shows "(ucast (a * b) :: 'b::len word) = ucast a * ucast b"
  using assms by transfer (simp add: take_bit_mult_narrow)

lemma ucast_down_1 [simp]: "(ucast (1 :: u64) :: u32) = 1"
  by simp

lemma word_le_unat_iff: "(a :: 'a::len word) \<le> b \<longleftrightarrow> unat a \<le> unat b"
  by (simp add: word_le_nat_alt)

lemma unat_ucast_up:
  fixes w :: "'a::len word"
  assumes "LENGTH('a) \<le> LENGTH('b::len)"
  shows "unat (ucast w :: 'b word) = unat w"
proof -
  have "unat w < 2 ^ LENGTH('a)" by (rule unsigned_less)
  also have "\<dots> \<le> (2::nat) ^ LENGTH('b)" using assms by simp
  finally show ?thesis by (simp add: unsigned_ucast_eq take_bit_nat_eq_self)
qed

lemma unat_of_nat_small:
  "n < 2 ^ LENGTH('a) \<Longrightarrow> unat (of_nat n :: 'a::len word) = n"
  by (simp add: unat_of_nat take_bit_nat_eq_self)

lemma unat_scaled:
  fixes w :: "'a::len word"
  assumes "n * unat w < 2 ^ LENGTH('a)"
  shows "unat (of_nat n * w) = n * unat w"
proof -
  have "of_nat n * w = of_nat (n * unat w)" by simp
  then show ?thesis using assms by (simp only: unat_of_nat_small)
qed

text \<open>A scaled count kept in 32 bits and widened is the scaled count, as long as it fits.\<close>

lemma ucast_scaled:
  fixes mul :: u64
  assumes "n * unat mul < 2 ^ 32"
  shows "(ucast ((of_nat n :: u32) * ucast mul) :: u64) = of_nat n * mul"
proof -
  have "unat ((of_nat n :: u32) * ucast mul) = n * unat mul mod 2 ^ 32"
    by (simp add: unat_word_ariths unat_of_nat unsigned_ucast_eq take_bit_eq_mod mod_simps)
  then have "unat (ucast ((of_nat n :: u32) * ucast mul) :: u64) = n * unat mul"
    using assms by (simp add: unat_ucast_up)
  also have "\<dots> = unat (of_nat n * mul)"
    using assms by (simp add: unat_scaled)
  finally show ?thesis by (simp add: word_unat_eq_iff)
qed

section \<open>Lists\<close>

text \<open>
  Adding to one cell of an array of words adds the same amount to its sum. The library's
  \<^verbatim>\<open>sum_list_update\<close> needs an ordered cancellative monoid, which words are not.
\<close>

lemma sum_list_bump:
  fixes xs :: "'a::comm_monoid_add list"
  assumes "i < length xs"
  shows "sum_list (xs[i := xs ! i + d]) = sum_list xs + d"
  using assms
proof (induction xs arbitrary: i)
  case Nil
  then show ?case by simp
next
  case (Cons x xs)
  then show ?case by (cases i) (simp_all add: ac_simps)
qed

lemma sum_list_replicate_0 [simp]:
  "sum_list (replicate n (0 :: 'a::comm_monoid_add)) = 0"
  by (induction n) simp_all

lemma sum_list_set_zero:
  "i < n \<Longrightarrow> sum_list ((replicate n (0 :: 'a::comm_monoid_add))[i := d]) = d"
  using sum_list_bump [of i "replicate n 0" d] by simp

text \<open>Splitting a sum by a classification of its summands and adding the parts up again.\<close>

lemma sum_list_const: "sum_list (map (\<lambda>_. w) xs) = of_nat (length xs) * w"
  for w :: "'a::comm_semiring_1"
  by (induction xs) (simp_all add: algebra_simps)

lemma sum_list_one_hot:
  fixes h :: "'c \<Rightarrow> 'a::comm_monoid_add"
  assumes "distinct cs" and "x \<in> set cs"
  shows "sum_list (map (\<lambda>c. (if x = c then a else 0) + h c) cs) = a + sum_list (map h cs)"
  using assms
proof (induction cs)
  case Nil
  then show ?case by simp
next
  case (Cons c cs)
  show ?case
  proof (cases "x = c")
    case True
    with Cons.prems have "map (\<lambda>c. (if x = c then a else 0) + h c) cs = map h cs" by auto
    then have "sum_list (map (\<lambda>c. (if x = c then a else 0) + h c) cs) = sum_list (map h cs)" by metis
    with True show ?thesis by (simp add: add.assoc)
  next
    case False
    with Cons show ?thesis by (simp add: ac_simps)
  qed
qed

lemma sum_by_class:
  fixes g :: "'x \<Rightarrow> 'a::comm_monoid_add"
  assumes "distinct cs" and "\<forall>x \<in> set xs. f x \<in> set cs"
  shows "sum_list (map (\<lambda>c. sum_list (map g (filter (\<lambda>x. P x \<and> f x = c) xs))) cs) =
    sum_list (map g (filter P xs))"
  using assms(2)
proof (induction xs)
  case Nil
  then show ?case by simp
next
  case (Cons x xs)
  have "sum_list (map (\<lambda>c. sum_list (map g (filter (\<lambda>x. P x \<and> f x = c) (x # xs)))) cs) =
      sum_list (map (\<lambda>c. (if f x = c then if P x then g x else 0 else 0) +
        sum_list (map g (filter (\<lambda>x. P x \<and> f x = c) xs))) cs)"
    by (rule arg_cong [where f = sum_list], rule map_cong) auto
  also have "\<dots> = (if P x then g x else 0) + sum_list (map g (filter P xs))"
    using Cons assms(1) by (simp add: sum_list_one_hot)
  finally show ?case by simp
qed

lemma count_by_class:
  fixes w :: "'a::comm_semiring_1"
  assumes "distinct cs" and "\<forall>x \<in> set xs. f x \<in> set cs"
  shows "sum_list (map (\<lambda>c. of_nat (length (filter (\<lambda>x. P x \<and> f x = c) xs)) * w) cs) =
    of_nat (length (filter P xs)) * w"
  using sum_by_class [OF assms, where g = "\<lambda>_. w" and P = P] by (simp add: sum_list_const)

section \<open>Maps\<close>

lemma map_upd_other [simp]: "k' \<noteq> k \<Longrightarrow> (m(k \<mapsto> v)) k' = m k'"
  by simp

lemma restrict_map_Some_iff:
  "(m |` A) k = Some v \<longleftrightarrow> k \<in> A \<and> m k = Some v"
  by (simp add: restrict_map_def)

end
