(* ===== verification/Events.thy ===== *)
theory Events
  imports Prelude
begin

text \<open>
  The header \<^verbatim>\<open>src/src/bpf/profi_events.h\<close>: event type constants, the element sizes of
  NCCL data types, the histogram bounds, the structures shared by the kernel side and
  user space, the two event classifiers and the three functions that choose a histogram
  bucket. A C field \<^verbatim>\<open>f\<close> of a structure is the record field with a two-letter prefix for
  the structure (\<^verbatim>\<open>ce_\<close> for \<^verbatim>\<open>CudaEvent\<close> and so on), since several structures share field
  names.
\<close>

section \<open>Event type constants\<close>

definition EVENT_CUDA_MALLOC :: u32 where [event_defs]: "EVENT_CUDA_MALLOC = 1"
definition EVENT_CUDA_FREE :: u32 where [event_defs]: "EVENT_CUDA_FREE = 2"
definition EVENT_CUDA_MEMCPY :: u32 where [event_defs]: "EVENT_CUDA_MEMCPY = 3"
definition EVENT_CUDA_LAUNCH_KERNEL :: u32 where [event_defs]: "EVENT_CUDA_LAUNCH_KERNEL = 4"
definition EVENT_CUDA_MEMCPY_ASYNC :: u32 where [event_defs]: "EVENT_CUDA_MEMCPY_ASYNC = 5"
definition EVENT_CUDA_MALLOC_ASYNC :: u32 where [event_defs]: "EVENT_CUDA_MALLOC_ASYNC = 6"
definition EVENT_CUDA_FREE_ASYNC :: u32 where [event_defs]: "EVENT_CUDA_FREE_ASYNC = 7"
definition EVENT_CUDA_REGISTER_FUNCTION :: u32 where
  [event_defs]: "EVENT_CUDA_REGISTER_FUNCTION = 8"
definition EVENT_NCCL_ALL_REDUCE :: u32 where [event_defs]: "EVENT_NCCL_ALL_REDUCE = 9"
definition EVENT_NCCL_ALL_GATHER :: u32 where [event_defs]: "EVENT_NCCL_ALL_GATHER = 10"
definition EVENT_NCCL_REDUCE_SCATTER :: u32 where [event_defs]: "EVENT_NCCL_REDUCE_SCATTER = 11"
definition EVENT_NCCL_BROADCAST :: u32 where [event_defs]: "EVENT_NCCL_BROADCAST = 12"
definition EVENT_NCCL_SEND :: u32 where [event_defs]: "EVENT_NCCL_SEND = 13"
definition EVENT_NCCL_RECV :: u32 where [event_defs]: "EVENT_NCCL_RECV = 14"
definition EVENT_CUDA_STREAM_SYNC :: u32 where [event_defs]: "EVENT_CUDA_STREAM_SYNC = 15"
definition EVENT_CUDA_EVENT_SYNC :: u32 where [event_defs]: "EVENT_CUDA_EVENT_SYNC = 16"
definition EVENT_CUDA_MALLOC_HOST :: u32 where [event_defs]: "EVENT_CUDA_MALLOC_HOST = 17"
definition EVENT_CUDA_FREE_HOST :: u32 where [event_defs]: "EVENT_CUDA_FREE_HOST = 18"
definition EVENT_CUDA_MEMSET :: u32 where [event_defs]: "EVENT_CUDA_MEMSET = 19"
definition EVENT_CUDA_MEMSET_ASYNC :: u32 where [event_defs]: "EVENT_CUDA_MEMSET_ASYNC = 20"
definition EVENT_CUDA_GRAPH_LAUNCH :: u32 where [event_defs]: "EVENT_CUDA_GRAPH_LAUNCH = 21"
definition EVENT_CUDA_GRAPH_INSTANTIATE :: u32 where
  [event_defs]: "EVENT_CUDA_GRAPH_INSTANTIATE = 22"
definition EVENT_CUDA_MODULE_LOAD :: u32 where [event_defs]: "EVENT_CUDA_MODULE_LOAD = 23"

definition MEMCPY_H2H :: u32 where [event_defs]: "MEMCPY_H2H = 0"
definition MEMCPY_H2D :: u32 where [event_defs]: "MEMCPY_H2D = 1"
definition MEMCPY_D2H :: u32 where [event_defs]: "MEMCPY_D2H = 2"
definition MEMCPY_D2D :: u32 where [event_defs]: "MEMCPY_D2D = 3"

section \<open>Tables\<close>

definition NCCL_DTYPE_SIZES :: "u64 list" where
  "NCCL_DTYPE_SIZES = [1, 1, 4, 4, 2, 4, 8, 8, 8, 2]"

definition NCCL_BUCKET_BOUNDS_NS :: "u64 list" where
  "NCCL_BUCKET_BOUNDS_NS =
     [10000, 50000, 100000, 500000, 1000000, 5000000, 10000000, 50000000,
      100000000, 500000000, 1000000000]"

definition CUDA_BUCKET_BOUNDS_NS :: "u64 list" where
  "CUDA_BUCKET_BOUNDS_NS =
     [1000, 5000, 10000, 50000, 100000, 500000, 1000000, 5000000, 10000000,
      50000000, 100000000, 500000000, 1000000000]"

definition KERNEL_BUCKET_BOUNDS_NS :: "u64 list" where
  "KERNEL_BUCKET_BOUNDS_NS =
     [1000, 5000, 10000, 50000, 100000, 500000, 1000000, 10000000]"

section \<open>Structures\<close>

text \<open>A fixed-size C array is a list; its length is part of the well-formedness of a state.\<close>

record CudaEvent =
  ce_event_type :: u32
  ce_pid :: u32
  ce_tid :: u32
  ce_memcpy_kind :: u32
  ce_timestamp_ns :: u64
  ce_duration_ns :: u64
  ce_size :: u64
  ce_addr :: u64
  ce_stream :: u64
  ce_nvtx_marker :: "u8 list"
  ce_comm :: "u8 list"
  ce_error_code :: u32
  ce_pad2 :: u32

record KernelRegEvent =
  kr_pid :: u32
  kr_pad :: u32
  kr_host_fun :: u64
  kr_name_ptr :: u64

record EntryData =
  ed_timestamp_ns :: u64
  ed_arg0 :: u64
  ed_arg1 :: u64
  ed_arg2 :: u64
  ed_event_type :: u32
  ed_pad :: u32

record AggKey =
  ak_event_type :: u32
  ak_pid :: u32
  ak_memcpy_kind :: u32
  ak_error_code :: u32
  ak_stream :: u64

record AggValue =
  av_count :: u64
  av_duration_sum_ns :: u64
  av_size_sum :: u64
  av_bucket_counts :: "u32 list"

record LaunchKey =
  lk_pid :: u32
  lk_pad :: u32
  lk_host_fun :: u64
  lk_stream :: u64

record LaunchAggValue =
  lv_count :: u64
  lv_total_duration_ns :: u64
  lv_max_duration_ns :: u64
  lv_bucket_counts :: "u32 list"

record NcclAggValue =
  nv_count :: u64
  nv_duration_sum_ns :: u64
  nv_bytes_sum :: u64
  nv_bucket_counts :: "u32 list"

section \<open>Classifiers\<close>

definition profi_is_nccl_event :: "u32 \<Rightarrow> bool" where
  "profi_is_nccl_event event_type \<longleftrightarrow>
     event_type \<ge> EVENT_NCCL_ALL_REDUCE \<and> event_type \<le> EVENT_NCCL_RECV"

text \<open>The \<^verbatim>\<open>switch\<close> returns 1 for the listed labels and 0 by default.\<close>

definition profi_is_aggregatable :: "u32 \<Rightarrow> bool" where
  "profi_is_aggregatable event_type \<longleftrightarrow>
     event_type \<in> set [EVENT_CUDA_MALLOC, EVENT_CUDA_FREE, EVENT_CUDA_MEMCPY,
       EVENT_CUDA_MEMCPY_ASYNC, EVENT_CUDA_MALLOC_ASYNC, EVENT_CUDA_FREE_ASYNC,
       EVENT_CUDA_MALLOC_HOST, EVENT_CUDA_FREE_HOST, EVENT_CUDA_MEMSET,
       EVENT_CUDA_MEMSET_ASYNC, EVENT_CUDA_STREAM_SYNC, EVENT_CUDA_EVENT_SYNC,
       EVENT_CUDA_GRAPH_LAUNCH, EVENT_CUDA_GRAPH_INSTANTIATE, EVENT_CUDA_MODULE_LOAD]"

section \<open>Histogram buckets\<close>

text \<open>The three unrolled comparison chains; the C functions return \<^verbatim>\<open>int\<close>.\<close>

definition profi_nccl_bucket_idx :: "u64 \<Rightarrow> int" where
  "profi_nccl_bucket_idx duration_ns =
     (if duration_ns \<le> NCCL_BUCKET_BOUNDS_NS ! 0 then 0
      else if duration_ns \<le> NCCL_BUCKET_BOUNDS_NS ! 1 then 1
      else if duration_ns \<le> NCCL_BUCKET_BOUNDS_NS ! 2 then 2
      else if duration_ns \<le> NCCL_BUCKET_BOUNDS_NS ! 3 then 3
      else if duration_ns \<le> NCCL_BUCKET_BOUNDS_NS ! 4 then 4
      else if duration_ns \<le> NCCL_BUCKET_BOUNDS_NS ! 5 then 5
      else if duration_ns \<le> NCCL_BUCKET_BOUNDS_NS ! 6 then 6
      else if duration_ns \<le> NCCL_BUCKET_BOUNDS_NS ! 7 then 7
      else if duration_ns \<le> NCCL_BUCKET_BOUNDS_NS ! 8 then 8
      else if duration_ns \<le> NCCL_BUCKET_BOUNDS_NS ! 9 then 9
      else if duration_ns \<le> NCCL_BUCKET_BOUNDS_NS ! 10 then 10
      else 11)"

definition profi_cuda_bucket_idx :: "u64 \<Rightarrow> int" where
  "profi_cuda_bucket_idx duration_ns =
     (if duration_ns \<le> CUDA_BUCKET_BOUNDS_NS ! 0 then 0
      else if duration_ns \<le> CUDA_BUCKET_BOUNDS_NS ! 1 then 1
      else if duration_ns \<le> CUDA_BUCKET_BOUNDS_NS ! 2 then 2
      else if duration_ns \<le> CUDA_BUCKET_BOUNDS_NS ! 3 then 3
      else if duration_ns \<le> CUDA_BUCKET_BOUNDS_NS ! 4 then 4
      else if duration_ns \<le> CUDA_BUCKET_BOUNDS_NS ! 5 then 5
      else if duration_ns \<le> CUDA_BUCKET_BOUNDS_NS ! 6 then 6
      else if duration_ns \<le> CUDA_BUCKET_BOUNDS_NS ! 7 then 7
      else if duration_ns \<le> CUDA_BUCKET_BOUNDS_NS ! 8 then 8
      else if duration_ns \<le> CUDA_BUCKET_BOUNDS_NS ! 9 then 9
      else if duration_ns \<le> CUDA_BUCKET_BOUNDS_NS ! 10 then 10
      else if duration_ns \<le> CUDA_BUCKET_BOUNDS_NS ! 11 then 11
      else if duration_ns \<le> CUDA_BUCKET_BOUNDS_NS ! 12 then 12
      else 13)"

definition profi_kernel_bucket_idx :: "u64 \<Rightarrow> int" where
  "profi_kernel_bucket_idx duration_ns =
     (if duration_ns \<le> KERNEL_BUCKET_BOUNDS_NS ! 0 then 0
      else if duration_ns \<le> KERNEL_BUCKET_BOUNDS_NS ! 1 then 1
      else if duration_ns \<le> KERNEL_BUCKET_BOUNDS_NS ! 2 then 2
      else if duration_ns \<le> KERNEL_BUCKET_BOUNDS_NS ! 3 then 3
      else if duration_ns \<le> KERNEL_BUCKET_BOUNDS_NS ! 4 then 4
      else if duration_ns \<le> KERNEL_BUCKET_BOUNDS_NS ! 5 then 5
      else if duration_ns \<le> KERNEL_BUCKET_BOUNDS_NS ! 6 then 6
      else if duration_ns \<le> KERNEL_BUCKET_BOUNDS_NS ! 7 then 7
      else 8)"

section \<open>The contract of a bucket function\<close>

text \<open>
  What a histogram promises: with sorted bounds, the chosen index counts the bounds that
  lie strictly below the duration, so bounds are inclusive upper bounds and the index
  one past the last bound is the overflow bucket.
\<close>

definition in_bucket :: "u64 list \<Rightarrow> nat \<Rightarrow> u64 \<Rightarrow> bool" where
  "in_bucket bounds i d \<longleftrightarrow>
     (i < length bounds \<longrightarrow> d \<le> bounds ! i) \<and> (i = 0 \<or> bounds ! (i - 1) < d)"

locale bucketing =
  fixes bounds :: "u64 list" and idx :: "u64 \<Rightarrow> int"
  assumes bounds_sorted: "sorted_wrt (<) bounds"
    and idx_counts: "idx d = int (length (takeWhile (\<lambda>b. b < d) bounds))"
begin

lemma idx_nonneg: "0 \<le> idx d"
  by (simp add: idx_counts)

lemma idx_le: "idx d \<le> int (length bounds)"
  by (simp add: idx_counts length_takeWhile_le)

lemma idx_nat_less: "nat (idx d) < Suc (length bounds)"
  using idx_le [of d] by linarith

lemma idx_mono:
  assumes "d \<le> e"
  shows "idx d \<le> idx e"
proof -
  have "takeWhile (\<lambda>b. b < d) bounds = takeWhile (\<lambda>b. b < d) (takeWhile (\<lambda>b. b < e) bounds)"
    using assms by (induction bounds) auto
  then have "length (takeWhile (\<lambda>b. b < d) bounds) \<le> length (takeWhile (\<lambda>b. b < e) bounds)"
    by (metis length_takeWhile_le)
  then show ?thesis by (simp add: idx_counts)
qed

lemma below_idx:
  assumes "i < nat (idx d)"
  shows "bounds ! i < d"
  using assms nth_mem [of i "takeWhile (\<lambda>b. b < d) bounds"]
  by (auto simp: idx_counts takeWhile_nth dest: set_takeWhileD)

lemma at_idx:
  assumes "nat (idx d) < length bounds"
  shows "d \<le> bounds ! nat (idx d)"
  using assms nth_length_takeWhile [of "\<lambda>b. b < d" bounds] by (simp add: idx_counts)

lemma bounds_le: "i \<le> j \<Longrightarrow> j < length bounds \<Longrightarrow> bounds ! i \<le> bounds ! j"
  using sorted_wrt_nth_less [OF bounds_sorted, of i j] by (cases "i = j") auto

lemma idx_eq_iff:
  assumes "i < length bounds"
  shows "idx d = int i \<longleftrightarrow> d \<le> bounds ! i \<and> (i = 0 \<or> bounds ! (i - 1) < d)"
proof
  assume "idx d = int i"
  then have i: "nat (idx d) = i" by simp
  show "d \<le> bounds ! i \<and> (i = 0 \<or> bounds ! (i - 1) < d)"
    using at_idx [of d] below_idx [of "i - 1" d] assms unfolding i by (cases i) auto
next
  assume r: "d \<le> bounds ! i \<and> (i = 0 \<or> bounds ! (i - 1) < d)"
  have "\<not> i < nat (idx d)"
    using below_idx [of i d] r by auto
  moreover have "\<not> nat (idx d) < i"
  proof
    assume less: "nat (idx d) < i"
    then have "d \<le> bounds ! nat (idx d)"
      using at_idx [of d] assms by simp
    moreover have "bounds ! nat (idx d) \<le> bounds ! (i - 1)"
      using less assms by (simp add: bounds_le)
    ultimately show False using r less by auto
  qed
  ultimately show "idx d = int i" using idx_nonneg [of d] by linarith
qed

lemma idx_overflow_iff:
  assumes "bounds \<noteq> []"
  shows "idx d = int (length bounds) \<longleftrightarrow> last bounds < d"
proof
  assume "idx d = int (length bounds)"
  then show "last bounds < d"
    using below_idx [of "length bounds - 1" d] assms by (simp add: last_conv_nth)
next
  assume gt: "last bounds < d"
  have "\<not> nat (idx d) < length bounds"
  proof
    assume less: "nat (idx d) < length bounds"
    then have "bounds ! nat (idx d) \<le> last bounds"
      using bounds_le [of "nat (idx d)" "length bounds - 1"]
      by (simp add: last_conv_nth [OF assms])
    with at_idx [OF less] gt show False by simp
  qed
  then show "idx d = int (length bounds)" using idx_le [of d] idx_nonneg [of d] by linarith
qed

lemma idx_in_bucket:
  assumes "bounds \<noteq> []" and "i \<le> length bounds"
  shows "nat (idx d) = i \<longleftrightarrow> in_bucket bounds i d"
proof (cases "i < length bounds")
  case True
  then show ?thesis
    using idx_eq_iff [OF True, of d] idx_nonneg [of d] by (auto simp: in_bucket_def)
next
  case False
  with assms have "i = length bounds" by simp
  then show ?thesis
    using assms(1) idx_overflow_iff [of d] idx_nonneg [of d]
    by (auto simp: in_bucket_def last_conv_nth)
qed

lemma idx_iff_in_bucket:
  assumes "bounds \<noteq> []"
  shows "nat (idx d) = i \<longleftrightarrow> i \<le> length bounds \<and> in_bucket bounds i d"
  using idx_in_bucket [OF assms, of i d] idx_nat_less [of d] by (cases "i \<le> length bounds") auto

lemma idx_le_iff: "nat (idx d) \<le> j \<longleftrightarrow> length bounds \<le> j \<or> d \<le> bounds ! j"
proof (cases "j < length bounds")
  case True
  show ?thesis
  proof
    assume le: "nat (idx d) \<le> j"
    with True have "d \<le> bounds ! nat (idx d)" by (intro at_idx) simp
    also have "\<dots> \<le> bounds ! j" using le True by (rule bounds_le)
    finally show "length bounds \<le> j \<or> d \<le> bounds ! j" by simp
  next
    assume "length bounds \<le> j \<or> d \<le> bounds ! j"
    with True below_idx [of j d] show "nat (idx d) \<le> j" by (auto simp: not_less [symmetric])
  qed
next
  case False
  then show ?thesis using idx_nat_less [of d] by simp
qed

text \<open>Adding up the cells to a bound counts the durations that do not exceed it.\<close>

lemma cells_upto:
  fixes w :: "'a::comm_semiring_1"
  assumes "bounds \<noteq> []" and "j \<le> length bounds"
  shows "sum_list (map (\<lambda>i. of_nat (length (filter (in_bucket bounds i \<circ> f) xs)) * w) [0..<Suc j]) =
    of_nat (length (filter (\<lambda>x. j = length bounds \<or> f x \<le> bounds ! j) xs)) * w"
proof -
  have cell: "in_bucket bounds i (f x) \<longleftrightarrow> nat (idx (f x)) = i" if "i \<le> j" for i x
    using idx_iff_in_bucket [OF assms(1), of "f x" i] that assms(2) by simp
  have "sum_list (map (\<lambda>i. of_nat (length (filter (in_bucket bounds i \<circ> f) xs)) * w) [0..<Suc k]) =
      of_nat (length (filter (\<lambda>x. nat (idx (f x)) \<le> k) xs)) * w" if "k \<le> j" for k
    using that
  proof (induction k)
    case 0
    then show ?case by (simp add: comp_def cell)
  next
    case (Suc k)
    have "length (filter (\<lambda>x. nat (idx (f x)) \<le> Suc k) xs) =
        length (filter (\<lambda>x. nat (idx (f x)) \<le> k) xs) + length (filter (\<lambda>x. nat (idx (f x)) = Suc k) xs)"
      by (induction xs) auto
    moreover have "[0..<Suc (Suc k)] = [0..<Suc k] @ [Suc k]" by simp
    ultimately show ?case
      using Suc cell [of "Suc k"] by (simp add: comp_def distrib_right del: upt_Suc)
  qed
  moreover have "(\<lambda>x. nat (idx (f x)) \<le> j) = (\<lambda>x. j = length bounds \<or> f x \<le> bounds ! j)"
    using assms by (auto simp: idx_le_iff fun_eq_iff)
  ultimately show ?thesis by simp
qed

end

text \<open>One link of a comparison chain, with the number of links passed so far.\<close>

lemma chain_start: "int (length xs) = 0 + int (length xs)"
  by simp

lemma chain_step:
  "n + int (length (takeWhile (\<lambda>b. b < d) (x # xs))) =
     (if d \<le> x then n else n + 1 + int (length (takeWhile (\<lambda>b. b < d) xs)))"
  for d x :: u64
  by (simp add: linorder_not_le)

lemma chain_end: "n + int (length (takeWhile P [])) = n"
  by simp

lemma chain_numerals:
  "(0::int) + 1 = 1" "(1::int) + 1 = 2" "(2::int) + 1 = 3" "(3::int) + 1 = 4"
  "(4::int) + 1 = 5" "(5::int) + 1 = 6" "(6::int) + 1 = 7" "(7::int) + 1 = 8"
  "(8::int) + 1 = 9" "(9::int) + 1 = 10" "(10::int) + 1 = 11" "(11::int) + 1 = 12"
  "(12::int) + 1 = 13"
  by simp_all

interpretation nccl_hist: bucketing NCCL_BUCKET_BOUNDS_NS profi_nccl_bucket_idx
proof unfold_locales
  show "sorted_wrt (<) NCCL_BUCKET_BOUNDS_NS"
    by (simp add: NCCL_BUCKET_BOUNDS_NS_def)
  show "profi_nccl_bucket_idx d = int (length (takeWhile (\<lambda>b. b < d) NCCL_BUCKET_BOUNDS_NS))" for d
    unfolding profi_nccl_bucket_idx_def NCCL_BUCKET_BOUNDS_NS_def
    by (subst chain_start) (simp only: chain_step chain_end chain_numerals, simp split del: if_split cong del: if_weak_cong)
qed

interpretation cuda_hist: bucketing CUDA_BUCKET_BOUNDS_NS profi_cuda_bucket_idx
proof unfold_locales
  show "sorted_wrt (<) CUDA_BUCKET_BOUNDS_NS"
    by (simp add: CUDA_BUCKET_BOUNDS_NS_def)
  show "profi_cuda_bucket_idx d = int (length (takeWhile (\<lambda>b. b < d) CUDA_BUCKET_BOUNDS_NS))" for d
    unfolding profi_cuda_bucket_idx_def CUDA_BUCKET_BOUNDS_NS_def
    by (subst chain_start) (simp only: chain_step chain_end chain_numerals, simp split del: if_split cong del: if_weak_cong)
qed

interpretation kernel_hist: bucketing KERNEL_BUCKET_BOUNDS_NS profi_kernel_bucket_idx
proof unfold_locales
  show "sorted_wrt (<) KERNEL_BUCKET_BOUNDS_NS"
    by (simp add: KERNEL_BUCKET_BOUNDS_NS_def)
  show "profi_kernel_bucket_idx d = int (length (takeWhile (\<lambda>b. b < d) KERNEL_BUCKET_BOUNDS_NS))" for d
    unfolding profi_kernel_bucket_idx_def KERNEL_BUCKET_BOUNDS_NS_def
    by (subst chain_start) (simp only: chain_step chain_end chain_numerals, simp split del: if_split cong del: if_weak_cong)
qed

lemma length_bounds [simp]:
  "length NCCL_BUCKET_BOUNDS_NS = 11" "length CUDA_BUCKET_BOUNDS_NS = 13"
  "length KERNEL_BUCKET_BOUNDS_NS = 8"
  by (simp_all add: NCCL_BUCKET_BOUNDS_NS_def CUDA_BUCKET_BOUNDS_NS_def KERNEL_BUCKET_BOUNDS_NS_def)

lemma bounds_nonempty [simp]:
  "NCCL_BUCKET_BOUNDS_NS \<noteq> []" "CUDA_BUCKET_BOUNDS_NS \<noteq> []" "KERNEL_BUCKET_BOUNDS_NS \<noteq> []"
  by (simp_all add: NCCL_BUCKET_BOUNDS_NS_def CUDA_BUCKET_BOUNDS_NS_def KERNEL_BUCKET_BOUNDS_NS_def)

end
