(* ===== verification/BpfMaps.thy ===== *)
theory BpfMaps
  imports Events
begin

text \<open>
  The BPF runtime as far as \<^verbatim>\<open>src/src/bpf/profi.bpf.c\<close> uses it: the five map types it
  declares and the contract their operations keep. The runtime's own choices (which
  entries an LRU map evicts to make room, whether inserting into a bounded hash map
  fails) are arguments of the operations, so every statement about the probes holds for
  all of them.
\<close>

section \<open>Map types\<close>

text \<open>
  \<^verbatim>\<open>BPF_MAP_TYPE_HASH\<close> and \<^verbatim>\<open>BPF_MAP_TYPE_LRU_HASH\<close> are finite maps; a per-CPU hash map
  holds one value per CPU under each key; an array holds \<^verbatim>\<open>max_entries\<close> values and a
  per-CPU array one such array per CPU; a ring buffer is the list of submitted records,
  oldest first.
\<close>

type_synonym ('k, 'v) hash = "'k \<rightharpoonup> 'v"
type_synonym ('k, 'v) percpu_hash = "'k \<rightharpoonup> (cpu \<Rightarrow> 'v)"
type_synonym 'v array = "'v list"
type_synonym 'v percpu_array = "cpu \<Rightarrow> 'v list"
type_synonym 'v ringbuf = "'v list"

section \<open>Operations\<close>

text \<open>\<^verbatim>\<open>bpf_map_lookup_elem\<close> on an array: \<^verbatim>\<open>NULL\<close> for an index past the end.\<close>

definition array_lookup :: "'v array \<Rightarrow> u32 \<Rightarrow> 'v option" where
  [map_defs]: "array_lookup m i = (if unat i < length m then Some (m ! unat i) else None)"

definition percpu_array_lookup :: "cpu \<Rightarrow> 'v percpu_array \<Rightarrow> u32 \<Rightarrow> 'v option" where
  [map_defs]: "percpu_array_lookup c m i = array_lookup (m c) i"

text \<open>A store through the pointer that a per-CPU lookup returned.\<close>

definition percpu_array_store ::
    "cpu \<Rightarrow> 'v percpu_array \<Rightarrow> u32 \<Rightarrow> 'v \<Rightarrow> 'v percpu_array" where
  [map_defs]: "percpu_array_store c m i v = m(c := (m c)[unat i := v])"

text \<open>
  \<^verbatim>\<open>bpf_map_update_elem\<close> with \<^verbatim>\<open>BPF_ANY\<close> on an LRU hash map always succeeds. To make room
  it may evict other entries, before the map is full too; \<open>evict\<close> says which.
\<close>

definition lru_update :: "('k \<Rightarrow> bool) \<Rightarrow> ('k, 'v) hash \<Rightarrow> 'k \<Rightarrow> 'v \<Rightarrow> ('k, 'v) hash" where
  [map_defs]: "lru_update evict m k v = (m |` {x. \<not> evict x})(k \<mapsto> v)"

definition hash_delete :: "('k, 'v) hash \<Rightarrow> 'k \<Rightarrow> ('k, 'v) hash" where
  [map_defs]: "hash_delete m k = m(k := None)"

text \<open>
  A lookup in a per-CPU hash map gives the slot of the current CPU. An update from a BPF
  program writes that slot; when it creates the entry the slots of the other CPUs start
  zeroed (\<open>zero\<close>). An update may fail (\<open>fails\<close>: the map is full, or an allocation
  failed); it then returns a negative number and leaves the map alone.
\<close>

definition percpu_lookup :: "cpu \<Rightarrow> ('k, 'v) percpu_hash \<Rightarrow> 'k \<Rightarrow> 'v option" where
  [map_defs]: "percpu_lookup c m k = map_option (\<lambda>slots. slots c) (m k)"

definition percpu_store :: "cpu \<Rightarrow> ('k, 'v) percpu_hash \<Rightarrow> 'k \<Rightarrow> 'v \<Rightarrow> ('k, 'v) percpu_hash" where
  [map_defs]: "percpu_store c m k v =
     (case m k of None \<Rightarrow> m | Some slots \<Rightarrow> m(k \<mapsto> slots(c := v)))"

definition percpu_update ::
    "bool \<Rightarrow> 'v \<Rightarrow> cpu \<Rightarrow> ('k, 'v) percpu_hash \<Rightarrow> 'k \<Rightarrow> 'v \<Rightarrow> int \<times> ('k, 'v) percpu_hash" where
  [map_defs]: "percpu_update fails zero c m k v =
     (if fails then (- 1, m)
      else (0, m(k \<mapsto> (case m k of None \<Rightarrow> (\<lambda>_. zero) | Some slots \<Rightarrow> slots)(c := v))))"

text \<open>
  \<^verbatim>\<open>bpf_ringbuf_reserve\<close> and \<^verbatim>\<open>bpf_ringbuf_submit\<close>: a reservation the runtime refuses is
  \<^verbatim>\<open>NULL\<close>; a submitted record is appended.
\<close>

definition ringbuf_submit :: "'v ringbuf \<Rightarrow> 'v \<Rightarrow> 'v ringbuf" where
  [map_defs]: "ringbuf_submit rb v = rb @ [v]"

section \<open>The contract of a keyed map\<close>

text \<open>
  What the probes rely on, whatever the map type: a lookup after a successful update
  finds the value stored, an update never invents or changes another entry (it may lose
  one), and a deletion removes exactly its key. \<open>ok\<close> says whether an update succeeded.
\<close>

locale keyed_map =
  fixes lookup :: "'m \<Rightarrow> 'k \<Rightarrow> 'v option"
    and update :: "'m \<Rightarrow> 'k \<Rightarrow> 'v \<Rightarrow> 'm"
    and delete :: "'m \<Rightarrow> 'k \<Rightarrow> 'm"
    and ok :: "'m \<Rightarrow> 'k \<Rightarrow> bool"
  assumes lookup_update_same: "ok m k \<Longrightarrow> lookup (update m k v) k = Some v"
    and update_frame: "k' \<noteq> k \<Longrightarrow> lookup (update m k v) k' = Some v' \<Longrightarrow> lookup m k' = Some v'"
    and update_fail: "\<not> ok m k \<Longrightarrow> update m k v = m"
    and lookup_delete: "lookup (delete m k) k' = (if k' = k then None else lookup m k')"
begin

lemma lookup_delete_same [simp]: "lookup (delete m k) k = None"
  by (simp add: lookup_delete)

lemma lookup_update_cases:
  "lookup (update m k v) k' = Some v' \<Longrightarrow> k' = k \<and> v' = v \<and> ok m k \<or> lookup m k' = Some v'"
  using update_frame update_fail lookup_update_same by (metis option.inject)

text \<open>A property of all stored entries survives an update with a good entry, and a deletion.\<close>

lemma update_all:
  assumes "\<And>k v. lookup m k = Some v \<Longrightarrow> P k v" and "P k v"
  shows "lookup (update m k v) k' = Some v' \<Longrightarrow> P k' v'"
  using assms by (auto dest: lookup_update_cases)

lemma delete_all:
  assumes "\<And>k v. lookup m k = Some v \<Longrightarrow> P k v"
  shows "lookup (delete m k) k' = Some v' \<Longrightarrow> P k' v'"
  by (rule assms) (simp add: lookup_delete split: if_splits)

text \<open>Storing under a key and deleting it again can only lose entries.\<close>

lemma delete_update_subset:
  "lookup (delete (update m k v) k) k' = Some v' \<Longrightarrow> lookup m k' = Some v'"
  by (cases "k' = k") (simp add: lookup_delete, simp only: lookup_delete if_False, rule update_frame)

end

interpretation lru: keyed_map "\<lambda>m k. m k" "lru_update evict" hash_delete "\<lambda>_ _. True"
  for evict :: "'k \<Rightarrow> bool"
  by unfold_locales (auto simp: map_defs restrict_map_def split: if_splits)

interpretation percpu: keyed_map "percpu_lookup c" "\<lambda>m k v. snd (percpu_update fails zero c m k v)"
    hash_delete "\<lambda>_ _. \<not> fails"
  for c :: cpu and fails :: bool and zero :: 'v
  by unfold_locales (auto simp: map_defs split: if_splits option.splits)

section \<open>Accumulating into a per-CPU map\<close>

text \<open>
  The three aggregate maps are filled by the same code shape: look the key up, add the
  sample through the pointer when an entry exists, insert an entry built from the sample
  otherwise. \<open>upsert\<close> is that shape; it also returns the code of the insertion.
\<close>

definition upsert ::
    "bool \<Rightarrow> 'v \<Rightarrow> cpu \<Rightarrow> ('v \<Rightarrow> 'v) \<Rightarrow> 'v \<Rightarrow> ('k, 'v) percpu_hash \<Rightarrow> 'k \<Rightarrow>
     int \<times> ('k, 'v) percpu_hash" where
  "upsert fails zero c bump new_val m k =
     (case percpu_lookup c m k of
        Some val \<Rightarrow> (0, percpu_store c m k (bump val))
      | None \<Rightarrow> percpu_update fails zero c m k new_val)"

lemma upsert_other [simp]: "k' \<noteq> k \<Longrightarrow> snd (upsert fails zero c b n m k) k' = m k'"
  by (auto simp: upsert_def map_defs split: option.splits)

lemma upsert_same_Some:
  "m k = Some slots \<Longrightarrow> upsert fails zero c b n m k = (0, m(k \<mapsto> slots(c := b (slots c))))"
  by (simp add: upsert_def map_defs)

lemma upsert_same_None:
  "m k = None \<Longrightarrow> upsert fails zero c b n m k =
     (if fails then (- 1, m) else (0, m(k \<mapsto> (\<lambda>_. zero)(c := n))))"
  by (simp add: upsert_def map_defs)

text \<open>What a slot holds, a missing entry counting as zero.\<close>

definition slot :: "'v \<Rightarrow> ('k, 'v) percpu_hash \<Rightarrow> 'k \<Rightarrow> cpu \<Rightarrow> 'v" where
  "slot zero m k c = (case m k of None \<Rightarrow> zero | Some slots \<Rightarrow> slots c)"

text \<open>
  An accumulator is sound when inserting a sample is the same as adding it to the zero
  value: then an entry always holds the fold of the samples of its CPU, whatever mixture
  of insertions and in-place additions put them there.
\<close>

locale accumulator =
  fixes zero :: 'v and bump :: "'s \<Rightarrow> 'v \<Rightarrow> 'v" and fresh :: "'s \<Rightarrow> 'v"
  assumes fresh_is_bump: "fresh s = bump s zero"
begin

lemma slot_upsert:
  assumes "m k \<noteq> None \<or> \<not> fails"
  shows "slot zero (snd (upsert fails zero c (bump s) (fresh s) m k)) k' c' =
    (if k' = k \<and> c' = c then bump s (slot zero m k c) else slot zero m k' c')"
  using assms
  by (cases "m k") (auto simp: slot_def upsert_same_Some upsert_same_None fresh_is_bump)

lemma upsert_lost:
  assumes "m k = None" and fails
  shows "upsert fails zero c (bump s) (fresh s) m k = (- 1, m)"
  using assms by (simp add: upsert_same_None)

text \<open>Any run of samples that all find room folds into the slots.\<close>

lemma slot_fold:
  "slot zero (fold (\<lambda>(c, k, s) m. snd (upsert False zero c (bump s) (fresh s) m k)) xs m) k c =
     fold bump (map (snd \<circ> snd) (filter (\<lambda>x. fst x = c \<and> fst (snd x) = k) xs)) (slot zero m k c)"
  by (induction xs arbitrary: m) (auto simp: slot_upsert)

text \<open>A property of values that zero has and every sample keeps holds of every slot.\<close>

lemma upsert_all:
  assumes all: "\<And>k slots c. m k = Some slots \<Longrightarrow> P (slots c)"
    and zero: "P zero" and step: "\<And>v. P v \<Longrightarrow> P (bump s v)"
    and res: "snd (upsert fails zero c (bump s) (fresh s) m k) k' = Some slots"
  shows "P (slots c')"
proof (cases "k' = k")
  case False
  with res all show ?thesis by simp
next
  case True
  show ?thesis
  proof (cases "m k")
    case None
    with True res zero step show ?thesis
      by (auto simp: upsert_same_None fresh_is_bump split: if_splits)
  next
    case (Some old)
    with True res all step show ?thesis by (auto simp: upsert_same_Some)
  qed
qed

end

end
