(* ===== verification/BpfCore.thy ===== *)
theory BpfCore
  imports BpfMaps
begin

text \<open>
  The first part of \<^verbatim>\<open>src/src/bpf/profi.bpf.c\<close>: its map definitions as one state record,
  and the helpers every probe is built from (\<^verbatim>\<open>cfg_u32\<close>, \<^verbatim>\<open>save_entry\<close>,
  \<^verbatim>\<open>bump_dropped\<close>, \<^verbatim>\<open>emit_exit\<close>). All of them return 0 or nothing, so the model returns
  the new state only.
\<close>

section \<open>State\<close>

record MallocKey =
  mk_pid :: u32
  mk_pad :: u32
  mk_addr :: u64

type_synonym nvtx_name_t = "u8 list"

text \<open>One field per map, with the map's type.\<close>

record bpf_state =
  INFLIGHT :: "(u64, EntryData) hash"
  EVENTS :: "CudaEvent ringbuf"
  KERNEL_REGS :: "KernelRegEvent ringbuf"
  AGGREGATED :: "(AggKey, AggValue) percpu_hash"
  LAUNCH_AGG :: "(LaunchKey, LaunchAggValue) percpu_hash"
  LAUNCH_DROPPED :: "u64 percpu_array"
  DETAILED_LAUNCHES :: "u32 array"
  UPGRADED_PIDS :: "(u32, u8) hash"
  NCCL_AGG :: "(AggKey, NcclAggValue) percpu_hash"
  DROPPED :: "u64 percpu_array"
  NVTX_STACK :: "(u64, nvtx_name_t) hash"
  KERNEL_AGG_MODE :: "u32 array"
  SAMPLE_RATE :: "u32 array"
  SAMPLE_COUNTER :: "u64 percpu_array"
  MALLOC_SIZES :: "(MallocKey, u64) hash"
  MALLOC_PTRS :: "(u64, u64) hash"

text \<open>
  What one firing of a probe sees of the world: the values the helpers return
  (\<^verbatim>\<open>bpf_ktime_get_ns\<close>, \<^verbatim>\<open>bpf_get_current_pid_tgid\<close>, \<^verbatim>\<open>bpf_get_current_comm\<close>,
  \<^verbatim>\<open>bpf_get_attach_cookie\<close>), the CPU it runs on, the registers it reads besides its
  declared arguments, the user memory of the traced process, and the choices of the
  runtime that \<^verbatim>\<open>BpfMaps\<close> leaves open. \<open>read_user\<close> is an eight-byte read, \<open>None\<close> a fault;
  \<open>read_user_str\<close> gives the bytes found at an address.
\<close>

record env =
  ktime_ns :: u64
  pid_tgid :: u64
  smp_cpu :: cpu
  regs_rc :: u64
  regs_sp :: u64
  attach_cookie :: u64
  current_comm :: "u8 list"
  read_user :: "u64 \<Rightarrow> u64 option"
  read_user_str :: "u64 \<Rightarrow> u8 list option"
  reserve_events :: bool
  reserve_kernel_regs :: bool
  evict_inflight :: "u64 \<Rightarrow> bool"
  evict_nvtx :: "u64 \<Rightarrow> bool"
  evict_malloc_sizes :: "MallocKey \<Rightarrow> bool"
  evict_malloc_ptrs :: "u64 \<Rightarrow> bool"
  agg_insert_fails :: bool
  nccl_insert_fails :: bool
  launch_insert_fails :: bool

text \<open>\<^verbatim>\<open>id >> 32\<close> is the process, the low half the thread.\<close>

definition pid_of :: "u64 \<Rightarrow> u32" where
  "pid_of ident = ucast (drop_bit 32 ident)"

definition tid_of :: "u64 \<Rightarrow> u32" where
  "tid_of ident = ucast ident"

text \<open>Deleting the in-flight entry of the current thread ends every branch of an exit probe.\<close>

definition drop_inflight :: "env \<Rightarrow> bpf_state \<Rightarrow> bpf_state" where
  "drop_inflight E st = st\<lparr>INFLIGHT := hash_delete (INFLIGHT st) (pid_tgid E)\<rparr>"

section \<open>Configuration and counters\<close>

definition cfg_u32 :: "u32 array \<Rightarrow> u32" where
  "cfg_u32 m = (case array_lookup m 0 of Some v \<Rightarrow> v | None \<Rightarrow> 0)"

definition bump_dropped :: "cpu \<Rightarrow> u64 percpu_array \<Rightarrow> u64 percpu_array" where
  "bump_dropped c m =
     (case percpu_array_lookup c m 0 of
        Some cnt \<Rightarrow> percpu_array_store c m 0 (cnt + 1)
      | None \<Rightarrow> m)"

section \<open>Entry\<close>

text \<open>
  Sampling of an aggregatable call: with a rate above 1 the per-CPU counter is read and
  incremented, and the call is skipped unless the old count is a multiple of the rate.
\<close>

definition sample_entry :: "env \<Rightarrow> u32 \<Rightarrow> bpf_state \<Rightarrow> bool \<times> bpf_state" where
  "sample_entry E event_type st =
     (if profi_is_aggregatable event_type then
        (let rate = cfg_u32 (SAMPLE_RATE st) in
         if rate > 1 then
           (case percpu_array_lookup (smp_cpu E) (SAMPLE_COUNTER st) 0 of
              Some c \<Rightarrow>
                (c mod ucast rate = 0,
                 st\<lparr>SAMPLE_COUNTER :=
                      percpu_array_store (smp_cpu E) (SAMPLE_COUNTER st) 0 (c + 1)\<rparr>)
            | None \<Rightarrow> (True, st))
         else (True, st))
      else (True, st))"

definition save_entry :: "env \<Rightarrow> u32 \<Rightarrow> u64 \<Rightarrow> u64 \<Rightarrow> u64 \<Rightarrow> bpf_state \<Rightarrow> bpf_state" where
  "save_entry E event_type arg0 arg1 arg2 st =
     (let key = pid_tgid E in
      if INFLIGHT st key \<noteq> None then st
      else
        (let (keep, st') = sample_entry E event_type st in
         if \<not> keep then st'
         else
           (let entry = \<lparr>ed_timestamp_ns = ktime_ns E, ed_arg0 = arg0, ed_arg1 = arg1,
                         ed_arg2 = arg2, ed_event_type = event_type, ed_pad = 0\<rparr> in
            st'\<lparr>INFLIGHT := lru_update (evict_inflight E) (INFLIGHT st') key entry\<rparr>)))"

section \<open>Exit: accumulating into AGGREGATED\<close>

definition agg_zero :: AggValue where
  "agg_zero = \<lparr>av_count = 0, av_duration_sum_ns = 0, av_size_sum = 0,
               av_bucket_counts = replicate 14 0\<rparr>"

text \<open>Additions through the pointer of an existing entry.\<close>

definition agg_bump :: "u64 \<times> u64 \<times> u64 \<Rightarrow> AggValue \<Rightarrow> AggValue" where
  "agg_bump = (\<lambda>(duration_ns, arg0, sample_mul) val.
     (let bucket_inc = (ucast sample_mul :: u32);
          idx = profi_cuda_bucket_idx duration_ns;
          counts = av_bucket_counts val
      in val\<lparr>av_count := av_count val + sample_mul,
             av_duration_sum_ns := av_duration_sum_ns val + duration_ns * sample_mul,
             av_size_sum := av_size_sum val + arg0 * sample_mul,
             av_bucket_counts :=
               (if idx \<ge> 0 \<and> idx < 14
                then counts[nat idx := counts ! nat idx + bucket_inc] else counts)\<rparr>))"

text \<open>The value of a new entry.\<close>

definition agg_new_val :: "u64 \<times> u64 \<times> u64 \<Rightarrow> AggValue" where
  "agg_new_val = (\<lambda>(duration_ns, arg0, sample_mul).
     (let bucket_inc = (ucast sample_mul :: u32);
          idx = profi_cuda_bucket_idx duration_ns;
          counts = replicate 14 0
      in \<lparr>av_count = sample_mul,
          av_duration_sum_ns = duration_ns * sample_mul,
          av_size_sum = arg0 * sample_mul,
          av_bucket_counts =
            (if idx \<ge> 0 \<and> idx < 14 then counts[nat idx := bucket_inc] else counts)\<rparr>))"

definition sample_mul :: "bpf_state \<Rightarrow> u64" where
  "sample_mul st = (let rate = cfg_u32 (SAMPLE_RATE st) in if rate > 1 then ucast rate else 1)"

definition agg_key :: "env \<Rightarrow> EntryData \<Rightarrow> AggKey" where
  "agg_key E entry =
     \<lparr>ak_event_type = ed_event_type entry, ak_pid = pid_of (pid_tgid E),
      ak_memcpy_kind = ucast (ed_arg1 entry), ak_error_code = ucast (regs_rc E),
      ak_stream = ed_arg2 entry\<rparr>"

definition agg_exit :: "env \<Rightarrow> EntryData \<Rightarrow> u64 \<Rightarrow> bpf_state \<Rightarrow> bpf_state" where
  "agg_exit E entry duration_ns st =
     (let s = (duration_ns, ed_arg0 entry, sample_mul st) in
      st\<lparr>AGGREGATED := snd (upsert (agg_insert_fails E) agg_zero (smp_cpu E)
           (agg_bump s) (agg_new_val s) (AGGREGATED st) (agg_key E entry))\<rparr>)"

section \<open>Exit: accumulating into NCCL\_AGG\<close>

definition nccl_zero :: NcclAggValue where
  "nccl_zero = \<lparr>nv_count = 0, nv_duration_sum_ns = 0, nv_bytes_sum = 0,
                nv_bucket_counts = replicate 12 0\<rparr>"

definition nccl_bump :: "u64 \<times> u64 \<Rightarrow> NcclAggValue \<Rightarrow> NcclAggValue" where
  "nccl_bump = (\<lambda>(duration_ns, bytes) val.
     (let idx = profi_nccl_bucket_idx duration_ns; counts = nv_bucket_counts val
      in val\<lparr>nv_count := nv_count val + 1,
             nv_duration_sum_ns := nv_duration_sum_ns val + duration_ns,
             nv_bytes_sum := nv_bytes_sum val + bytes,
             nv_bucket_counts :=
               (if idx \<ge> 0 \<and> idx < 12
                then counts[nat idx := counts ! nat idx + 1] else counts)\<rparr>))"

definition nccl_new_val :: "u64 \<times> u64 \<Rightarrow> NcclAggValue" where
  "nccl_new_val = (\<lambda>(duration_ns, bytes).
     (let idx = profi_nccl_bucket_idx duration_ns; counts = replicate 12 0
      in \<lparr>nv_count = 1, nv_duration_sum_ns = duration_ns, nv_bytes_sum = bytes,
          nv_bucket_counts =
            (if idx \<ge> 0 \<and> idx < 12 then counts[nat idx := 1] else counts)\<rparr>))"

text \<open>\<^verbatim>\<open>datatype < 10 ? NCCL_DTYPE_SIZES[datatype] : 1\<close>, then a wrapping product.\<close>

definition nccl_dtype_size :: "u64 \<Rightarrow> u64" where
  "nccl_dtype_size dtype = (if dtype < 10 then NCCL_DTYPE_SIZES ! unat dtype else 1)"

definition nccl_bytes :: "EntryData \<Rightarrow> u64" where
  "nccl_bytes entry = ed_arg0 entry * nccl_dtype_size (ed_arg1 entry)"

definition nccl_key :: "env \<Rightarrow> EntryData \<Rightarrow> AggKey" where
  "nccl_key E entry =
     \<lparr>ak_event_type = ed_event_type entry, ak_pid = pid_of (pid_tgid E),
      ak_memcpy_kind = ucast (ed_arg1 entry), ak_error_code = ucast (regs_rc E),
      ak_stream = 0\<rparr>"

definition nccl_exit :: "env \<Rightarrow> EntryData \<Rightarrow> u64 \<Rightarrow> bpf_state \<Rightarrow> bpf_state" where
  "nccl_exit E entry duration_ns st =
     (let s = (duration_ns, nccl_bytes entry) in
      st\<lparr>NCCL_AGG := snd (upsert (nccl_insert_fails E) nccl_zero (smp_cpu E)
           (nccl_bump s) (nccl_new_val s) (NCCL_AGG st) (nccl_key E entry))\<rparr>)"

section \<open>Exit: accumulating into LAUNCH\_AGG\<close>

definition launch_zero :: LaunchAggValue where
  "launch_zero = \<lparr>lv_count = 0, lv_total_duration_ns = 0, lv_max_duration_ns = 0,
                  lv_bucket_counts = replicate 9 0\<rparr>"

definition launch_bump :: "u64 \<Rightarrow> LaunchAggValue \<Rightarrow> LaunchAggValue" where
  "launch_bump duration_ns lval =
     (let lidx = profi_kernel_bucket_idx duration_ns; counts = lv_bucket_counts lval
      in lval\<lparr>lv_count := lv_count lval + 1,
              lv_total_duration_ns := lv_total_duration_ns lval + duration_ns,
              lv_max_duration_ns :=
                (if duration_ns > lv_max_duration_ns lval
                 then duration_ns else lv_max_duration_ns lval),
              lv_bucket_counts :=
                (if lidx \<ge> 0 \<and> lidx < 9
                 then counts[nat lidx := counts ! nat lidx + 1] else counts)\<rparr>)"

definition launch_new_val :: "u64 \<Rightarrow> LaunchAggValue" where
  "launch_new_val duration_ns =
     (let lidx = profi_kernel_bucket_idx duration_ns; counts = replicate 9 0
      in \<lparr>lv_count = 1, lv_total_duration_ns = duration_ns, lv_max_duration_ns = duration_ns,
          lv_bucket_counts =
            (if lidx \<ge> 0 \<and> lidx < 9 then counts[nat lidx := 1] else counts)\<rparr>)"

text \<open>
  \<^verbatim>\<open>UPGRADED_PIDS\<close> forces mode 0 for a process whatever the global mode is; in mode 1 the
  kernel's identity is not recorded.
\<close>

definition launch_mode :: "u32 \<Rightarrow> bpf_state \<Rightarrow> u32" where
  "launch_mode pid st =
     (let global_mode = cfg_u32 (KERNEL_AGG_MODE st)
      in if UPGRADED_PIDS st pid \<noteq> None then 0 else global_mode)"

definition launch_key :: "env \<Rightarrow> EntryData \<Rightarrow> bpf_state \<Rightarrow> LaunchKey" where
  "launch_key E entry st =
     (let pid = pid_of (pid_tgid E); mode = launch_mode pid st
      in \<lparr>lk_pid = pid, lk_pad = 0, lk_host_fun = (if mode = 1 then 0 else ed_arg0 entry),
          lk_stream = ed_arg2 entry\<rparr>)"

definition launch_exit :: "env \<Rightarrow> EntryData \<Rightarrow> u64 \<Rightarrow> bpf_state \<Rightarrow> bpf_state" where
  "launch_exit E entry duration_ns st =
     (let (code, m) = upsert (launch_insert_fails E) launch_zero (smp_cpu E)
            (launch_bump duration_ns) (launch_new_val duration_ns) (LAUNCH_AGG st)
            (launch_key E entry st);
          st' = st\<lparr>LAUNCH_AGG := m\<rparr>
      in if code < 0
         then st'\<lparr>LAUNCH_DROPPED := bump_dropped (smp_cpu E) (LAUNCH_DROPPED st')\<rparr>
         else st')"

section \<open>Exit: the detailed event\<close>

definition mk_event :: "env \<Rightarrow> EntryData \<Rightarrow> u64 \<Rightarrow> bpf_state \<Rightarrow> CudaEvent" where
  "mk_event E entry duration_ns st =
     \<lparr>ce_event_type = ed_event_type entry,
      ce_pid = pid_of (pid_tgid E),
      ce_tid = tid_of (pid_tgid E),
      ce_memcpy_kind = ucast (ed_arg1 entry),
      ce_timestamp_ns = ktime_ns E,
      ce_duration_ns = duration_ns,
      ce_size = ed_arg0 entry,
      ce_addr = ed_arg0 entry,
      ce_stream = ed_arg2 entry,
      ce_nvtx_marker =
        (case NVTX_STACK st (pid_tgid E) of
           Some name \<Rightarrow> take 16 name
         | None \<Rightarrow> replicate 16 0),
      ce_comm = current_comm E,
      ce_error_code = ucast (regs_rc E),
      ce_pad2 = 0\<rparr>"

definition event_exit :: "env \<Rightarrow> EntryData \<Rightarrow> u64 \<Rightarrow> bpf_state \<Rightarrow> bpf_state" where
  "event_exit E entry duration_ns st =
     (if \<not> reserve_events E
      then st\<lparr>DROPPED := bump_dropped (smp_cpu E) (DROPPED st)\<rparr>
      else st\<lparr>EVENTS := ringbuf_submit (EVENTS st) (mk_event E entry duration_ns st)\<rparr>)"

section \<open>Exit\<close>

definition duration_of :: "env \<Rightarrow> EntryData \<Rightarrow> u64" where
  "duration_of E entry =
     (let now = ktime_ns E
      in if now > ed_timestamp_ns entry then now - ed_timestamp_ns entry else 0)"

definition emit_exit :: "env \<Rightarrow> bpf_state \<Rightarrow> bpf_state" where
  "emit_exit E st =
     (case INFLIGHT st (pid_tgid E) of
        None \<Rightarrow> st
      | Some entry \<Rightarrow>
          (let duration_ns = duration_of E entry in
           if profi_is_aggregatable (ed_event_type entry)
           then drop_inflight E (agg_exit E entry duration_ns st)
           else if profi_is_nccl_event (ed_event_type entry)
           then drop_inflight E (nccl_exit E entry duration_ns st)
           else if ed_event_type entry = EVENT_CUDA_LAUNCH_KERNEL
           then
             (let st' = launch_exit E entry duration_ns st;
                  detailed = cfg_u32 (DETAILED_LAUNCHES st')
              in if launch_mode (pid_of (pid_tgid E)) st = 1 \<or> detailed \<noteq> 1
                 then drop_inflight E st'
                 else drop_inflight E (event_exit E entry duration_ns st'))
           else drop_inflight E (event_exit E entry duration_ns st)))"

end
