(* ===== verification/Aggregates.thy ===== *)
theory Aggregates
  imports BpfCore
begin

text \<open>
  The three aggregate values (\<^verbatim>\<open>AggValue\<close>, \<^verbatim>\<open>NcclAggValue\<close>, \<^verbatim>\<open>LaunchAggValue\<close>) as
  accumulators with an inline histogram. The contract \<open>histogram\<close> states what the probes
  promise to user space about such a value, its lemmas are proved once, and the three
  interpretations discharge it for the code of \<^verbatim>\<open>emit_exit\<close>.
\<close>

section \<open>The contract of an aggregate with a histogram\<close>

text \<open>
  \<open>weight s\<close> is what a sample adds to the 64-bit count, \<open>bucket s\<close> the cell it falls
  into. The cells are 32 bits wide, so a sample adds its weight truncated.
\<close>

locale histogram = accumulator zero bump fresh
  for zero :: 'v and bump :: "'s \<Rightarrow> 'v \<Rightarrow> 'v" and fresh :: "'s \<Rightarrow> 'v" +
  fixes cnt :: "'v \<Rightarrow> u64" and cells :: "'v \<Rightarrow> u32 list" and width :: nat
    and weight :: "'s \<Rightarrow> u64" and bucket :: "'s \<Rightarrow> nat"
  assumes cnt_zero: "cnt zero = 0"
    and cells_zero: "cells zero = replicate width 0"
    and cnt_bump: "cnt (bump s v) = cnt v + weight s"
    and cells_bump: "cells (bump s v) = (cells v)[bucket s := cells v ! bucket s + ucast (weight s)]"
    and bucket_less: "bucket s < width"
begin

text \<open>The array keeps its length and its cells add up to the count, modulo 2 to the 32.\<close>

definition consistent :: "'v \<Rightarrow> bool" where
  "consistent v \<longleftrightarrow> length (cells v) = width \<and> sum_list (cells v) = ucast (cnt v)"

lemma consistent_zero: "consistent zero"
  by (simp add: consistent_def cells_zero cnt_zero)

lemma consistent_bump: "consistent v \<Longrightarrow> consistent (bump s v)"
  by (simp add: consistent_def cells_bump cnt_bump bucket_less sum_list_bump ucast_add_down)

lemma consistent_fold: "consistent v \<Longrightarrow> consistent (fold bump ss v)"
  by (induction ss arbitrary: v) (simp_all add: consistent_bump)

lemma length_cells_fold: "length (cells v) = width \<Longrightarrow> length (cells (fold bump ss v)) = width"
  by (induction ss arbitrary: v) (simp_all add: cells_bump)

text \<open>The count of a run of samples is the sum of their weights.\<close>

lemma cnt_fold: "cnt (fold bump ss v) = cnt v + sum_list (map weight ss)"
  by (induction ss arbitrary: v) (simp_all add: cnt_bump ac_simps)

text \<open>A cell of a run of samples collects exactly the samples that fall into it.\<close>

lemma cells_fold:
  assumes "length (cells v) = width" and "i < width"
  shows "cells (fold bump ss v) ! i =
    cells v ! i + sum_list (map (\<lambda>s. ucast (weight s)) (filter (\<lambda>s. bucket s = i) ss))"
  using assms(1)
proof (induction ss arbitrary: v)
  case Nil
  then show ?case by simp
next
  case (Cons s ss)
  then have "length (cells (bump s v)) = width" by (simp add: cells_bump)
  from Cons.IH [OF this] Cons.prems assms(2) show ?case
    by (simp add: cells_bump bucket_less nth_list_update ac_simps)
qed

text \<open>
  The cumulative count up to a cell, as a Prometheus histogram reports it, is the weight
  of the samples in the cells up to it.
\<close>

lemma cumulative_fold:
  assumes "j < width"
  shows "sum_list (take (Suc j) (cells (fold bump ss zero))) =
    sum_list (map (\<lambda>s. ucast (weight s)) (filter (\<lambda>s. bucket s \<le> j) ss))"
  using assms
proof (induction j)
  case 0
  have "length (cells (fold bump ss zero)) = width"
    by (rule length_cells_fold) (simp add: cells_zero)
  with 0 show ?case
    using cells_fold [of zero 0 ss] by (simp add: cells_zero take_Suc_conv_app_nth)
next
  case (Suc j)
  have len: "length (cells (fold bump ss zero)) = width"
    by (rule length_cells_fold) (simp add: cells_zero)
  have split: "sum_list (map f (filter (\<lambda>s. bucket s \<le> Suc j) ss)) =
      sum_list (map f (filter (\<lambda>s. bucket s \<le> j) ss)) +
      sum_list (map f (filter (\<lambda>s. bucket s = Suc j) ss))" for f :: "'s \<Rightarrow> u32"
    by (induction ss) (auto simp: ac_simps le_Suc_eq)
  have "sum_list (take (Suc (Suc j)) (cells (fold bump ss zero))) =
      sum_list (take (Suc j) (cells (fold bump ss zero))) + cells (fold bump ss zero) ! Suc j"
    using Suc.prems len by (subst take_Suc_conv_app_nth) simp_all
  also have "\<dots> = sum_list (map (\<lambda>s. ucast (weight s)) (filter (\<lambda>s. bucket s \<le> Suc j) ss))"
    using Suc cells_fold [of zero "Suc j" ss] by (simp add: split cells_zero)
  finally show ?case .
qed

text \<open>Every slot of a map filled by \<open>upsert\<close> stays consistent.\<close>

lemma upsert_consistent:
  assumes "\<And>k slots c. m k = Some slots \<Longrightarrow> consistent (slots c)"
    and "snd (upsert fails zero c (bump s) (fresh s) m k) k' = Some slots"
  shows "consistent (slots c')"
  using assms(1) consistent_zero consistent_bump assms(2) by (rule upsert_all)

end

section \<open>Interpretations on the code\<close>

lemma cuda_idx_range: "0 \<le> profi_cuda_bucket_idx d \<and> profi_cuda_bucket_idx d < 14"
  using cuda_hist.idx_nonneg [of d] cuda_hist.idx_le [of d] by (simp add: CUDA_BUCKET_BOUNDS_NS_def)

lemma nccl_idx_range: "0 \<le> profi_nccl_bucket_idx d \<and> profi_nccl_bucket_idx d < 12"
  using nccl_hist.idx_nonneg [of d] nccl_hist.idx_le [of d] by (simp add: NCCL_BUCKET_BOUNDS_NS_def)

lemma kernel_idx_range: "0 \<le> profi_kernel_bucket_idx d \<and> profi_kernel_bucket_idx d < 9"
  using kernel_hist.idx_nonneg [of d] kernel_hist.idx_le [of d]
  by (simp add: KERNEL_BUCKET_BOUNDS_NS_def)

lemma nat_idx_less [simp]:
  "nat (profi_cuda_bucket_idx d) < 14"
  "nat (profi_nccl_bucket_idx d) < 12"
  "nat (profi_kernel_bucket_idx d) < 9"
  using cuda_idx_range [of d] nccl_idx_range [of d] kernel_idx_range [of d] by linarith+

lemma idx_range_simps [simp]:
  "0 \<le> profi_cuda_bucket_idx d" "profi_cuda_bucket_idx d < 14"
  "0 \<le> profi_nccl_bucket_idx d" "profi_nccl_bucket_idx d < 12"
  "0 \<le> profi_kernel_bucket_idx d" "profi_kernel_bucket_idx d < 9"
  using cuda_idx_range [of d] nccl_idx_range [of d] kernel_idx_range [of d] by simp_all

interpretation agg: histogram agg_zero agg_bump agg_new_val av_count av_bucket_counts 14
    "\<lambda>(duration_ns, arg0, mul). mul" "\<lambda>(duration_ns, arg0, mul). nat (profi_cuda_bucket_idx duration_ns)"
  by unfold_locales (auto simp: agg_bump_def agg_new_val_def agg_zero_def Let_def)

interpretation nccl: histogram nccl_zero nccl_bump nccl_new_val nv_count nv_bucket_counts 12
    "\<lambda>_. 1" "\<lambda>(duration_ns, bytes). nat (profi_nccl_bucket_idx duration_ns)"
  by unfold_locales (auto simp: nccl_bump_def nccl_new_val_def nccl_zero_def Let_def)

interpretation launch: histogram launch_zero launch_bump launch_new_val lv_count lv_bucket_counts 9
    "\<lambda>_. 1" "\<lambda>duration_ns. nat (profi_kernel_bucket_idx duration_ns)"
  by unfold_locales (auto simp: launch_bump_def launch_new_val_def launch_zero_def Let_def word_gt_0)

section \<open>The sums and the maximum\<close>

lemma agg_sums_fold:
  "av_duration_sum_ns (fold agg_bump ss v) = av_duration_sum_ns v + sum_list (map (\<lambda>(d, a, w). d * w) ss)"
  "av_size_sum (fold agg_bump ss v) = av_size_sum v + sum_list (map (\<lambda>(d, a, w). a * w) ss)"
  by (induction ss arbitrary: v) (auto simp: agg_bump_def Let_def ac_simps)

lemma nccl_sums_fold:
  "nv_duration_sum_ns (fold nccl_bump ss v) = nv_duration_sum_ns v + sum_list (map fst ss)"
  "nv_bytes_sum (fold nccl_bump ss v) = nv_bytes_sum v + sum_list (map snd ss)"
  by (induction ss arbitrary: v) (auto simp: nccl_bump_def Let_def ac_simps)

lemma launch_sum_fold:
  "lv_total_duration_ns (fold launch_bump ds v) = lv_total_duration_ns v + sum_list ds"
  by (induction ds arbitrary: v) (simp_all add: launch_bump_def Let_def ac_simps)

lemma launch_max_fold:
  "lv_max_duration_ns (fold launch_bump ds v) = fold max ds (lv_max_duration_ns v)"
  by (induction ds arbitrary: v) (auto simp: launch_bump_def Let_def max_def)

end
