(* ===== verification/CoreFacts.thy ===== *)
theory CoreFacts
  imports Aggregates
begin

text \<open>
  How the helpers of \<^verbatim>\<open>BpfCore\<close> act on each map: which fields they leave alone, and for
  the others an equation per branch. The component proofs work from these facts and do
  not unfold the helpers again.
\<close>

section \<open>Counters\<close>

lemma length_bump_dropped [simp]: "length (bump_dropped c m c') = length (m c')"
  by (simp add: bump_dropped_def map_defs split: option.splits)

lemma bump_dropped_same:
  "length (m c) = 1 \<Longrightarrow> bump_dropped c m c = [m c ! 0 + 1]"
  by (cases "m c") (simp_all add: bump_dropped_def map_defs)

lemma bump_dropped_other [simp]: "c' \<noteq> c \<Longrightarrow> bump_dropped c m c' = m c'"
  by (simp add: bump_dropped_def map_defs split: option.splits)

section \<open>Dropping the in-flight entry\<close>

lemma drop_inflight_INFLIGHT [simp]:
  "INFLIGHT (drop_inflight E st) = hash_delete (INFLIGHT st) (pid_tgid E)"
  by (simp add: drop_inflight_def)

lemma drop_inflight_frame [simp]:
  "EVENTS (drop_inflight E st) = EVENTS st"
  "KERNEL_REGS (drop_inflight E st) = KERNEL_REGS st"
  "AGGREGATED (drop_inflight E st) = AGGREGATED st"
  "LAUNCH_AGG (drop_inflight E st) = LAUNCH_AGG st"
  "LAUNCH_DROPPED (drop_inflight E st) = LAUNCH_DROPPED st"
  "DETAILED_LAUNCHES (drop_inflight E st) = DETAILED_LAUNCHES st"
  "UPGRADED_PIDS (drop_inflight E st) = UPGRADED_PIDS st"
  "NCCL_AGG (drop_inflight E st) = NCCL_AGG st"
  "DROPPED (drop_inflight E st) = DROPPED st"
  "NVTX_STACK (drop_inflight E st) = NVTX_STACK st"
  "KERNEL_AGG_MODE (drop_inflight E st) = KERNEL_AGG_MODE st"
  "SAMPLE_RATE (drop_inflight E st) = SAMPLE_RATE st"
  "SAMPLE_COUNTER (drop_inflight E st) = SAMPLE_COUNTER st"
  "MALLOC_SIZES (drop_inflight E st) = MALLOC_SIZES st"
  "MALLOC_PTRS (drop_inflight E st) = MALLOC_PTRS st"
  by (simp_all add: drop_inflight_def)

section \<open>Entry\<close>

lemma sample_entry_frame [simp]:
  "INFLIGHT (snd (sample_entry E t st)) = INFLIGHT st"
  "EVENTS (snd (sample_entry E t st)) = EVENTS st"
  "KERNEL_REGS (snd (sample_entry E t st)) = KERNEL_REGS st"
  "AGGREGATED (snd (sample_entry E t st)) = AGGREGATED st"
  "LAUNCH_AGG (snd (sample_entry E t st)) = LAUNCH_AGG st"
  "LAUNCH_DROPPED (snd (sample_entry E t st)) = LAUNCH_DROPPED st"
  "DETAILED_LAUNCHES (snd (sample_entry E t st)) = DETAILED_LAUNCHES st"
  "UPGRADED_PIDS (snd (sample_entry E t st)) = UPGRADED_PIDS st"
  "NCCL_AGG (snd (sample_entry E t st)) = NCCL_AGG st"
  "DROPPED (snd (sample_entry E t st)) = DROPPED st"
  "NVTX_STACK (snd (sample_entry E t st)) = NVTX_STACK st"
  "KERNEL_AGG_MODE (snd (sample_entry E t st)) = KERNEL_AGG_MODE st"
  "SAMPLE_RATE (snd (sample_entry E t st)) = SAMPLE_RATE st"
  "MALLOC_SIZES (snd (sample_entry E t st)) = MALLOC_SIZES st"
  "MALLOC_PTRS (snd (sample_entry E t st)) = MALLOC_PTRS st"
  by (simp_all add: sample_entry_def Let_def split: option.splits)

lemma sample_entry_plain:
  "\<not> profi_is_aggregatable t \<or> cfg_u32 (SAMPLE_RATE st) \<le> 1 \<Longrightarrow> sample_entry E t st = (True, st)"
  by (auto simp: sample_entry_def Let_def)

lemma sample_entry_counted:
  assumes "profi_is_aggregatable t" and "cfg_u32 (SAMPLE_RATE st) > 1"
    and "SAMPLE_COUNTER st (smp_cpu E) = [c]"
  shows "sample_entry E t st =
    (c mod ucast (cfg_u32 (SAMPLE_RATE st)) = 0,
     st\<lparr>SAMPLE_COUNTER := (SAMPLE_COUNTER st)(smp_cpu E := [c + 1])\<rparr>)"
  using assms by (simp add: sample_entry_def Let_def map_defs)

lemma length_sample_counter_entry [simp]:
  "length (SAMPLE_COUNTER (snd (sample_entry E t st)) c) = length (SAMPLE_COUNTER st c)"
  by (simp add: sample_entry_def Let_def map_defs split: option.splits)

text \<open>The entry that a saved call leaves behind.\<close>

definition new_entry :: "env \<Rightarrow> u32 \<Rightarrow> u64 \<Rightarrow> u64 \<Rightarrow> u64 \<Rightarrow> EntryData" where
  "new_entry E t a0 a1 a2 =
     \<lparr>ed_timestamp_ns = ktime_ns E, ed_arg0 = a0, ed_arg1 = a1, ed_arg2 = a2,
      ed_event_type = t, ed_pad = 0\<rparr>"

lemma new_entry_sel [simp]:
  "ed_timestamp_ns (new_entry E t a0 a1 a2) = ktime_ns E"
  "ed_arg0 (new_entry E t a0 a1 a2) = a0"
  "ed_arg1 (new_entry E t a0 a1 a2) = a1"
  "ed_arg2 (new_entry E t a0 a1 a2) = a2"
  "ed_event_type (new_entry E t a0 a1 a2) = t"
  "ed_pad (new_entry E t a0 a1 a2) = 0"
  by (simp_all add: new_entry_def)

lemma save_entry_eq:
  "save_entry E t a0 a1 a2 st =
     (if INFLIGHT st (pid_tgid E) \<noteq> None then st
      else if fst (sample_entry E t st)
      then (snd (sample_entry E t st))\<lparr>INFLIGHT := lru_update (evict_inflight E) (INFLIGHT st)
             (pid_tgid E) (new_entry E t a0 a1 a2)\<rparr>
      else snd (sample_entry E t st))"
  by (simp add: save_entry_def new_entry_def Let_def case_prod_beta)

lemma save_entry_busy:
  "INFLIGHT st (pid_tgid E) \<noteq> None \<Longrightarrow> save_entry E t a0 a1 a2 st = st"
  by (simp add: save_entry_eq)

lemma save_entry_INFLIGHT:
  "INFLIGHT (save_entry E t a0 a1 a2 st) =
     (if INFLIGHT st (pid_tgid E) = None \<and> fst (sample_entry E t st)
      then lru_update (evict_inflight E) (INFLIGHT st) (pid_tgid E) (new_entry E t a0 a1 a2)
      else INFLIGHT st)"
  by (simp add: save_entry_eq)

lemma length_sample_counter_save [simp]:
  "length (SAMPLE_COUNTER (save_entry E t a0 a1 a2 st) c) = length (SAMPLE_COUNTER st c)"
  by (simp add: save_entry_eq)

lemma save_entry_frame [simp]:
  "EVENTS (save_entry E t a0 a1 a2 st) = EVENTS st"
  "KERNEL_REGS (save_entry E t a0 a1 a2 st) = KERNEL_REGS st"
  "AGGREGATED (save_entry E t a0 a1 a2 st) = AGGREGATED st"
  "LAUNCH_AGG (save_entry E t a0 a1 a2 st) = LAUNCH_AGG st"
  "LAUNCH_DROPPED (save_entry E t a0 a1 a2 st) = LAUNCH_DROPPED st"
  "DETAILED_LAUNCHES (save_entry E t a0 a1 a2 st) = DETAILED_LAUNCHES st"
  "UPGRADED_PIDS (save_entry E t a0 a1 a2 st) = UPGRADED_PIDS st"
  "NCCL_AGG (save_entry E t a0 a1 a2 st) = NCCL_AGG st"
  "DROPPED (save_entry E t a0 a1 a2 st) = DROPPED st"
  "NVTX_STACK (save_entry E t a0 a1 a2 st) = NVTX_STACK st"
  "KERNEL_AGG_MODE (save_entry E t a0 a1 a2 st) = KERNEL_AGG_MODE st"
  "SAMPLE_RATE (save_entry E t a0 a1 a2 st) = SAMPLE_RATE st"
  "MALLOC_SIZES (save_entry E t a0 a1 a2 st) = MALLOC_SIZES st"
  "MALLOC_PTRS (save_entry E t a0 a1 a2 st) = MALLOC_PTRS st"
  by (simp_all add: save_entry_eq)

section \<open>The branches of an exit\<close>

lemma agg_exit_frame [simp]:
  "INFLIGHT (agg_exit E e d st) = INFLIGHT st"
  "EVENTS (agg_exit E e d st) = EVENTS st"
  "KERNEL_REGS (agg_exit E e d st) = KERNEL_REGS st"
  "LAUNCH_AGG (agg_exit E e d st) = LAUNCH_AGG st"
  "LAUNCH_DROPPED (agg_exit E e d st) = LAUNCH_DROPPED st"
  "DETAILED_LAUNCHES (agg_exit E e d st) = DETAILED_LAUNCHES st"
  "UPGRADED_PIDS (agg_exit E e d st) = UPGRADED_PIDS st"
  "NCCL_AGG (agg_exit E e d st) = NCCL_AGG st"
  "DROPPED (agg_exit E e d st) = DROPPED st"
  "NVTX_STACK (agg_exit E e d st) = NVTX_STACK st"
  "KERNEL_AGG_MODE (agg_exit E e d st) = KERNEL_AGG_MODE st"
  "SAMPLE_RATE (agg_exit E e d st) = SAMPLE_RATE st"
  "SAMPLE_COUNTER (agg_exit E e d st) = SAMPLE_COUNTER st"
  "MALLOC_SIZES (agg_exit E e d st) = MALLOC_SIZES st"
  "MALLOC_PTRS (agg_exit E e d st) = MALLOC_PTRS st"
  by (simp_all add: agg_exit_def Let_def)

lemma nccl_exit_frame [simp]:
  "INFLIGHT (nccl_exit E e d st) = INFLIGHT st"
  "EVENTS (nccl_exit E e d st) = EVENTS st"
  "KERNEL_REGS (nccl_exit E e d st) = KERNEL_REGS st"
  "AGGREGATED (nccl_exit E e d st) = AGGREGATED st"
  "LAUNCH_AGG (nccl_exit E e d st) = LAUNCH_AGG st"
  "LAUNCH_DROPPED (nccl_exit E e d st) = LAUNCH_DROPPED st"
  "DETAILED_LAUNCHES (nccl_exit E e d st) = DETAILED_LAUNCHES st"
  "UPGRADED_PIDS (nccl_exit E e d st) = UPGRADED_PIDS st"
  "DROPPED (nccl_exit E e d st) = DROPPED st"
  "NVTX_STACK (nccl_exit E e d st) = NVTX_STACK st"
  "KERNEL_AGG_MODE (nccl_exit E e d st) = KERNEL_AGG_MODE st"
  "SAMPLE_RATE (nccl_exit E e d st) = SAMPLE_RATE st"
  "SAMPLE_COUNTER (nccl_exit E e d st) = SAMPLE_COUNTER st"
  "MALLOC_SIZES (nccl_exit E e d st) = MALLOC_SIZES st"
  "MALLOC_PTRS (nccl_exit E e d st) = MALLOC_PTRS st"
  by (simp_all add: nccl_exit_def Let_def)

lemma launch_exit_frame [simp]:
  "INFLIGHT (launch_exit E e d st) = INFLIGHT st"
  "EVENTS (launch_exit E e d st) = EVENTS st"
  "KERNEL_REGS (launch_exit E e d st) = KERNEL_REGS st"
  "AGGREGATED (launch_exit E e d st) = AGGREGATED st"
  "DETAILED_LAUNCHES (launch_exit E e d st) = DETAILED_LAUNCHES st"
  "UPGRADED_PIDS (launch_exit E e d st) = UPGRADED_PIDS st"
  "NCCL_AGG (launch_exit E e d st) = NCCL_AGG st"
  "DROPPED (launch_exit E e d st) = DROPPED st"
  "NVTX_STACK (launch_exit E e d st) = NVTX_STACK st"
  "KERNEL_AGG_MODE (launch_exit E e d st) = KERNEL_AGG_MODE st"
  "SAMPLE_RATE (launch_exit E e d st) = SAMPLE_RATE st"
  "SAMPLE_COUNTER (launch_exit E e d st) = SAMPLE_COUNTER st"
  "MALLOC_SIZES (launch_exit E e d st) = MALLOC_SIZES st"
  "MALLOC_PTRS (launch_exit E e d st) = MALLOC_PTRS st"
  by (simp_all add: launch_exit_def Let_def case_prod_beta)

lemma event_exit_frame [simp]:
  "INFLIGHT (event_exit E e d st) = INFLIGHT st"
  "KERNEL_REGS (event_exit E e d st) = KERNEL_REGS st"
  "AGGREGATED (event_exit E e d st) = AGGREGATED st"
  "LAUNCH_AGG (event_exit E e d st) = LAUNCH_AGG st"
  "LAUNCH_DROPPED (event_exit E e d st) = LAUNCH_DROPPED st"
  "DETAILED_LAUNCHES (event_exit E e d st) = DETAILED_LAUNCHES st"
  "UPGRADED_PIDS (event_exit E e d st) = UPGRADED_PIDS st"
  "NCCL_AGG (event_exit E e d st) = NCCL_AGG st"
  "NVTX_STACK (event_exit E e d st) = NVTX_STACK st"
  "KERNEL_AGG_MODE (event_exit E e d st) = KERNEL_AGG_MODE st"
  "SAMPLE_RATE (event_exit E e d st) = SAMPLE_RATE st"
  "SAMPLE_COUNTER (event_exit E e d st) = SAMPLE_COUNTER st"
  "MALLOC_SIZES (event_exit E e d st) = MALLOC_SIZES st"
  "MALLOC_PTRS (event_exit E e d st) = MALLOC_PTRS st"
  by (simp_all add: event_exit_def)

lemma launch_exit_LAUNCH_AGG:
  "LAUNCH_AGG (launch_exit E e d st) =
     snd (upsert (launch_insert_fails E) launch_zero (smp_cpu E) (launch_bump d) (launch_new_val d)
       (LAUNCH_AGG st) (launch_key E e st))"
  by (simp add: launch_exit_def Let_def case_prod_beta)

text \<open>The drop counter moves exactly when a new key found no room.\<close>

lemma launch_exit_LAUNCH_DROPPED:
  "LAUNCH_DROPPED (launch_exit E e d st) =
     (if LAUNCH_AGG st (launch_key E e st) = None \<and> launch_insert_fails E
      then bump_dropped (smp_cpu E) (LAUNCH_DROPPED st) else LAUNCH_DROPPED st)"
  by (cases "LAUNCH_AGG st (launch_key E e st)")
     (simp_all add: launch_exit_def Let_def case_prod_beta upsert_same_None upsert_same_Some)

lemma event_exit_EVENTS:
  "EVENTS (event_exit E e d st) =
     (if reserve_events E then EVENTS st @ [mk_event E e d st] else EVENTS st)"
  by (simp add: event_exit_def map_defs)

lemma event_exit_DROPPED:
  "DROPPED (event_exit E e d st) =
     (if reserve_events E then DROPPED st else bump_dropped (smp_cpu E) (DROPPED st))"
  by (simp add: event_exit_def)

lemma mk_event_launch_exit [simp]:
  "mk_event E e d (launch_exit E e' d' st) = mk_event E e d st"
  by (simp add: mk_event_def)

section \<open>Exit\<close>

text \<open>Where a completed call of some event type is recorded.\<close>

definition emits_event :: "env \<Rightarrow> EntryData \<Rightarrow> bpf_state \<Rightarrow> bool" where
  "emits_event E e st \<longleftrightarrow>
     \<not> profi_is_aggregatable (ed_event_type e) \<and> \<not> profi_is_nccl_event (ed_event_type e) \<and>
     (ed_event_type e = EVENT_CUDA_LAUNCH_KERNEL \<longrightarrow>
        launch_mode (pid_of (pid_tgid E)) st \<noteq> 1 \<and> cfg_u32 (DETAILED_LAUNCHES st) = 1)"

lemma emit_exit_none: "INFLIGHT st (pid_tgid E) = None \<Longrightarrow> emit_exit E st = st"
  by (simp add: emit_exit_def)

lemma launch_not_aggregatable [simp]: "\<not> profi_is_aggregatable EVENT_CUDA_LAUNCH_KERNEL"
  by (simp add: profi_is_aggregatable_def event_defs)

lemma launch_not_nccl [simp]: "\<not> profi_is_nccl_event EVENT_CUDA_LAUNCH_KERNEL"
  by (simp add: profi_is_nccl_event_def event_defs)

lemma classes_disjoint: "profi_is_aggregatable t \<Longrightarrow> \<not> profi_is_nccl_event t"
  by (auto simp: profi_is_aggregatable_def profi_is_nccl_event_def event_defs word_le_nat_alt)

lemma emit_exit_some:
  assumes "INFLIGHT st (pid_tgid E) = Some e"
  shows "emit_exit E st = drop_inflight E
    ((if emits_event E e st then event_exit E e (duration_of E e) else id)
     ((if profi_is_aggregatable (ed_event_type e) then agg_exit E e (duration_of E e)
       else if profi_is_nccl_event (ed_event_type e) then nccl_exit E e (duration_of E e)
       else if ed_event_type e = EVENT_CUDA_LAUNCH_KERNEL then launch_exit E e (duration_of E e)
       else id) st))"
  using assms by (auto simp: emit_exit_def emits_event_def Let_def)

text \<open>Every branch ends with the current thread's entry gone and no other entry touched.\<close>

lemma emit_exit_INFLIGHT [simp]:
  "INFLIGHT (emit_exit E st) = hash_delete (INFLIGHT st) (pid_tgid E)"
proof (cases "INFLIGHT st (pid_tgid E)")
  case None
  then show ?thesis by (simp add: emit_exit_none map_defs fun_upd_idem)
next
  case (Some e)
  then show ?thesis by (simp add: emit_exit_some)
qed

lemma emit_exit_AGGREGATED:
  "AGGREGATED (emit_exit E st) =
     (case INFLIGHT st (pid_tgid E) of
        None \<Rightarrow> AGGREGATED st
      | Some e \<Rightarrow>
          if profi_is_aggregatable (ed_event_type e)
          then (let s = (duration_of E e, ed_arg0 e, sample_mul st)
                in snd (upsert (agg_insert_fails E) agg_zero (smp_cpu E) (agg_bump s)
                     (agg_new_val s) (AGGREGATED st) (agg_key E e)))
          else AGGREGATED st)"
  by (auto simp: emit_exit_none emit_exit_some emits_event_def agg_exit_def Let_def split: option.split)

lemma emit_exit_NCCL_AGG:
  "NCCL_AGG (emit_exit E st) =
     (case INFLIGHT st (pid_tgid E) of
        None \<Rightarrow> NCCL_AGG st
      | Some e \<Rightarrow>
          if profi_is_nccl_event (ed_event_type e)
          then (let s = (duration_of E e, nccl_bytes e)
                in snd (upsert (nccl_insert_fails E) nccl_zero (smp_cpu E) (nccl_bump s)
                     (nccl_new_val s) (NCCL_AGG st) (nccl_key E e)))
          else NCCL_AGG st)"
  by (auto simp: emit_exit_none emit_exit_some emits_event_def nccl_exit_def Let_def
      dest: classes_disjoint split: option.split)

lemma emit_exit_LAUNCH_AGG:
  "LAUNCH_AGG (emit_exit E st) =
     (case INFLIGHT st (pid_tgid E) of
        None \<Rightarrow> LAUNCH_AGG st
      | Some e \<Rightarrow>
          if ed_event_type e = EVENT_CUDA_LAUNCH_KERNEL
          then snd (upsert (launch_insert_fails E) launch_zero (smp_cpu E)
                 (launch_bump (duration_of E e)) (launch_new_val (duration_of E e))
                 (LAUNCH_AGG st) (launch_key E e st))
          else LAUNCH_AGG st)"
  by (auto simp: emit_exit_none emit_exit_some launch_exit_LAUNCH_AGG split: option.split)

lemma emit_exit_LAUNCH_DROPPED:
  "LAUNCH_DROPPED (emit_exit E st) =
     (case INFLIGHT st (pid_tgid E) of
        None \<Rightarrow> LAUNCH_DROPPED st
      | Some e \<Rightarrow>
          if ed_event_type e = EVENT_CUDA_LAUNCH_KERNEL \<and> launch_insert_fails E \<and>
             LAUNCH_AGG st (launch_key E e st) = None
          then bump_dropped (smp_cpu E) (LAUNCH_DROPPED st) else LAUNCH_DROPPED st)"
  by (auto simp: emit_exit_none emit_exit_some launch_exit_LAUNCH_DROPPED split: option.split)

lemma emit_exit_EVENTS:
  "EVENTS (emit_exit E st) =
     (case INFLIGHT st (pid_tgid E) of
        None \<Rightarrow> EVENTS st
      | Some e \<Rightarrow>
          if emits_event E e st \<and> reserve_events E
          then EVENTS st @ [mk_event E e (duration_of E e) st] else EVENTS st)"
  by (auto simp: emit_exit_none emit_exit_some emits_event_def event_exit_EVENTS split: option.split)

lemma emit_exit_DROPPED:
  "DROPPED (emit_exit E st) =
     (case INFLIGHT st (pid_tgid E) of
        None \<Rightarrow> DROPPED st
      | Some e \<Rightarrow>
          if emits_event E e st \<and> \<not> reserve_events E
          then bump_dropped (smp_cpu E) (DROPPED st) else DROPPED st)"
  by (auto simp: emit_exit_none emit_exit_some emits_event_def event_exit_DROPPED split: option.split)

lemma emit_exit_frame [simp]:
  "KERNEL_REGS (emit_exit E st) = KERNEL_REGS st"
  "DETAILED_LAUNCHES (emit_exit E st) = DETAILED_LAUNCHES st"
  "UPGRADED_PIDS (emit_exit E st) = UPGRADED_PIDS st"
  "NVTX_STACK (emit_exit E st) = NVTX_STACK st"
  "KERNEL_AGG_MODE (emit_exit E st) = KERNEL_AGG_MODE st"
  "SAMPLE_RATE (emit_exit E st) = SAMPLE_RATE st"
  "SAMPLE_COUNTER (emit_exit E st) = SAMPLE_COUNTER st"
  "MALLOC_SIZES (emit_exit E st) = MALLOC_SIZES st"
  "MALLOC_PTRS (emit_exit E st) = MALLOC_PTRS st"
  by (cases "INFLIGHT st (pid_tgid E)"; simp add: emit_exit_none emit_exit_some)+

lemmas emit_exit_fields =
  emit_exit_AGGREGATED emit_exit_NCCL_AGG emit_exit_LAUNCH_AGG emit_exit_LAUNCH_DROPPED
  emit_exit_EVENTS emit_exit_DROPPED

end
