(* ===== verification/Probes.thy ===== *)
theory Probes
  imports BpfCore
begin

text \<open>
  The probe programs of \<^verbatim>\<open>src/src/bpf/profi.bpf.c\<close>, one definition per \<^verbatim>\<open>SEC\<close> program in
  the order of the source. A handler takes the arguments its \<^verbatim>\<open>BPF_KPROBE\<close> line declares
  (pointers are addresses), what the firing sees of the world (\<open>E\<close>) and the state.
  Every program returns 0, so the state is the whole result. \<open>fire\<close> dispatches.
\<close>

section \<open>Allocation tracking\<close>

text \<open>Argument \<open>n\<close> on the user stack; a failed read leaves the zero the variable starts with.\<close>

definition PT_REGS_PARM_STACK :: "env \<Rightarrow> u64 \<Rightarrow> u64" where
  [probe_defs]: "PT_REGS_PARM_STACK E n =
     (case read_user E (regs_sp E + 8 * (n - 5)) of Some v \<Rightarrow> v | None \<Rightarrow> 0)"

definition cuda_malloc :: "u64 \<Rightarrow> u64 \<Rightarrow> env \<Rightarrow> bpf_state \<Rightarrow> bpf_state" where
  [probe_defs]: "cuda_malloc ptr_to_ptr nbytes E st =
     (let st' = (if ptr_to_ptr \<noteq> 0
                 then st\<lparr>MALLOC_PTRS := lru_update (evict_malloc_ptrs E) (MALLOC_PTRS st)
                        (pid_tgid E) ptr_to_ptr\<rparr>
                 else st)
      in save_entry E EVENT_CUDA_MALLOC nbytes 0 0 st')"

definition cuda_malloc_ret :: "env \<Rightarrow> bpf_state \<Rightarrow> bpf_state" where
  "cuda_malloc_ret E st =
     (let ident = pid_tgid E; pid = pid_of ident in
      emit_exit E
        (case MALLOC_PTRS st ident of
           None \<Rightarrow> st
         | Some ptr_to_ptr \<Rightarrow>
             (let st' = st\<lparr>MALLOC_PTRS := hash_delete (MALLOC_PTRS st) ident\<rparr> in
              case INFLIGHT st' ident of
                None \<Rightarrow> st'
              | Some entry \<Rightarrow>
                  (case read_user E ptr_to_ptr of
                     None \<Rightarrow> st'
                   | Some dev_ptr \<Rightarrow>
                       if dev_ptr \<noteq> 0
                       then st'\<lparr>MALLOC_SIZES := lru_update (evict_malloc_sizes E) (MALLOC_SIZES st')
                              \<lparr>mk_pid = pid, mk_pad = 0, mk_addr = dev_ptr\<rparr> (ed_arg0 entry)\<rparr>
                       else st'))))"

definition cuda_free :: "u64 \<Rightarrow> env \<Rightarrow> bpf_state \<Rightarrow> bpf_state" where
  [probe_defs]: "cuda_free ptr E st =
     (let mk = \<lparr>mk_pid = pid_of (pid_tgid E), mk_pad = 0, mk_addr = ptr\<rparr>;
          (freed_size, st') =
            (if ptr \<noteq> 0 then
               (case MALLOC_SIZES st mk of
                  Some sz \<Rightarrow> (sz, st\<lparr>MALLOC_SIZES := hash_delete (MALLOC_SIZES st) mk\<rparr>)
                | None \<Rightarrow> (0, st))
             else (0, st))
      in save_entry E EVENT_CUDA_FREE freed_size 0 0 st')"

definition cuda_free_ret :: "env \<Rightarrow> bpf_state \<Rightarrow> bpf_state" where
  [probe_defs]: "cuda_free_ret E st = emit_exit E st"

section \<open>Copies and launches\<close>

definition cuda_memcpy :: "u64 \<Rightarrow> u64 \<Rightarrow> u64 \<Rightarrow> u64 \<Rightarrow> env \<Rightarrow> bpf_state \<Rightarrow> bpf_state" where
  [probe_defs]: "cuda_memcpy dst src cnt kind E st = save_entry E EVENT_CUDA_MEMCPY cnt kind 0 st"

definition cuda_memcpy_ret :: "env \<Rightarrow> bpf_state \<Rightarrow> bpf_state" where
  [probe_defs]: "cuda_memcpy_ret E st = emit_exit E st"

definition cuda_memcpy_async :: "u64 \<Rightarrow> u64 \<Rightarrow> u64 \<Rightarrow> u64 \<Rightarrow> u64 \<Rightarrow> env \<Rightarrow> bpf_state \<Rightarrow> bpf_state" where
  [probe_defs]: "cuda_memcpy_async dst src cnt kind stream E st = save_entry E EVENT_CUDA_MEMCPY_ASYNC cnt kind stream st"

definition cuda_memcpy_async_ret :: "env \<Rightarrow> bpf_state \<Rightarrow> bpf_state" where
  [probe_defs]: "cuda_memcpy_async_ret E st = emit_exit E st"

definition cuda_launch_kernel :: "u64 \<Rightarrow> env \<Rightarrow> bpf_state \<Rightarrow> bpf_state" where
  [probe_defs]: "cuda_launch_kernel func E st = save_entry E EVENT_CUDA_LAUNCH_KERNEL func 0 0 st"

definition cuda_launch_kernel_ret :: "env \<Rightarrow> bpf_state \<Rightarrow> bpf_state" where
  [probe_defs]: "cuda_launch_kernel_ret E st = emit_exit E st"

section \<open>Stream-ordered allocation\<close>

definition cuda_malloc_async :: "u64 \<Rightarrow> u64 \<Rightarrow> u64 \<Rightarrow> env \<Rightarrow> bpf_state \<Rightarrow> bpf_state" where
  [probe_defs]: "cuda_malloc_async ptr_to_ptr nbytes stream E st =
     (let st' = (if ptr_to_ptr \<noteq> 0
                 then st\<lparr>MALLOC_PTRS := lru_update (evict_malloc_ptrs E) (MALLOC_PTRS st)
                        (pid_tgid E) ptr_to_ptr\<rparr>
                 else st)
      in save_entry E EVENT_CUDA_MALLOC_ASYNC nbytes 0 stream st')"

definition cuda_malloc_async_ret :: "env \<Rightarrow> bpf_state \<Rightarrow> bpf_state" where
  "cuda_malloc_async_ret E st =
     (let ident = pid_tgid E; pid = pid_of ident in
      emit_exit E
        (case MALLOC_PTRS st ident of
           None \<Rightarrow> st
         | Some ptr_to_ptr \<Rightarrow>
             (let st' = st\<lparr>MALLOC_PTRS := hash_delete (MALLOC_PTRS st) ident\<rparr> in
              case INFLIGHT st' ident of
                None \<Rightarrow> st'
              | Some entry \<Rightarrow>
                  (case read_user E ptr_to_ptr of
                     None \<Rightarrow> st'
                   | Some dev_ptr \<Rightarrow>
                       if dev_ptr \<noteq> 0
                       then st'\<lparr>MALLOC_SIZES := lru_update (evict_malloc_sizes E) (MALLOC_SIZES st')
                              \<lparr>mk_pid = pid, mk_pad = 0, mk_addr = dev_ptr\<rparr> (ed_arg0 entry)\<rparr>
                       else st'))))"

definition cuda_free_async :: "u64 \<Rightarrow> u64 \<Rightarrow> env \<Rightarrow> bpf_state \<Rightarrow> bpf_state" where
  [probe_defs]: "cuda_free_async ptr stream E st =
     (let mk = \<lparr>mk_pid = pid_of (pid_tgid E), mk_pad = 0, mk_addr = ptr\<rparr>;
          (freed_size, st') =
            (if ptr \<noteq> 0 then
               (case MALLOC_SIZES st mk of
                  Some sz \<Rightarrow> (sz, st\<lparr>MALLOC_SIZES := hash_delete (MALLOC_SIZES st) mk\<rparr>)
                | None \<Rightarrow> (0, st))
             else (0, st))
      in save_entry E EVENT_CUDA_FREE_ASYNC freed_size 0 stream st')"

definition cuda_free_async_ret :: "env \<Rightarrow> bpf_state \<Rightarrow> bpf_state" where
  [probe_defs]: "cuda_free_async_ret E st = emit_exit E st"

section \<open>Kernel registration\<close>

definition cuda_register_function ::
    "u64 \<Rightarrow> u64 \<Rightarrow> u64 \<Rightarrow> u64 \<Rightarrow> env \<Rightarrow> bpf_state \<Rightarrow> bpf_state" where
  [probe_defs]: "cuda_register_function fat host_fun dev_fun dev_name E st =
     (if host_fun = 0 \<or> dev_name = 0 then st
      else if \<not> reserve_kernel_regs E then st
      else st\<lparr>KERNEL_REGS := ringbuf_submit (KERNEL_REGS st)
             \<lparr>kr_pid = pid_of (pid_tgid E), kr_pad = 0, kr_host_fun = host_fun,
              kr_name_ptr = dev_name\<rparr>\<rparr>)"

text \<open>
  Unlike \<^verbatim>\<open>save_entry\<close>, this probe writes its in-flight entry without looking for an
  existing one.
\<close>

definition cu_module_get_function :: "u64 \<Rightarrow> u64 \<Rightarrow> u64 \<Rightarrow> env \<Rightarrow> bpf_state \<Rightarrow> bpf_state" where
  [probe_defs]: "cu_module_get_function hfunc_ptr hmod name_ptr E st =
     (if hfunc_ptr = 0 \<or> name_ptr = 0 then st
      else
        (let entry = \<lparr>ed_timestamp_ns = ktime_ns E, ed_arg0 = hfunc_ptr, ed_arg1 = name_ptr,
                      ed_arg2 = 0, ed_event_type = EVENT_CUDA_REGISTER_FUNCTION, ed_pad = 0\<rparr>
         in st\<lparr>INFLIGHT := lru_update (evict_inflight E) (INFLIGHT st) (pid_tgid E) entry\<rparr>))"

definition cu_module_get_function_ret :: "env \<Rightarrow> bpf_state \<Rightarrow> bpf_state" where
  [probe_defs]: "cu_module_get_function_ret E st =
     (case INFLIGHT st (pid_tgid E) of
        None \<Rightarrow> st
      | Some e \<Rightarrow>
          if ed_event_type e \<noteq> EVENT_CUDA_REGISTER_FUNCTION then st
          else
            (case read_user E (ed_arg0 e) of
               None \<Rightarrow> drop_inflight E st
             | Some hfunc \<Rightarrow>
                 drop_inflight E
                   (if reserve_kernel_regs E
                    then st\<lparr>KERNEL_REGS := ringbuf_submit (KERNEL_REGS st)
                           \<lparr>kr_pid = pid_of (pid_tgid E), kr_pad = 0, kr_host_fun = hfunc,
                            kr_name_ptr = ed_arg1 e\<rparr>\<rparr>
                    else st)))"

section \<open>Driver API launches\<close>

definition cu_launch_kernel :: "u64 \<Rightarrow> env \<Rightarrow> bpf_state \<Rightarrow> bpf_state" where
  [probe_defs]: "cu_launch_kernel func E st = save_entry E EVENT_CUDA_LAUNCH_KERNEL func 0 0 st"

definition cu_launch_kernel_ret :: "env \<Rightarrow> bpf_state \<Rightarrow> bpf_state" where
  [probe_defs]: "cu_launch_kernel_ret E st = emit_exit E st"

definition cu_launch_kernel_ex :: "u64 \<Rightarrow> u64 \<Rightarrow> env \<Rightarrow> bpf_state \<Rightarrow> bpf_state" where
  [probe_defs]: "cu_launch_kernel_ex config func E st = save_entry E EVENT_CUDA_LAUNCH_KERNEL func 0 0 st"

definition cu_launch_kernel_ex_ret :: "env \<Rightarrow> bpf_state \<Rightarrow> bpf_state" where
  [probe_defs]: "cu_launch_kernel_ex_ret E st = emit_exit E st"

definition cu_launch_cooperative_kernel :: "u64 \<Rightarrow> env \<Rightarrow> bpf_state \<Rightarrow> bpf_state" where
  [probe_defs]: "cu_launch_cooperative_kernel func E st =
     (let stream = PT_REGS_PARM_STACK E 8 in
      save_entry E EVENT_CUDA_LAUNCH_KERNEL func 0 stream st)"

definition cu_launch_cooperative_kernel_ret :: "env \<Rightarrow> bpf_state \<Rightarrow> bpf_state" where
  [probe_defs]: "cu_launch_cooperative_kernel_ret E st = emit_exit E st"

definition cu_graph_launch :: "u64 \<Rightarrow> u64 \<Rightarrow> env \<Rightarrow> bpf_state \<Rightarrow> bpf_state" where
  [probe_defs]: "cu_graph_launch graph stream E st = save_entry E EVENT_CUDA_LAUNCH_KERNEL graph 0 stream st"

definition cu_graph_launch_ret :: "env \<Rightarrow> bpf_state \<Rightarrow> bpf_state" where
  [probe_defs]: "cu_graph_launch_ret E st = emit_exit E st"

section \<open>Synchronisation, host memory, memset, graphs, modules\<close>

definition cuda_stream_sync :: "u64 \<Rightarrow> env \<Rightarrow> bpf_state \<Rightarrow> bpf_state" where
  [probe_defs]: "cuda_stream_sync stream E st = save_entry E EVENT_CUDA_STREAM_SYNC 0 0 stream st"

definition cuda_stream_sync_ret :: "env \<Rightarrow> bpf_state \<Rightarrow> bpf_state" where
  [probe_defs]: "cuda_stream_sync_ret E st = emit_exit E st"

definition cuda_event_sync :: "u64 \<Rightarrow> env \<Rightarrow> bpf_state \<Rightarrow> bpf_state" where
  [probe_defs]: "cuda_event_sync event E st = save_entry E EVENT_CUDA_EVENT_SYNC event 0 0 st"

definition cuda_event_sync_ret :: "env \<Rightarrow> bpf_state \<Rightarrow> bpf_state" where
  [probe_defs]: "cuda_event_sync_ret E st = emit_exit E st"

definition cuda_malloc_host :: "u64 \<Rightarrow> u64 \<Rightarrow> env \<Rightarrow> bpf_state \<Rightarrow> bpf_state" where
  [probe_defs]: "cuda_malloc_host ptr nbytes E st = save_entry E EVENT_CUDA_MALLOC_HOST nbytes 0 0 st"

definition cuda_malloc_host_ret :: "env \<Rightarrow> bpf_state \<Rightarrow> bpf_state" where
  [probe_defs]: "cuda_malloc_host_ret E st = emit_exit E st"

definition cuda_free_host :: "u64 \<Rightarrow> env \<Rightarrow> bpf_state \<Rightarrow> bpf_state" where
  [probe_defs]: "cuda_free_host ptr E st = save_entry E EVENT_CUDA_FREE_HOST ptr 0 0 st"

definition cuda_free_host_ret :: "env \<Rightarrow> bpf_state \<Rightarrow> bpf_state" where
  [probe_defs]: "cuda_free_host_ret E st = emit_exit E st"

definition cuda_memset :: "u64 \<Rightarrow> u64 \<Rightarrow> u64 \<Rightarrow> env \<Rightarrow> bpf_state \<Rightarrow> bpf_state" where
  [probe_defs]: "cuda_memset dst val cnt E st = save_entry E EVENT_CUDA_MEMSET cnt 0 0 st"

definition cuda_memset_ret :: "env \<Rightarrow> bpf_state \<Rightarrow> bpf_state" where
  [probe_defs]: "cuda_memset_ret E st = emit_exit E st"

definition cuda_memset_async :: "u64 \<Rightarrow> u64 \<Rightarrow> u64 \<Rightarrow> u64 \<Rightarrow> env \<Rightarrow> bpf_state \<Rightarrow> bpf_state" where
  [probe_defs]: "cuda_memset_async dst val cnt stream E st = save_entry E EVENT_CUDA_MEMSET_ASYNC cnt 0 stream st"

definition cuda_memset_async_ret :: "env \<Rightarrow> bpf_state \<Rightarrow> bpf_state" where
  [probe_defs]: "cuda_memset_async_ret E st = emit_exit E st"

definition cuda_graph_launch :: "u64 \<Rightarrow> u64 \<Rightarrow> env \<Rightarrow> bpf_state \<Rightarrow> bpf_state" where
  [probe_defs]: "cuda_graph_launch graph stream E st = save_entry E EVENT_CUDA_GRAPH_LAUNCH graph 0 stream st"

definition cuda_graph_launch_ret :: "env \<Rightarrow> bpf_state \<Rightarrow> bpf_state" where
  [probe_defs]: "cuda_graph_launch_ret E st = emit_exit E st"

definition cuda_graph_instantiate :: "env \<Rightarrow> bpf_state \<Rightarrow> bpf_state" where
  [probe_defs]: "cuda_graph_instantiate E st = save_entry E EVENT_CUDA_GRAPH_INSTANTIATE 0 0 0 st"

definition cuda_graph_instantiate_ret :: "env \<Rightarrow> bpf_state \<Rightarrow> bpf_state" where
  [probe_defs]: "cuda_graph_instantiate_ret E st = emit_exit E st"

definition cu_module_load_data :: "env \<Rightarrow> bpf_state \<Rightarrow> bpf_state" where
  [probe_defs]: "cu_module_load_data E st = save_entry E EVENT_CUDA_MODULE_LOAD 0 0 0 st"

definition cu_module_load_data_ret :: "env \<Rightarrow> bpf_state \<Rightarrow> bpf_state" where
  [probe_defs]: "cu_module_load_data_ret E st = emit_exit E st"

section \<open>NVTX ranges\<close>

text \<open>
  \<^verbatim>\<open>bpf_probe_read_user_str\<close> copies at most 63 bytes up to the first NUL and terminates
  them; the rest of the 64-byte buffer keeps the zeroes it starts with, as does the whole
  buffer when the read faults.
\<close>

definition read_name :: "u8 list option \<Rightarrow> nvtx_name_t" where
  [probe_defs]: "read_name src =
     (case src of
        None \<Rightarrow> replicate 64 0
      | Some bs \<Rightarrow> (let s = take 63 (takeWhile (\<lambda>b. b \<noteq> 0) bs)
                    in s @ replicate (64 - length s) 0))"

definition nvtx_range_push :: "u64 \<Rightarrow> env \<Rightarrow> bpf_state \<Rightarrow> bpf_state" where
  [probe_defs]: "nvtx_range_push msg_ptr E st =
     (if msg_ptr = 0 then st
      else st\<lparr>NVTX_STACK := lru_update (evict_nvtx E) (NVTX_STACK st) (pid_tgid E)
             (read_name (read_user_str E msg_ptr))\<rparr>)"

definition nvtx_range_pop :: "env \<Rightarrow> bpf_state \<Rightarrow> bpf_state" where
  [probe_defs]: "nvtx_range_pop E st =
     st\<lparr>NVTX_STACK := hash_delete (NVTX_STACK st) (pid_tgid E)\<rparr>"

section \<open>NCCL collectives\<close>

definition nccl_count_dtype_3_4 :: "u64 \<Rightarrow> u64 \<Rightarrow> u64 \<Rightarrow> u64 \<Rightarrow> env \<Rightarrow> bpf_state \<Rightarrow> bpf_state" where
  [probe_defs]: "nccl_count_dtype_3_4 s r cnt dtype E st =
     (let event_type = attach_cookie E in save_entry E (ucast event_type) cnt dtype 0 st)"

definition nccl_count_dtype_2_3 :: "u64 \<Rightarrow> u64 \<Rightarrow> u64 \<Rightarrow> env \<Rightarrow> bpf_state \<Rightarrow> bpf_state" where
  [probe_defs]: "nccl_count_dtype_2_3 b cnt dtype E st =
     (let event_type = attach_cookie E in save_entry E (ucast event_type) cnt dtype 0 st)"

definition nccl_multi_ret :: "env \<Rightarrow> bpf_state \<Rightarrow> bpf_state" where
  [probe_defs]: "nccl_multi_ret E st = emit_exit E st"

definition nccl_all_reduce :: "u64 \<Rightarrow> u64 \<Rightarrow> u64 \<Rightarrow> u64 \<Rightarrow> env \<Rightarrow> bpf_state \<Rightarrow> bpf_state" where
  [probe_defs]: "nccl_all_reduce s r cnt dtype E st = save_entry E EVENT_NCCL_ALL_REDUCE cnt dtype 0 st"

definition nccl_all_reduce_ret :: "env \<Rightarrow> bpf_state \<Rightarrow> bpf_state" where
  [probe_defs]: "nccl_all_reduce_ret E st = emit_exit E st"

definition nccl_all_gather :: "u64 \<Rightarrow> u64 \<Rightarrow> u64 \<Rightarrow> u64 \<Rightarrow> env \<Rightarrow> bpf_state \<Rightarrow> bpf_state" where
  [probe_defs]: "nccl_all_gather s r cnt dtype E st = save_entry E EVENT_NCCL_ALL_GATHER cnt dtype 0 st"

definition nccl_all_gather_ret :: "env \<Rightarrow> bpf_state \<Rightarrow> bpf_state" where
  [probe_defs]: "nccl_all_gather_ret E st = emit_exit E st"

definition nccl_reduce_scatter :: "u64 \<Rightarrow> u64 \<Rightarrow> u64 \<Rightarrow> u64 \<Rightarrow> env \<Rightarrow> bpf_state \<Rightarrow> bpf_state" where
  [probe_defs]: "nccl_reduce_scatter s r cnt dtype E st = save_entry E EVENT_NCCL_REDUCE_SCATTER cnt dtype 0 st"

definition nccl_reduce_scatter_ret :: "env \<Rightarrow> bpf_state \<Rightarrow> bpf_state" where
  [probe_defs]: "nccl_reduce_scatter_ret E st = emit_exit E st"

definition nccl_broadcast :: "u64 \<Rightarrow> u64 \<Rightarrow> u64 \<Rightarrow> u64 \<Rightarrow> env \<Rightarrow> bpf_state \<Rightarrow> bpf_state" where
  [probe_defs]: "nccl_broadcast s r cnt dtype E st = save_entry E EVENT_NCCL_BROADCAST cnt dtype 0 st"

definition nccl_broadcast_ret :: "env \<Rightarrow> bpf_state \<Rightarrow> bpf_state" where
  [probe_defs]: "nccl_broadcast_ret E st = emit_exit E st"

definition nccl_send :: "u64 \<Rightarrow> u64 \<Rightarrow> u64 \<Rightarrow> env \<Rightarrow> bpf_state \<Rightarrow> bpf_state" where
  [probe_defs]: "nccl_send b cnt dtype E st = save_entry E EVENT_NCCL_SEND cnt dtype 0 st"

definition nccl_send_ret :: "env \<Rightarrow> bpf_state \<Rightarrow> bpf_state" where
  [probe_defs]: "nccl_send_ret E st = emit_exit E st"

definition nccl_recv :: "u64 \<Rightarrow> u64 \<Rightarrow> u64 \<Rightarrow> env \<Rightarrow> bpf_state \<Rightarrow> bpf_state" where
  [probe_defs]: "nccl_recv b cnt dtype E st = save_entry E EVENT_NCCL_RECV cnt dtype 0 st"

definition nccl_recv_ret :: "env \<Rightarrow> bpf_state \<Rightarrow> bpf_state" where
  [probe_defs]: "nccl_recv_ret E st = emit_exit E st"

section \<open>Dispatch\<close>

text \<open>
  A probe firing, with the arguments of the call it traces, grouped by the library the
  probe is attached to: allocation and copies and the other calls of libcudart, the
  driver library libcuda, NVTX and NCCL.
\<close>

datatype memory_probe =
    P_cuda_malloc u64 u64
  | P_cuda_malloc_ret
  | P_cuda_free u64
  | P_cuda_free_ret
  | P_cuda_memcpy u64 u64 u64 u64
  | P_cuda_memcpy_ret
  | P_cuda_memcpy_async u64 u64 u64 u64 u64
  | P_cuda_memcpy_async_ret
  | P_cuda_malloc_async u64 u64 u64
  | P_cuda_malloc_async_ret
  | P_cuda_free_async u64 u64
  | P_cuda_free_async_ret
  | P_cuda_malloc_host u64 u64
  | P_cuda_malloc_host_ret
  | P_cuda_free_host u64
  | P_cuda_free_host_ret
  | P_cuda_memset u64 u64 u64
  | P_cuda_memset_ret
  | P_cuda_memset_async u64 u64 u64 u64
  | P_cuda_memset_async_ret

primrec fire_memory :: "env \<Rightarrow> memory_probe \<Rightarrow> bpf_state \<Rightarrow> bpf_state" where
  "fire_memory E (P_cuda_malloc x0 x1) st = cuda_malloc x0 x1 E st"
| "fire_memory E P_cuda_malloc_ret st = cuda_malloc_ret E st"
| "fire_memory E (P_cuda_free x0) st = cuda_free x0 E st"
| "fire_memory E P_cuda_free_ret st = cuda_free_ret E st"
| "fire_memory E (P_cuda_memcpy x0 x1 x2 x3) st = cuda_memcpy x0 x1 x2 x3 E st"
| "fire_memory E P_cuda_memcpy_ret st = cuda_memcpy_ret E st"
| "fire_memory E (P_cuda_memcpy_async x0 x1 x2 x3 x4) st = cuda_memcpy_async x0 x1 x2 x3 x4 E st"
| "fire_memory E P_cuda_memcpy_async_ret st = cuda_memcpy_async_ret E st"
| "fire_memory E (P_cuda_malloc_async x0 x1 x2) st = cuda_malloc_async x0 x1 x2 E st"
| "fire_memory E P_cuda_malloc_async_ret st = cuda_malloc_async_ret E st"
| "fire_memory E (P_cuda_free_async x0 x1) st = cuda_free_async x0 x1 E st"
| "fire_memory E P_cuda_free_async_ret st = cuda_free_async_ret E st"
| "fire_memory E (P_cuda_malloc_host x0 x1) st = cuda_malloc_host x0 x1 E st"
| "fire_memory E P_cuda_malloc_host_ret st = cuda_malloc_host_ret E st"
| "fire_memory E (P_cuda_free_host x0) st = cuda_free_host x0 E st"
| "fire_memory E P_cuda_free_host_ret st = cuda_free_host_ret E st"
| "fire_memory E (P_cuda_memset x0 x1 x2) st = cuda_memset x0 x1 x2 E st"
| "fire_memory E P_cuda_memset_ret st = cuda_memset_ret E st"
| "fire_memory E (P_cuda_memset_async x0 x1 x2 x3) st = cuda_memset_async x0 x1 x2 x3 E st"
| "fire_memory E P_cuda_memset_async_ret st = cuda_memset_async_ret E st"

datatype runtime_probe =
    P_cuda_launch_kernel u64
  | P_cuda_launch_kernel_ret
  | P_cuda_register_function u64 u64 u64 u64
  | P_cuda_stream_sync u64
  | P_cuda_stream_sync_ret
  | P_cuda_event_sync u64
  | P_cuda_event_sync_ret
  | P_cuda_graph_launch u64 u64
  | P_cuda_graph_launch_ret
  | P_cuda_graph_instantiate
  | P_cuda_graph_instantiate_ret

primrec fire_runtime :: "env \<Rightarrow> runtime_probe \<Rightarrow> bpf_state \<Rightarrow> bpf_state" where
  "fire_runtime E (P_cuda_launch_kernel x0) st = cuda_launch_kernel x0 E st"
| "fire_runtime E P_cuda_launch_kernel_ret st = cuda_launch_kernel_ret E st"
| "fire_runtime E (P_cuda_register_function x0 x1 x2 x3) st = cuda_register_function x0 x1 x2 x3 E st"
| "fire_runtime E (P_cuda_stream_sync x0) st = cuda_stream_sync x0 E st"
| "fire_runtime E P_cuda_stream_sync_ret st = cuda_stream_sync_ret E st"
| "fire_runtime E (P_cuda_event_sync x0) st = cuda_event_sync x0 E st"
| "fire_runtime E P_cuda_event_sync_ret st = cuda_event_sync_ret E st"
| "fire_runtime E (P_cuda_graph_launch x0 x1) st = cuda_graph_launch x0 x1 E st"
| "fire_runtime E P_cuda_graph_launch_ret st = cuda_graph_launch_ret E st"
| "fire_runtime E P_cuda_graph_instantiate st = cuda_graph_instantiate E st"
| "fire_runtime E P_cuda_graph_instantiate_ret st = cuda_graph_instantiate_ret E st"

datatype driver_probe =
    P_cu_module_get_function u64 u64 u64
  | P_cu_module_get_function_ret
  | P_cu_launch_kernel u64
  | P_cu_launch_kernel_ret
  | P_cu_launch_kernel_ex u64 u64
  | P_cu_launch_kernel_ex_ret
  | P_cu_launch_cooperative_kernel u64
  | P_cu_launch_cooperative_kernel_ret
  | P_cu_graph_launch u64 u64
  | P_cu_graph_launch_ret
  | P_cu_module_load_data
  | P_cu_module_load_data_ret

primrec fire_driver :: "env \<Rightarrow> driver_probe \<Rightarrow> bpf_state \<Rightarrow> bpf_state" where
  "fire_driver E (P_cu_module_get_function x0 x1 x2) st = cu_module_get_function x0 x1 x2 E st"
| "fire_driver E P_cu_module_get_function_ret st = cu_module_get_function_ret E st"
| "fire_driver E (P_cu_launch_kernel x0) st = cu_launch_kernel x0 E st"
| "fire_driver E P_cu_launch_kernel_ret st = cu_launch_kernel_ret E st"
| "fire_driver E (P_cu_launch_kernel_ex x0 x1) st = cu_launch_kernel_ex x0 x1 E st"
| "fire_driver E P_cu_launch_kernel_ex_ret st = cu_launch_kernel_ex_ret E st"
| "fire_driver E (P_cu_launch_cooperative_kernel x0) st = cu_launch_cooperative_kernel x0 E st"
| "fire_driver E P_cu_launch_cooperative_kernel_ret st = cu_launch_cooperative_kernel_ret E st"
| "fire_driver E (P_cu_graph_launch x0 x1) st = cu_graph_launch x0 x1 E st"
| "fire_driver E P_cu_graph_launch_ret st = cu_graph_launch_ret E st"
| "fire_driver E P_cu_module_load_data st = cu_module_load_data E st"
| "fire_driver E P_cu_module_load_data_ret st = cu_module_load_data_ret E st"

datatype nvtx_probe =
    P_nvtx_range_push u64
  | P_nvtx_range_pop

primrec fire_nvtx :: "env \<Rightarrow> nvtx_probe \<Rightarrow> bpf_state \<Rightarrow> bpf_state" where
  "fire_nvtx E (P_nvtx_range_push x0) st = nvtx_range_push x0 E st"
| "fire_nvtx E P_nvtx_range_pop st = nvtx_range_pop E st"

datatype nccl_probe =
    P_nccl_count_dtype_3_4 u64 u64 u64 u64
  | P_nccl_count_dtype_2_3 u64 u64 u64
  | P_nccl_multi_ret
  | P_nccl_all_reduce u64 u64 u64 u64
  | P_nccl_all_reduce_ret
  | P_nccl_all_gather u64 u64 u64 u64
  | P_nccl_all_gather_ret
  | P_nccl_reduce_scatter u64 u64 u64 u64
  | P_nccl_reduce_scatter_ret
  | P_nccl_broadcast u64 u64 u64 u64
  | P_nccl_broadcast_ret
  | P_nccl_send u64 u64 u64
  | P_nccl_send_ret
  | P_nccl_recv u64 u64 u64
  | P_nccl_recv_ret

primrec fire_nccl :: "env \<Rightarrow> nccl_probe \<Rightarrow> bpf_state \<Rightarrow> bpf_state" where
  "fire_nccl E (P_nccl_count_dtype_3_4 x0 x1 x2 x3) st = nccl_count_dtype_3_4 x0 x1 x2 x3 E st"
| "fire_nccl E (P_nccl_count_dtype_2_3 x0 x1 x2) st = nccl_count_dtype_2_3 x0 x1 x2 E st"
| "fire_nccl E P_nccl_multi_ret st = nccl_multi_ret E st"
| "fire_nccl E (P_nccl_all_reduce x0 x1 x2 x3) st = nccl_all_reduce x0 x1 x2 x3 E st"
| "fire_nccl E P_nccl_all_reduce_ret st = nccl_all_reduce_ret E st"
| "fire_nccl E (P_nccl_all_gather x0 x1 x2 x3) st = nccl_all_gather x0 x1 x2 x3 E st"
| "fire_nccl E P_nccl_all_gather_ret st = nccl_all_gather_ret E st"
| "fire_nccl E (P_nccl_reduce_scatter x0 x1 x2 x3) st = nccl_reduce_scatter x0 x1 x2 x3 E st"
| "fire_nccl E P_nccl_reduce_scatter_ret st = nccl_reduce_scatter_ret E st"
| "fire_nccl E (P_nccl_broadcast x0 x1 x2 x3) st = nccl_broadcast x0 x1 x2 x3 E st"
| "fire_nccl E P_nccl_broadcast_ret st = nccl_broadcast_ret E st"
| "fire_nccl E (P_nccl_send x0 x1 x2) st = nccl_send x0 x1 x2 E st"
| "fire_nccl E P_nccl_send_ret st = nccl_send_ret E st"
| "fire_nccl E (P_nccl_recv x0 x1 x2) st = nccl_recv x0 x1 x2 E st"
| "fire_nccl E P_nccl_recv_ret st = nccl_recv_ret E st"

datatype probe =
    Memory memory_probe
  | Runtime runtime_probe
  | Driver driver_probe
  | Nvtx nvtx_probe
  | Nccl nccl_probe

primrec fire :: "env \<Rightarrow> probe \<Rightarrow> bpf_state \<Rightarrow> bpf_state" where
  "fire E (Memory p) st = fire_memory E p st"
| "fire E (Runtime p) st = fire_runtime E p st"
| "fire E (Driver p) st = fire_driver E p st"
| "fire E (Nvtx p) st = fire_nvtx E p st"
| "fire E (Nccl p) st = fire_nccl E p st"

end
