(* ===== verification/ProbeFacts.thy ===== *)
theory ProbeFacts
  imports CoreFacts Probes
begin

text \<open>
  The probes sorted by what they do: the return probes that run \<^verbatim>\<open>emit_exit\<close>, and the rest,
  which only touch the in-flight, allocation, NVTX and registration maps. Frame facts for
  every probe follow.
\<close>

section \<open>Exit probes\<close>

text \<open>The programs whose body ends in \<^verbatim>\<open>return emit_exit(ctx)\<close>.\<close>

definition is_exit :: "probe \<Rightarrow> bool" where
  "is_exit p \<longleftrightarrow> p \<in> set
     [Memory P_cuda_malloc_ret, Memory P_cuda_free_ret,
      Memory P_cuda_memcpy_ret, Memory P_cuda_memcpy_async_ret,
      Runtime P_cuda_launch_kernel_ret, Memory P_cuda_malloc_async_ret,
      Memory P_cuda_free_async_ret, Driver P_cu_launch_kernel_ret,
      Driver P_cu_launch_kernel_ex_ret, Driver P_cu_launch_cooperative_kernel_ret,
      Driver P_cu_graph_launch_ret, Runtime P_cuda_stream_sync_ret,
      Runtime P_cuda_event_sync_ret, Memory P_cuda_malloc_host_ret,
      Memory P_cuda_free_host_ret, Memory P_cuda_memset_ret,
      Memory P_cuda_memset_async_ret, Runtime P_cuda_graph_launch_ret,
      Runtime P_cuda_graph_instantiate_ret, Driver P_cu_module_load_data_ret,
      Nccl P_nccl_multi_ret, Nccl P_nccl_all_reduce_ret,
      Nccl P_nccl_all_gather_ret, Nccl P_nccl_reduce_scatter_ret,
      Nccl P_nccl_broadcast_ret, Nccl P_nccl_send_ret,
      Nccl P_nccl_recv_ret]"

text \<open>The two allocation return probes note the size of a new allocation before they exit.\<close>

definition is_malloc_ret :: "probe \<Rightarrow> bool" where
  "is_malloc_ret p \<longleftrightarrow> p = Memory P_cuda_malloc_ret \<or> p = Memory P_cuda_malloc_async_ret"

definition note_alloc :: "env \<Rightarrow> bpf_state \<Rightarrow> bpf_state" where
  "note_alloc E st =
     (case MALLOC_PTRS st (pid_tgid E) of
        None \<Rightarrow> st
      | Some ptr_to_ptr \<Rightarrow>
          st\<lparr>MALLOC_PTRS := hash_delete (MALLOC_PTRS st) (pid_tgid E),
             MALLOC_SIZES :=
               (case (INFLIGHT st (pid_tgid E), read_user E ptr_to_ptr) of
                  (Some entry, Some dev_ptr) \<Rightarrow>
                    if dev_ptr \<noteq> 0
                    then lru_update (evict_malloc_sizes E) (MALLOC_SIZES st)
                           \<lparr>mk_pid = pid_of (pid_tgid E), mk_pad = 0, mk_addr = dev_ptr\<rparr>
                           (ed_arg0 entry)
                    else MALLOC_SIZES st
                | _ \<Rightarrow> MALLOC_SIZES st)\<rparr>)"

lemma cuda_malloc_ret_note [probe_defs]: "cuda_malloc_ret E st = emit_exit E (note_alloc E st)"
  by (auto simp: cuda_malloc_ret_def note_alloc_def Let_def split: option.split
      intro!: arg_cong [where f = "emit_exit E"])

lemma cuda_malloc_async_ret_note [probe_defs]: "cuda_malloc_async_ret E st = emit_exit E (note_alloc E st)"
  by (auto simp: cuda_malloc_async_ret_def note_alloc_def Let_def split: option.split
      intro!: arg_cong [where f = "emit_exit E"])

lemma note_alloc_frame [simp]:
  "INFLIGHT (note_alloc E st) = INFLIGHT st"
  "EVENTS (note_alloc E st) = EVENTS st"
  "KERNEL_REGS (note_alloc E st) = KERNEL_REGS st"
  "AGGREGATED (note_alloc E st) = AGGREGATED st"
  "LAUNCH_AGG (note_alloc E st) = LAUNCH_AGG st"
  "LAUNCH_DROPPED (note_alloc E st) = LAUNCH_DROPPED st"
  "DETAILED_LAUNCHES (note_alloc E st) = DETAILED_LAUNCHES st"
  "UPGRADED_PIDS (note_alloc E st) = UPGRADED_PIDS st"
  "NCCL_AGG (note_alloc E st) = NCCL_AGG st"
  "DROPPED (note_alloc E st) = DROPPED st"
  "NVTX_STACK (note_alloc E st) = NVTX_STACK st"
  "KERNEL_AGG_MODE (note_alloc E st) = KERNEL_AGG_MODE st"
  "SAMPLE_RATE (note_alloc E st) = SAMPLE_RATE st"
  "SAMPLE_COUNTER (note_alloc E st) = SAMPLE_COUNTER st"
  by (simp_all add: note_alloc_def split: option.split)

lemma note_alloc_MALLOC_PTRS [simp]:
  "MALLOC_PTRS (note_alloc E st) = hash_delete (MALLOC_PTRS st) (pid_tgid E)"
  by (auto simp: note_alloc_def map_defs fun_upd_idem split: option.split)

text \<open>The state on which an exit probe runs \<^verbatim>\<open>emit_exit\<close>.\<close>

definition before_exit :: "env \<Rightarrow> probe \<Rightarrow> bpf_state \<Rightarrow> bpf_state" where
  "before_exit E p st = (if is_malloc_ret p then note_alloc E st else st)"

lemma before_exit_frame [simp]:
  "INFLIGHT (before_exit E p st) = INFLIGHT st"
  "EVENTS (before_exit E p st) = EVENTS st"
  "KERNEL_REGS (before_exit E p st) = KERNEL_REGS st"
  "AGGREGATED (before_exit E p st) = AGGREGATED st"
  "LAUNCH_AGG (before_exit E p st) = LAUNCH_AGG st"
  "LAUNCH_DROPPED (before_exit E p st) = LAUNCH_DROPPED st"
  "DETAILED_LAUNCHES (before_exit E p st) = DETAILED_LAUNCHES st"
  "UPGRADED_PIDS (before_exit E p st) = UPGRADED_PIDS st"
  "NCCL_AGG (before_exit E p st) = NCCL_AGG st"
  "DROPPED (before_exit E p st) = DROPPED st"
  "NVTX_STACK (before_exit E p st) = NVTX_STACK st"
  "KERNEL_AGG_MODE (before_exit E p st) = KERNEL_AGG_MODE st"
  "SAMPLE_RATE (before_exit E p st) = SAMPLE_RATE st"
  "SAMPLE_COUNTER (before_exit E p st) = SAMPLE_COUNTER st"
  by (simp_all add: before_exit_def)

lemma fire_exit: "is_exit p \<Longrightarrow> fire E p st = emit_exit E (before_exit E p st)"
  unfolding is_exit_def
  by (auto simp: probe_defs before_exit_def is_malloc_ret_def)

section \<open>The other probes\<close>

lemma fire_frame:
  assumes "\<not> is_exit p"
  shows
    "EVENTS (fire E p st) = EVENTS st" and
    "AGGREGATED (fire E p st) = AGGREGATED st" and
    "LAUNCH_AGG (fire E p st) = LAUNCH_AGG st" and
    "LAUNCH_DROPPED (fire E p st) = LAUNCH_DROPPED st" and
    "NCCL_AGG (fire E p st) = NCCL_AGG st" and
    "DROPPED (fire E p st) = DROPPED st"
  using assms unfolding is_exit_def
  by (cases p; rename_tac q; case_tac q;
      simp add: probe_defs Let_def case_prod_beta split: option.split)+

text \<open>No probe writes the configuration maps.\<close>

lemma fire_config [simp]:
  "DETAILED_LAUNCHES (fire E p st) = DETAILED_LAUNCHES st"
  "UPGRADED_PIDS (fire E p st) = UPGRADED_PIDS st"
  "KERNEL_AGG_MODE (fire E p st) = KERNEL_AGG_MODE st"
  "SAMPLE_RATE (fire E p st) = SAMPLE_RATE st"
  by (cases p; rename_tac q; case_tac q;
      simp add: probe_defs Let_def case_prod_beta split: option.split)+

end
