(* ===== verification/Invariants.thy ===== *)
theory Invariants
  imports ProbeFacts
begin

text \<open>
  The whole kernel side as a transition system: a step is one probe firing or one action
  of the user-space reader on the maps (\<^verbatim>\<open>main.rs\<close> deletes drained keys, consumes ring
  records and rewrites \<^verbatim>\<open>UPGRADED_PIDS\<close>). The invariant collects what user space relies on
  when it reads the maps; every step keeps it, so it holds in every reachable state.
\<close>

section \<open>Invariant\<close>

text \<open>\<^verbatim>\<open>bpf_get_current_comm\<close> fills the sixteen bytes of \<^verbatim>\<open>comm\<close>.\<close>

definition wf_env :: "env \<Rightarrow> bool" where
  "wf_env E \<longleftrightarrow> length (current_comm E) = 16"

text \<open>The arrays have their declared single entry.\<close>

definition arrays_wf :: "bpf_state \<Rightarrow> bool" where
  "arrays_wf st \<longleftrightarrow>
     length (DETAILED_LAUNCHES st) = 1 \<and> length (KERNEL_AGG_MODE st) = 1 \<and>
     length (SAMPLE_RATE st) = 1 \<and>
     (\<forall>c. length (LAUNCH_DROPPED st c) = 1 \<and> length (DROPPED st c) = 1 \<and>
          length (SAMPLE_COUNTER st c) = 1)"

definition agg_wf :: "bpf_state \<Rightarrow> bool" where
  "agg_wf st \<longleftrightarrow> (\<forall>k slots c. AGGREGATED st k = Some slots \<longrightarrow>
     profi_is_aggregatable (ak_event_type k) \<and>
     length (av_bucket_counts (slots c)) = 14 \<and>
     sum_list (av_bucket_counts (slots c)) = ucast (av_count (slots c)))"

definition nccl_wf :: "bpf_state \<Rightarrow> bool" where
  "nccl_wf st \<longleftrightarrow> (\<forall>k slots c. NCCL_AGG st k = Some slots \<longrightarrow>
     profi_is_nccl_event (ak_event_type k) \<and> ak_stream k = 0 \<and>
     length (nv_bucket_counts (slots c)) = 12 \<and>
     sum_list (nv_bucket_counts (slots c)) = ucast (nv_count (slots c)))"

definition launch_wf :: "bpf_state \<Rightarrow> bool" where
  "launch_wf st \<longleftrightarrow> (\<forall>k slots c. LAUNCH_AGG st k = Some slots \<longrightarrow>
     lk_pad k = 0 \<and>
     length (lv_bucket_counts (slots c)) = 9 \<and>
     sum_list (lv_bucket_counts (slots c)) = ucast (lv_count (slots c)))"

text \<open>Only calls that no aggregate map takes reach the event ring, with complete records.\<close>

definition event_wf :: "CudaEvent \<Rightarrow> bool" where
  "event_wf ev \<longleftrightarrow>
     \<not> profi_is_aggregatable (ce_event_type ev) \<and> \<not> profi_is_nccl_event (ce_event_type ev) \<and>
     length (ce_nvtx_marker ev) = 16 \<and> length (ce_comm ev) = 16 \<and> ce_pad2 ev = 0"

definition rings_wf :: "bpf_state \<Rightarrow> bool" where
  "rings_wf st \<longleftrightarrow> list_all event_wf (EVENTS st) \<and> list_all (\<lambda>r. kr_pad r = 0) (KERNEL_REGS st)"

text \<open>A tracked allocation has an address; padding bytes of keys are zero.\<close>

definition alloc_wf :: "bpf_state \<Rightarrow> bool" where
  "alloc_wf st \<longleftrightarrow>
     (\<forall>k sz. MALLOC_SIZES st k = Some sz \<longrightarrow> mk_addr k \<noteq> 0 \<and> mk_pad k = 0) \<and>
     (\<forall>i p. MALLOC_PTRS st i = Some p \<longrightarrow> p \<noteq> 0)"

text \<open>An NVTX name fills its buffer and is terminated.\<close>

definition nvtx_wf :: "bpf_state \<Rightarrow> bool" where
  "nvtx_wf st \<longleftrightarrow> (\<forall>i name. NVTX_STACK st i = Some name \<longrightarrow> length name = 64 \<and> name ! 63 = 0)"

definition inflight_wf :: "bpf_state \<Rightarrow> bool" where
  "inflight_wf st \<longleftrightarrow> (\<forall>i e. INFLIGHT st i = Some e \<longrightarrow> ed_pad e = 0)"

definition bpf_inv :: "bpf_state \<Rightarrow> bool" where
  "bpf_inv st \<longleftrightarrow> arrays_wf st \<and> agg_wf st \<and> nccl_wf st \<and> launch_wf st \<and> rings_wf st \<and>
     alloc_wf st \<and> nvtx_wf st \<and> inflight_wf st"

text \<open>Each part of the invariant depends on its own maps only.\<close>

lemma arrays_wf_upd [simp]:
  "arrays_wf (st\<lparr>INFLIGHT := x1\<rparr>) = arrays_wf st"
  "arrays_wf (st\<lparr>EVENTS := x2\<rparr>) = arrays_wf st"
  "arrays_wf (st\<lparr>KERNEL_REGS := x3\<rparr>) = arrays_wf st"
  "arrays_wf (st\<lparr>AGGREGATED := x4\<rparr>) = arrays_wf st"
  "arrays_wf (st\<lparr>LAUNCH_AGG := x5\<rparr>) = arrays_wf st"
  "arrays_wf (st\<lparr>UPGRADED_PIDS := x6\<rparr>) = arrays_wf st"
  "arrays_wf (st\<lparr>NCCL_AGG := x7\<rparr>) = arrays_wf st"
  "arrays_wf (st\<lparr>NVTX_STACK := x8\<rparr>) = arrays_wf st"
  "arrays_wf (st\<lparr>MALLOC_SIZES := x9\<rparr>) = arrays_wf st"
  "arrays_wf (st\<lparr>MALLOC_PTRS := y1\<rparr>) = arrays_wf st"
  "arrays_wf (save_entry E t a0 a1 a2 st) = arrays_wf st"
  "arrays_wf (note_alloc E st) = arrays_wf st"
  by (simp_all add: arrays_wf_def)

lemma agg_wf_upd [simp]:
  "agg_wf (st\<lparr>INFLIGHT := x1\<rparr>) = agg_wf st"
  "agg_wf (st\<lparr>EVENTS := x2\<rparr>) = agg_wf st"
  "agg_wf (st\<lparr>KERNEL_REGS := x3\<rparr>) = agg_wf st"
  "agg_wf (st\<lparr>LAUNCH_AGG := x5\<rparr>) = agg_wf st"
  "agg_wf (st\<lparr>UPGRADED_PIDS := x6\<rparr>) = agg_wf st"
  "agg_wf (st\<lparr>NCCL_AGG := x7\<rparr>) = agg_wf st"
  "agg_wf (st\<lparr>NVTX_STACK := x8\<rparr>) = agg_wf st"
  "agg_wf (st\<lparr>MALLOC_SIZES := x9\<rparr>) = agg_wf st"
  "agg_wf (st\<lparr>MALLOC_PTRS := y1\<rparr>) = agg_wf st"
  "agg_wf (save_entry E t a0 a1 a2 st) = agg_wf st"
  "agg_wf (note_alloc E st) = agg_wf st"
  by (simp_all add: agg_wf_def)

lemma nccl_wf_upd [simp]:
  "nccl_wf (st\<lparr>INFLIGHT := x1\<rparr>) = nccl_wf st"
  "nccl_wf (st\<lparr>EVENTS := x2\<rparr>) = nccl_wf st"
  "nccl_wf (st\<lparr>KERNEL_REGS := x3\<rparr>) = nccl_wf st"
  "nccl_wf (st\<lparr>AGGREGATED := x4\<rparr>) = nccl_wf st"
  "nccl_wf (st\<lparr>LAUNCH_AGG := x5\<rparr>) = nccl_wf st"
  "nccl_wf (st\<lparr>UPGRADED_PIDS := x6\<rparr>) = nccl_wf st"
  "nccl_wf (st\<lparr>NVTX_STACK := x8\<rparr>) = nccl_wf st"
  "nccl_wf (st\<lparr>MALLOC_SIZES := x9\<rparr>) = nccl_wf st"
  "nccl_wf (st\<lparr>MALLOC_PTRS := y1\<rparr>) = nccl_wf st"
  "nccl_wf (save_entry E t a0 a1 a2 st) = nccl_wf st"
  "nccl_wf (note_alloc E st) = nccl_wf st"
  by (simp_all add: nccl_wf_def)

lemma launch_wf_upd [simp]:
  "launch_wf (st\<lparr>INFLIGHT := x1\<rparr>) = launch_wf st"
  "launch_wf (st\<lparr>EVENTS := x2\<rparr>) = launch_wf st"
  "launch_wf (st\<lparr>KERNEL_REGS := x3\<rparr>) = launch_wf st"
  "launch_wf (st\<lparr>AGGREGATED := x4\<rparr>) = launch_wf st"
  "launch_wf (st\<lparr>UPGRADED_PIDS := x6\<rparr>) = launch_wf st"
  "launch_wf (st\<lparr>NCCL_AGG := x7\<rparr>) = launch_wf st"
  "launch_wf (st\<lparr>NVTX_STACK := x8\<rparr>) = launch_wf st"
  "launch_wf (st\<lparr>MALLOC_SIZES := x9\<rparr>) = launch_wf st"
  "launch_wf (st\<lparr>MALLOC_PTRS := y1\<rparr>) = launch_wf st"
  "launch_wf (save_entry E t a0 a1 a2 st) = launch_wf st"
  "launch_wf (note_alloc E st) = launch_wf st"
  by (simp_all add: launch_wf_def)

lemma rings_wf_upd [simp]:
  "rings_wf (st\<lparr>INFLIGHT := x1\<rparr>) = rings_wf st"
  "rings_wf (st\<lparr>AGGREGATED := x4\<rparr>) = rings_wf st"
  "rings_wf (st\<lparr>LAUNCH_AGG := x5\<rparr>) = rings_wf st"
  "rings_wf (st\<lparr>UPGRADED_PIDS := x6\<rparr>) = rings_wf st"
  "rings_wf (st\<lparr>NCCL_AGG := x7\<rparr>) = rings_wf st"
  "rings_wf (st\<lparr>NVTX_STACK := x8\<rparr>) = rings_wf st"
  "rings_wf (st\<lparr>MALLOC_SIZES := x9\<rparr>) = rings_wf st"
  "rings_wf (st\<lparr>MALLOC_PTRS := y1\<rparr>) = rings_wf st"
  "rings_wf (save_entry E t a0 a1 a2 st) = rings_wf st"
  "rings_wf (note_alloc E st) = rings_wf st"
  by (simp_all add: rings_wf_def)

lemma alloc_wf_upd [simp]:
  "alloc_wf (st\<lparr>INFLIGHT := x1\<rparr>) = alloc_wf st"
  "alloc_wf (st\<lparr>EVENTS := x2\<rparr>) = alloc_wf st"
  "alloc_wf (st\<lparr>KERNEL_REGS := x3\<rparr>) = alloc_wf st"
  "alloc_wf (st\<lparr>AGGREGATED := x4\<rparr>) = alloc_wf st"
  "alloc_wf (st\<lparr>LAUNCH_AGG := x5\<rparr>) = alloc_wf st"
  "alloc_wf (st\<lparr>UPGRADED_PIDS := x6\<rparr>) = alloc_wf st"
  "alloc_wf (st\<lparr>NCCL_AGG := x7\<rparr>) = alloc_wf st"
  "alloc_wf (st\<lparr>NVTX_STACK := x8\<rparr>) = alloc_wf st"
  "alloc_wf (save_entry E t a0 a1 a2 st) = alloc_wf st"
  by (simp_all add: alloc_wf_def)

lemma nvtx_wf_upd [simp]:
  "nvtx_wf (st\<lparr>INFLIGHT := x1\<rparr>) = nvtx_wf st"
  "nvtx_wf (st\<lparr>EVENTS := x2\<rparr>) = nvtx_wf st"
  "nvtx_wf (st\<lparr>KERNEL_REGS := x3\<rparr>) = nvtx_wf st"
  "nvtx_wf (st\<lparr>AGGREGATED := x4\<rparr>) = nvtx_wf st"
  "nvtx_wf (st\<lparr>LAUNCH_AGG := x5\<rparr>) = nvtx_wf st"
  "nvtx_wf (st\<lparr>UPGRADED_PIDS := x6\<rparr>) = nvtx_wf st"
  "nvtx_wf (st\<lparr>NCCL_AGG := x7\<rparr>) = nvtx_wf st"
  "nvtx_wf (st\<lparr>MALLOC_SIZES := x9\<rparr>) = nvtx_wf st"
  "nvtx_wf (st\<lparr>MALLOC_PTRS := y1\<rparr>) = nvtx_wf st"
  "nvtx_wf (save_entry E t a0 a1 a2 st) = nvtx_wf st"
  "nvtx_wf (note_alloc E st) = nvtx_wf st"
  by (simp_all add: nvtx_wf_def)

lemma inflight_wf_upd [simp]:
  "inflight_wf (st\<lparr>EVENTS := x2\<rparr>) = inflight_wf st"
  "inflight_wf (st\<lparr>KERNEL_REGS := x3\<rparr>) = inflight_wf st"
  "inflight_wf (st\<lparr>AGGREGATED := x4\<rparr>) = inflight_wf st"
  "inflight_wf (st\<lparr>LAUNCH_AGG := x5\<rparr>) = inflight_wf st"
  "inflight_wf (st\<lparr>UPGRADED_PIDS := x6\<rparr>) = inflight_wf st"
  "inflight_wf (st\<lparr>NCCL_AGG := x7\<rparr>) = inflight_wf st"
  "inflight_wf (st\<lparr>NVTX_STACK := x8\<rparr>) = inflight_wf st"
  "inflight_wf (st\<lparr>MALLOC_SIZES := x9\<rparr>) = inflight_wf st"
  "inflight_wf (st\<lparr>MALLOC_PTRS := y1\<rparr>) = inflight_wf st"
  "inflight_wf (note_alloc E st) = inflight_wf st"
  by (simp_all add: inflight_wf_def)

section \<open>Steps and reachable states\<close>

text \<open>The maps after loading, with the configuration words user space writes first.\<close>

definition initial :: "u32 \<Rightarrow> u32 \<Rightarrow> u32 \<Rightarrow> bpf_state" where
  "initial mode rate detailed =
     \<lparr>INFLIGHT = Map.empty, EVENTS = [], KERNEL_REGS = [], AGGREGATED = Map.empty,
      LAUNCH_AGG = Map.empty, LAUNCH_DROPPED = (\<lambda>_. [0]), DETAILED_LAUNCHES = [detailed],
      UPGRADED_PIDS = Map.empty, NCCL_AGG = Map.empty, DROPPED = (\<lambda>_. [0]),
      NVTX_STACK = Map.empty, KERNEL_AGG_MODE = [mode], SAMPLE_RATE = [rate],
      SAMPLE_COUNTER = (\<lambda>_. [0]), MALLOC_SIZES = Map.empty, MALLOC_PTRS = Map.empty\<rparr>"

text \<open>
  A sample firing for concrete runs: at time \<open>t\<close> in thread \<open>i\<close> on CPU 0, every helper
  succeeds and every user address holds \<open>v\<close>.
\<close>

definition sample_env :: "u64 \<Rightarrow> u64 \<Rightarrow> u64 \<Rightarrow> env" where
  "sample_env t i v =
     \<lparr>ktime_ns = t, pid_tgid = i, smp_cpu = 0, regs_rc = 0, regs_sp = 0, attach_cookie = 0,
      current_comm = replicate 16 0, read_user = (\<lambda>_. Some v), read_user_str = (\<lambda>_. Some [65, 66, 0]),
      reserve_events = True, reserve_kernel_regs = True, evict_inflight = (\<lambda>_. False),
      evict_nvtx = (\<lambda>_. False), evict_malloc_sizes = (\<lambda>_. False),
      evict_malloc_ptrs = (\<lambda>_. False), agg_insert_fails = False, nccl_insert_fails = False,
      launch_insert_fails = False\<rparr>"

lemma sample_env_sel [simp]:
  "ktime_ns (sample_env t i v) = t" "pid_tgid (sample_env t i v) = i"
  "smp_cpu (sample_env t i v) = 0" "regs_rc (sample_env t i v) = 0"
  "current_comm (sample_env t i v) = replicate 16 0"
  "read_user (sample_env t i v) a = Some v" "read_user_str (sample_env t i v) a = Some [65, 66, 0]"
  "reserve_events (sample_env t i v)" "reserve_kernel_regs (sample_env t i v)"
  "\<not> evict_inflight (sample_env t i v) k" "\<not> evict_nvtx (sample_env t i v) k"
  "\<not> evict_malloc_sizes (sample_env t i v) mk" "\<not> evict_malloc_ptrs (sample_env t i v) k"
  "\<not> agg_insert_fails (sample_env t i v)" "\<not> nccl_insert_fails (sample_env t i v)"
  "\<not> launch_insert_fails (sample_env t i v)" "wf_env (sample_env t i v)"
  by (simp_all add: sample_env_def wf_env_def)

lemma initial_sel [simp]:
  "INFLIGHT (initial mode rate detailed) = Map.empty"
  "EVENTS (initial mode rate detailed) = []"
  "KERNEL_REGS (initial mode rate detailed) = []"
  "AGGREGATED (initial mode rate detailed) = Map.empty"
  "LAUNCH_AGG (initial mode rate detailed) = Map.empty"
  "LAUNCH_DROPPED (initial mode rate detailed) c = [0]"
  "DETAILED_LAUNCHES (initial mode rate detailed) = [detailed]"
  "UPGRADED_PIDS (initial mode rate detailed) = Map.empty"
  "NCCL_AGG (initial mode rate detailed) = Map.empty"
  "DROPPED (initial mode rate detailed) c = [0]"
  "NVTX_STACK (initial mode rate detailed) = Map.empty"
  "KERNEL_AGG_MODE (initial mode rate detailed) = [mode]"
  "SAMPLE_RATE (initial mode rate detailed) = [rate]"
  "SAMPLE_COUNTER (initial mode rate detailed) c = [0]"
  "MALLOC_SIZES (initial mode rate detailed) = Map.empty"
  "MALLOC_PTRS (initial mode rate detailed) = Map.empty"
  by (simp_all add: initial_def)

inductive step :: "bpf_state \<Rightarrow> bpf_state \<Rightarrow> bool" where
  probe: "wf_env E \<Longrightarrow> step st (fire E p st)"
| drain_aggregated: "step st (st\<lparr>AGGREGATED := hash_delete (AGGREGATED st) ak\<rparr>)"
| drain_launch: "step st (st\<lparr>LAUNCH_AGG := hash_delete (LAUNCH_AGG st) lk\<rparr>)"
| drain_nccl: "step st (st\<lparr>NCCL_AGG := hash_delete (NCCL_AGG st) ak\<rparr>)"
| consume_events: "step st (st\<lparr>EVENTS := drop n (EVENTS st)\<rparr>)"
| consume_regs: "step st (st\<lparr>KERNEL_REGS := drop n (KERNEL_REGS st)\<rparr>)"
| sync_upgraded: "step st (st\<lparr>UPGRADED_PIDS := pids\<rparr>)"

inductive reachable :: "bpf_state \<Rightarrow> bool" where
  start: "reachable (initial mode rate detailed)"
| step: "reachable st \<Longrightarrow> step st st' \<Longrightarrow> reachable st'"

lemma initial_inv: "bpf_inv (initial mode rate detailed)"
  by (simp add: bpf_inv_def initial_def arrays_wf_def agg_wf_def nccl_wf_def launch_wf_def
      rings_wf_def alloc_wf_def nvtx_wf_def inflight_wf_def)

section \<open>Every probe keeps the invariant\<close>

lemma emit_exit_arrays_wf: "arrays_wf st \<Longrightarrow> arrays_wf (emit_exit E st)"
  by (simp add: arrays_wf_def emit_exit_fields split: option.split)

lemma emit_exit_agg_wf:
  assumes "agg_wf st"
  shows "agg_wf (emit_exit E st)"
proof (cases "INFLIGHT st (pid_tgid E)")
  case None
  with assms show ?thesis by (simp add: emit_exit_none)
next
  case (Some e)
  show ?thesis
  proof (cases "profi_is_aggregatable (ed_event_type e)")
    case False
    with assms Some show ?thesis by (simp add: agg_wf_def emit_exit_AGGREGATED)
  next
    case True
    define s where "s = (duration_of E e, ed_arg0 e, sample_mul st)"
    have eq: "AGGREGATED (emit_exit E st) = snd (upsert (agg_insert_fails E) agg_zero (smp_cpu E)
        (agg_bump s) (agg_new_val s) (AGGREGATED st) (agg_key E e))"
      using Some True by (simp add: emit_exit_AGGREGATED s_def Let_def)
    have old: "agg.consistent (slots c)" if "AGGREGATED st k = Some slots" for k slots c
      using assms that by (simp add: agg_wf_def agg.consistent_def)
    have "agg.consistent (slots c)" if "AGGREGATED (emit_exit E st) k = Some slots" for k slots c
      by (rule agg.upsert_consistent [where m = "AGGREGATED st" and slots = slots and c' = c])
         (erule old, rule that [unfolded eq])
    moreover have "profi_is_aggregatable (ak_event_type k)"
      if "AGGREGATED (emit_exit E st) k = Some slots" for k slots
      using assms that True unfolding eq
      by (cases "k = agg_key E e") (auto simp: agg_wf_def agg_key_def)
    ultimately show ?thesis by (auto simp: agg_wf_def agg.consistent_def)
  qed
qed

lemma emit_exit_nccl_wf:
  assumes "nccl_wf st"
  shows "nccl_wf (emit_exit E st)"
proof (cases "INFLIGHT st (pid_tgid E)")
  case None
  with assms show ?thesis by (simp add: emit_exit_none)
next
  case (Some e)
  show ?thesis
  proof (cases "profi_is_nccl_event (ed_event_type e)")
    case False
    with assms Some show ?thesis by (simp add: nccl_wf_def emit_exit_NCCL_AGG)
  next
    case True
    define s where "s = (duration_of E e, nccl_bytes e)"
    have eq: "NCCL_AGG (emit_exit E st) = snd (upsert (nccl_insert_fails E) nccl_zero (smp_cpu E)
        (nccl_bump s) (nccl_new_val s) (NCCL_AGG st) (nccl_key E e))"
      using Some True by (simp add: emit_exit_NCCL_AGG s_def Let_def)
    have old: "nccl.consistent (slots c)" if "NCCL_AGG st k = Some slots" for k slots c
      using assms that by (simp add: nccl_wf_def nccl.consistent_def)
    have "nccl.consistent (slots c)" if "NCCL_AGG (emit_exit E st) k = Some slots" for k slots c
      by (rule nccl.upsert_consistent [where m = "NCCL_AGG st" and slots = slots and c' = c])
         (erule old, rule that [unfolded eq])
    moreover have "profi_is_nccl_event (ak_event_type k) \<and> ak_stream k = 0"
      if "NCCL_AGG (emit_exit E st) k = Some slots" for k slots
      using assms that True unfolding eq
      by (cases "k = nccl_key E e") (auto simp: nccl_wf_def nccl_key_def)
    ultimately show ?thesis by (auto simp: nccl_wf_def nccl.consistent_def)
  qed
qed

lemma emit_exit_launch_wf:
  assumes "launch_wf st"
  shows "launch_wf (emit_exit E st)"
proof (cases "INFLIGHT st (pid_tgid E)")
  case None
  with assms show ?thesis by (simp add: emit_exit_none)
next
  case (Some e)
  show ?thesis
  proof (cases "ed_event_type e = EVENT_CUDA_LAUNCH_KERNEL")
    case False
    with assms Some show ?thesis by (simp add: launch_wf_def emit_exit_LAUNCH_AGG)
  next
    case True
    have eq: "LAUNCH_AGG (emit_exit E st) = snd (upsert (launch_insert_fails E) launch_zero
        (smp_cpu E) (launch_bump (duration_of E e)) (launch_new_val (duration_of E e))
        (LAUNCH_AGG st) (launch_key E e st))"
      using Some True by (simp add: emit_exit_LAUNCH_AGG)
    have old: "launch.consistent (slots c)" if "LAUNCH_AGG st k = Some slots" for k slots c
      using assms that by (simp add: launch_wf_def launch.consistent_def)
    have "launch.consistent (slots c)" if "LAUNCH_AGG (emit_exit E st) k = Some slots" for k slots c
      by (rule launch.upsert_consistent [where m = "LAUNCH_AGG st" and slots = slots and c' = c])
         (erule old, rule that [unfolded eq])
    moreover have "lk_pad k = 0" if "LAUNCH_AGG (emit_exit E st) k = Some slots" for k slots
      using assms that unfolding eq
      by (cases "k = launch_key E e st") (auto simp: launch_wf_def launch_key_def Let_def)
    ultimately show ?thesis by (auto simp: launch_wf_def launch.consistent_def)
  qed
qed

lemma mk_event_wf:
  "wf_env E \<Longrightarrow> nvtx_wf st \<Longrightarrow> emits_event E e st \<Longrightarrow> event_wf (mk_event E e d st)"
  by (auto simp: event_wf_def mk_event_def wf_env_def nvtx_wf_def emits_event_def split: option.split)

lemma emit_exit_rings_wf:
  "wf_env E \<Longrightarrow> nvtx_wf st \<Longrightarrow> rings_wf st \<Longrightarrow> rings_wf (emit_exit E st)"
  by (auto simp: rings_wf_def emit_exit_EVENTS mk_event_wf split: option.split)

lemma emit_exit_inflight_wf: "inflight_wf st \<Longrightarrow> inflight_wf (emit_exit E st)"
  by (auto simp: inflight_wf_def map_defs)

lemma emit_exit_inv:
  assumes "wf_env E" and "bpf_inv st"
  shows "bpf_inv (emit_exit E st)"
  using assms
  by (simp add: bpf_inv_def emit_exit_arrays_wf emit_exit_agg_wf emit_exit_nccl_wf
      emit_exit_launch_wf emit_exit_rings_wf emit_exit_inflight_wf)
     (simp add: alloc_wf_def nvtx_wf_def)

lemma note_alloc_inv: "bpf_inv st \<Longrightarrow> bpf_inv (note_alloc E st)"
  by (simp add: bpf_inv_def)
     (auto simp: alloc_wf_def note_alloc_def map_defs restrict_map_def split: option.splits if_splits)

lemma save_entry_inv: "bpf_inv st \<Longrightarrow> bpf_inv (save_entry E t a0 a1 a2 st)"
  by (simp add: bpf_inv_def)
     (auto simp: inflight_wf_def save_entry_INFLIGHT map_defs restrict_map_def split: if_splits)

lemma read_name_wf: "length (read_name src) = 64 \<and> read_name src ! 63 = 0"
  by (auto simp: read_name_def Let_def nth_append split: option.split)

text \<open>The entry probes change the maps below \<open>save_entry\<close> only in ways the invariant allows.\<close>

lemma malloc_ptrs_inv:
  "bpf_inv st \<Longrightarrow> p \<noteq> 0 \<Longrightarrow> bpf_inv (st\<lparr>MALLOC_PTRS := lru_update ev (MALLOC_PTRS st) i p\<rparr>)"
  by (simp add: bpf_inv_def) (auto simp: alloc_wf_def map_defs restrict_map_def split: if_splits)

lemma malloc_sizes_delete_inv:
  "bpf_inv st \<Longrightarrow> bpf_inv (st\<lparr>MALLOC_SIZES := hash_delete (MALLOC_SIZES st) k\<rparr>)"
  by (simp add: bpf_inv_def) (auto simp: alloc_wf_def map_defs split: if_splits)

lemma nvtx_push_inv: "bpf_inv st \<Longrightarrow> bpf_inv (nvtx_range_push m E st)"
  using read_name_wf
  by (simp add: bpf_inv_def nvtx_range_push_def)
     (auto simp: nvtx_wf_def map_defs restrict_map_def split: if_splits)

lemma nvtx_pop_inv: "bpf_inv st \<Longrightarrow> bpf_inv (nvtx_range_pop E st)"
  by (simp add: bpf_inv_def nvtx_range_pop_def) (auto simp: nvtx_wf_def map_defs split: if_splits)

lemma register_inv: "bpf_inv st \<Longrightarrow> bpf_inv (cuda_register_function f h d n E st)"
  by (simp add: bpf_inv_def cuda_register_function_def) (auto simp: rings_wf_def map_defs)

lemma inflight_put_inv:
  "bpf_inv st \<Longrightarrow> ed_pad e = 0 \<Longrightarrow> bpf_inv (st\<lparr>INFLIGHT := lru_update ev (INFLIGHT st) i e\<rparr>)"
  by (simp add: bpf_inv_def) (auto simp: inflight_wf_def map_defs restrict_map_def split: if_splits)

lemma drop_inflight_inv: "bpf_inv st \<Longrightarrow> bpf_inv (drop_inflight E st)"
  by (simp add: bpf_inv_def drop_inflight_def) (auto simp: inflight_wf_def map_defs)

lemma kernel_regs_inv:
  "bpf_inv st \<Longrightarrow> kr_pad r = 0 \<Longrightarrow>
     bpf_inv (st\<lparr>KERNEL_REGS := ringbuf_submit (KERNEL_REGS st) r\<rparr>)"
  by (simp add: bpf_inv_def) (auto simp: rings_wf_def map_defs)

lemma get_function_inv: "bpf_inv st \<Longrightarrow> bpf_inv (cu_module_get_function h m n E st)"
  by (simp add: cu_module_get_function_def Let_def inflight_put_inv)

lemma get_function_ret_inv: "bpf_inv st \<Longrightarrow> bpf_inv (cu_module_get_function_ret E st)"
  by (simp add: cu_module_get_function_ret_def drop_inflight_inv kernel_regs_inv split: option.split)

lemma malloc_entry_inv:
  "bpf_inv st \<Longrightarrow> bpf_inv (cuda_malloc pp n E st)"
  "bpf_inv st \<Longrightarrow> bpf_inv (cuda_malloc_async pp n s E st)"
  by (simp_all add: cuda_malloc_def cuda_malloc_async_def Let_def save_entry_inv malloc_ptrs_inv)

lemma free_entry_inv:
  "bpf_inv st \<Longrightarrow> bpf_inv (cuda_free p E st)"
  "bpf_inv st \<Longrightarrow> bpf_inv (cuda_free_async p s E st)"
  by (simp_all add: cuda_free_def cuda_free_async_def Let_def save_entry_inv malloc_sizes_delete_inv
      split: option.split)

lemma fire_inv:
  assumes "wf_env E" and "bpf_inv st"
  shows "bpf_inv (fire E p st)"
proof (cases "is_exit p")
  case True
  then show ?thesis
    using assms by (simp add: fire_exit before_exit_def emit_exit_inv note_alloc_inv)
next
  case False
  note specials = malloc_entry_inv free_entry_inv register_inv get_function_inv
    get_function_ret_inv nvtx_push_inv nvtx_pop_inv
  show ?thesis
  proof (cases p)
    case (Memory q)
    with assms False show ?thesis
      by (cases q) (simp_all add: specials is_exit_def save_entry_inv cuda_memcpy_def
        cuda_memcpy_async_def cuda_malloc_host_def cuda_free_host_def cuda_memset_def
        cuda_memset_async_def)
  next
    case (Runtime q)
    with assms False show ?thesis
      by (cases q) (simp_all add: specials is_exit_def save_entry_inv cuda_launch_kernel_def
        cuda_stream_sync_def cuda_event_sync_def cuda_graph_launch_def cuda_graph_instantiate_def)
  next
    case (Driver q)
    with assms False show ?thesis
      by (cases q) (simp_all add: specials is_exit_def save_entry_inv cu_launch_kernel_def
        cu_launch_kernel_ex_def cu_launch_cooperative_kernel_def cu_graph_launch_def
        cu_module_load_data_def)
  next
    case (Nvtx q)
    with assms show ?thesis by (cases q) (simp_all add: specials)
  next
    case (Nccl q)
    with assms False show ?thesis
      by (cases q) (simp_all add: is_exit_def save_entry_inv probe_defs)
  qed
qed

lemma step_inv: "step st st' \<Longrightarrow> bpf_inv st \<Longrightarrow> bpf_inv st'"
proof (induction rule: step.induct)
  case (probe E st p)
  then show ?case by (simp add: fire_inv)
next
  case (drain_aggregated st ak)
  then show ?case by (simp add: bpf_inv_def) (auto simp: agg_wf_def map_defs split: if_splits)
next
  case (drain_launch st lk)
  then show ?case by (simp add: bpf_inv_def) (auto simp: launch_wf_def map_defs split: if_splits)
next
  case (drain_nccl st ak)
  then show ?case by (simp add: bpf_inv_def) (auto simp: nccl_wf_def map_defs split: if_splits)
qed (auto simp: bpf_inv_def rings_wf_def list_all_iff dest: in_set_dropD)

lemma reachable_inv: "reachable st \<Longrightarrow> bpf_inv st"
  by (induction rule: reachable.induct) (auto intro: initial_inv step_inv)

end
