(* ===== verification/Refinement.thy ===== *)
theory Refinement
  imports Invariants
begin

text \<open>
  What the aggregate maps mean. The abstract view of a run of probe firings is the list
  of completed calls: the return probes that found their thread's entry in flight. The
  abstract value of an aggregate is a summary of that list; the maps filled incrementally
  by \<^verbatim>\<open>emit_exit\<close>, slot by slot and CPU by CPU, refine it.
\<close>

section \<open>Runs and completed calls\<close>

type_synonym firing = "env \<times> probe"

primrec run :: "firing list \<Rightarrow> bpf_state \<Rightarrow> bpf_state" where
  "run [] st = st"
| "run (f # fs) st = run fs (fire (fst f) (snd f) st)"

definition completed :: "env \<Rightarrow> probe \<Rightarrow> bpf_state \<Rightarrow> EntryData option" where
  "completed E p st = (if is_exit p then INFLIGHT st (pid_tgid E) else None)"

primrec calls :: "firing list \<Rightarrow> bpf_state \<Rightarrow> (env \<times> EntryData) list" where
  "calls [] st = []"
| "calls (f # fs) st =
     (case completed (fst f) (snd f) st of None \<Rightarrow> [] | Some e \<Rightarrow> [(fst f, e)]) @
     calls fs (fire (fst f) (snd f) st)"

lemma run_append: "run (fs @ gs) st = run gs (run fs st)"
  by (induction fs arbitrary: st) simp_all

lemma run_config [simp]:
  "DETAILED_LAUNCHES (run fs st) = DETAILED_LAUNCHES st"
  "UPGRADED_PIDS (run fs st) = UPGRADED_PIDS st"
  "KERNEL_AGG_MODE (run fs st) = KERNEL_AGG_MODE st"
  "SAMPLE_RATE (run fs st) = SAMPLE_RATE st"
  by (induction fs arbitrary: st) simp_all

lemma sample_mul_cong: "SAMPLE_RATE st' = SAMPLE_RATE st \<Longrightarrow> sample_mul st' = sample_mul st"
  by (simp add: sample_mul_def)

lemma launch_key_cong:
  "KERNEL_AGG_MODE st' = KERNEL_AGG_MODE st \<Longrightarrow> UPGRADED_PIDS st' = UPGRADED_PIDS st \<Longrightarrow>
     launch_key E e st' = launch_key E e st"
  by (simp add: launch_key_def launch_mode_def)

lemma run_reachable:
  "reachable st \<Longrightarrow> list_all (\<lambda>f. wf_env (fst f)) fs \<Longrightarrow> reachable (run fs st)"
  by (induction fs arbitrary: st) (auto intro: reachable.step step.probe)

lemma calls_cpus:
  "list_all (\<lambda>f. smp_cpu (fst f) \<in> set cpus) fs \<Longrightarrow> \<forall>x \<in> set (calls fs st). smp_cpu (fst x) \<in> set cpus"
  by (induction fs arbitrary: st) (auto split: option.splits)

section \<open>One firing\<close>

text \<open>A firing adds to an aggregate map exactly the sample of the call it completes.\<close>

lemma fire_AGGREGATED:
  "AGGREGATED (fire E p st) =
     (case completed E p st of
        None \<Rightarrow> AGGREGATED st
      | Some e \<Rightarrow>
          if profi_is_aggregatable (ed_event_type e)
          then (let s = (duration_of E e, ed_arg0 e, sample_mul st)
                in snd (upsert (agg_insert_fails E) agg_zero (smp_cpu E) (agg_bump s)
                     (agg_new_val s) (AGGREGATED st) (agg_key E e)))
          else AGGREGATED st)"
proof (cases "is_exit p")
  case True
  have "sample_mul (before_exit E p st) = sample_mul st"
    by (rule sample_mul_cong) simp
  with True show ?thesis
    by (simp add: completed_def fire_exit emit_exit_AGGREGATED split: option.split)
next
  case False
  then show ?thesis by (simp add: completed_def fire_frame)
qed

lemma fire_NCCL_AGG:
  "NCCL_AGG (fire E p st) =
     (case completed E p st of
        None \<Rightarrow> NCCL_AGG st
      | Some e \<Rightarrow>
          if profi_is_nccl_event (ed_event_type e)
          then (let s = (duration_of E e, nccl_bytes e)
                in snd (upsert (nccl_insert_fails E) nccl_zero (smp_cpu E) (nccl_bump s)
                     (nccl_new_val s) (NCCL_AGG st) (nccl_key E e)))
          else NCCL_AGG st)"
  by (cases "is_exit p")
     (simp_all add: completed_def fire_exit emit_exit_NCCL_AGG fire_frame split: option.split)

lemma fire_LAUNCH_AGG:
  "LAUNCH_AGG (fire E p st) =
     (case completed E p st of
        None \<Rightarrow> LAUNCH_AGG st
      | Some e \<Rightarrow>
          if ed_event_type e = EVENT_CUDA_LAUNCH_KERNEL
          then snd (upsert (launch_insert_fails E) launch_zero (smp_cpu E)
                 (launch_bump (duration_of E e)) (launch_new_val (duration_of E e))
                 (LAUNCH_AGG st) (launch_key E e st))
          else LAUNCH_AGG st)"
proof (cases "is_exit p")
  case True
  have "launch_key E e (before_exit E p st) = launch_key E e st" for e
    by (rule launch_key_cong) simp_all
  with True show ?thesis
    by (simp add: completed_def fire_exit emit_exit_LAUNCH_AGG split: option.split)
next
  case False
  then show ?thesis by (simp add: completed_def fire_frame)
qed

section \<open>Abstract summaries\<close>

text \<open>The samples that the completed calls contribute to one slot.\<close>

definition agg_samples ::
    "AggKey \<Rightarrow> cpu \<Rightarrow> (env \<times> EntryData) list \<Rightarrow> (u64 \<times> u64) list" where
  "agg_samples k c cs =
     map (\<lambda>(E, e). (duration_of E e, ed_arg0 e))
       (filter (\<lambda>(E, e). profi_is_aggregatable (ed_event_type e) \<and> agg_key E e = k \<and> smp_cpu E = c) cs)"

definition nccl_samples :: "AggKey \<Rightarrow> cpu \<Rightarrow> (env \<times> EntryData) list \<Rightarrow> (u64 \<times> u64) list" where
  "nccl_samples k c cs =
     map (\<lambda>(E, e). (duration_of E e, nccl_bytes e))
       (filter (\<lambda>(E, e). profi_is_nccl_event (ed_event_type e) \<and> nccl_key E e = k \<and> smp_cpu E = c) cs)"

definition launch_samples ::
    "bpf_state \<Rightarrow> LaunchKey \<Rightarrow> cpu \<Rightarrow> (env \<times> EntryData) list \<Rightarrow> u64 list" where
  "launch_samples st k c cs =
     map (\<lambda>(E, e). duration_of E e)
       (filter (\<lambda>(E, e). ed_event_type e = EVENT_CUDA_LAUNCH_KERNEL \<and> launch_key E e st = k \<and>
                          smp_cpu E = c) cs)"

lemma samples_append [simp]:
  "agg_samples k c (cs @ ds) = agg_samples k c cs @ agg_samples k c ds"
  "nccl_samples k c (cs @ ds) = nccl_samples k c cs @ nccl_samples k c ds"
  "launch_samples st lk c (cs @ ds) = launch_samples st lk c cs @ launch_samples st lk c ds"
  by (simp_all add: agg_samples_def nccl_samples_def launch_samples_def)

lemma samples_nil [simp]:
  "agg_samples k c [] = []" "nccl_samples k c [] = []" "launch_samples st lk c [] = []"
  by (simp_all add: agg_samples_def nccl_samples_def launch_samples_def)

section \<open>Simulation\<close>

lemma fire_agg_slot:
  assumes "\<not> agg_insert_fails E"
  shows "slot agg_zero (AGGREGATED (fire E p st)) k c =
    fold agg_bump (map (\<lambda>(d, a). (d, a, sample_mul st))
        (agg_samples k c (case completed E p st of None \<Rightarrow> [] | Some e \<Rightarrow> [(E, e)])))
      (slot agg_zero (AGGREGATED st) k c)"
  using assms
  by (auto simp: fire_AGGREGATED agg_samples_def agg.slot_upsert Let_def split: option.split)

lemma fire_nccl_slot:
  assumes "\<not> nccl_insert_fails E"
  shows "slot nccl_zero (NCCL_AGG (fire E p st)) k c =
    fold nccl_bump (nccl_samples k c
        (case completed E p st of None \<Rightarrow> [] | Some e \<Rightarrow> [(E, e)]))
      (slot nccl_zero (NCCL_AGG st) k c)"
  using assms
  by (auto simp: fire_NCCL_AGG nccl_samples_def nccl.slot_upsert Let_def split: option.split)

lemma fire_launch_slot:
  assumes "\<not> launch_insert_fails E"
  shows "slot launch_zero (LAUNCH_AGG (fire E p st)) k c =
    fold launch_bump (launch_samples st k c
        (case completed E p st of None \<Rightarrow> [] | Some e \<Rightarrow> [(E, e)]))
      (slot launch_zero (LAUNCH_AGG st) k c)"
  using assms
  by (auto simp: fire_LAUNCH_AGG launch_samples_def launch.slot_upsert split: option.split)

lemma run_agg_slot:
  assumes "list_all (\<lambda>f. \<not> agg_insert_fails (fst f)) fs"
  shows "slot agg_zero (AGGREGATED (run fs st)) k c =
    fold agg_bump (map (\<lambda>(d, a). (d, a, sample_mul st)) (agg_samples k c (calls fs st)))
      (slot agg_zero (AGGREGATED st) k c)"
  using assms
proof (induction fs arbitrary: st)
  case Nil
  then show ?case by simp
next
  case (Cons f fs)
  have "sample_mul (fire (fst f) (snd f) st) = sample_mul st"
    by (rule sample_mul_cong) simp
  with Cons show ?case by (simp add: fire_agg_slot)
qed

lemma run_nccl_slot:
  assumes "list_all (\<lambda>f. \<not> nccl_insert_fails (fst f)) fs"
  shows "slot nccl_zero (NCCL_AGG (run fs st)) k c =
    fold nccl_bump (nccl_samples k c (calls fs st)) (slot nccl_zero (NCCL_AGG st) k c)"
  using assms
  by (induction fs arbitrary: st) (simp_all add: fire_nccl_slot)

lemma launch_samples_cong:
  "KERNEL_AGG_MODE st' = KERNEL_AGG_MODE st \<Longrightarrow> UPGRADED_PIDS st' = UPGRADED_PIDS st \<Longrightarrow>
     launch_samples st' k c cs = launch_samples st k c cs"
  by (simp add: launch_samples_def launch_key_cong [of st' st])

lemma run_launch_slot:
  assumes "list_all (\<lambda>f. \<not> launch_insert_fails (fst f)) fs"
  shows "slot launch_zero (LAUNCH_AGG (run fs st)) k c =
    fold launch_bump (launch_samples st k c (calls fs st)) (slot launch_zero (LAUNCH_AGG st) k c)"
  using assms
proof (induction fs arbitrary: st)
  case Nil
  then show ?case by simp
next
  case (Cons f fs)
  have "launch_samples (fire (fst f) (snd f) st) k c cs = launch_samples st k c cs" for cs
    by (rule launch_samples_cong) simp_all
  with Cons show ?case by (simp add: fire_launch_slot)
qed

section \<open>Summaries\<close>

text \<open>
  The abstract value of an aggregate: counts, sums and maxima over the list of its
  samples, and for each histogram cell the number of samples whose duration lies between
  the neighbouring bounds. Counts of \<^verbatim>\<open>AGGREGATED\<close> are scaled by the sampling rate.
\<close>

definition agg_summary :: "u64 \<Rightarrow> (u64 \<times> u64) list \<Rightarrow> AggValue" where
  "agg_summary mul ss =
     \<lparr>av_count = of_nat (length ss) * mul,
      av_duration_sum_ns = sum_list (map fst ss) * mul,
      av_size_sum = sum_list (map snd ss) * mul,
      av_bucket_counts =
        map (\<lambda>i. of_nat (length (filter (in_bucket CUDA_BUCKET_BOUNDS_NS i \<circ> fst) ss)) * ucast mul)
          [0..<14]\<rparr>"

definition nccl_summary :: "(u64 \<times> u64) list \<Rightarrow> NcclAggValue" where
  "nccl_summary ss =
     \<lparr>nv_count = of_nat (length ss),
      nv_duration_sum_ns = sum_list (map fst ss),
      nv_bytes_sum = sum_list (map snd ss),
      nv_bucket_counts =
        map (\<lambda>i. of_nat (length (filter (in_bucket NCCL_BUCKET_BOUNDS_NS i \<circ> fst) ss))) [0..<12]\<rparr>"

definition launch_summary :: "u64 list \<Rightarrow> LaunchAggValue" where
  "launch_summary ds =
     \<lparr>lv_count = of_nat (length ds),
      lv_total_duration_ns = sum_list ds,
      lv_max_duration_ns = Max (set (0 # ds)),
      lv_bucket_counts =
        map (\<lambda>i. of_nat (length (filter (in_bucket KERNEL_BUCKET_BOUNDS_NS i) ds))) [0..<9]\<rparr>"

lemma fold_agg_summary:
  "fold agg_bump (map (\<lambda>(d, a). (d, a, mul)) ss) agg_zero = agg_summary mul ss"
proof (rule AggValue.equality)
  let ?v = "fold agg_bump (map (\<lambda>(d, a). (d, a, mul)) ss) agg_zero"
  show "av_count ?v = av_count (agg_summary mul ss)"
    by (simp add: agg.cnt_fold agg_summary_def agg_zero_def comp_def case_prod_beta sum_list_const)
  show "av_duration_sum_ns ?v = av_duration_sum_ns (agg_summary mul ss)"
    by (simp add: agg_sums_fold agg_summary_def agg_zero_def comp_def case_prod_beta
        sum_list_mult_const)
  show "av_size_sum ?v = av_size_sum (agg_summary mul ss)"
    by (simp add: agg_sums_fold agg_summary_def agg_zero_def comp_def case_prod_beta
        sum_list_mult_const)
  have zero: "length (av_bucket_counts agg_zero) = 14" by (simp add: agg_zero_def)
  show "av_bucket_counts ?v = av_bucket_counts (agg_summary mul ss)"
  proof (rule nth_equalityI)
    show "length (av_bucket_counts ?v) = length (av_bucket_counts (agg_summary mul ss))"
      using agg.length_cells_fold [OF zero] by (simp add: agg_summary_def)
    fix i assume "i < length (av_bucket_counts ?v)"
    then have i: "i < 14" using agg.length_cells_fold [OF zero] by simp
    then have "nat (profi_cuda_bucket_idx d) = i \<longleftrightarrow> in_bucket CUDA_BUCKET_BOUNDS_NS i d" for d
      by (intro cuda_hist.idx_in_bucket) (simp_all add: CUDA_BUCKET_BOUNDS_NS_def)
    then show "av_bucket_counts ?v ! i = av_bucket_counts (agg_summary mul ss) ! i"
      using agg.cells_fold [OF zero i, of "map (\<lambda>(d, a). (d, a, mul)) ss"] i
      by (simp add: agg_summary_def agg_zero_def filter_map comp_def case_prod_beta sum_list_const)
  qed
qed simp

lemma fold_nccl_summary: "fold nccl_bump ss nccl_zero = nccl_summary ss"
proof (rule NcclAggValue.equality)
  let ?v = "fold nccl_bump ss nccl_zero"
  show "nv_count ?v = nv_count (nccl_summary ss)"
    by (simp add: nccl.cnt_fold nccl_summary_def nccl_zero_def sum_list_const)
  show "nv_duration_sum_ns ?v = nv_duration_sum_ns (nccl_summary ss)"
    and "nv_bytes_sum ?v = nv_bytes_sum (nccl_summary ss)"
    by (simp_all add: nccl_sums_fold nccl_summary_def nccl_zero_def)
  have zero: "length (nv_bucket_counts nccl_zero) = 12" by (simp add: nccl_zero_def)
  show "nv_bucket_counts ?v = nv_bucket_counts (nccl_summary ss)"
  proof (rule nth_equalityI)
    show "length (nv_bucket_counts ?v) = length (nv_bucket_counts (nccl_summary ss))"
      using nccl.length_cells_fold [OF zero] by (simp add: nccl_summary_def)
    fix i assume "i < length (nv_bucket_counts ?v)"
    then have i: "i < 12" using nccl.length_cells_fold [OF zero] by simp
    then have "nat (profi_nccl_bucket_idx d) = i \<longleftrightarrow> in_bucket NCCL_BUCKET_BOUNDS_NS i d" for d
      by (intro nccl_hist.idx_in_bucket) (simp_all add: NCCL_BUCKET_BOUNDS_NS_def)
    then show "nv_bucket_counts ?v ! i = nv_bucket_counts (nccl_summary ss) ! i"
      using nccl.cells_fold [OF zero i, of ss] i
      by (simp add: nccl_summary_def nccl_zero_def comp_def case_prod_beta sum_list_const)
  qed
qed simp

lemma fold_launch_summary: "fold launch_bump ds launch_zero = launch_summary ds"
proof (rule LaunchAggValue.equality)
  let ?v = "fold launch_bump ds launch_zero"
  show "lv_count ?v = lv_count (launch_summary ds)"
    by (simp add: launch.cnt_fold launch_summary_def launch_zero_def sum_list_const)
  show "lv_total_duration_ns ?v = lv_total_duration_ns (launch_summary ds)"
    by (simp add: launch_sum_fold launch_summary_def launch_zero_def)
  show "lv_max_duration_ns ?v = lv_max_duration_ns (launch_summary ds)"
    by (simp add: launch_max_fold launch_summary_def launch_zero_def Max.set_eq_fold del: list.set(2) fold.simps(2))
  have zero: "length (lv_bucket_counts launch_zero) = 9" by (simp add: launch_zero_def)
  show "lv_bucket_counts ?v = lv_bucket_counts (launch_summary ds)"
  proof (rule nth_equalityI)
    show "length (lv_bucket_counts ?v) = length (lv_bucket_counts (launch_summary ds))"
      using launch.length_cells_fold [OF zero] by (simp add: launch_summary_def)
    fix i assume "i < length (lv_bucket_counts ?v)"
    then have i: "i < 9" using launch.length_cells_fold [OF zero] by simp
    then have "nat (profi_kernel_bucket_idx d) = i \<longleftrightarrow> in_bucket KERNEL_BUCKET_BOUNDS_NS i d" for d
      by (intro kernel_hist.idx_in_bucket) (simp_all add: KERNEL_BUCKET_BOUNDS_NS_def)
    then show "lv_bucket_counts ?v ! i = lv_bucket_counts (launch_summary ds) ! i"
      using launch.cells_fold [OF zero i, of ds] i
      by (simp add: launch_summary_def launch_zero_def comp_def sum_list_const)
  qed
qed simp

section \<open>Events and drop counters of a run\<close>

lemma emits_event_cong:
  "KERNEL_AGG_MODE st' = KERNEL_AGG_MODE st \<Longrightarrow> UPGRADED_PIDS st' = UPGRADED_PIDS st \<Longrightarrow>
     DETAILED_LAUNCHES st' = DETAILED_LAUNCHES st \<Longrightarrow> emits_event E e st' = emits_event E e st"
  by (simp add: emits_event_def launch_mode_def)

text \<open>An event apart from the NVTX marker, which depends on the ranges open at the time.\<close>

definition unmarked :: "CudaEvent \<Rightarrow> CudaEvent" where
  "unmarked ev = ev\<lparr>ce_nvtx_marker := []\<rparr>"

definition call_event :: "env \<times> EntryData \<Rightarrow> CudaEvent" where
  "call_event = (\<lambda>(E, e).
     \<lparr>ce_event_type = ed_event_type e, ce_pid = pid_of (pid_tgid E), ce_tid = tid_of (pid_tgid E),
      ce_memcpy_kind = ucast (ed_arg1 e), ce_timestamp_ns = ktime_ns E,
      ce_duration_ns = duration_of E e, ce_size = ed_arg0 e, ce_addr = ed_arg0 e,
      ce_stream = ed_arg2 e, ce_nvtx_marker = [], ce_comm = current_comm E,
      ce_error_code = ucast (regs_rc E), ce_pad2 = 0\<rparr>)"

lemma unmarked_mk_event: "unmarked (mk_event E e (duration_of E e) st) = call_event (E, e)"
  by (simp add: unmarked_def mk_event_def call_event_def)

definition reported :: "bpf_state \<Rightarrow> (env \<times> EntryData) list \<Rightarrow> (env \<times> EntryData) list" where
  "reported st cs = filter (\<lambda>(E, e). emits_event E e st) cs"

lemma reported_simps [simp]:
  "reported st [] = []" "reported st (cs @ ds) = reported st cs @ reported st ds"
  by (simp_all add: reported_def)

lemma reported_cong:
  "KERNEL_AGG_MODE st' = KERNEL_AGG_MODE st \<Longrightarrow> UPGRADED_PIDS st' = UPGRADED_PIDS st \<Longrightarrow>
     DETAILED_LAUNCHES st' = DETAILED_LAUNCHES st \<Longrightarrow> reported st' cs = reported st cs"
  by (simp add: reported_def emits_event_cong [of st' st])

lemma fire_EVENTS:
  "map unmarked (EVENTS (fire E p st)) = map unmarked (EVENTS st) @
     map call_event (filter (\<lambda>(E, e). reserve_events E)
       (reported st (case completed E p st of None \<Rightarrow> [] | Some e \<Rightarrow> [(E, e)])))"
proof (cases "is_exit p")
  case True
  have "emits_event E e (before_exit E p st) = emits_event E e st" for e
    by (rule emits_event_cong) simp_all
  with True show ?thesis
    by (auto simp: completed_def fire_exit emit_exit_EVENTS reported_def unmarked_mk_event
        split: option.split)
next
  case False
  then show ?thesis by (simp add: completed_def fire_frame reported_def)
qed

lemma fire_DROPPED:
  assumes "length (DROPPED st c) = 1"
  shows "DROPPED (fire E p st) c = [DROPPED st c ! 0 +
    of_nat (length (filter (\<lambda>(E, e). \<not> reserve_events E \<and> smp_cpu E = c)
      (reported st (case completed E p st of None \<Rightarrow> [] | Some e \<Rightarrow> [(E, e)]))))]"
proof -
  have one: "DROPPED st c = [DROPPED st c ! 0]"
    using assms by (cases "DROPPED st c") simp_all
  show ?thesis
  proof (cases "is_exit p")
    case True
    have "emits_event E e (before_exit E p st) = emits_event E e st" for e
      by (rule emits_event_cong) simp_all
    with True one assms show ?thesis
      by (cases "smp_cpu E = c")
         (auto simp: completed_def fire_exit emit_exit_DROPPED reported_def bump_dropped_same
           split: option.split)
  next
    case False
    with one show ?thesis by (simp add: completed_def fire_frame reported_def)
  qed
qed

lemma run_DROPPED:
  "length (DROPPED st c) = 1 \<Longrightarrow> DROPPED (run fs st) c = [DROPPED st c ! 0 +
     of_nat (length (filter (\<lambda>(E, e). \<not> reserve_events E \<and> smp_cpu E = c)
       (reported st (calls fs st))))]"
proof (induction fs arbitrary: st)
  case Nil
  then show ?case by (cases "DROPPED st c") simp_all
next
  case (Cons f fs)
  have "reported (fire (fst f) (snd f) st) cs = reported st cs" for cs
    by (rule reported_cong) simp_all
  with Cons.IH [of "fire (fst f) (snd f) st"] Cons.prems show ?case
    by (simp add: fire_DROPPED ac_simps)
qed

lemma run_EVENTS:
  "map unmarked (EVENTS (run fs st)) = map unmarked (EVENTS st) @
     map call_event (filter (\<lambda>(E, e). reserve_events E) (reported st (calls fs st)))"
proof (induction fs arbitrary: st)
  case Nil
  then show ?case by simp
next
  case (Cons f fs)
  have "reported (fire (fst f) (snd f) st) cs = reported st cs" for cs
    by (rule reported_cong) simp_all
  with Cons show ?case by (simp add: fire_EVENTS)
qed

section \<open>Properties\<close>

text \<open>A memory copy of 64 bytes traced from 100 ns to 1600 ns, and an in-place all-reduce.\<close>

definition memcpy_run :: "firing list" where
  "memcpy_run = [(sample_env 100 7 0, Memory (P_cuda_memcpy 0 0 64 1)),
                 (sample_env 1600 7 0, Memory P_cuda_memcpy_ret)]"

definition launch_run :: "firing list" where
  "launch_run = [(sample_env 100 7 0, Runtime (P_cuda_launch_kernel 4096)),
                 (sample_env 1600 7 0, Runtime P_cuda_launch_kernel_ret)]"

definition all_reduce_run :: "firing list" where
  "all_reduce_run = [(sample_env 100 7 0, Nccl (P_nccl_all_reduce 0 0 256 7)),
                     (sample_env 60100 7 0, Nccl P_nccl_all_reduce_ret)]"

lemmas run_eval =
  fire_exit before_exit_def is_exit_def is_malloc_ret_def completed_def save_entry_INFLIGHT
  sample_entry_def cfg_u32_def map_defs restrict_map_def duration_of_def

lemma memcpy_run_calls:
  "calls memcpy_run (initial 0 1 0) = [(sample_env 1600 7 0, new_entry (sample_env 100 7 0) EVENT_CUDA_MEMCPY 64 1 0)]"
  by (simp add: memcpy_run_def run_eval cuda_memcpy_def)

lemma launch_run_calls:
  "calls launch_run (initial 0 1 d) =
     [(sample_env 1600 7 0, new_entry (sample_env 100 7 0) EVENT_CUDA_LAUNCH_KERNEL 4096 0 0)]"
  by (simp add: launch_run_def run_eval cuda_launch_kernel_def)

lemma all_reduce_run_calls:
  "calls all_reduce_run (initial 0 1 0) =
     [(sample_env 60100 7 0, new_entry (sample_env 100 7 0) EVENT_NCCL_ALL_REDUCE 256 7 0)]"
  by (simp add: all_reduce_run_def run_eval nccl_all_reduce_def)

lemma sample_runs_fit [simp]:
  "list_all (\<lambda>f. \<not> agg_insert_fails (fst f)) memcpy_run"
  "list_all (\<lambda>f. \<not> nccl_insert_fails (fst f)) all_reduce_run"
  "list_all (\<lambda>f. \<not> launch_insert_fails (fst f)) launch_run"
  by (simp_all add: memcpy_run_def all_reduce_run_def launch_run_def)



text \<open>
  C4. \<^verbatim>\<open>NCCL_AGG\<close> refines the list of completed collectives in the same way: count, duration
  and byte sums and the twelve histogram cells of a key and CPU are those of the calls
  completed there, unscaled since collectives are never sampled.
\<close>

theorem nccl_agg_refines_calls:
  assumes "NCCL_AGG st k = None" and "list_all (\<lambda>f. \<not> nccl_insert_fails (fst f)) fs"
  shows "slot nccl_zero (NCCL_AGG (run fs st)) k c = nccl_summary (nccl_samples k c (calls fs st))"
proof -
  have "slot nccl_zero (NCCL_AGG st) k c = nccl_zero"
    using assms(1) by (simp add: slot_def)
  then show ?thesis by (simp add: run_nccl_slot [OF assms(2)] fold_nccl_summary)
qed

theorem nccl_agg_refines_calls_witness:
  "slot nccl_zero (NCCL_AGG (run all_reduce_run (initial 0 1 0)))
     \<lparr>ak_event_type = EVENT_NCCL_ALL_REDUCE, ak_pid = 0, ak_memcpy_kind = 7, ak_error_code = 0,
      ak_stream = 0\<rparr> 0 = nccl_summary [(60000, 2048)]"
  by (subst nccl_agg_refines_calls)
     (simp_all add: all_reduce_run_calls nccl_samples_def nccl_key_def pid_of_def duration_of_def
       nccl_bytes_def nccl_dtype_size_def NCCL_DTYPE_SIZES_def profi_is_nccl_event_def event_defs)

text \<open>
  C5. \<^verbatim>\<open>LAUNCH_AGG\<close> refines the list of completed kernel launches: count, total and maximal
  duration and the nine histogram cells of a key and CPU are those of the launches whose
  key, with or without the kernel's identity as the mode of the process says, is that key.
\<close>

theorem launch_agg_refines_calls:
  assumes "LAUNCH_AGG st k = None" and "list_all (\<lambda>f. \<not> launch_insert_fails (fst f)) fs"
  shows "slot launch_zero (LAUNCH_AGG (run fs st)) k c =
    launch_summary (launch_samples st k c (calls fs st))"
proof -
  have "slot launch_zero (LAUNCH_AGG st) k c = launch_zero"
    using assms(1) by (simp add: slot_def)
  then show ?thesis by (simp add: run_launch_slot [OF assms(2)] fold_launch_summary)
qed

theorem launch_agg_refines_calls_witness:
  "slot launch_zero (LAUNCH_AGG (run launch_run (initial 0 1 0)))
     \<lparr>lk_pid = 0, lk_pad = 0, lk_host_fun = 4096, lk_stream = 0\<rparr> 0 = launch_summary [1500]"
  by (subst launch_agg_refines_calls)
     (simp_all add: launch_run_calls launch_samples_def launch_key_def launch_mode_def pid_of_def
       duration_of_def cfg_u32_def map_defs)

text \<open>
  C6. No event is lost silently. After any run, the event ring has grown by exactly one
  record for every reported call (a detailed launch or a call no aggregate takes) that got
  a reservation, in order and with the fields of that call, and on every CPU the drop
  counter has grown by the number of reported calls that got none.
\<close>

theorem events_accounted:
  assumes "arrays_wf st"
  shows "map unmarked (EVENTS (run fs st)) = map unmarked (EVENTS st) @
      map call_event (filter (\<lambda>(E, e). reserve_events E) (reported st (calls fs st))) \<and>
    DROPPED (run fs st) c = [DROPPED st c ! 0 +
      of_nat (length (filter (\<lambda>(E, e). \<not> reserve_events E \<and> smp_cpu E = c)
        (reported st (calls fs st))))]"
  using assms run_EVENTS [of fs st] run_DROPPED [of st c fs] by (simp add: arrays_wf_def)

theorem events_accounted_witness:
  "map ce_duration_ns (map unmarked (EVENTS (run launch_run (initial 0 1 1)))) = [1500] \<and>
   DROPPED (run launch_run (initial 0 1 1)) 0 = [0]"
proof -
  have "arrays_wf (initial 0 1 1)" by (simp add: arrays_wf_def)
  from events_accounted [OF this, of launch_run 0] show ?thesis
    by (simp add: launch_run_calls reported_def emits_event_def launch_mode_def cfg_u32_def
        map_defs call_event_def duration_of_def)
qed

text \<open>
  No launch is lost silently. The return probe that completes a launch adds one to the
  count of its key's slot, or, exactly when the key is new and the map has no room, to the
  drop counter of its CPU; never to both, and no other slot or counter moves.
\<close>

lemma launch_accounted:
  assumes "arrays_wf st" and "completed E p st = Some e"
    and "ed_event_type e = EVENT_CUDA_LAUNCH_KERNEL"
  defines "lost \<equiv> LAUNCH_AGG st (launch_key E e st) = None \<and> launch_insert_fails E"
  shows "lv_count (slot launch_zero (LAUNCH_AGG (fire E p st)) k c) =
      lv_count (slot launch_zero (LAUNCH_AGG st) k c) +
      (if c = smp_cpu E \<and> k = launch_key E e st \<and> \<not> lost then 1 else 0) \<and>
    LAUNCH_DROPPED (fire E p st) c ! 0 =
      LAUNCH_DROPPED st c ! 0 + (if c = smp_cpu E \<and> lost then 1 else 0)"
proof -
  have exit: "is_exit p" and entry: "INFLIGHT st (pid_tgid E) = Some e"
    using assms(2) by (auto simp: completed_def split: if_splits)
  have key: "launch_key E e (before_exit E p st) = launch_key E e st"
    by (rule launch_key_cong) simp_all
  have one: "length (LAUNCH_DROPPED st c) = 1" for c
    using assms(1) by (simp add: arrays_wf_def)
  have "LAUNCH_DROPPED (fire E p st) =
    (if lost then bump_dropped (smp_cpu E) (LAUNCH_DROPPED st) else LAUNCH_DROPPED st)"
    using exit entry assms(3) key by (auto simp: fire_exit emit_exit_LAUNCH_DROPPED lost_def)
  then have dropped: "LAUNCH_DROPPED (fire E p st) c ! 0 =
      LAUNCH_DROPPED st c ! 0 + (if c = smp_cpu E \<and> lost then 1 else 0)"
    using one [of "smp_cpu E"] by (auto simp: bump_dropped_same)
  have "LAUNCH_AGG (fire E p st) = LAUNCH_AGG st" if lost
    using that assms(2,3) by (simp add: fire_LAUNCH_AGG launch.upsert_lost lost_def)
  moreover have "slot launch_zero (LAUNCH_AGG (fire E p st)) k c =
      (if k = launch_key E e st \<and> c = smp_cpu E
       then launch_bump (duration_of E e) (slot launch_zero (LAUNCH_AGG st) (launch_key E e st) c)
       else slot launch_zero (LAUNCH_AGG st) k c)" if "\<not> lost"
    using that assms(2,3) by (auto simp: fire_LAUNCH_AGG launch.slot_upsert lost_def)
  ultimately show ?thesis using dropped by (cases lost) (simp_all add: launch.cnt_bump)
qed

text \<open>A launch in flight in thread 7, the map full for new keys.\<close>

definition full_env :: env where
  "full_env = (sample_env 1600 7 0)\<lparr>launch_insert_fails := True\<rparr>"

definition launched :: bpf_state where
  "launched = fire (sample_env 100 7 0) (Runtime (P_cuda_launch_kernel 4096)) (initial 0 1 0)"

lemma launch_accounted_witness:
  "LAUNCH_DROPPED (fire full_env (Runtime P_cuda_launch_kernel_ret) launched) 0 ! 0 = 1 \<and>
   lv_count (slot launch_zero (LAUNCH_AGG (fire full_env (Runtime P_cuda_launch_kernel_ret) launched))
     \<lparr>lk_pid = 0, lk_pad = 0, lk_host_fun = 4096, lk_stream = 0\<rparr> 0) = 0"
proof -
  have wf: "arrays_wf launched"
    by (simp add: launched_def cuda_launch_kernel_def) (simp add: arrays_wf_def)
  have compl: "completed full_env (Runtime P_cuda_launch_kernel_ret) launched =
      Some (new_entry (sample_env 100 7 0) EVENT_CUDA_LAUNCH_KERNEL 4096 0 0)"
    by (simp add: launched_def full_env_def run_eval cuda_launch_kernel_def)
  from launch_accounted [OF wf compl, of "\<lparr>lk_pid = 0, lk_pad = 0, lk_host_fun = 4096, lk_stream = 0\<rparr>" 0]
  show ?thesis
    by (simp add: launched_def full_env_def cuda_launch_kernel_def launch_key_def launch_mode_def
        cfg_u32_def map_defs pid_of_def slot_def launch_zero_def)
qed

end
