(* ===== verification/Threads.thy ===== *)
theory Threads
  imports Refinement
begin

text \<open>
  Entries, exits and threads. \<open>traced\<close> lists, for every entry probe built on
  \<^verbatim>\<open>save_entry\<close>, the event type and arguments the call is recorded with. The lemmas show
  that firings of other threads leave a thread's entries alone, so that a call is paired
  with its own return probe across any interleaving, and what nested traced calls of one
  thread do to each other.
\<close>

section \<open>What each entry probe records\<close>

definition freed_size :: "u64 \<Rightarrow> env \<Rightarrow> bpf_state \<Rightarrow> u64" where
  "freed_size ptr E st =
     (if ptr = 0 then 0
      else case MALLOC_SIZES st \<lparr>mk_pid = pid_of (pid_tgid E), mk_pad = 0, mk_addr = ptr\<rparr> of
             Some sz \<Rightarrow> sz | None \<Rightarrow> 0)"

definition forget_alloc :: "u64 \<Rightarrow> env \<Rightarrow> bpf_state \<Rightarrow> bpf_state" where
  "forget_alloc ptr E st =
     st\<lparr>MALLOC_SIZES :=
          (if ptr = 0 then MALLOC_SIZES st
           else hash_delete (MALLOC_SIZES st)
                  \<lparr>mk_pid = pid_of (pid_tgid E), mk_pad = 0, mk_addr = ptr\<rparr>)\<rparr>"

lemma cuda_free_eq:
  "cuda_free ptr E st = save_entry E EVENT_CUDA_FREE (freed_size ptr E st) 0 0 (forget_alloc ptr E st)"
  by (auto simp: cuda_free_def freed_size_def forget_alloc_def map_defs fun_upd_idem split: option.split)

lemma cuda_free_async_eq:
  "cuda_free_async ptr s E st =
     save_entry E EVENT_CUDA_FREE_ASYNC (freed_size ptr E st) 0 s (forget_alloc ptr E st)"
  by (auto simp: cuda_free_async_def freed_size_def forget_alloc_def map_defs fun_upd_idem
      split: option.split)

definition traced_memory :: "env \<Rightarrow> bpf_state \<Rightarrow> memory_probe \<Rightarrow> (u32 \<times> u64 \<times> u64 \<times> u64) option" where
  "traced_memory E st p =
     (case p of
        P_cuda_malloc pp n \<Rightarrow> Some (EVENT_CUDA_MALLOC, n, 0, 0)
      | P_cuda_free ptr \<Rightarrow> Some (EVENT_CUDA_FREE, freed_size ptr E st, 0, 0)
      | P_cuda_memcpy dst src n kind \<Rightarrow> Some (EVENT_CUDA_MEMCPY, n, kind, 0)
      | P_cuda_memcpy_async dst src n kind s \<Rightarrow> Some (EVENT_CUDA_MEMCPY_ASYNC, n, kind, s)
      | P_cuda_malloc_async pp n s \<Rightarrow> Some (EVENT_CUDA_MALLOC_ASYNC, n, 0, s)
      | P_cuda_free_async ptr s \<Rightarrow> Some (EVENT_CUDA_FREE_ASYNC, freed_size ptr E st, 0, s)
      | P_cuda_malloc_host pp n \<Rightarrow> Some (EVENT_CUDA_MALLOC_HOST, n, 0, 0)
      | P_cuda_free_host ptr \<Rightarrow> Some (EVENT_CUDA_FREE_HOST, ptr, 0, 0)
      | P_cuda_memset dst v n \<Rightarrow> Some (EVENT_CUDA_MEMSET, n, 0, 0)
      | P_cuda_memset_async dst v n s \<Rightarrow> Some (EVENT_CUDA_MEMSET_ASYNC, n, 0, s)
      | _ \<Rightarrow> None)"

definition traced_runtime :: "runtime_probe \<Rightarrow> (u32 \<times> u64 \<times> u64 \<times> u64) option" where
  "traced_runtime p =
     (case p of
        P_cuda_launch_kernel f \<Rightarrow> Some (EVENT_CUDA_LAUNCH_KERNEL, f, 0, 0)
      | P_cuda_stream_sync s \<Rightarrow> Some (EVENT_CUDA_STREAM_SYNC, 0, 0, s)
      | P_cuda_event_sync ev \<Rightarrow> Some (EVENT_CUDA_EVENT_SYNC, ev, 0, 0)
      | P_cuda_graph_launch g s \<Rightarrow> Some (EVENT_CUDA_GRAPH_LAUNCH, g, 0, s)
      | P_cuda_graph_instantiate \<Rightarrow> Some (EVENT_CUDA_GRAPH_INSTANTIATE, 0, 0, 0)
      | _ \<Rightarrow> None)"

definition traced_driver :: "env \<Rightarrow> driver_probe \<Rightarrow> (u32 \<times> u64 \<times> u64 \<times> u64) option" where
  "traced_driver E p =
     (case p of
        P_cu_launch_kernel f \<Rightarrow> Some (EVENT_CUDA_LAUNCH_KERNEL, f, 0, 0)
      | P_cu_launch_kernel_ex config f \<Rightarrow> Some (EVENT_CUDA_LAUNCH_KERNEL, f, 0, 0)
      | P_cu_launch_cooperative_kernel f \<Rightarrow>
          Some (EVENT_CUDA_LAUNCH_KERNEL, f, 0, PT_REGS_PARM_STACK E 8)
      | P_cu_graph_launch g s \<Rightarrow> Some (EVENT_CUDA_LAUNCH_KERNEL, g, 0, s)
      | P_cu_module_load_data \<Rightarrow> Some (EVENT_CUDA_MODULE_LOAD, 0, 0, 0)
      | _ \<Rightarrow> None)"

definition traced_nccl :: "env \<Rightarrow> nccl_probe \<Rightarrow> (u32 \<times> u64 \<times> u64 \<times> u64) option" where
  "traced_nccl E p =
     (case p of
        P_nccl_count_dtype_3_4 s r n t \<Rightarrow> Some (ucast (attach_cookie E), n, t, 0)
      | P_nccl_count_dtype_2_3 b n t \<Rightarrow> Some (ucast (attach_cookie E), n, t, 0)
      | P_nccl_all_reduce s r n t \<Rightarrow> Some (EVENT_NCCL_ALL_REDUCE, n, t, 0)
      | P_nccl_all_gather s r n t \<Rightarrow> Some (EVENT_NCCL_ALL_GATHER, n, t, 0)
      | P_nccl_reduce_scatter s r n t \<Rightarrow> Some (EVENT_NCCL_REDUCE_SCATTER, n, t, 0)
      | P_nccl_broadcast s r n t \<Rightarrow> Some (EVENT_NCCL_BROADCAST, n, t, 0)
      | P_nccl_send b n t \<Rightarrow> Some (EVENT_NCCL_SEND, n, t, 0)
      | P_nccl_recv b n t \<Rightarrow> Some (EVENT_NCCL_RECV, n, t, 0)
      | _ \<Rightarrow> None)"

definition traced :: "env \<Rightarrow> bpf_state \<Rightarrow> probe \<Rightarrow> (u32 \<times> u64 \<times> u64 \<times> u64) option" where
  "traced E st p =
     (case p of
        Memory q \<Rightarrow> traced_memory E st q
      | Runtime q \<Rightarrow> traced_runtime q
      | Driver q \<Rightarrow> traced_driver E q
      | Nvtx q \<Rightarrow> None
      | Nccl q \<Rightarrow> traced_nccl E q)"

lemmas traced_defs =
  traced_def traced_memory_def traced_runtime_def traced_driver_def traced_nccl_def

lemma sample_entry_cong:
  assumes "SAMPLE_RATE st' = SAMPLE_RATE st" and "SAMPLE_COUNTER st' = SAMPLE_COUNTER st"
  shows "fst (sample_entry E t st') = fst (sample_entry E t st)"
  using assms by (simp add: sample_entry_def Let_def split: option.split)

text \<open>The other entries are those the insertion did not evict.\<close>

lemma fire_traced:
  assumes "traced E st p = Some (t, a0, a1, a2)"
  shows "INFLIGHT (fire E p st) =
    (if INFLIGHT st (pid_tgid E) = None \<and> fst (sample_entry E t st)
     then lru_update (evict_inflight E) (INFLIGHT st) (pid_tgid E) (new_entry E t a0 a1 a2)
     else INFLIGHT st)"
proof -
  have ptrs: "fst (sample_entry E t (st\<lparr>MALLOC_PTRS := m\<rparr>)) = fst (sample_entry E t st)" for t m
    by (rule sample_entry_cong) simp_all
  have sizes: "fst (sample_entry E t (forget_alloc x E st)) = fst (sample_entry E t st)" for t x
    by (rule sample_entry_cong) (simp_all add: forget_alloc_def)
  have inflight: "INFLIGHT (forget_alloc x E st) = INFLIGHT st" for x
    by (simp add: forget_alloc_def)
  show ?thesis
    using assms
    by (cases p; rename_tac q; case_tac q;
        simp add: traced_defs probe_defs cuda_free_eq cuda_free_async_eq Let_def
          save_entry_INFLIGHT ptrs sizes inflight del: cuda_free_def cuda_free_async_def; auto)
qed

lemma fire_saved:
  assumes "traced E st p = Some (t, a0, a1, a2)"
    and "INFLIGHT st (pid_tgid E) = None" and "fst (sample_entry E t st)"
  shows "INFLIGHT (fire E p st) (pid_tgid E) = Some (new_entry E t a0 a1 a2)"
  using assms(2,3) by (simp add: fire_traced [OF assms(1)] map_defs)

section \<open>Other threads\<close>

lemma lru_update_other:
  "i \<noteq> k \<Longrightarrow> lru_update ev m k v i = (if ev i then None else m i)"
  by (simp add: map_defs restrict_map_def)

lemma hash_delete_apply: "hash_delete m k i = (if i = k then None else m i)"
  by (simp add: map_defs)

lemma fire_INFLIGHT_other:
  assumes "i \<noteq> pid_tgid E"
  shows "INFLIGHT (fire E p st) i = INFLIGHT st i \<or>
    evict_inflight E i \<and> INFLIGHT (fire E p st) i = None"
proof (cases "is_exit p")
  case True
  with assms show ?thesis by (simp add: fire_exit hash_delete_apply)
next
  case False
  then show ?thesis
    using assms unfolding is_exit_def
    by (cases p; rename_tac q; case_tac q)
       (simp_all add: probe_defs Let_def save_entry_INFLIGHT lru_update_other hash_delete_apply
         split: option.split)
qed

lemma fire_NVTX_other:
  assumes "i \<noteq> pid_tgid E"
  shows "NVTX_STACK (fire E p st) i = NVTX_STACK st i \<or>
    evict_nvtx E i \<and> NVTX_STACK (fire E p st) i = None"
proof (cases "is_exit p")
  case True
  with assms show ?thesis by (simp add: fire_exit hash_delete_apply)
next
  case False
  then show ?thesis
    using assms unfolding is_exit_def
    by (cases p; rename_tac q; case_tac q)
       (simp_all add: probe_defs Let_def lru_update_other hash_delete_apply case_prod_beta
         split: option.split)
qed

lemma fire_MALLOC_PTRS_other:
  assumes "i \<noteq> pid_tgid E"
  shows "MALLOC_PTRS (fire E p st) i = MALLOC_PTRS st i \<or>
    evict_malloc_ptrs E i \<and> MALLOC_PTRS (fire E p st) i = None"
proof (cases "is_exit p")
  case True
  with assms show ?thesis by (simp add: fire_exit before_exit_def hash_delete_apply)
next
  case False
  then show ?thesis
    using assms unfolding is_exit_def
    by (cases p; rename_tac q; case_tac q)
       (simp_all add: probe_defs Let_def lru_update_other hash_delete_apply case_prod_beta
         split: option.split)
qed

text \<open>A run of firings none of which belongs to thread \<open>i\<close> or evicts its in-flight entry.\<close>

definition undisturbed :: "u64 \<Rightarrow> firing list \<Rightarrow> bool" where
  "undisturbed i fs \<longleftrightarrow> list_all (\<lambda>f. pid_tgid (fst f) \<noteq> i \<and> \<not> evict_inflight (fst f) i) fs"

lemma run_INFLIGHT_undisturbed:
  "undisturbed i fs \<Longrightarrow> INFLIGHT (run fs st) i = INFLIGHT st i"
proof (induction fs arbitrary: st)
  case Nil
  then show ?case by simp
next
  case (Cons f fs)
  then have "INFLIGHT (fire (fst f) (snd f) st) i = INFLIGHT st i"
    using fire_INFLIGHT_other [of i "fst f" "snd f" st] by (auto simp: undisturbed_def)
  with Cons show ?case by (simp add: undisturbed_def)
qed

section \<open>Properties\<close>

text \<open>
  C21. Thread isolation. A firing in one thread never creates or changes the in-flight
  entry, the NVTX range or the pending allocation pointer of another thread; it can only
  lose them, and only when the LRU map evicts exactly that key.
\<close>

theorem thread_isolation:
  assumes "i \<noteq> pid_tgid E"
  shows
    "(INFLIGHT (fire E p st) i = INFLIGHT st i \<or>
        evict_inflight E i \<and> INFLIGHT (fire E p st) i = None) \<and>
     (NVTX_STACK (fire E p st) i = NVTX_STACK st i \<or>
        evict_nvtx E i \<and> NVTX_STACK (fire E p st) i = None) \<and>
     (MALLOC_PTRS (fire E p st) i = MALLOC_PTRS st i \<or>
        evict_malloc_ptrs E i \<and> MALLOC_PTRS (fire E p st) i = None)"
  using fire_INFLIGHT_other [OF assms] fire_NVTX_other [OF assms] fire_MALLOC_PTRS_other [OF assms]
  by simp

theorem thread_isolation_witness:
  "INFLIGHT (fire (sample_env 200 8 0) (Memory (P_cuda_free 4096)) launched) 7 = INFLIGHT launched 7"
  using thread_isolation [of 7 "sample_env 200 8 0" "Memory (P_cuda_free 4096)" launched] by simp

text \<open>
  C20. Calls are paired with their own returns. A traced call of an idle thread that is not
  sampled out is, after any interleaving of firings of other threads that does not evict
  its entry, completed by the thread's next return probe with exactly the event type and
  arguments it was entered with and the time between the two probes as its duration, and
  leaves the thread idle.
\<close>

theorem call_paired:
  assumes "traced E1 st p = Some (t, a0, a1, a2)"
    and "INFLIGHT st (pid_tgid E1) = None" and "fst (sample_entry E1 t st)"
    and "undisturbed (pid_tgid E1) fs"
    and "is_exit q" and "pid_tgid E2 = pid_tgid E1" and "ktime_ns E1 \<le> ktime_ns E2"
  defines "st' \<equiv> run fs (fire E1 p st)"
  shows "\<exists>e. completed E2 q st' = Some e \<and> ed_event_type e = t \<and> ed_arg0 e = a0 \<and>
      ed_arg1 e = a1 \<and> ed_arg2 e = a2 \<and>
      unat (duration_of E2 e) = unat (ktime_ns E2) - unat (ktime_ns E1) \<and>
    INFLIGHT (fire E2 q st') (pid_tgid E1) = None"
proof (intro exI conjI)
  have "INFLIGHT st' (pid_tgid E1) = Some (new_entry E1 t a0 a1 a2)"
    using run_INFLIGHT_undisturbed [OF assms(4)] fire_saved [OF assms(1-3)] by (simp add: st'_def)
  then show "completed E2 q st' = Some (new_entry E1 t a0 a1 a2)"
    using assms(5,6) by (simp add: completed_def)
  show "unat (duration_of E2 (new_entry E1 t a0 a1 a2)) = unat (ktime_ns E2) - unat (ktime_ns E1)"
    using assms(7) by (auto simp: duration_of_def Let_def unat_sub word_less_nat_alt word_le_nat_alt)
  show "INFLIGHT (fire E2 q st') (pid_tgid E1) = None"
    using assms(5,6) by (simp add: fire_exit hash_delete_apply)
qed simp_all

theorem call_paired_witness:
  "\<exists>e. completed (sample_env 1600 7 0) (Memory P_cuda_memcpy_ret)
        (run [(sample_env 500 8 0, Memory (P_cuda_free 64))]
          (fire (sample_env 100 7 0) (Memory (P_cuda_memcpy 0 0 64 1)) (initial 0 1 0))) = Some e \<and>
      ed_event_type e = EVENT_CUDA_MEMCPY \<and> ed_arg0 e = 64 \<and>
      unat (duration_of (sample_env 1600 7 0) e) = 1500"
proof -
  have "fst (sample_entry (sample_env 100 7 0) EVENT_CUDA_MEMCPY (initial 0 1 0))"
    by (simp add: sample_entry_plain cfg_u32_def map_defs)
  from call_paired [OF _ _ this, of "Memory (P_cuda_memcpy 0 0 64 1)" 64 1 0
      "[(sample_env 500 8 0, Memory (P_cuda_free 64))]" "Memory P_cuda_memcpy_ret" "sample_env 1600 7 0"]
  show ?thesis by (auto simp: traced_defs undisturbed_def is_exit_def)
qed

text \<open>
  Nested traced calls of one thread. While a call is in flight, the entry of a second
  traced call is ignored, and the return of the second call completes the first one: it
  is recorded with the first call's type and arguments but only the time up to the inner
  return, and the first call's own return probe then finds nothing and changes nothing.
\<close>

lemma nested_call_truncated:
  assumes "INFLIGHT st i = Some e" and "traced E1 st p = Some s" and "is_exit q" and "is_exit r"
    and "\<not> is_malloc_ret r"
    and "pid_tgid E1 = i" and "pid_tgid E2 = i" and "pid_tgid E3 = i"
  defines "inner \<equiv> fire E2 q (fire E1 p st)"
  shows "completed E2 q (fire E1 p st) = Some e \<and> fire E3 r inner = inner"
proof -
  obtain t a0 a1 a2 where s: "s = (t, a0, a1, a2)" by (cases s)
  have "INFLIGHT (fire E1 p st) i = Some e"
    using assms(1,6) fire_traced [OF assms(2) [unfolded s]] by simp
  moreover have "INFLIGHT inner i = None"
    using assms(3,7) by (simp add: inner_def fire_exit hash_delete_apply)
  ultimately show ?thesis
    using assms(3-8) by (simp add: completed_def fire_exit before_exit_def emit_exit_none)
qed

lemma nested_call_truncated_witness:
  "completed (sample_env 300 7 0) (Driver P_cu_launch_kernel_ret)
      (fire (sample_env 200 7 0) (Driver (P_cu_launch_kernel 64)) launched) =
     Some (new_entry (sample_env 100 7 0) EVENT_CUDA_LAUNCH_KERNEL 4096 0 0)"
proof -
  have "INFLIGHT launched 7 = Some (new_entry (sample_env 100 7 0) EVENT_CUDA_LAUNCH_KERNEL 4096 0 0)"
    by (simp add: launched_def run_eval cuda_launch_kernel_def)
  from nested_call_truncated [OF this, of "sample_env 200 7 0" "Driver (P_cu_launch_kernel 64)" _
      "Driver P_cu_launch_kernel_ret" "Runtime P_cuda_launch_kernel_ret" "sample_env 300 7 0"
      "sample_env 400 7 0"]
  show ?thesis by (simp add: traced_defs is_exit_def is_malloc_ret_def)
qed

end
