(* ===== verification/Allocations.thy ===== *)
theory Allocations
  imports Threads
begin

text \<open>
  Allocation sizes. \<^verbatim>\<open>cudaMalloc\<close> hands its result back through a pointer, so the entry
  probe notes that pointer (\<^verbatim>\<open>MALLOC_PTRS\<close>) and the return probe reads the new device
  address from user memory and files the requested size under it (\<^verbatim>\<open>MALLOC_SIZES\<close>);
  \<^verbatim>\<open>cudaFree\<close> looks the size up and forgets it.
\<close>

section \<open>Which firings touch an allocation\<close>

definition alloc_key :: "u64 \<Rightarrow> u64 \<Rightarrow> MallocKey" where
  "alloc_key i ptr = \<lparr>mk_pid = pid_of i, mk_pad = 0, mk_addr = ptr\<rparr>"

definition touches_alloc :: "probe \<Rightarrow> bool" where
  "touches_alloc p \<longleftrightarrow> is_malloc_ret p \<or>
     (case p of Memory (P_cuda_free _) \<Rightarrow> True | Memory (P_cuda_free_async _ _) \<Rightarrow> True | _ \<Rightarrow> False)"

lemma fire_MALLOC_SIZES_quiet:
  assumes "\<not> touches_alloc p"
  shows "MALLOC_SIZES (fire E p st) = MALLOC_SIZES st"
proof (cases "is_exit p")
  case True
  with assms show ?thesis by (simp add: fire_exit before_exit_def touches_alloc_def)
next
  case False
  then show ?thesis
    using assms unfolding is_exit_def
    by (cases p; rename_tac q; case_tac q)
       (simp_all add: touches_alloc_def probe_defs Let_def split: option.split)
qed

lemma note_alloc_other_process:
  assumes "pid_of (pid_tgid E) \<noteq> mk_pid k" and "\<not> evict_malloc_sizes E k"
  shows "MALLOC_SIZES (note_alloc E st) k = MALLOC_SIZES st k"
proof -
  have "k \<noteq> \<lparr>mk_pid = pid_of (pid_tgid E), mk_pad = 0, mk_addr = d\<rparr>" for d
    using assms(1) by auto
  with assms(2) show ?thesis by (auto simp: note_alloc_def lru_update_other split: option.split)
qed

lemma forget_alloc_other_process:
  assumes "pid_of (pid_tgid E) \<noteq> mk_pid k"
  shows "MALLOC_SIZES (forget_alloc ptr E st) k = MALLOC_SIZES st k"
  using assms by (auto simp: forget_alloc_def hash_delete_apply)

lemma fire_MALLOC_SIZES_other_process:
  assumes "pid_of (pid_tgid E) \<noteq> mk_pid k" and "\<not> evict_malloc_sizes E k"
  shows "MALLOC_SIZES (fire E p st) k = MALLOC_SIZES st k"
proof (cases "touches_alloc p")
  case False
  then show ?thesis by (simp add: fire_MALLOC_SIZES_quiet)
next
  case True
  then consider "is_malloc_ret p" | ptr where "p = Memory (P_cuda_free ptr)"
    | ptr s where "p = Memory (P_cuda_free_async ptr s)"
    by (auto simp: touches_alloc_def split: probe.splits memory_probe.splits)
  then show ?thesis
  proof cases
    case 1
    then have "is_exit p" by (auto simp: is_malloc_ret_def is_exit_def)
    with 1 show ?thesis
      using note_alloc_other_process [OF assms] by (simp add: fire_exit before_exit_def)
  qed (use forget_alloc_other_process [OF assms(1)] in
    \<open>simp_all add: cuda_free_eq cuda_free_async_eq\<close>)
qed

text \<open>Firings that leave the size filed under a key alone.\<close>

definition alloc_quiet :: "MallocKey \<Rightarrow> firing list \<Rightarrow> bool" where
  "alloc_quiet k fs \<longleftrightarrow> list_all (\<lambda>f. \<not> evict_malloc_sizes (fst f) k \<and>
     (pid_of (pid_tgid (fst f)) \<noteq> mk_pid k \<or> \<not> touches_alloc (snd f))) fs"

lemma run_MALLOC_SIZES_quiet:
  "alloc_quiet k fs \<Longrightarrow> MALLOC_SIZES (run fs st) k = MALLOC_SIZES st k"
proof (induction fs arbitrary: st)
  case Nil
  then show ?case by simp
next
  case (Cons f fs)
  then have "MALLOC_SIZES (fire (fst f) (snd f) st) k = MALLOC_SIZES st k"
    by (auto simp: alloc_quiet_def fire_MALLOC_SIZES_quiet fire_MALLOC_SIZES_other_process)
  with Cons show ?case by (simp add: alloc_quiet_def)
qed

section \<open>Filing and looking up a size\<close>

lemma malloc_ret_files_size:
  assumes "is_malloc_ret p" and "MALLOC_PTRS st (pid_tgid E) = Some pp"
    and "INFLIGHT st (pid_tgid E) = Some e" and "read_user E pp = Some d" and "d \<noteq> 0"
  shows "MALLOC_SIZES (fire E p st) (alloc_key (pid_tgid E) d) = Some (ed_arg0 e)"
proof -
  have "is_exit p" using assms(1) by (auto simp: is_malloc_ret_def is_exit_def)
  with assms show ?thesis
    by (simp add: fire_exit before_exit_def note_alloc_def alloc_key_def map_defs)
qed

lemma freed_size_key:
  "ptr \<noteq> 0 \<Longrightarrow> freed_size ptr E st =
     (case MALLOC_SIZES st (alloc_key (pid_tgid E) ptr) of Some sz \<Rightarrow> sz | None \<Rightarrow> 0)"
  by (simp add: freed_size_def alloc_key_def)

section \<open>Properties\<close>


text \<open>A 512-byte allocation at address 4096, then a copy by another thread.\<close>

definition allocated :: bpf_state where
  "allocated = run [(sample_env 250 8 0, Memory (P_cuda_memcpy 0 0 64 1))]
     (fire (sample_env 200 7 4096) (Memory P_cuda_malloc_ret)
       (fire (sample_env 100 7 0) (Memory (P_cuda_malloc 64 512)) (initial 0 1 0)))"

lemma sample_entry_off [simp]: "SAMPLE_RATE st = [1] \<Longrightarrow> sample_entry E t st = (True, st)"
  by (rule sample_entry_plain) (simp add: cfg_u32_def map_defs)

lemma allocated_rate: "SAMPLE_RATE allocated = [1]"
  by (simp add: allocated_def del: fire.simps)

lemma allocated_idle: "INFLIGHT allocated 7 = None"
  by (simp add: allocated_def cuda_memcpy_def save_entry_INFLIGHT fire_exit is_exit_def
      hash_delete_apply lru_update_other cuda_malloc_ret_note cuda_malloc_def)


text \<open>
  A pointer is freed once. After a free of \<open>d\<close>, a second free of the same address by
  any thread of the process, with any firings in between that do not allocate it again,
  finds no size and is recorded with size 0.
\<close>

lemma double_free_zero:
  fixes st :: bpf_state
  assumes "d \<noteq> 0" and "alloc_quiet (alloc_key (pid_tgid E1) d) fs"
    and "pid_of (pid_tgid E2) = pid_of (pid_tgid E1)"
  defines "st' \<equiv> run fs (fire E1 (Memory (P_cuda_free d)) st)"
  assumes "INFLIGHT st' (pid_tgid E2) = None" and "fst (sample_entry E2 EVENT_CUDA_FREE st')"
  shows "INFLIGHT (fire E2 (Memory (P_cuda_free d)) st') (pid_tgid E2) =
    Some (new_entry E2 EVENT_CUDA_FREE 0 0 0)"
proof -
  have "MALLOC_SIZES (fire E1 (Memory (P_cuda_free d)) st) (alloc_key (pid_tgid E1) d) = None"
    using assms(1) by (simp add: cuda_free_eq forget_alloc_def alloc_key_def hash_delete_apply)
  then have "MALLOC_SIZES st' (alloc_key (pid_tgid E2) d) = None"
    using assms(3) run_MALLOC_SIZES_quiet [OF assms(2)] by (simp add: st'_def alloc_key_def)
  then have "freed_size d E2 st' = 0" using assms(1) by (simp add: freed_size_key)
  then show ?thesis using assms(5,6) by (intro fire_saved) (simp_all add: traced_defs)
qed

lemma double_free_zero_witness:
  "INFLIGHT (fire (sample_env 500 7 0) (Memory (P_cuda_free 4096))
      (run [(sample_env 400 7 0, Memory P_cuda_free_ret)]
        (fire (sample_env 300 7 0) (Memory (P_cuda_free 4096)) allocated))) 7 =
     Some (new_entry (sample_env 500 7 0) EVENT_CUDA_FREE 0 0 0)"
  using double_free_zero [of 4096 "sample_env 300 7 0" "[(sample_env 400 7 0, Memory P_cuda_free_ret)]"
      "sample_env 500 7 0" allocated]
  by (simp add: alloc_quiet_def touches_alloc_def is_malloc_ret_def fire_exit is_exit_def
      hash_delete_apply allocated_rate del: fire.simps)

text \<open>
  The return code is not consulted. When an allocation fails (any return code) but the
  caller's pointer still holds the address of a live allocation, the size of that live
  allocation is overwritten with the size of the failed request.
\<close>

lemma failed_malloc_overwrites:
  assumes "regs_rc E \<noteq> 0" and "MALLOC_PTRS st (pid_tgid E) = Some pp" and "read_user E pp = Some d"
    and "d \<noteq> 0" and "INFLIGHT st (pid_tgid E) = Some e"
    and "MALLOC_SIZES st (alloc_key (pid_tgid E) d) = Some live"
  shows "MALLOC_SIZES (fire E (Memory P_cuda_malloc_ret) st) (alloc_key (pid_tgid E) d) = Some (ed_arg0 e)"
  by (rule malloc_ret_files_size [OF _ assms(2,5,3,4)]) (simp add: is_malloc_ret_def)

definition failing_env :: env where
  "failing_env = (sample_env 600 7 4096)\<lparr>regs_rc := 2\<rparr>"

lemma failed_malloc_overwrites_witness:
  "MALLOC_SIZES allocated (alloc_key 7 4096) = Some 512 \<and>
   MALLOC_SIZES (fire failing_env (Memory P_cuda_malloc_ret)
      (fire (sample_env 500 7 0) (Memory (P_cuda_malloc 64 9000)) allocated)) (alloc_key 7 4096) = Some 9000"
proof -
  let ?st = "fire (sample_env 500 7 0) (Memory (P_cuda_malloc 64 9000)) allocated"
  have live: "MALLOC_SIZES allocated (alloc_key 7 4096) = Some 512"
    by (simp add: allocated_def cuda_memcpy_def cuda_malloc_ret_note cuda_malloc_def note_alloc_def
        save_entry_INFLIGHT map_defs alloc_key_def)
  then have "MALLOC_SIZES ?st (alloc_key 7 4096) = Some 512"
    by (simp add: fire_MALLOC_SIZES_quiet touches_alloc_def is_malloc_ret_def del: fire.simps)
  moreover have "MALLOC_PTRS ?st 7 = Some 64"
    by (simp add: cuda_malloc_def map_defs)
  moreover have "INFLIGHT ?st 7 = Some (new_entry (sample_env 500 7 0) EVENT_CUDA_MALLOC 9000 0 0)"
    using fire_saved [of "sample_env 500 7 0" allocated "Memory (P_cuda_malloc 64 9000)"]
    by (simp add: traced_defs allocated_idle allocated_rate del: fire.simps)
  ultimately show ?thesis
    using failed_malloc_overwrites [of failing_env ?st 64 4096] live by (simp add: failing_env_def del: fire.simps)
qed

text \<open>
  Sampling and sizes. A sampled-out allocation of an idle thread files no size: the
  return probe finds no entry, so a later free of the address cannot report what was
  allocated.
\<close>

lemma sampled_out_malloc_unfiled:
  assumes "INFLIGHT st (pid_tgid E1) = None" and "\<not> fst (sample_entry E1 EVENT_CUDA_MALLOC st)"
    and "pid_tgid E2 = pid_tgid E1"
  shows "MALLOC_SIZES (fire E2 (Memory P_cuda_malloc_ret) (fire E1 (Memory (P_cuda_malloc pp n)) st)) =
    MALLOC_SIZES st"
proof -
  let ?m = "fire E1 (Memory (P_cuda_malloc pp n)) st"
  have "INFLIGHT ?m (pid_tgid E2) = None"
    using assms fire_traced [of E1 st "Memory (P_cuda_malloc pp n)"] by (simp add: traced_defs)
  then have "MALLOC_SIZES (fire E2 (Memory P_cuda_malloc_ret) ?m) = MALLOC_SIZES ?m"
    by (simp add: cuda_malloc_ret_note note_alloc_def split: option.split)
  also have "\<dots> = MALLOC_SIZES st"
    by (simp add: fire_MALLOC_SIZES_quiet touches_alloc_def is_malloc_ret_def del: fire.simps)
  finally show ?thesis .
qed

text \<open>One sampled call in two: the second aggregatable call of CPU 0 is skipped.\<close>

definition half_sampled :: bpf_state where
  "half_sampled = (initial 0 2 0)\<lparr>SAMPLE_COUNTER := (\<lambda>_. [1])\<rparr>"

lemma sampled_out_malloc_unfiled_witness:
  "MALLOC_SIZES (fire (sample_env 200 7 4096) (Memory P_cuda_malloc_ret)
     (fire (sample_env 100 7 0) (Memory (P_cuda_malloc 64 512)) half_sampled)) (alloc_key 7 4096) = None"
proof -
  have "\<not> fst (sample_entry (sample_env 100 7 0) EVENT_CUDA_MALLOC half_sampled)"
    by (subst sample_entry_counted [of _ _ _ 1])
       (simp_all add: half_sampled_def cfg_u32_def map_defs profi_is_aggregatable_def)
  from sampled_out_malloc_unfiled [OF _ this, of "sample_env 200 7 4096" 64 512] show ?thesis
    by (simp add: half_sampled_def del: fire.simps)
qed

end
