(* ===== verification/Sampling.thy ===== *)
theory Sampling
  imports Threads
begin

text \<open>
  Sampling of the aggregatable calls: a counter per CPU, and one call in \<open>rate\<close> kept. The
  counts of \<^verbatim>\<open>AGGREGATED\<close> are multiplied by the rate, so what matters is how many of a
  sequence of calls are kept.
\<close>

section \<open>A sequence of sampling decisions\<close>

text \<open>The decisions of \<^verbatim>\<open>save_entry\<close> for a sequence of calls of idle threads.\<close>

primrec decisions :: "(env \<times> u32) list \<Rightarrow> bpf_state \<Rightarrow> bool list" where
  "decisions [] st = []"
| "decisions (x # xs) st =
     fst (sample_entry (fst x) (snd x) st) # decisions xs (snd (sample_entry (fst x) (snd x) st))"

definition on_cpu :: "cpu \<Rightarrow> (env \<times> u32) list \<Rightarrow> bool" where
  "on_cpu c xs \<longleftrightarrow> list_all (\<lambda>(E, t). smp_cpu E = c \<and> profi_is_aggregatable t) xs"

lemma mod_rate_iff:
  fixes r :: u32
  assumes "k < 2 ^ 64"
  shows "(of_nat k :: u64) mod ucast r = 0 \<longleftrightarrow> k mod unat r = 0"
proof -
  have "unat (ucast r :: u64) = unat r" by (rule unat_ucast_up) simp
  moreover have "unat (of_nat k :: u64) = k" using assms by (simp add: unat_of_nat_small)
  ultimately have "unat ((of_nat k :: u64) mod ucast r) = k mod unat r" by (simp add: unat_mod)
  then show ?thesis by (simp add: unat_eq_0 [symmetric])
qed

lemma decisions_eq:
  assumes "on_cpu c xs" and "cfg_u32 (SAMPLE_RATE st) = r" and "r > 1"
    and "SAMPLE_COUNTER st c = [of_nat k]" and "k + length xs < 2 ^ 64"
  shows "decisions xs st = map (\<lambda>i. i mod unat r = 0) [k..<k + length xs]"
  using assms
proof (induction xs arbitrary: st k)
  case Nil
  then show ?case by simp
next
  case (Cons x xs)
  obtain E t where x: "x = (E, t)" by (cases x)
  from Cons.prems x have step: "sample_entry E t st =
      ((of_nat k :: u64) mod ucast r = 0, st\<lparr>SAMPLE_COUNTER := (SAMPLE_COUNTER st)(c := [of_nat k + 1])\<rparr>)"
    using sample_entry_counted [of t st E "of_nat k"] by (auto simp: on_cpu_def)
  have "decisions xs (snd (sample_entry E t st)) = map (\<lambda>i. i mod unat r = 0) [Suc k..<Suc k + length xs]"
    using Cons.prems step x
    by (intro Cons.IH) (simp_all add: on_cpu_def add.commute)
  moreover have "fst (sample_entry E t st) = (k mod unat r = 0)"
    using step Cons.prems(5) mod_rate_iff [of k r] by simp
  ultimately show ?case by (simp add: x upt_conv_Cons del: upt_Suc)
qed

lemma multiples_count:
  assumes "r > 0"
  shows "length (filter (\<lambda>i. i mod r = 0) [0..<n]) = (n + r - 1) div r"
proof (induction n)
  case 0
  from assms show ?case by simp
next
  case (Suc n)
  have "(Suc n + r - 1) div r = (n + r - 1) div r + (if n mod r = 0 then 1 else 0)"
  proof (cases "n mod r = 0")
    case True
    then obtain q where "n = q * r" by (metis mod_0_imp_dvd dvd_def mult.commute)
    moreover have "(q * r + r - 1) div r = q"
    proof -
      have "q * r + r - 1 = (r - 1) + q * r" using assms by simp
      also have "\<dots> div r = q + (r - 1) div r" by (rule div_mult_self1) (use assms in simp)
      finally show ?thesis using assms by simp
    qed
    ultimately show ?thesis using assms True div_add_self2 [of r n] by simp
  next
    case False
    have "(n + r - 1) div r = (n - 1) div r + 1"
      using assms False div_add_self2 [of r "n - 1"] by (cases n) simp_all
    moreover have "(n - 1) div r = n div r"
      using False by (cases n) (simp_all add: div_Suc)
    ultimately show ?thesis using assms False div_add_self2 [of r n] by simp
  qed
  with Suc show ?case by simp
qed

section \<open>Properties\<close>

text \<open>
  C24. Sampling is exact. Of any number of aggregatable calls that reach the sampling
  decision on a CPU, of whatever types and threads, starting with the counter at zero,
  exactly every \<open>rate\<close>-th is kept, beginning with the first; so the number kept times the
  rate, which is what \<^verbatim>\<open>AGGREGATED\<close> reports as their count, is never below the true number
  and exceeds it by less than the rate.
\<close>

theorem sampling_exact:
  assumes "on_cpu c xs" and "cfg_u32 (SAMPLE_RATE st) = r" and "r > 1"
    and "SAMPLE_COUNTER st c = [0]" and "length xs < 2 ^ 64"
  defines "kept \<equiv> length (filter (\<lambda>b. b) (decisions xs st))"
  shows "kept = (length xs + unat r - 1) div unat r \<and>
    length xs \<le> kept * unat r \<and> kept * unat r < length xs + unat r"
proof -
  have r: "unat r > 0" using assms(3) by (simp add: word_less_nat_alt)
  have "decisions xs st = map (\<lambda>i. i mod unat r = 0) [0..<length xs]"
    using decisions_eq [of c xs st r 0] assms by simp
  then have kept: "kept = (length xs + unat r - 1) div unat r"
    using multiples_count [OF r] by (simp add: kept_def comp_def)
  have "kept * unat r + (length xs + unat r - 1) mod unat r = length xs + unat r - 1"
    by (simp add: kept)
  moreover have "(length xs + unat r - 1) mod unat r < unat r" using r by simp
  ultimately show ?thesis using kept r by linarith
qed

theorem sampling_exact_witness:
  "length (filter (\<lambda>b. b) (decisions
     (replicate 7 (sample_env 100 7 0, EVENT_CUDA_MEMCPY)) (initial 0 3 0))) = 3"
  using sampling_exact [of 0 "replicate 7 (sample_env 100 7 0, EVENT_CUDA_MEMCPY)" "initial 0 3 0" 3]
  by (simp add: on_cpu_def cfg_u32_def map_defs profi_is_aggregatable_def list_all_iff)

end
