(* ===== verification/NvtxRanges.thy ===== *)
theory NvtxRanges
  imports Threads
begin

text \<open>
  NVTX ranges: \<^verbatim>\<open>nvtxRangePush\<close> files the name of the range under the thread, a detailed
  event carries the first sixteen bytes of it, \<^verbatim>\<open>nvtxRangePop\<close> removes it. User space reads
  the sixteen bytes up to the first NUL (\<^verbatim>\<open>main.rs\<close>, \<^verbatim>\<open>metrics.rs\<close>).
\<close>

text \<open>The string that a NUL-padded buffer holds.\<close>

definition c_string :: "u8 list \<Rightarrow> u8 list" where
  "c_string bs = takeWhile (\<lambda>b. b \<noteq> 0) bs"

lemma takeWhile_take: "takeWhile P (take n xs) = take n (takeWhile P xs)"
  by (induction xs arbitrary: n) (auto simp: take_Cons split: nat.split)

lemma c_string_pad: "c_string (takeWhile (\<lambda>b. b \<noteq> 0) bs @ replicate n 0) = c_string bs"
  by (induction bs) (simp_all add: c_string_def takeWhile_replicate)

lemma takeWhile_idem: "takeWhile P (takeWhile P xs) = takeWhile P xs"
  by (auto dest: set_takeWhileD)

lemma c_string_read_name: "c_string (read_name (Some bs)) = take 63 (c_string bs)"
proof -
  let ?s = "take 63 (takeWhile (\<lambda>b. b \<noteq> 0) bs)"
  have "?s = takeWhile (\<lambda>b. b \<noteq> 0) ?s"
    by (simp add: takeWhile_take takeWhile_idem)
  then have "read_name (Some bs) = takeWhile (\<lambda>b. b \<noteq> 0) ?s @ replicate (64 - length ?s) 0"
    by (simp add: read_name_def Let_def)
  then have "c_string (read_name (Some bs)) = c_string ?s" by (simp only: c_string_pad)
  then show ?thesis by (simp add: c_string_def takeWhile_take takeWhile_idem)
qed

lemma push_NVTX:
  "msg \<noteq> 0 \<Longrightarrow> NVTX_STACK (fire E (Nvtx (P_nvtx_range_push msg)) st) (pid_tgid E) =
     Some (read_name (read_user_str E msg))"
  by (simp add: nvtx_range_push_def map_defs)

lemma pop_NVTX: "NVTX_STACK (fire E (Nvtx P_nvtx_range_pop) st) (pid_tgid E) = None"
  by (simp add: nvtx_range_pop_def map_defs)

text \<open>The marker an event of the thread carries.\<close>

lemma mk_event_marker:
  "ce_nvtx_marker (mk_event E e d st) =
     (case NVTX_STACK st (pid_tgid E) of Some name \<Rightarrow> take 16 name | None \<Rightarrow> replicate 16 0)"
  by (simp add: mk_event_def)

section \<open>Properties\<close>

text \<open>
  The marker names the range. After a push of a string at a readable address, and any
  firings of other threads that do not evict the range, every event the thread emits
  carries a marker of sixteen bytes whose string, read up to the first NUL, is the pushed
  string cut to sixteen bytes.
\<close>

lemma marker_names_range:
  fixes st :: bpf_state and e :: EntryData and d :: u64
  assumes "msg \<noteq> 0" and "read_user_str E1 msg = Some bs"
    and "list_all (\<lambda>f. pid_tgid (fst f) \<noteq> pid_tgid E1 \<and> \<not> evict_nvtx (fst f) (pid_tgid E1)) fs"
    and "pid_tgid E2 = pid_tgid E1"
  defines "ev \<equiv> mk_event E2 e d (run fs (fire E1 (Nvtx (P_nvtx_range_push msg)) st))"
  shows "length (ce_nvtx_marker ev) = 16 \<and> c_string (ce_nvtx_marker ev) = take 16 (c_string bs)"
proof -
  have keep: "NVTX_STACK (run fs st) (pid_tgid E1) = NVTX_STACK st (pid_tgid E1)" for st
    using assms(3)
  proof (induction fs arbitrary: st)
    case Nil
    then show ?case by simp
  next
    case (Cons f fs)
    then show ?case using fire_NVTX_other [of "pid_tgid E1" "fst f" "snd f" st] by auto
  qed
  have "ce_nvtx_marker ev = take 16 (read_name (Some bs))"
    using assms(2,4) push_NVTX [OF assms(1), of E1 st]
    by (simp add: ev_def mk_event_marker keep del: fire.simps)
  moreover have "c_string (take 16 (read_name (Some bs))) = take 16 (c_string (read_name (Some bs)))"
    by (simp add: c_string_def takeWhile_take)
  ultimately show ?thesis
    using read_name_wf [of "Some bs"] by (simp add: c_string_read_name min_def)
qed

lemma marker_names_range_witness:
  "c_string (ce_nvtx_marker (mk_event (sample_env 300 7 0) (new_entry (sample_env 200 7 0) 4 0 0 0) 100
     (run [(sample_env 150 8 0, Nvtx P_nvtx_range_pop)]
       (fire (sample_env 100 7 0) (Nvtx (P_nvtx_range_push 64)) (initial 0 1 1))))) = [65, 66]"
  using marker_names_range [of 64 "sample_env 100 7 0" "[65, 66, 0]"
      "[(sample_env 150 8 0, Nvtx P_nvtx_range_pop)]" "sample_env 300 7 0"]
  by (simp add: c_string_def del: fire.simps run.simps)

text \<open>
  One name per thread. The range map holds a single name per thread, not a stack: after
  an inner range is pushed and popped, events of the thread carry no marker, although the
  outer range is still open.
\<close>

lemma inner_pop_clears_outer:
  assumes "pid_tgid E2 = pid_tgid E1" and "pid_tgid E3 = pid_tgid E1" and "pid_tgid E4 = pid_tgid E1"
  shows "ce_nvtx_marker (mk_event E4 e d
    (fire E3 (Nvtx P_nvtx_range_pop)
      (fire E2 (Nvtx (P_nvtx_range_push inner))
        (fire E1 (Nvtx (P_nvtx_range_push outer)) st)))) = replicate 16 0"
  using assms pop_NVTX [of E3] by (simp add: mk_event_marker del: fire.simps)

lemma inner_pop_clears_outer_witness:
  "ce_nvtx_marker (mk_event (sample_env 400 7 0) (new_entry (sample_env 350 7 0) 4 0 0 0) 50
    (fire (sample_env 300 7 0) (Nvtx P_nvtx_range_pop)
      (fire (sample_env 200 7 0) (Nvtx (P_nvtx_range_push 96))
        (fire (sample_env 100 7 0) (Nvtx (P_nvtx_range_push 64)) (initial 0 1 1))))) = replicate 16 0"
  by (rule inner_pop_clears_outer) simp_all

end
