(* ===== verification/LaunchModes.thy ===== *)
theory LaunchModes
  imports Threads
begin

text \<open>
  Anonymous mode. With \<^verbatim>\<open>KERNEL_AGG_MODE\<close> 1 the identity of a kernel (the address of its host
  stub) must not leave the kernel side, unless the process is listed in \<^verbatim>\<open>UPGRADED_PIDS\<close>.
\<close>

definition anonymous :: "u32 \<Rightarrow> bpf_state \<Rightarrow> bool" where
  "anonymous pid st \<longleftrightarrow> launch_mode pid st = 1"

lemma anonymous_cong:
  "KERNEL_AGG_MODE st' = KERNEL_AGG_MODE st \<Longrightarrow> UPGRADED_PIDS st' = UPGRADED_PIDS st \<Longrightarrow>
     anonymous pid st' = anonymous pid st"
  by (simp add: anonymous_def launch_mode_def)

lemma anonymous_fire [simp]: "anonymous pid (fire E p st) = anonymous pid st"
  by (rule anonymous_cong) simp_all

lemma fire_launch_key_anonymous:
  assumes "anonymous (lk_pid k) st" and "LAUNCH_AGG st k = None"
    and "LAUNCH_AGG (fire E p st) k \<noteq> None"
  shows "lk_host_fun k = 0"
proof -
  obtain e where "k = launch_key E e st"
  proof (rule ccontr)
    assume "\<not> thesis"
    then have "k \<noteq> launch_key E e st" for e using that by blast
    then have "LAUNCH_AGG (fire E p st) k = LAUNCH_AGG st k"
      by (simp add: fire_LAUNCH_AGG split: option.split)
    with assms(2,3) show False by simp
  qed
  with assms(1) show ?thesis by (auto simp: anonymous_def launch_key_def Let_def)
qed

lemma fire_event_anonymous:
  assumes "anonymous pid st" and "ev \<in> set (EVENTS (fire E p st))" and "ce_pid ev = pid"
    and "ce_event_type ev = EVENT_CUDA_LAUNCH_KERNEL"
  shows "ev \<in> set (EVENTS st)"
proof (cases "is_exit p")
  case False
  with assms(2) show ?thesis by (simp add: fire_frame)
next
  case True
  have same: "emits_event E e (before_exit E p st) = emits_event E e st" for e
    by (rule emits_event_cong) simp_all
  show ?thesis
  proof (rule ccontr)
    assume new: "ev \<notin> set (EVENTS st)"
    with True assms(2) same obtain e where "emits_event E e st" and
      "ev = mk_event E e (duration_of E e) (before_exit E p st)"
      by (auto simp: fire_exit emit_exit_EVENTS split: option.splits if_splits)
    with assms(1,3,4) show False
      by (auto simp: mk_event_def emits_event_def anonymous_def)
  qed
qed

section \<open>Properties\<close>

text \<open>
  C25. Anonymous processes stay anonymous. As long as a process is in anonymous mode, no run of
  firings adds a launch key of that process that names a kernel, and none reports a launch
  of it as a detailed event, whether detailed launches are enabled or not.
\<close>

theorem anonymous_launches:
  assumes "anonymous pid st"
  shows "(\<forall>k. lk_pid k = pid \<and> LAUNCH_AGG st k = None \<and> lk_host_fun k \<noteq> 0 \<longrightarrow>
      LAUNCH_AGG (run fs st) k = None) \<and>
    (\<forall>ev \<in> set (EVENTS (run fs st)). ce_pid ev = pid \<and>
      ce_event_type ev = EVENT_CUDA_LAUNCH_KERNEL \<longrightarrow> ev \<in> set (EVENTS st))"
  using assms
proof (induction fs arbitrary: st)
  case Nil
  then show ?case by simp
next
  case (Cons f fs)
  let ?st = "fire (fst f) (snd f) st"
  have IH: "(\<forall>k. lk_pid k = pid \<and> LAUNCH_AGG ?st k = None \<and> lk_host_fun k \<noteq> 0 \<longrightarrow>
      LAUNCH_AGG (run fs ?st) k = None) \<and>
    (\<forall>ev \<in> set (EVENTS (run fs ?st)). ce_pid ev = pid \<and>
      ce_event_type ev = EVENT_CUDA_LAUNCH_KERNEL \<longrightarrow> ev \<in> set (EVENTS ?st))"
    using Cons by simp
  have "LAUNCH_AGG ?st k = None" if "lk_pid k = pid" "LAUNCH_AGG st k = None" "lk_host_fun k \<noteq> 0" for k
    using fire_launch_key_anonymous [of k st "fst f" "snd f"] that Cons.prems by blast
  moreover have "ev \<in> set (EVENTS st)"
    if "ev \<in> set (EVENTS ?st)" "ce_pid ev = pid" "ce_event_type ev = EVENT_CUDA_LAUNCH_KERNEL" for ev
    using fire_event_anonymous that Cons.prems by blast
  ultimately show ?case using IH by simp
qed

theorem anonymous_launches_witness:
  "LAUNCH_AGG (run launch_run (initial 1 1 1))
     \<lparr>lk_pid = 0, lk_pad = 0, lk_host_fun = 4096, lk_stream = 0\<rparr> = None \<and>
   filter (\<lambda>ev. ce_pid ev = 0 \<and> ce_event_type ev = EVENT_CUDA_LAUNCH_KERNEL)
     (EVENTS (run launch_run (initial 1 1 1))) = []"
proof -
  have "anonymous 0 (initial 1 1 1)"
    by (simp add: anonymous_def launch_mode_def cfg_u32_def map_defs)
  from anonymous_launches [OF this, of launch_run] show ?thesis by (auto simp: filter_empty_conv)
qed

text \<open>
  Upgraded and detailed processes are reported. In a state that is not anonymous for a
  process, with detailed launches on and room in the ring, completing a launch of kernel
  \<open>host_fun\<close> files it under that kernel and emits one event that carries its address and
  stream.
\<close>

lemma detailed_launch_reported:
  assumes "\<not> anonymous (pid_of (pid_tgid E)) st" and "cfg_u32 (DETAILED_LAUNCHES st) = 1"
    and "completed E p st = Some e" and "ed_event_type e = EVENT_CUDA_LAUNCH_KERNEL"
    and "reserve_events E" and "\<not> launch_insert_fails E"
  shows "LAUNCH_AGG (fire E p st) \<lparr>lk_pid = pid_of (pid_tgid E), lk_pad = 0,
      lk_host_fun = ed_arg0 e, lk_stream = ed_arg2 e\<rparr> \<noteq> None \<and>
    (\<exists>ev. EVENTS (fire E p st) = EVENTS st @ [ev] \<and> ce_addr ev = ed_arg0 e \<and>
       ce_stream ev = ed_arg2 e \<and> ce_duration_ns ev = duration_of E e)"
proof -
  have exit: "is_exit p" and entry: "INFLIGHT st (pid_tgid E) = Some e"
    using assms(3) by (auto simp: completed_def split: if_splits)
  have "emits_event E e st"
    using assms by (simp add: emits_event_def anonymous_def)
  moreover have "emits_event E e (before_exit E p st) = emits_event E e st"
    by (rule emits_event_cong) simp_all
  ultimately have "EVENTS (fire E p st) = EVENTS st @ [mk_event E e (duration_of E e) (before_exit E p st)]"
    using exit entry assms(5) by (simp add: fire_exit emit_exit_EVENTS)
  moreover have "launch_key E e st = \<lparr>lk_pid = pid_of (pid_tgid E), lk_pad = 0,
      lk_host_fun = ed_arg0 e, lk_stream = ed_arg2 e\<rparr>"
    using assms(1) by (simp add: launch_key_def anonymous_def Let_def)
  then have "LAUNCH_AGG (fire E p st) \<lparr>lk_pid = pid_of (pid_tgid E), lk_pad = 0,
      lk_host_fun = ed_arg0 e, lk_stream = ed_arg2 e\<rparr> \<noteq> None"
    using assms(3,4,6)
    by (cases "LAUNCH_AGG st (launch_key E e st)")
       (simp_all add: fire_LAUNCH_AGG upsert_same_None upsert_same_Some)
  ultimately show ?thesis by (simp add: mk_event_def)
qed

lemma detailed_launch_reported_witness:
  "\<exists>ev. EVENTS (fire (sample_env 1600 7 0) (Runtime P_cuda_launch_kernel_ret)
      (fire (sample_env 100 7 0) (Runtime (P_cuda_launch_kernel 4096)) (initial 0 1 1))) = [ev] \<and>
    ce_addr ev = 4096 \<and> ce_duration_ns ev = 1500"
proof -
  let ?st = "fire (sample_env 100 7 0) (Runtime (P_cuda_launch_kernel 4096)) (initial 0 1 1)"
  have compl: "completed (sample_env 1600 7 0) (Runtime P_cuda_launch_kernel_ret) ?st =
      Some (new_entry (sample_env 100 7 0) EVENT_CUDA_LAUNCH_KERNEL 4096 0 0)"
    by (simp add: run_eval cuda_launch_kernel_def)
  have mode: "\<not> anonymous 0 (initial 0 1 1)"
    by (simp add: anonymous_def launch_mode_def cfg_u32_def map_defs)
  have idle: "EVENTS ?st = []" by (simp add: cuda_launch_kernel_def)
  show ?thesis
    using detailed_launch_reported [OF _ _ compl] mode idle
    by (auto simp: pid_of_def cfg_u32_def map_defs duration_of_def simp del: fire.simps)
qed

end
