(* ===== verification/Registration.thy ===== *)
theory Registration
  imports Threads
begin

text \<open>
  Kernel registration through the driver: \<^verbatim>\<open>cuModuleGetFunction\<close> returns a function handle
  through a pointer, so the entry probe keeps the pointer and the name in flight and the
  return probe reads the handle and sends the pair to user space.
\<close>

lemma get_function_INFLIGHT:
  assumes "hfunc_ptr \<noteq> 0" and "name_ptr \<noteq> 0"
  shows "INFLIGHT (fire E (Driver (P_cu_module_get_function hfunc_ptr hmod name_ptr)) st) (pid_tgid E) =
    Some (new_entry E EVENT_CUDA_REGISTER_FUNCTION hfunc_ptr name_ptr 0)"
  using assms by (simp add: cu_module_get_function_def new_entry_def map_defs Let_def)

lemma get_function_ret_registers:
  assumes "INFLIGHT st (pid_tgid E) = Some e" and "ed_event_type e = EVENT_CUDA_REGISTER_FUNCTION"
    and "read_user E (ed_arg0 e) = Some h" and "reserve_kernel_regs E"
  shows "KERNEL_REGS (fire E (Driver P_cu_module_get_function_ret) st) = KERNEL_REGS st @
    [\<lparr>kr_pid = pid_of (pid_tgid E), kr_pad = 0, kr_host_fun = h, kr_name_ptr = ed_arg1 e\<rparr>]"
  using assms by (simp add: cu_module_get_function_ret_def map_defs)

lemma get_function_ret_idle:
  assumes "INFLIGHT st (pid_tgid E) = Some e" and "ed_event_type e = EVENT_CUDA_REGISTER_FUNCTION"
  shows "INFLIGHT (fire E (Driver P_cu_module_get_function_ret) st) (pid_tgid E) = None"
  using assms by (simp add: cu_module_get_function_ret_def hash_delete_apply split: option.split)

section \<open>Properties\<close>

text \<open>
  A driver registration reaches user space. After \<^verbatim>\<open>cuModuleGetFunction\<close> is entered with a
  handle pointer and a name, and after any firings of other threads that do not evict the
  entry, its return probe sends exactly one record, which pairs the handle now stored at
  the pointer with the name's address and the process, and leaves the thread idle.
\<close>

lemma get_function_registered:
  fixes st :: bpf_state and hmod :: u64
  assumes "hfunc_ptr \<noteq> 0" and "name_ptr \<noteq> 0" and "undisturbed (pid_tgid E1) fs"
    and "pid_tgid E2 = pid_tgid E1" and "read_user E2 hfunc_ptr = Some h" and "reserve_kernel_regs E2"
  defines "st' \<equiv> run fs (fire E1 (Driver (P_cu_module_get_function hfunc_ptr hmod name_ptr)) st)"
  shows "KERNEL_REGS (fire E2 (Driver P_cu_module_get_function_ret) st') = KERNEL_REGS st' @
      [\<lparr>kr_pid = pid_of (pid_tgid E1), kr_pad = 0, kr_host_fun = h, kr_name_ptr = name_ptr\<rparr>] \<and>
    INFLIGHT (fire E2 (Driver P_cu_module_get_function_ret) st') (pid_tgid E1) = None"
proof
  have e: "INFLIGHT st' (pid_tgid E2) =
      Some (new_entry E1 EVENT_CUDA_REGISTER_FUNCTION hfunc_ptr name_ptr 0)"
    using run_INFLIGHT_undisturbed [OF assms(3)] get_function_INFLIGHT [OF assms(1,2)] assms(4)
    by (simp add: st'_def del: fire.simps)
  show "KERNEL_REGS (fire E2 (Driver P_cu_module_get_function_ret) st') = KERNEL_REGS st' @
      [\<lparr>kr_pid = pid_of (pid_tgid E1), kr_pad = 0, kr_host_fun = h, kr_name_ptr = name_ptr\<rparr>]"
    using get_function_ret_registers [OF e] assms(4-6) by (simp del: fire.simps)
  show "INFLIGHT (fire E2 (Driver P_cu_module_get_function_ret) st') (pid_tgid E1) = None"
    using get_function_ret_idle [OF e] assms(4) by (simp del: fire.simps)
qed

lemma get_function_registered_witness:
  "KERNEL_REGS (fire (sample_env 200 7 8192) (Driver P_cu_module_get_function_ret)
     (run [] (fire (sample_env 100 7 0) (Driver (P_cu_module_get_function 64 1 96)) (initial 0 1 0)))) =
   [\<lparr>kr_pid = 0, kr_pad = 0, kr_host_fun = 8192, kr_name_ptr = 96\<rparr>]"
  using get_function_registered [of 64 96 "sample_env 100 7 0" "[]" "sample_env 200 7 8192" 8192 1 "initial 0 1 0"]
  by (simp add: undisturbed_def pid_of_def cu_module_get_function_def Let_def)

text \<open>
  The entry probe of \<^verbatim>\<open>cuModuleGetFunction\<close> has no guard. When a traced call of the thread is
  in flight, its entry is overwritten: after the inner pair of probes the outer call's
  return probe finds nothing, and the outer call is recorded nowhere.
\<close>

lemma get_function_discards_outer:
  fixes hmod :: u64
  assumes "hfunc_ptr \<noteq> 0" and "name_ptr \<noteq> 0" and "INFLIGHT st (pid_tgid E1) = Some outer"
    and "pid_tgid E2 = pid_tgid E1" and "pid_tgid E3 = pid_tgid E1" and "is_exit q"
  defines "st' \<equiv> fire E2 (Driver P_cu_module_get_function_ret)
    (fire E1 (Driver (P_cu_module_get_function hfunc_ptr hmod name_ptr)) st)"
  shows "completed E3 q st' = None \<and> AGGREGATED (fire E3 q st') = AGGREGATED st \<and>
    NCCL_AGG (fire E3 q st') = NCCL_AGG st \<and> LAUNCH_AGG (fire E3 q st') = LAUNCH_AGG st \<and>
    EVENTS (fire E3 q st') = EVENTS st"
proof -
  have "INFLIGHT st' (pid_tgid E1) = None"
    using get_function_ret_idle [of _ E2] get_function_INFLIGHT [OF assms(1,2)] assms(4)
    by (simp add: st'_def del: fire.simps)
  then have none: "completed E3 q st' = None" using assms(5) by (simp add: completed_def)
  have "AGGREGATED st' = AGGREGATED st" "NCCL_AGG st' = NCCL_AGG st" "LAUNCH_AGG st' = LAUNCH_AGG st"
    "EVENTS st' = EVENTS st"
    by (simp_all add: st'_def fire_frame is_exit_def del: fire.simps)
  moreover have "EVENTS (fire E3 q st') = EVENTS st'"
    using none assms(6) by (simp add: completed_def fire_exit emit_exit_EVENTS split: if_splits)
  ultimately show ?thesis
    using none by (simp add: fire_AGGREGATED fire_NCCL_AGG fire_LAUNCH_AGG)
qed

lemma get_function_discards_outer_witness:
  "LAUNCH_AGG (fire (sample_env 1600 7 0) (Runtime P_cuda_launch_kernel_ret)
     (fire (sample_env 300 7 8192) (Driver P_cu_module_get_function_ret)
       (fire (sample_env 200 7 0) (Driver (P_cu_module_get_function 64 1 96)) launched))) = Map.empty"
proof -
  have "INFLIGHT launched 7 = Some (new_entry (sample_env 100 7 0) EVENT_CUDA_LAUNCH_KERNEL 4096 0 0)"
    by (simp add: launched_def run_eval cuda_launch_kernel_def)
  moreover have "LAUNCH_AGG launched = Map.empty"
    by (simp add: launched_def cuda_launch_kernel_def)
  ultimately show ?thesis
    using get_function_discards_outer [of 64 96 launched "sample_env 200 7 0" _ "sample_env 300 7 8192"
        "sample_env 1600 7 0" "Runtime P_cuda_launch_kernel_ret" 1]
    by (simp add: is_exit_def del: fire.simps)
qed

end
