(* ===== verification/CLayout.thy ===== *)
theory CLayout
  imports Prelude
begin

text \<open>
  C data layout, as the compilers of the probes, of the kernel and of the Rust mirror
  (\<^verbatim>\<open>repr(C)\<close>) agree on it: every scalar is aligned to its size, a member starts at the next
  multiple of its alignment, a bit-field shares a unit of its declared type when it fits,
  a union overlays its members, and a struct ends at a multiple of its alignment. Pointers
  are eight bytes. Declarations are data, \<^verbatim>\<open>sizeof\<close>, \<^verbatim>\<open>alignof\<close> and \<^verbatim>\<open>offsetof\<close> functions on
  them.
\<close>

section \<open>Declarations\<close>

text \<open>
  \<open>Prim n\<close> is a scalar of \<open>n\<close> bytes. A member without a name is an anonymous struct or
  union, a bit-field without a name is padding. \<open>Bits x u w\<close> is a bit-field of width \<open>w\<close>
  whose declared type has \<open>u\<close> bytes.
\<close>

datatype ctype = Prim nat | Ptr | Array nat ctype | Struct members | Union members
  and members = End | Member string ctype members | Bits string nat nat members

definition struct :: "(members \<Rightarrow> members) list \<Rightarrow> ctype" where
  [layout_simps]: "struct ms = Struct (foldr (\<lambda>m. m) ms End)"

definition union :: "(members \<Rightarrow> members) list \<Rightarrow> ctype" where
  [layout_simps]: "union ms = Union (foldr (\<lambda>m. m) ms End)"

text \<open>\<open>n\<close> consecutive lines \<^verbatim>\<open>long: 64;\<close>, which the kernel header uses to write out padding.\<close>

primrec pads :: "nat \<Rightarrow> members \<Rightarrow> members" where
  "pads 0 ms = ms"
| "pads (Suc n) ms = Bits [] 8 64 (pads n ms)"

section \<open>Size, alignment, offsets\<close>

definition align_up :: "nat \<Rightarrow> nat \<Rightarrow> nat" where
  [layout_simps]: "align_up p a = (p + a - 1) div a * a"

lemma Suc_Suc_0 [layout_simps]: "Suc (Suc 0) = 2"
  by simp

primrec alignof :: "ctype \<Rightarrow> nat" and alignof_members :: "members \<Rightarrow> nat" where
  "alignof (Prim n) = n"
| "alignof Ptr = 8"
| "alignof (Array n t) = alignof t"
| "alignof (Struct ms) = alignof_members ms"
| "alignof (Union ms) = alignof_members ms"
| "alignof_members End = 1"
| "alignof_members (Member x t ms) = max (alignof t) (alignof_members ms)"
| "alignof_members (Bits x u w ms) = (if x = [] then alignof_members ms else max u (alignof_members ms))"

text \<open>Where a bit-field starts, given the first free bit.\<close>

definition bits_start :: "nat \<Rightarrow> nat \<Rightarrow> nat \<Rightarrow> nat" where
  [layout_simps]: "bits_start u w p =
     (if w = 0 then align_up p (8 * u)
      else if p mod (8 * u) + w \<le> 8 * u then p else align_up p (8 * u))"

text \<open>\<open>struct_end ms p\<close> is the first free bit after the members, \<open>union_end\<close> the widest member.\<close>

fun sizeof :: "ctype \<Rightarrow> nat" and struct_end :: "members \<Rightarrow> nat \<Rightarrow> nat"
    and union_end :: "members \<Rightarrow> nat" where
  "sizeof (Prim n) = n"
| "sizeof Ptr = 8"
| "sizeof (Array n t) = n * sizeof t"
| "sizeof (Struct ms) = align_up ((struct_end ms 0 + 7) div 8) (alignof_members ms)"
| "sizeof (Union ms) = align_up ((union_end ms + 7) div 8) (alignof_members ms)"
| "struct_end End p = p"
| "struct_end (Member x t ms) p = struct_end ms (align_up p (8 * alignof t) + 8 * sizeof t)"
| "struct_end (Bits x u w ms) p = struct_end ms (bits_start u w p + w)"
| "union_end End = 0"
| "union_end (Member x t ms) = max (8 * sizeof t) (union_end ms)"
| "union_end (Bits x u w ms) = max w (union_end ms)"

text \<open>
  The members of a struct or union with the bit at which each starts and its width. Named
  members only; those of an anonymous struct or union count as members of the enclosing
  one.
\<close>

fun places :: "ctype \<Rightarrow> (string \<times> nat \<times> nat) list"
    and struct_places :: "members \<Rightarrow> nat \<Rightarrow> (string \<times> nat \<times> nat) list"
    and union_places :: "members \<Rightarrow> (string \<times> nat \<times> nat) list" where
  "places (Struct ms) = struct_places ms 0"
| "places (Union ms) = union_places ms"
| "places _ = []"
| "struct_places End p = []"
| "struct_places (Member x t ms) p =
     (let q = align_up p (8 * alignof t)
      in (if x = [] then map (\<lambda>(y, b, w). (y, q + b, w)) (places t) else [(x, q, 8 * sizeof t)]) @
         struct_places ms (q + 8 * sizeof t))"
| "struct_places (Bits x u w ms) p =
     (let q = bits_start u w p
      in (if x = [] then [] else [(x, q, w)]) @ struct_places ms (q + w))"
| "union_places End = []"
| "union_places (Member x t ms) =
     (if x = [] then places t else [(x, 0, 8 * sizeof t)]) @ union_places ms"
| "union_places (Bits x u w ms) = (if x = [] then [] else [(x, 0, w)]) @ union_places ms"

definition offsetof :: "ctype \<Rightarrow> string \<Rightarrow> nat option" where
  "offsetof t x = map_option (\<lambda>(b, w). b div 8) (map_of (places t) x)"

lemma bits_start_pad: "bits_start 8 64 p = align_up p 64"
  by (auto simp: bits_start_def align_up_def elim!: dvdE)

lemma align_up_aligned: "64 dvd p \<Longrightarrow> align_up p 64 = p"
  by (auto simp: align_up_def elim!: dvdE)

lemma alignof_pads [layout_simps]: "alignof_members (pads n ms) = alignof_members ms"
  by (induction n) simp_all

lemma struct_end_pads_aligned: "64 dvd p \<Longrightarrow> struct_end (pads n ms) p = struct_end ms (p + 64 * n)"
  by (induction n arbitrary: p) (simp_all add: bits_start_pad align_up_aligned ac_simps)

lemma struct_end_pads [layout_simps]:
  "0 < n \<Longrightarrow> struct_end (pads n ms) p = struct_end ms (align_up p 64 + 64 * n)"
  by (cases n) (simp_all add: bits_start_pad struct_end_pads_aligned align_up_def ac_simps)

lemma struct_places_pads_aligned:
  "64 dvd p \<Longrightarrow> struct_places (pads n ms) p = struct_places ms (p + 64 * n)"
  by (induction n arbitrary: p) (simp_all add: bits_start_pad align_up_aligned Let_def ac_simps)

lemma struct_places_pads [layout_simps]:
  "0 < n \<Longrightarrow> struct_places (pads n ms) p = struct_places ms (align_up p 64 + 64 * n)"
  by (cases n) (simp_all add: bits_start_pad struct_places_pads_aligned align_up_def Let_def ac_simps)

section \<open>Soundness of the layout\<close>

text \<open>Declarations a C compiler accepts: scalar sizes are positive, a bit-field fits its type.\<close>

primrec wf_ctype :: "ctype \<Rightarrow> bool" and wf_members :: "members \<Rightarrow> bool" where
  "wf_ctype (Prim n) = (n > 0)"
| "wf_ctype Ptr = True"
| "wf_ctype (Array n t) = wf_ctype t"
| "wf_ctype (Struct ms) = wf_members ms"
| "wf_ctype (Union ms) = wf_members ms"
| "wf_members End = True"
| "wf_members (Member x t ms) = (wf_ctype t \<and> wf_members ms)"
| "wf_members (Bits x u w ms) = (u > 0 \<and> w \<le> 8 * u \<and> wf_members ms)"

lemma align_up_bounds:
  assumes "a > 0"
  shows "p \<le> align_up p a" and "align_up p a < p + a"
proof -
  let ?q = "(p + a - 1) div a * a"
  have "?q + (p + a - 1) mod a = p + a - 1" by simp
  moreover have "(p + a - 1) mod a < a" using assms by simp
  ultimately show "p \<le> align_up p a" and "align_up p a < p + a"
    using assms unfolding align_up_def by linarith+
qed

lemma align_up_dvd: "a dvd align_up p a"
  by (simp add: align_up_def)

lemma bits_start_ge: "u > 0 \<Longrightarrow> p \<le> bits_start u w p"
  using align_up_bounds(1) [of "8 * u" p] by (simp add: bits_start_def)

lemma alignof_pos:
  "wf_ctype t \<Longrightarrow> alignof t > 0"
  "wf_members ms \<Longrightarrow> alignof_members ms > 0"
  by (induction t and ms) auto

lemma member_start_ge: "wf_ctype t \<Longrightarrow> p \<le> align_up p (8 * alignof t)"
  using align_up_bounds(1) [of "8 * alignof t" p] alignof_pos(1) [of t] by simp

lemma struct_end_ge: "wf_members ms \<Longrightarrow> p \<le> struct_end ms p"
proof (induction ms arbitrary: p rule: members.induct [of "\<lambda>_. True"])
  case (Member x t ms)
  from Member.prems have "p \<le> align_up p (8 * alignof t)" by (simp add: member_start_ge)
  also have "\<dots> \<le> align_up p (8 * alignof t) + 8 * sizeof t" by simp
  also have "\<dots> \<le> struct_end ms \<dots>" using Member by simp
  finally show ?case by simp
next
  case (Bits x u w ms)
  from Bits.prems have "p \<le> bits_start u w p" by (simp add: bits_start_ge)
  also have "\<dots> \<le> bits_start u w p + w" by simp
  also have "\<dots> \<le> struct_end ms \<dots>" using Bits by simp
  finally show ?case by simp
qed simp_all

text \<open>The size of a type is a multiple of its alignment, so the elements of arrays stay aligned.\<close>

lemma alignof_dvd_sizeof: "alignof t dvd sizeof t"
  by (induction t rule: ctype.induct [of _ "\<lambda>_. True"]) (simp_all add: align_up_dvd)

lemma bits_le_bytes: "b \<le> e \<Longrightarrow> b \<le> 8 * ((e + 7) div 8)" for b e :: nat
  by linarith

lemma struct_fits:
  assumes "wf_members ms"
  shows "struct_end ms 0 \<le> 8 * sizeof (Struct ms)"
proof -
  have "(struct_end ms 0 + 7) div 8 \<le> sizeof (Struct ms)"
    using align_up_bounds(1) [OF alignof_pos(2) [OF assms]] by simp
  then show ?thesis using bits_le_bytes [of "struct_end ms 0" "struct_end ms 0"] by linarith
qed

lemma union_fits:
  assumes "wf_members ms"
  shows "union_end ms \<le> 8 * sizeof (Union ms)"
proof -
  have "(union_end ms + 7) div 8 \<le> sizeof (Union ms)"
    using align_up_bounds(1) [OF alignof_pos(2) [OF assms]] by simp
  then show ?thesis using bits_le_bytes [of "union_end ms" "union_end ms"] by linarith
qed

text \<open>Every member, also of an anonymous part, lies inside the object.\<close>

lemma places_in_bounds:
  "wf_ctype t \<Longrightarrow> (x, b, w) \<in> set (places t) \<Longrightarrow> b + w \<le> 8 * sizeof t"
  "wf_members ms \<Longrightarrow> (x, b, w) \<in> set (struct_places ms p) \<Longrightarrow> b + w \<le> struct_end ms p"
  "wf_members ms \<Longrightarrow> (x, b, w) \<in> set (union_places ms) \<Longrightarrow> b + w \<le> union_end ms"
proof (induction t and ms p and ms arbitrary: x b w and x b w and x b w
    rule: places_struct_places_union_places.induct)
  case (1 ms)
  then show ?case using struct_fits [of ms] by fastforce
next
  case (2 ms)
  then show ?case using union_fits [of ms] by fastforce
next
  case (5 y t ms p)
  let ?q = "align_up p (8 * alignof t)"
  have rest: "?q + 8 * sizeof t \<le> struct_end ms (?q + 8 * sizeof t)"
    using 5 by (simp add: struct_end_ge)
  from 5 consider "(x, b, w) \<in> set (struct_places ms (?q + 8 * sizeof t))"
    | b' where "y = []" "(x, b', w) \<in> set (places t)" "b = ?q + b'"
    | "y \<noteq> []" "b = ?q" "w = 8 * sizeof t"
    by (auto simp: Let_def split: if_splits)
  then show ?case
  proof cases
    case 1
    with 5 show ?thesis by (simp add: Let_def)
  next
    case 2
    then have "b' + w \<le> 8 * sizeof t" using 5 by simp
    with 2 rest show ?thesis by simp
  next
    case 3
    with rest show ?thesis by simp
  qed
next
  case (6 y u v ms p)
  have "bits_start u v p + v \<le> struct_end ms (bits_start u v p + v)"
    using 6 by (simp add: struct_end_ge)
  with 6 show ?case by (auto simp: Let_def split: if_splits)
next
  case (8 y t ms)
  then show ?case by (auto split: if_splits simp: le_max_iff_disj)
next
  case (9 y u v ms)
  then show ?case by (auto split: if_splits simp: le_max_iff_disj)
qed simp_all

text \<open>Without anonymous parts, the members of a struct follow each other without overlap.\<close>

primrec named_members :: "members \<Rightarrow> bool" where
  "named_members End = True"
| "named_members (Member x t ms) = (x \<noteq> [] \<and> named_members ms)"
| "named_members (Bits x u w ms) = named_members ms"

lemma struct_places_ge:
  "wf_members ms \<Longrightarrow> named_members ms \<Longrightarrow> (x, b, w) \<in> set (struct_places ms p) \<Longrightarrow> p \<le> b"
proof (induction ms arbitrary: p rule: members.induct [of "\<lambda>_. True"])
  case (Member y t ms)
  then have "p \<le> align_up p (8 * alignof t)" by (simp add: member_start_ge)
  with Member show ?case by (auto simp: Let_def) (metis add_leE le_trans)
next
  case (Bits y u v ms)
  then have "p \<le> bits_start u v p" by (simp add: bits_start_ge)
  with Bits show ?case by (auto simp: Let_def split: if_splits) (metis add_leE le_trans)+
qed simp_all

lemma struct_places_disjoint:
  "wf_members ms \<Longrightarrow> named_members ms \<Longrightarrow>
     sorted_wrt (\<lambda>(x, b, w) (y, c, v). b + w \<le> c) (struct_places ms p)"
proof (induction ms arbitrary: p rule: members.induct [of "\<lambda>_. True"])
  case (Member y t ms)
  then show ?case by (auto simp: Let_def dest: struct_places_ge [rotated 2])
next
  case (Bits y u v ms)
  then show ?case by (auto simp: Let_def dest: struct_places_ge [rotated 2])
qed simp_all

text \<open>
  Together: the size of a well-formed declaration is a multiple of its alignment, every
  member lies inside the object, and named members of a struct are placed in declaration
  order without overlap.
\<close>

lemma layout_sound:
  assumes "wf_ctype t"
  shows "alignof t dvd sizeof t \<and>
    (\<forall>(x, b, w) \<in> set (places t). b + w \<le> 8 * sizeof t) \<and>
    (\<forall>ms. t = Struct ms \<and> named_members ms \<longrightarrow>
       sorted_wrt (\<lambda>(x, b, w) (y, c, v). b + w \<le> c) (places t))"
  using assms places_in_bounds(1) [OF assms] struct_places_disjoint
  by (auto simp: alignof_dvd_sizeof)

text \<open>An object without padding: the widths of its members add up to its size.\<close>

definition no_padding :: "ctype \<Rightarrow> bool" where
  "no_padding t \<longleftrightarrow> sum_list (map (\<lambda>(x, b, w). w) (places t)) = 8 * sizeof t"

lemma layout_example:
  "let t = struct [Member ''a'' (Prim 1), Bits ''b'' 4 3, Bits ''c'' 4 30, Member ''d'' Ptr]
   in sizeof t = 16 \<and> \<not> no_padding t \<and>
      places t = [(''a'', 0, 8), (''b'', 8, 3), (''c'', 32, 30), (''d'', 64, 64)]"
  by (simp add: layout_simps Let_def no_padding_def)

end
