(* ===== verification/KernelBase.thy ===== *)
theory KernelBase
  imports CLayout
begin

text \<open>
  The lock, list, timer and counter types of the kernel that the structs of the other layout
  theories embed by value, from \<^verbatim>\<open>src/src/bpf/vmlinux.h\<close>, and the
  registers a probe reads.
  Each declaration is followed by its size and alignment.
\<close>

section \<open>Scalars\<close>

text \<open>The C names of the scalar types the declarations use.\<close>

abbreviation c__s16 :: ctype where "c__s16 \<equiv> Prim 2"
abbreviation c__s32 :: ctype where "c__s32 \<equiv> Prim 4"
abbreviation c__u16 :: ctype where "c__u16 \<equiv> Prim 2"
abbreviation c__u32 :: ctype where "c__u32 \<equiv> Prim 4"
abbreviation c__u64 :: ctype where "c__u64 \<equiv> Prim 8"
abbreviation c__u8 :: ctype where "c__u8 \<equiv> Prim 1"
abbreviation c_bool :: ctype where "c_bool \<equiv> Prim 1"
abbreviation c_char :: ctype where "c_char \<equiv> Prim 1"
abbreviation c_clockid_t :: ctype where "c_clockid_t \<equiv> Prim 4"
abbreviation c_enum :: ctype where "c_enum \<equiv> Prim 4"
abbreviation c_gfp_t :: ctype where "c_gfp_t \<equiv> Prim 4"
abbreviation c_int :: ctype where "c_int \<equiv> Prim 4"
abbreviation c_ktime_t :: ctype where "c_ktime_t \<equiv> Prim 8"
abbreviation c_loff_t :: ctype where "c_loff_t \<equiv> Prim 8"
abbreviation c_pid_t :: ctype where "c_pid_t \<equiv> Prim 4"
abbreviation c_s16 :: ctype where "c_s16 \<equiv> Prim 2"
abbreviation c_s32 :: ctype where "c_s32 \<equiv> Prim 4"
abbreviation c_s64 :: ctype where "c_s64 \<equiv> Prim 8"
abbreviation c_short :: ctype where "c_short \<equiv> Prim 2"
abbreviation c_size_t :: ctype where "c_size_t \<equiv> Prim 8"
abbreviation c_u16 :: ctype where "c_u16 \<equiv> Prim 2"
abbreviation c_u32 :: ctype where "c_u32 \<equiv> Prim 4"
abbreviation c_u64 :: ctype where "c_u64 \<equiv> Prim 8"
abbreviation c_u8 :: ctype where "c_u8 \<equiv> Prim 1"
abbreviation c_uid_t :: ctype where "c_uid_t \<equiv> Prim 4"
abbreviation c_uint :: ctype where "c_uint \<equiv> Prim 4"
abbreviation c_ullong :: ctype where "c_ullong \<equiv> Prim 8"
abbreviation c_ulong :: ctype where "c_ulong \<equiv> Prim 8"
abbreviation c_ushort :: ctype where "c_ushort \<equiv> Prim 2"

section \<open>Declarations\<close>

definition struct_fred_cs :: ctype where
  "struct_fred_cs = struct
    [Bits ''cs'' 8 16,
     Bits ''sl'' 8 2,
     Bits ''wfe'' 8 1]"

lemma struct_fred_cs_layout [layout_simps]: "sizeof struct_fred_cs = 8" "alignof struct_fred_cs = 8"
  by (simp_all add: struct_fred_cs_def layout_simps)

definition struct_fred_ss :: ctype where
  "struct_fred_ss = struct
    [Bits ''ss'' 8 16,
     Bits ''sti'' 8 1,
     Bits ''swevent'' 8 1,
     Bits ''nmi'' 8 1,
     Bits '''' 4 13,
     Bits ''vector'' 8 8,
     Bits '''' 2 8,
     Bits ''type'' 8 4,
     Bits '''' 1 4,
     Bits ''enclave'' 8 1,
     Bits ''lm'' 8 1,
     Bits ''nested'' 8 1,
     Bits '''' 1 1,
     Bits ''insnlen'' 8 4]"

lemma struct_fred_ss_layout [layout_simps]: "sizeof struct_fred_ss = 8" "alignof struct_fred_ss = 8"
  by (simp_all add: struct_fred_ss_def layout_simps)

definition struct_pt_regs :: ctype where
  "struct_pt_regs = struct
    [Member ''r15'' c_ulong,
     Member ''r14'' c_ulong,
     Member ''r13'' c_ulong,
     Member ''r12'' c_ulong,
     Member ''bp'' c_ulong,
     Member ''bx'' c_ulong,
     Member ''r11'' c_ulong,
     Member ''r10'' c_ulong,
     Member ''r9'' c_ulong,
     Member ''r8'' c_ulong,
     Member ''ax'' c_ulong,
     Member ''cx'' c_ulong,
     Member ''dx'' c_ulong,
     Member ''si'' c_ulong,
     Member ''di'' c_ulong,
     Member ''orig_ax'' c_ulong,
     Member ''ip'' c_ulong,
     Member '''' (union
        [Member ''cs'' c_u16,
         Member ''csx'' c_u64,
         Member ''fred_cs'' struct_fred_cs]),
     Member ''flags'' c_ulong,
     Member ''sp'' c_ulong,
     Member '''' (union
        [Member ''ss'' c_u16,
         Member ''ssx'' c_u64,
         Member ''fred_ss'' struct_fred_ss])]"

lemma struct_pt_regs_layout [layout_simps]: "sizeof struct_pt_regs = 168" "alignof struct_pt_regs = 8"
  by (simp_all add: struct_pt_regs_def layout_simps)

definition struct_list_head :: ctype where
  "struct_list_head = struct
    [Member ''next'' Ptr,
     Member ''prev'' Ptr]"

lemma struct_list_head_layout [layout_simps]: "sizeof struct_list_head = 16" "alignof struct_list_head = 8"
  by (simp_all add: struct_list_head_def layout_simps)

definition ty_atomic64_t :: ctype where
  "ty_atomic64_t = struct
    [Member ''counter'' c_s64]"

lemma ty_atomic64_t_layout [layout_simps]: "sizeof ty_atomic64_t = 8" "alignof ty_atomic64_t = 8"
  by (simp_all add: ty_atomic64_t_def layout_simps)

definition struct_work_struct :: ctype where
  "struct_work_struct = struct
    [Member ''data'' ty_atomic64_t,
     Member ''entry'' struct_list_head,
     Member ''func'' Ptr]"

lemma struct_work_struct_layout [layout_simps]: "sizeof struct_work_struct = 32" "alignof struct_work_struct = 8"
  by (simp_all add: struct_work_struct_def layout_simps)

definition struct_callback_head :: ctype where
  "struct_callback_head = struct
    [Member ''next'' Ptr,
     Member ''func'' Ptr]"

lemma struct_callback_head_layout [layout_simps]: "sizeof struct_callback_head = 16" "alignof struct_callback_head = 8"
  by (simp_all add: struct_callback_head_def layout_simps)

definition ty_atomic_t :: ctype where
  "ty_atomic_t = struct
    [Member ''counter'' c_int]"

lemma ty_atomic_t_layout [layout_simps]: "sizeof ty_atomic_t = 4" "alignof ty_atomic_t = 4"
  by (simp_all add: ty_atomic_t_def layout_simps)

definition struct_qspinlock :: ctype where
  "struct_qspinlock = struct
    [Member '''' (union
        [Member ''val'' ty_atomic_t,
         Member '''' (struct
            [Member ''locked'' c_u8,
             Member ''pending'' c_u8]),
         Member '''' (struct
            [Member ''locked_pending'' c_u16,
             Member ''tail'' c_u16])])]"

lemma struct_qspinlock_layout [layout_simps]: "sizeof struct_qspinlock = 4" "alignof struct_qspinlock = 4"
  by (simp_all add: struct_qspinlock_def layout_simps)

definition struct_raw_spinlock :: ctype where
  "struct_raw_spinlock = struct
    [Member ''raw_lock'' struct_qspinlock]"

lemma struct_raw_spinlock_layout [layout_simps]: "sizeof struct_raw_spinlock = 4" "alignof struct_raw_spinlock = 4"
  by (simp_all add: struct_raw_spinlock_def layout_simps)

definition struct_optimistic_spin_queue :: ctype where
  "struct_optimistic_spin_queue = struct
    [Member ''tail'' ty_atomic_t]"

lemma struct_optimistic_spin_queue_layout [layout_simps]: "sizeof struct_optimistic_spin_queue = 4" "alignof struct_optimistic_spin_queue = 4"
  by (simp_all add: struct_optimistic_spin_queue_def layout_simps)

definition struct_mutex :: ctype where
  "struct_mutex = struct
    [Member ''owner'' ty_atomic64_t,
     Member ''wait_lock'' struct_raw_spinlock,
     Member ''osq'' struct_optimistic_spin_queue,
     Member ''wait_list'' struct_list_head]"

lemma struct_mutex_layout [layout_simps]: "sizeof struct_mutex = 32" "alignof struct_mutex = 8"
  by (simp_all add: struct_mutex_def layout_simps)

definition struct_spinlock :: ctype where
  "struct_spinlock = struct
    [Member '''' (union
        [Member ''rlock'' struct_raw_spinlock])]"

lemma struct_spinlock_layout [layout_simps]: "sizeof struct_spinlock = 4" "alignof struct_spinlock = 4"
  by (simp_all add: struct_spinlock_def layout_simps)

definition struct_rw_semaphore :: ctype where
  "struct_rw_semaphore = struct
    [Member ''count'' ty_atomic64_t,
     Member ''owner'' ty_atomic64_t,
     Member ''osq'' struct_optimistic_spin_queue,
     Member ''wait_lock'' struct_raw_spinlock,
     Member ''wait_list'' struct_list_head]"

lemma struct_rw_semaphore_layout [layout_simps]: "sizeof struct_rw_semaphore = 40" "alignof struct_rw_semaphore = 8"
  by (simp_all add: struct_rw_semaphore_def layout_simps)

definition struct_percpu_counter :: ctype where
  "struct_percpu_counter = struct
    [Member ''lock'' struct_raw_spinlock,
     Member ''count'' c_s64,
     Member ''list'' struct_list_head,
     Member ''counters'' Ptr]"

lemma struct_percpu_counter_layout [layout_simps]: "sizeof struct_percpu_counter = 40" "alignof struct_percpu_counter = 8"
  by (simp_all add: struct_percpu_counter_def layout_simps)

definition struct_rb_node :: ctype where
  "struct_rb_node = struct
    [Member ''__rb_parent_color'' c_ulong,
     Member ''rb_right'' Ptr,
     Member ''rb_left'' Ptr]"

lemma struct_rb_node_layout [layout_simps]: "sizeof struct_rb_node = 24" "alignof struct_rb_node = 8"
  by (simp_all add: struct_rb_node_def layout_simps)

definition struct_hlist_node :: ctype where
  "struct_hlist_node = struct
    [Member ''next'' Ptr,
     Member ''pprev'' Ptr]"

lemma struct_hlist_node_layout [layout_simps]: "sizeof struct_hlist_node = 16" "alignof struct_hlist_node = 8"
  by (simp_all add: struct_hlist_node_def layout_simps)

definition struct_timer_list :: ctype where
  "struct_timer_list = struct
    [Member ''entry'' struct_hlist_node,
     Member ''expires'' c_ulong,
     Member ''function'' Ptr,
     Member ''flags'' c_u32]"

lemma struct_timer_list_layout [layout_simps]: "sizeof struct_timer_list = 40" "alignof struct_timer_list = 8"
  by (simp_all add: struct_timer_list_def layout_simps)

definition struct_timerqueue_node :: ctype where
  "struct_timerqueue_node = struct
    [Member ''node'' struct_rb_node,
     Member ''expires'' c_ktime_t]"

lemma struct_timerqueue_node_layout [layout_simps]: "sizeof struct_timerqueue_node = 32" "alignof struct_timerqueue_node = 8"
  by (simp_all add: struct_timerqueue_node_def layout_simps)

definition struct_hrtimer :: ctype where
  "struct_hrtimer = struct
    [Member ''node'' struct_timerqueue_node,
     Member ''_softexpires'' c_ktime_t,
     Member ''function'' Ptr,
     Member ''base'' Ptr,
     Member ''state'' c_u8,
     Member ''is_rel'' c_u8,
     Member ''is_soft'' c_u8,
     Member ''is_hard'' c_u8]"

lemma struct_hrtimer_layout [layout_simps]: "sizeof struct_hrtimer = 64" "alignof struct_hrtimer = 8"
  by (simp_all add: struct_hrtimer_def layout_simps)

definition struct_llist_node :: ctype where
  "struct_llist_node = struct
    [Member ''next'' Ptr]"

lemma struct_llist_node_layout [layout_simps]: "sizeof struct_llist_node = 8" "alignof struct_llist_node = 8"
  by (simp_all add: struct_llist_node_def layout_simps)

definition struct___call_single_node :: ctype where
  "struct___call_single_node = struct
    [Member ''llist'' struct_llist_node,
     Member '''' (union
        [Member ''u_flags'' c_uint,
         Member ''a_flags'' ty_atomic_t]),
     Member ''src'' c_u16,
     Member ''dst'' c_u16]"

lemma struct___call_single_node_layout [layout_simps]: "sizeof struct___call_single_node = 16" "alignof struct___call_single_node = 8"
  by (simp_all add: struct___call_single_node_def layout_simps)

definition struct_rcuwait :: ctype where
  "struct_rcuwait = struct
    [Member ''task'' Ptr]"

lemma struct_rcuwait_layout [layout_simps]: "sizeof struct_rcuwait = 8" "alignof struct_rcuwait = 8"
  by (simp_all add: struct_rcuwait_def layout_simps)

definition struct_irq_work :: ctype where
  "struct_irq_work = struct
    [Member ''node'' struct___call_single_node,
     Member ''func'' Ptr,
     Member ''irqwait'' struct_rcuwait]"

lemma struct_irq_work_layout [layout_simps]: "sizeof struct_irq_work = 32" "alignof struct_irq_work = 8"
  by (simp_all add: struct_irq_work_def layout_simps)

definition struct_wait_queue_head :: ctype where
  "struct_wait_queue_head = struct
    [Member ''lock'' struct_spinlock,
     Member ''head'' struct_list_head]"

lemma struct_wait_queue_head_layout [layout_simps]: "sizeof struct_wait_queue_head = 24" "alignof struct_wait_queue_head = 8"
  by (simp_all add: struct_wait_queue_head_def layout_simps)

definition struct_refcount_struct :: ctype where
  "struct_refcount_struct = struct
    [Member ''refs'' ty_atomic_t]"

lemma struct_refcount_struct_layout [layout_simps]: "sizeof struct_refcount_struct = 4" "alignof struct_refcount_struct = 4"
  by (simp_all add: struct_refcount_struct_def layout_simps)

definition struct_seqcount :: ctype where
  "struct_seqcount = struct
    [Member ''sequence'' c_uint]"

lemma struct_seqcount_layout [layout_simps]: "sizeof struct_seqcount = 4" "alignof struct_seqcount = 4"
  by (simp_all add: struct_seqcount_def layout_simps)

definition struct_llist_head :: ctype where
  "struct_llist_head = struct
    [Member ''first'' Ptr]"

lemma struct_llist_head_layout [layout_simps]: "sizeof struct_llist_head = 8" "alignof struct_llist_head = 8"
  by (simp_all add: struct_llist_head_def layout_simps)

end
