(* ===== verification/KernelBpf.thy ===== *)
theory KernelBpf
  imports KernelBase
begin

text \<open>
  The kernel side of BPF maps and programs (\<^verbatim>\<open>src/src/bpf/vmlinux.h\<close>):
  the map object with its array, hash and ring-buffer variants, programs, helpers, the
  attribute union of the system call, and the enumerations that number map types, helpers and
  programs.
  Each declaration is followed by its size and alignment.
\<close>

definition struct_bpf_map :: ctype where
  "struct_bpf_map = struct
    [Member ''ops'' Ptr,
     Member ''inner_map_meta'' Ptr,
     Member ''security'' Ptr,
     Member ''map_type'' c_enum,
     Member ''key_size'' c_u32,
     Member ''value_size'' c_u32,
     Member ''max_entries'' c_u32,
     Member ''map_extra'' c_u64,
     Member ''map_flags'' c_u32,
     Member ''id'' c_u32,
     Member ''record'' Ptr,
     Member ''numa_node'' c_int,
     Member ''btf_key_type_id'' c_u32,
     Member ''btf_value_type_id'' c_u32,
     Member ''btf_vmlinux_value_type_id'' c_u32,
     Member ''btf'' Ptr,
     Member ''objcg'' Ptr,
     Member ''name'' (Array 16 c_char),
     pads 2,
     Member ''refcnt'' ty_atomic64_t,
     Member ''usercnt'' ty_atomic64_t,
     Member '''' (union
        [Member ''work'' struct_work_struct,
         Member ''rcu'' struct_callback_head]),
     Member ''freeze_mutex'' struct_mutex,
     Member ''writecnt'' ty_atomic64_t,
     Member ''owner'' (struct
        [Member ''attach_func_proto'' Ptr,
         Member ''lock'' struct_spinlock,
         Member ''type'' c_enum,
         Member ''jited'' c_bool,
         Member ''xdp_has_frags'' c_bool]),
     Member ''bypass_spec_v1'' c_bool,
     Member ''frozen'' c_bool,
     Member ''free_after_mult_rcu_gp'' c_bool,
     Member ''free_after_rcu_gp'' c_bool,
     Member ''sleepable_refcnt'' ty_atomic64_t,
     Member ''elem_count'' Ptr,
     pads 7]"

lemma struct_bpf_map_layout [layout_simps]: "sizeof struct_bpf_map = 320" "alignof struct_bpf_map = 8"
  by (simp_all add: struct_bpf_map_def layout_simps)

definition struct_bpf_array :: ctype where
  "struct_bpf_array = struct
    [Member ''map'' struct_bpf_map,
     Member ''elem_size'' c_u32,
     Member ''index_mask'' c_u32,
     Member ''aux'' Ptr,
     Member '''' (union
        [Member '''' (struct
            [Member ''__empty_value'' (struct
                []),
             Member ''value'' (Array 0 c_char)]),
         Member '''' (struct
            [Member ''__empty_ptrs'' (struct
                []),
             Member ''ptrs'' (Array 0 Ptr)]),
         Member '''' (struct
            [Member ''__empty_pptrs'' (struct
                []),
             Member ''pptrs'' (Array 0 Ptr)])]),
     pads 6]"

lemma struct_bpf_array_layout [layout_simps]: "sizeof struct_bpf_array = 384" "alignof struct_bpf_array = 8"
  by (simp_all add: struct_bpf_array_def layout_simps)

definition struct_bpf_mem_alloc :: ctype where
  "struct_bpf_mem_alloc = struct
    [Member ''caches'' Ptr,
     Member ''cache'' Ptr,
     Member ''objcg'' Ptr,
     Member ''percpu'' c_bool,
     Member ''work'' struct_work_struct]"

lemma struct_bpf_mem_alloc_layout [layout_simps]: "sizeof struct_bpf_mem_alloc = 64" "alignof struct_bpf_mem_alloc = 8"
  by (simp_all add: struct_bpf_mem_alloc_def layout_simps)

definition struct_pcpu_freelist_head :: ctype where
  "struct_pcpu_freelist_head = struct
    [Member ''first'' Ptr,
     Member ''lock'' struct_raw_spinlock]"

lemma struct_pcpu_freelist_head_layout [layout_simps]: "sizeof struct_pcpu_freelist_head = 16" "alignof struct_pcpu_freelist_head = 8"
  by (simp_all add: struct_pcpu_freelist_head_def layout_simps)

definition struct_pcpu_freelist :: ctype where
  "struct_pcpu_freelist = struct
    [Member ''freelist'' Ptr,
     Member ''extralist'' struct_pcpu_freelist_head]"

lemma struct_pcpu_freelist_layout [layout_simps]: "sizeof struct_pcpu_freelist = 24" "alignof struct_pcpu_freelist = 8"
  by (simp_all add: struct_pcpu_freelist_def layout_simps)

definition struct_bpf_lru_list :: ctype where
  "struct_bpf_lru_list = struct
    [Member ''lists'' (Array 3 struct_list_head),
     Member ''counts'' (Array 2 c_uint),
     Member ''next_inactive_rotation'' Ptr,
     Member ''lock'' struct_raw_spinlock,
     pads 7]"

lemma struct_bpf_lru_list_layout [layout_simps]: "sizeof struct_bpf_lru_list = 128" "alignof struct_bpf_lru_list = 8"
  by (simp_all add: struct_bpf_lru_list_def layout_simps)

definition struct_bpf_common_lru :: ctype where
  "struct_bpf_common_lru = struct
    [Member ''lru_list'' struct_bpf_lru_list,
     Member ''local_list'' Ptr,
     pads 7]"

lemma struct_bpf_common_lru_layout [layout_simps]: "sizeof struct_bpf_common_lru = 192" "alignof struct_bpf_common_lru = 8"
  by (simp_all add: struct_bpf_common_lru_def layout_simps)

definition struct_bpf_lru :: ctype where
  "struct_bpf_lru = struct
    [Member '''' (union
        [Member ''common_lru'' struct_bpf_common_lru,
         Member ''percpu_lru'' Ptr]),
     Member ''del_from_htab'' Ptr,
     Member ''del_arg'' Ptr,
     Member ''hash_offset'' c_uint,
     Member ''target_free'' c_uint,
     Member ''nr_scans'' c_uint,
     Member ''percpu'' c_bool,
     pads 4]"

lemma struct_bpf_lru_layout [layout_simps]: "sizeof struct_bpf_lru = 256" "alignof struct_bpf_lru = 8"
  by (simp_all add: struct_bpf_lru_def layout_simps)

definition struct_lock_class_key :: ctype where
  "struct_lock_class_key = struct
    []"

lemma struct_lock_class_key_layout [layout_simps]: "sizeof struct_lock_class_key = 0" "alignof struct_lock_class_key = 1"
  by (simp_all add: struct_lock_class_key_def layout_simps)

definition struct_bpf_htab :: ctype where
  "struct_bpf_htab = struct
    [Member ''map'' struct_bpf_map,
     Member ''ma'' struct_bpf_mem_alloc,
     Member ''pcpu_ma'' struct_bpf_mem_alloc,
     Member ''buckets'' Ptr,
     Member ''elems'' Ptr,
     pads 6,
     Member '''' (union
        [Member ''freelist'' struct_pcpu_freelist,
         Member ''lru'' struct_bpf_lru]),
     Member ''extra_elems'' Ptr,
     Member ''pcount'' struct_percpu_counter,
     Member ''count'' ty_atomic_t,
     Member ''use_percpu_counter'' c_bool,
     Member ''n_buckets'' c_u32,
     Member ''elem_size'' c_u32,
     Member ''hashrnd'' c_u32,
     Member ''lockdep_key'' struct_lock_class_key,
     Member ''map_locked'' (Array 8 Ptr),
     pads 7]"

lemma struct_bpf_htab_layout [layout_simps]: "sizeof struct_bpf_htab = 960" "alignof struct_bpf_htab = 8"
  by (simp_all add: struct_bpf_htab_def layout_simps)

definition struct_hlist_nulls_node :: ctype where
  "struct_hlist_nulls_node = struct
    [Member ''next'' Ptr,
     Member ''pprev'' Ptr]"

lemma struct_hlist_nulls_node_layout [layout_simps]: "sizeof struct_hlist_nulls_node = 16" "alignof struct_hlist_nulls_node = 8"
  by (simp_all add: struct_hlist_nulls_node_def layout_simps)

definition struct_pcpu_freelist_node :: ctype where
  "struct_pcpu_freelist_node = struct
    [Member ''next'' Ptr]"

lemma struct_pcpu_freelist_node_layout [layout_simps]: "sizeof struct_pcpu_freelist_node = 8" "alignof struct_pcpu_freelist_node = 8"
  by (simp_all add: struct_pcpu_freelist_node_def layout_simps)

definition struct_bpf_lru_node :: ctype where
  "struct_bpf_lru_node = struct
    [Member ''list'' struct_list_head,
     Member ''cpu'' c_u16,
     Member ''type'' c_u8,
     Member ''ref'' c_u8]"

lemma struct_bpf_lru_node_layout [layout_simps]: "sizeof struct_bpf_lru_node = 24" "alignof struct_bpf_lru_node = 8"
  by (simp_all add: struct_bpf_lru_node_def layout_simps)

definition struct_htab_elem :: ctype where
  "struct_htab_elem = struct
    [Member '''' (union
        [Member ''hash_node'' struct_hlist_nulls_node,
         Member '''' (struct
            [Member ''padding'' Ptr,
             Member '''' (union
                [Member ''fnode'' struct_pcpu_freelist_node,
                 Member ''batch_flink'' Ptr])])]),
     Member '''' (union
        [Member ''ptr_to_pptr'' Ptr,
         Member ''lru_node'' struct_bpf_lru_node]),
     Member ''hash'' c_u32,
     Bits '''' 8 0,
     Member ''key'' (Array 0 c_char)]"

lemma struct_htab_elem_layout [layout_simps]: "sizeof struct_htab_elem = 48" "alignof struct_htab_elem = 8"
  by (simp_all add: struct_htab_elem_def layout_simps)

definition struct_hlist_nulls_head :: ctype where
  "struct_hlist_nulls_head = struct
    [Member ''first'' Ptr]"

lemma struct_hlist_nulls_head_layout [layout_simps]: "sizeof struct_hlist_nulls_head = 8" "alignof struct_hlist_nulls_head = 8"
  by (simp_all add: struct_hlist_nulls_head_def layout_simps)

definition struct_bucket :: ctype where
  "struct_bucket = struct
    [Member ''head'' struct_hlist_nulls_head,
     Member ''raw_lock'' struct_raw_spinlock]"

lemma struct_bucket_layout [layout_simps]: "sizeof struct_bucket = 16" "alignof struct_bucket = 8"
  by (simp_all add: struct_bucket_def layout_simps)

definition struct_bpf_lru_locallist :: ctype where
  "struct_bpf_lru_locallist = struct
    [Member ''lists'' (Array 2 struct_list_head),
     Member ''next_steal'' c_u16,
     Member ''lock'' struct_raw_spinlock]"

lemma struct_bpf_lru_locallist_layout [layout_simps]: "sizeof struct_bpf_lru_locallist = 40" "alignof struct_bpf_lru_locallist = 8"
  by (simp_all add: struct_bpf_lru_locallist_def layout_simps)

definition struct_bpf_ringbuf_page0 :: "(members \<Rightarrow> members) list" where
  "struct_bpf_ringbuf_page0 =
    [Member ''waitq'' struct_wait_queue_head,
     Member ''work'' struct_irq_work,
     Member ''mask'' c_u64,
     Member ''pages'' Ptr,
     Member ''nr_pages'' c_int,
     pads 6,
     Member ''spinlock'' struct_raw_spinlock,
     pads 7,
     Member ''busy'' ty_atomic_t,
     pads 487]"

definition struct_bpf_ringbuf_page1 :: "(members \<Rightarrow> members) list" where
  "struct_bpf_ringbuf_page1 =
    [Member ''consumer_pos'' c_ulong,
     pads 511]"

definition struct_bpf_ringbuf_page2 :: "(members \<Rightarrow> members) list" where
  "struct_bpf_ringbuf_page2 =
    [Member ''producer_pos'' c_ulong,
     Member ''pending_pos'' c_ulong,
     pads 510,
     Member ''data'' (Array 0 c_char)]"

definition struct_bpf_ringbuf :: ctype where
  "struct_bpf_ringbuf = struct (struct_bpf_ringbuf_page0 @ struct_bpf_ringbuf_page1 @ struct_bpf_ringbuf_page2)"

lemma struct_bpf_ringbuf_layout [layout_simps]: "sizeof struct_bpf_ringbuf = 12288" "alignof struct_bpf_ringbuf = 8"
  by (simp_all add: struct_bpf_ringbuf_def struct_bpf_ringbuf_page0_def struct_bpf_ringbuf_page1_def struct_bpf_ringbuf_page2_def layout_simps)

definition struct_bpf_ringbuf_map :: ctype where
  "struct_bpf_ringbuf_map = struct
    [Member ''map'' struct_bpf_map,
     Member ''rb'' Ptr,
     pads 7]"

lemma struct_bpf_ringbuf_map_layout [layout_simps]: "sizeof struct_bpf_ringbuf_map = 384" "alignof struct_bpf_ringbuf_map = 8"
  by (simp_all add: struct_bpf_ringbuf_map_def layout_simps)

definition struct_bpf_ringbuf_hdr :: ctype where
  "struct_bpf_ringbuf_hdr = struct
    [Member ''len'' c_u32,
     Member ''pg_off'' c_u32]"

lemma struct_bpf_ringbuf_hdr_layout [layout_simps]: "sizeof struct_bpf_ringbuf_hdr = 8" "alignof struct_bpf_ringbuf_hdr = 4"
  by (simp_all add: struct_bpf_ringbuf_hdr_def layout_simps)

definition struct_bpf_map_ops :: ctype where
  "struct_bpf_map_ops = struct
    [Member ''map_alloc_check'' Ptr,
     Member ''map_alloc'' Ptr,
     Member ''map_release'' Ptr,
     Member ''map_free'' Ptr,
     Member ''map_get_next_key'' Ptr,
     Member ''map_release_uref'' Ptr,
     Member ''map_lookup_elem_sys_only'' Ptr,
     Member ''map_lookup_batch'' Ptr,
     Member ''map_lookup_and_delete_elem'' Ptr,
     Member ''map_lookup_and_delete_batch'' Ptr,
     Member ''map_update_batch'' Ptr,
     Member ''map_delete_batch'' Ptr,
     Member ''map_lookup_elem'' Ptr,
     Member ''map_update_elem'' Ptr,
     Member ''map_delete_elem'' Ptr,
     Member ''map_push_elem'' Ptr,
     Member ''map_pop_elem'' Ptr,
     Member ''map_peek_elem'' Ptr,
     Member ''map_lookup_percpu_elem'' Ptr,
     Member ''map_fd_get_ptr'' Ptr,
     Member ''map_fd_put_ptr'' Ptr,
     Member ''map_gen_lookup'' Ptr,
     Member ''map_fd_sys_lookup_elem'' Ptr,
     Member ''map_seq_show_elem'' Ptr,
     Member ''map_check_btf'' Ptr,
     Member ''map_poke_track'' Ptr,
     Member ''map_poke_untrack'' Ptr,
     Member ''map_poke_run'' Ptr,
     Member ''map_direct_value_addr'' Ptr,
     Member ''map_direct_value_meta'' Ptr,
     Member ''map_mmap'' Ptr,
     Member ''map_poll'' Ptr,
     Member ''map_local_storage_charge'' Ptr,
     Member ''map_local_storage_uncharge'' Ptr,
     Member ''map_owner_storage_ptr'' Ptr,
     Member ''map_redirect'' Ptr,
     Member ''map_meta_equal'' Ptr,
     Member ''map_set_for_each_callback_args'' Ptr,
     Member ''map_for_each_callback'' Ptr,
     Member ''map_mem_usage'' Ptr,
     Member ''map_btf_id'' Ptr,
     Member ''iter_seq_info'' Ptr]"

lemma struct_bpf_map_ops_layout [layout_simps]: "sizeof struct_bpf_map_ops = 336" "alignof struct_bpf_map_ops = 8"
  by (simp_all add: struct_bpf_map_ops_def layout_simps)

definition struct_latch_tree_node :: ctype where
  "struct_latch_tree_node = struct
    [Member ''node'' (Array 2 struct_rb_node)]"

lemma struct_latch_tree_node_layout [layout_simps]: "sizeof struct_latch_tree_node = 48" "alignof struct_latch_tree_node = 8"
  by (simp_all add: struct_latch_tree_node_def layout_simps)

definition struct_bpf_ksym :: ctype where
  "struct_bpf_ksym = struct
    [Member ''start'' c_ulong,
     Member ''end'' c_ulong,
     Member ''name'' (Array 512 c_char),
     Member ''lnode'' struct_list_head,
     Member ''tnode'' struct_latch_tree_node,
     Member ''prog'' c_bool]"

lemma struct_bpf_ksym_layout [layout_simps]: "sizeof struct_bpf_ksym = 600" "alignof struct_bpf_ksym = 8"
  by (simp_all add: struct_bpf_ksym_def layout_simps)

definition struct_sock_filter :: ctype where
  "struct_sock_filter = struct
    [Member ''code'' c__u16,
     Member ''jt'' c__u8,
     Member ''jf'' c__u8,
     Member ''k'' c__u32]"

lemma struct_sock_filter_layout [layout_simps]: "sizeof struct_sock_filter = 8" "alignof struct_sock_filter = 4"
  by (simp_all add: struct_sock_filter_def layout_simps)

definition struct_bpf_insn :: ctype where
  "struct_bpf_insn = struct
    [Member ''code'' c__u8,
     Bits ''dst_reg'' 1 4,
     Bits ''src_reg'' 1 4,
     Member ''off'' c__s16,
     Member ''imm'' c__s32]"

lemma struct_bpf_insn_layout [layout_simps]: "sizeof struct_bpf_insn = 8" "alignof struct_bpf_insn = 4"
  by (simp_all add: struct_bpf_insn_def layout_simps)

definition struct_bpf_prog :: ctype where
  "struct_bpf_prog = struct
    [Member ''pages'' c_u16,
     Bits ''jited'' 2 1,
     Bits ''jit_requested'' 2 1,
     Bits ''gpl_compatible'' 2 1,
     Bits ''cb_access'' 2 1,
     Bits ''dst_needed'' 2 1,
     Bits ''blinding_requested'' 2 1,
     Bits ''blinded'' 2 1,
     Bits ''is_func'' 2 1,
     Bits ''kprobe_override'' 2 1,
     Bits ''has_callchain_buf'' 2 1,
     Bits ''enforce_expected_attach_type'' 2 1,
     Bits ''call_get_stack'' 2 1,
     Bits ''call_get_func_ip'' 2 1,
     Bits ''tstamp_type_access'' 2 1,
     Member ''type'' c_enum,
     Member ''expected_attach_type'' c_enum,
     Member ''len'' c_u32,
     Member ''jited_len'' c_u32,
     Member ''tag'' (Array 8 c_u8),
     Member ''stats'' Ptr,
     Member ''active'' Ptr,
     Member ''bpf_func'' Ptr,
     Member ''aux'' Ptr,
     Member ''orig_prog'' Ptr,
     Member '''' (union
        [Member '''' (struct
            [Member ''__empty_insns'' (struct
                []),
             Member ''insns'' (Array 0 struct_sock_filter)]),
         Member '''' (struct
            [Member ''__empty_insnsi'' (struct
                []),
             Member ''insnsi'' (Array 0 struct_bpf_insn)])])]"

lemma struct_bpf_prog_layout [layout_simps]: "sizeof struct_bpf_prog = 72" "alignof struct_bpf_prog = 8"
  by (simp_all add: struct_bpf_prog_def layout_simps)

definition struct_bpf_prog_ops :: ctype where
  "struct_bpf_prog_ops = struct
    [Member ''test_run'' Ptr]"

lemma struct_bpf_prog_ops_layout [layout_simps]: "sizeof struct_bpf_prog_ops = 8" "alignof struct_bpf_prog_ops = 8"
  by (simp_all add: struct_bpf_prog_ops_def layout_simps)

definition struct_bpf_verifier_ops :: ctype where
  "struct_bpf_verifier_ops = struct
    [Member ''get_func_proto'' Ptr,
     Member ''is_valid_access'' Ptr,
     Member ''gen_prologue'' Ptr,
     Member ''gen_ld_abs'' Ptr,
     Member ''convert_ctx_access'' Ptr,
     Member ''btf_struct_access'' Ptr]"

lemma struct_bpf_verifier_ops_layout [layout_simps]: "sizeof struct_bpf_verifier_ops = 48" "alignof struct_bpf_verifier_ops = 8"
  by (simp_all add: struct_bpf_verifier_ops_def layout_simps)

definition struct_bpf_prog_aux :: ctype where
  "struct_bpf_prog_aux = struct
    [Member ''refcnt'' ty_atomic64_t,
     Member ''used_map_cnt'' c_u32,
     Member ''used_btf_cnt'' c_u32,
     Member ''max_ctx_offset'' c_u32,
     Member ''max_pkt_offset'' c_u32,
     Member ''max_tp_access'' c_u32,
     Member ''stack_depth'' c_u32,
     Member ''id'' c_u32,
     Member ''func_cnt'' c_u32,
     Member ''real_func_cnt'' c_u32,
     Member ''func_idx'' c_u32,
     Member ''attach_btf_id'' c_u32,
     Member ''ctx_arg_info_size'' c_u32,
     Member ''max_rdonly_access'' c_u32,
     Member ''max_rdwr_access'' c_u32,
     Member ''attach_btf'' Ptr,
     Member ''ctx_arg_info'' Ptr,
     Member ''dst_mutex'' struct_mutex,
     Member ''dst_prog'' Ptr,
     Member ''dst_trampoline'' Ptr,
     Member ''saved_dst_prog_type'' c_enum,
     Member ''saved_dst_attach_type'' c_enum,
     Member ''verifier_zext'' c_bool,
     Member ''dev_bound'' c_bool,
     Member ''offload_requested'' c_bool,
     Member ''attach_btf_trace'' c_bool,
     Member ''attach_tracing_prog'' c_bool,
     Member ''func_proto_unreliable'' c_bool,
     Member ''sleepable'' c_bool,
     Member ''tail_call_reachable'' c_bool,
     Member ''xdp_has_frags'' c_bool,
     Member ''exception_cb'' c_bool,
     Member ''exception_boundary'' c_bool,
     Member ''is_extended'' c_bool,
     Member ''prog_array_member_cnt'' c_u64,
     Member ''ext_mutex'' struct_mutex,
     Member ''attach_func_proto'' Ptr,
     Member ''attach_func_name'' Ptr,
     Member ''func'' Ptr,
     Member ''jit_data'' Ptr,
     Member ''poke_tab'' Ptr,
     Member ''kfunc_tab'' Ptr,
     Member ''kfunc_btf_tab'' Ptr,
     Member ''size_poke_tab'' c_u32,
     Member ''ksym'' struct_bpf_ksym,
     Member ''ops'' Ptr,
     Member ''used_maps'' Ptr,
     Member ''used_maps_mutex'' struct_mutex,
     Member ''used_btfs'' Ptr,
     Member ''prog'' Ptr,
     Member ''user'' Ptr,
     Member ''load_time'' c_u64,
     Member ''verified_insns'' c_u32,
     Member ''cgroup_atype'' c_int,
     Member ''cgroup_storage'' (Array 2 Ptr),
     Member ''name'' (Array 16 c_char),
     Member ''bpf_exception_cb'' Ptr,
     Member ''security'' Ptr,
     Member ''offload'' Ptr,
     Member ''btf'' Ptr,
     Member ''func_info'' Ptr,
     Member ''func_info_aux'' Ptr,
     Member ''linfo'' Ptr,
     Member ''jited_linfo'' Ptr,
     Member ''func_info_cnt'' c_u32,
     Member ''nr_linfo'' c_u32,
     Member ''linfo_idx'' c_u32,
     Member ''mod'' Ptr,
     Member ''num_exentries'' c_u32,
     Member ''extable'' Ptr,
     Member '''' (union
        [Member ''work'' struct_work_struct,
         Member ''rcu'' struct_callback_head])]"

lemma struct_bpf_prog_aux_layout [layout_simps]: "sizeof struct_bpf_prog_aux = 1112" "alignof struct_bpf_prog_aux = 8"
  by (simp_all add: struct_bpf_prog_aux_def layout_simps)

definition struct_bpf_func_proto :: ctype where
  "struct_bpf_func_proto = struct
    [Member ''func'' Ptr,
     Member ''gpl_only'' c_bool,
     Member ''pkt_access'' c_bool,
     Member ''might_sleep'' c_bool,
     Member ''ret_type'' c_enum,
     Member '''' (union
        [Member '''' (struct
            [Member ''arg1_type'' c_enum,
             Member ''arg2_type'' c_enum,
             Member ''arg3_type'' c_enum,
             Member ''arg4_type'' c_enum,
             Member ''arg5_type'' c_enum]),
         Member ''arg_type'' (Array 5 c_enum)]),
     Member '''' (union
        [Member '''' (struct
            [Member ''arg1_btf_id'' Ptr,
             Member ''arg2_btf_id'' Ptr,
             Member ''arg3_btf_id'' Ptr,
             Member ''arg4_btf_id'' Ptr,
             Member ''arg5_btf_id'' Ptr]),
         Member ''arg_btf_id'' (Array 5 Ptr),
         Member '''' (struct
            [Member ''arg1_size'' c_size_t,
             Member ''arg2_size'' c_size_t,
             Member ''arg3_size'' c_size_t,
             Member ''arg4_size'' c_size_t,
             Member ''arg5_size'' c_size_t]),
         Member ''arg_size'' (Array 5 c_size_t)]),
     Member ''ret_btf_id'' Ptr,
     Member ''allowed'' Ptr]"

lemma struct_bpf_func_proto_layout [layout_simps]: "sizeof struct_bpf_func_proto = 96" "alignof struct_bpf_func_proto = 8"
  by (simp_all add: struct_bpf_func_proto_def layout_simps)

definition struct_bpf_run_ctx :: ctype where
  "struct_bpf_run_ctx = struct
    []"

lemma struct_bpf_run_ctx_layout [layout_simps]: "sizeof struct_bpf_run_ctx = 0" "alignof struct_bpf_run_ctx = 1"
  by (simp_all add: struct_bpf_run_ctx_def layout_simps)

definition struct_bpf_trace_run_ctx :: ctype where
  "struct_bpf_trace_run_ctx = struct
    [Member ''run_ctx'' struct_bpf_run_ctx,
     Member ''bpf_cookie'' c_u64,
     Member ''is_uprobe'' c_bool]"

lemma struct_bpf_trace_run_ctx_layout [layout_simps]: "sizeof struct_bpf_trace_run_ctx = 16" "alignof struct_bpf_trace_run_ctx = 8"
  by (simp_all add: struct_bpf_trace_run_ctx_def layout_simps)

definition struct_bpf_link :: ctype where
  "struct_bpf_link = struct
    [Member ''refcnt'' ty_atomic64_t,
     Member ''id'' c_u32,
     Member ''type'' c_enum,
     Member ''ops'' Ptr,
     Member ''prog'' Ptr,
     Member '''' (union
        [Member ''rcu'' struct_callback_head,
         Member ''work'' struct_work_struct])]"

lemma struct_bpf_link_layout [layout_simps]: "sizeof struct_bpf_link = 64" "alignof struct_bpf_link = 8"
  by (simp_all add: struct_bpf_link_def layout_simps)

definition struct_bpf_iter_aux_info :: ctype where
  "struct_bpf_iter_aux_info = struct
    [Member ''map'' Ptr,
     Member ''cgroup'' (struct
        [Member ''start'' Ptr,
         Member ''order'' c_enum]),
     Member ''task'' (struct
        [Member ''type'' c_enum,
         Member ''pid'' c_u32])]"

lemma struct_bpf_iter_aux_info_layout [layout_simps]: "sizeof struct_bpf_iter_aux_info = 32" "alignof struct_bpf_iter_aux_info = 8"
  by (simp_all add: struct_bpf_iter_aux_info_def layout_simps)

definition union_bpf_attr_maps :: "(members \<Rightarrow> members) list" where
  "union_bpf_attr_maps =
    [Member '''' (struct
        [Member ''map_type'' c__u32,
         Member ''key_size'' c__u32,
         Member ''value_size'' c__u32,
         Member ''max_entries'' c__u32,
         Member ''map_flags'' c__u32,
         Member ''inner_map_fd'' c__u32,
         Member ''numa_node'' c__u32,
         Member ''map_name'' (Array 16 c_char),
         Member ''map_ifindex'' c__u32,
         Member ''btf_fd'' c__u32,
         Member ''btf_key_type_id'' c__u32,
         Member ''btf_value_type_id'' c__u32,
         Member ''btf_vmlinux_value_type_id'' c__u32,
         Member ''map_extra'' c__u64]),
     Member '''' (struct
        [Member ''map_fd'' c__u32,
         Member ''key'' c__u64,
         Member '''' (union
            [Member ''value'' c__u64,
             Member ''next_key'' c__u64]),
         Member ''flags'' c__u64]),
     Member ''batch'' (struct
        [Member ''in_batch'' c__u64,
         Member ''out_batch'' c__u64,
         Member ''keys'' c__u64,
         Member ''values'' c__u64,
         Member ''count'' c__u32,
         Member ''map_fd'' c__u32,
         Member ''elem_flags'' c__u64,
         Member ''flags'' c__u64]),
     Member '''' (struct
        [Member ''prog_type'' c__u32,
         Member ''insn_cnt'' c__u32,
         Member ''insns'' c__u64,
         Member ''license'' c__u64,
         Member ''log_level'' c__u32,
         Member ''log_size'' c__u32,
         Member ''log_buf'' c__u64,
         Member ''kern_version'' c__u32,
         Member ''prog_flags'' c__u32,
         Member ''prog_name'' (Array 16 c_char),
         Member ''prog_ifindex'' c__u32,
         Member ''expected_attach_type'' c__u32,
         Member ''prog_btf_fd'' c__u32,
         Member ''func_info_rec_size'' c__u32,
         Member ''func_info'' c__u64,
         Member ''func_info_cnt'' c__u32,
         Member ''line_info_rec_size'' c__u32,
         Member ''line_info'' c__u64,
         Member ''line_info_cnt'' c__u32,
         Member ''attach_btf_id'' c__u32,
         Member '''' (union
            [Member ''attach_prog_fd'' c__u32,
             Member ''attach_btf_obj_fd'' c__u32]),
         Member ''core_relo_cnt'' c__u32,
         Member ''fd_array'' c__u64,
         Member ''core_relos'' c__u64,
         Member ''core_relo_rec_size'' c__u32,
         Member ''log_true_size'' c__u32]),
     Member '''' (struct
        [Member ''pathname'' c__u64,
         Member ''bpf_fd'' c__u32,
         Member ''file_flags'' c__u32,
         Member ''path_fd'' c__s32]),
     Member '''' (struct
        [Member '''' (union
            [Member ''target_fd'' c__u32,
             Member ''target_ifindex'' c__u32]),
         Member ''attach_bpf_fd'' c__u32,
         Member ''attach_type'' c__u32,
         Member ''attach_flags'' c__u32,
         Member ''replace_bpf_fd'' c__u32,
         Member '''' (union
            [Member ''relative_fd'' c__u32,
             Member ''relative_id'' c__u32]),
         Member ''expected_revision'' c__u64]),
     Member ''test'' (struct
        [Member ''prog_fd'' c__u32,
         Member ''retval'' c__u32,
         Member ''data_size_in'' c__u32,
         Member ''data_size_out'' c__u32,
         Member ''data_in'' c__u64,
         Member ''data_out'' c__u64,
         Member ''repeat'' c__u32,
         Member ''duration'' c__u32,
         Member ''ctx_size_in'' c__u32,
         Member ''ctx_size_out'' c__u32,
         Member ''ctx_in'' c__u64,
         Member ''ctx_out'' c__u64,
         Member ''flags'' c__u32,
         Member ''cpu'' c__u32,
         Member ''batch_size'' c__u32]),
     Member '''' (struct
        [Member '''' (union
            [Member ''start_id'' c__u32,
             Member ''prog_id'' c__u32,
             Member ''map_id'' c__u32,
             Member ''btf_id'' c__u32,
             Member ''link_id'' c__u32]),
         Member ''next_id'' c__u32,
         Member ''open_flags'' c__u32]),
     Member ''info'' (struct
        [Member ''bpf_fd'' c__u32,
         Member ''info_len'' c__u32,
         Member ''info'' c__u64]),
     Member ''query'' (struct
        [Member '''' (union
            [Member ''target_fd'' c__u32,
             Member ''target_ifindex'' c__u32]),
         Member ''attach_type'' c__u32,
         Member ''query_flags'' c__u32,
         Member ''attach_flags'' c__u32,
         Member ''prog_ids'' c__u64,
         Member '''' (union
            [Member ''prog_cnt'' c__u32,
             Member ''count'' c__u32]),
         Member ''prog_attach_flags'' c__u64,
         Member ''link_ids'' c__u64,
         Member ''link_attach_flags'' c__u64,
         Member ''revision'' c__u64])]"

definition union_bpf_attr_objects :: "(members \<Rightarrow> members) list" where
  "union_bpf_attr_objects =
    [Member ''raw_tracepoint'' (struct
        [Member ''name'' c__u64,
         Member ''prog_fd'' c__u32]),
     Member '''' (struct
        [Member ''btf'' c__u64,
         Member ''btf_log_buf'' c__u64,
         Member ''btf_size'' c__u32,
         Member ''btf_log_size'' c__u32,
         Member ''btf_log_level'' c__u32,
         Member ''btf_log_true_size'' c__u32]),
     Member ''task_fd_query'' (struct
        [Member ''pid'' c__u32,
         Member ''fd'' c__u32,
         Member ''flags'' c__u32,
         Member ''buf_len'' c__u32,
         Member ''buf'' c__u64,
         Member ''prog_id'' c__u32,
         Member ''fd_type'' c__u32,
         Member ''probe_offset'' c__u64,
         Member ''probe_addr'' c__u64]),
     Member ''link_create'' (struct
        [Member '''' (union
            [Member ''prog_fd'' c__u32,
             Member ''map_fd'' c__u32]),
         Member '''' (union
            [Member ''target_fd'' c__u32,
             Member ''target_ifindex'' c__u32]),
         Member ''attach_type'' c__u32,
         Member ''flags'' c__u32,
         Member '''' (union
            [Member ''target_btf_id'' c__u32,
             Member '''' (struct
                [Member ''iter_info'' c__u64,
                 Member ''iter_info_len'' c__u32]),
             Member ''perf_event'' (struct
                [Member ''bpf_cookie'' c__u64]),
             Member ''kprobe_multi'' (struct
                [Member ''flags'' c__u32,
                 Member ''cnt'' c__u32,
                 Member ''syms'' c__u64,
                 Member ''addrs'' c__u64,
                 Member ''cookies'' c__u64]),
             Member ''tracing'' (struct
                [Member ''target_btf_id'' c__u32,
                 Member ''cookie'' c__u64]),
             Member ''netfilter'' (struct
                [Member ''pf'' c__u32,
                 Member ''hooknum'' c__u32,
                 Member ''priority'' c__s32,
                 Member ''flags'' c__u32]),
             Member ''tcx'' (struct
                [Member '''' (union
                    [Member ''relative_fd'' c__u32,
                     Member ''relative_id'' c__u32]),
                 Member ''expected_revision'' c__u64]),
             Member ''uprobe_multi'' (struct
                [Member ''path'' c__u64,
                 Member ''offsets'' c__u64,
                 Member ''ref_ctr_offsets'' c__u64,
                 Member ''cookies'' c__u64,
                 Member ''cnt'' c__u32,
                 Member ''flags'' c__u32,
                 Member ''pid'' c__u32]),
             Member ''netkit'' (struct
                [Member '''' (union
                    [Member ''relative_fd'' c__u32,
                     Member ''relative_id'' c__u32]),
                 Member ''expected_revision'' c__u64])])]),
     Member ''link_update'' (struct
        [Member ''link_fd'' c__u32,
         Member '''' (union
            [Member ''new_prog_fd'' c__u32,
             Member ''new_map_fd'' c__u32]),
         Member ''flags'' c__u32,
         Member '''' (union
            [Member ''old_prog_fd'' c__u32,
             Member ''old_map_fd'' c__u32])]),
     Member ''link_detach'' (struct
        [Member ''link_fd'' c__u32]),
     Member ''enable_stats'' (struct
        [Member ''type'' c__u32]),
     Member ''iter_create'' (struct
        [Member ''link_fd'' c__u32,
         Member ''flags'' c__u32]),
     Member ''prog_bind_map'' (struct
        [Member ''prog_fd'' c__u32,
         Member ''map_fd'' c__u32,
         Member ''flags'' c__u32])]"

definition union_bpf_attr :: ctype where
  "union_bpf_attr = union (union_bpf_attr_maps @ union_bpf_attr_objects)"

lemma union_bpf_attr_layout [layout_simps]: "sizeof union_bpf_attr = 144" "alignof union_bpf_attr = 8"
  by (simp_all add: union_bpf_attr_def union_bpf_attr_maps_def union_bpf_attr_objects_def layout_simps)

definition enum_bpf_map_type :: "(string \<times> int) list" where
  "enum_bpf_map_type =
    [(''BPF_MAP_TYPE_UNSPEC'', 0),
     (''BPF_MAP_TYPE_HASH'', 1),
     (''BPF_MAP_TYPE_ARRAY'', 2),
     (''BPF_MAP_TYPE_PROG_ARRAY'', 3),
     (''BPF_MAP_TYPE_PERF_EVENT_ARRAY'', 4),
     (''BPF_MAP_TYPE_PERCPU_HASH'', 5),
     (''BPF_MAP_TYPE_PERCPU_ARRAY'', 6),
     (''BPF_MAP_TYPE_STACK_TRACE'', 7),
     (''BPF_MAP_TYPE_CGROUP_ARRAY'', 8),
     (''BPF_MAP_TYPE_LRU_HASH'', 9),
     (''BPF_MAP_TYPE_LRU_PERCPU_HASH'', 10),
     (''BPF_MAP_TYPE_LPM_TRIE'', 11),
     (''BPF_MAP_TYPE_ARRAY_OF_MAPS'', 12),
     (''BPF_MAP_TYPE_HASH_OF_MAPS'', 13),
     (''BPF_MAP_TYPE_DEVMAP'', 14),
     (''BPF_MAP_TYPE_SOCKMAP'', 15),
     (''BPF_MAP_TYPE_CPUMAP'', 16),
     (''BPF_MAP_TYPE_XSKMAP'', 17),
     (''BPF_MAP_TYPE_SOCKHASH'', 18),
     (''BPF_MAP_TYPE_CGROUP_STORAGE_DEPRECATED'', 19),
     (''BPF_MAP_TYPE_CGROUP_STORAGE'', 19),
     (''BPF_MAP_TYPE_REUSEPORT_SOCKARRAY'', 20),
     (''BPF_MAP_TYPE_PERCPU_CGROUP_STORAGE_DEPRECATED'', 21),
     (''BPF_MAP_TYPE_PERCPU_CGROUP_STORAGE'', 21),
     (''BPF_MAP_TYPE_QUEUE'', 22),
     (''BPF_MAP_TYPE_STACK'', 23),
     (''BPF_MAP_TYPE_SK_STORAGE'', 24),
     (''BPF_MAP_TYPE_DEVMAP_HASH'', 25),
     (''BPF_MAP_TYPE_STRUCT_OPS'', 26),
     (''BPF_MAP_TYPE_RINGBUF'', 27),
     (''BPF_MAP_TYPE_INODE_STORAGE'', 28),
     (''BPF_MAP_TYPE_TASK_STORAGE'', 29),
     (''BPF_MAP_TYPE_BLOOM_FILTER'', 30),
     (''BPF_MAP_TYPE_USER_RINGBUF'', 31),
     (''BPF_MAP_TYPE_CGRP_STORAGE'', 32)]"

definition enum_bpf_prog_type :: "(string \<times> int) list" where
  "enum_bpf_prog_type =
    [(''BPF_PROG_TYPE_UNSPEC'', 0),
     (''BPF_PROG_TYPE_SOCKET_FILTER'', 1),
     (''BPF_PROG_TYPE_KPROBE'', 2),
     (''BPF_PROG_TYPE_SCHED_CLS'', 3),
     (''BPF_PROG_TYPE_SCHED_ACT'', 4),
     (''BPF_PROG_TYPE_TRACEPOINT'', 5),
     (''BPF_PROG_TYPE_XDP'', 6),
     (''BPF_PROG_TYPE_PERF_EVENT'', 7),
     (''BPF_PROG_TYPE_CGROUP_SKB'', 8),
     (''BPF_PROG_TYPE_CGROUP_SOCK'', 9),
     (''BPF_PROG_TYPE_LWT_IN'', 10),
     (''BPF_PROG_TYPE_LWT_OUT'', 11),
     (''BPF_PROG_TYPE_LWT_XMIT'', 12),
     (''BPF_PROG_TYPE_SOCK_OPS'', 13),
     (''BPF_PROG_TYPE_SK_SKB'', 14),
     (''BPF_PROG_TYPE_CGROUP_DEVICE'', 15),
     (''BPF_PROG_TYPE_SK_MSG'', 16),
     (''BPF_PROG_TYPE_RAW_TRACEPOINT'', 17),
     (''BPF_PROG_TYPE_CGROUP_SOCK_ADDR'', 18),
     (''BPF_PROG_TYPE_LWT_SEG6LOCAL'', 19),
     (''BPF_PROG_TYPE_LIRC_MODE2'', 20),
     (''BPF_PROG_TYPE_SK_REUSEPORT'', 21),
     (''BPF_PROG_TYPE_FLOW_DISSECTOR'', 22),
     (''BPF_PROG_TYPE_CGROUP_SYSCTL'', 23),
     (''BPF_PROG_TYPE_RAW_TRACEPOINT_WRITABLE'', 24),
     (''BPF_PROG_TYPE_CGROUP_SOCKOPT'', 25),
     (''BPF_PROG_TYPE_TRACING'', 26),
     (''BPF_PROG_TYPE_STRUCT_OPS'', 27),
     (''BPF_PROG_TYPE_EXT'', 28),
     (''BPF_PROG_TYPE_LSM'', 29),
     (''BPF_PROG_TYPE_SK_LOOKUP'', 30),
     (''BPF_PROG_TYPE_SYSCALL'', 31),
     (''BPF_PROG_TYPE_NETFILTER'', 32)]"

definition enum_bpf_attach_type :: "(string \<times> int) list" where
  "enum_bpf_attach_type =
    [(''BPF_CGROUP_INET_INGRESS'', 0),
     (''BPF_CGROUP_INET_EGRESS'', 1),
     (''BPF_CGROUP_INET_SOCK_CREATE'', 2),
     (''BPF_CGROUP_SOCK_OPS'', 3),
     (''BPF_SK_SKB_STREAM_PARSER'', 4),
     (''BPF_SK_SKB_STREAM_VERDICT'', 5),
     (''BPF_CGROUP_DEVICE'', 6),
     (''BPF_SK_MSG_VERDICT'', 7),
     (''BPF_CGROUP_INET4_BIND'', 8),
     (''BPF_CGROUP_INET6_BIND'', 9),
     (''BPF_CGROUP_INET4_CONNECT'', 10),
     (''BPF_CGROUP_INET6_CONNECT'', 11),
     (''BPF_CGROUP_INET4_POST_BIND'', 12),
     (''BPF_CGROUP_INET6_POST_BIND'', 13),
     (''BPF_CGROUP_UDP4_SENDMSG'', 14),
     (''BPF_CGROUP_UDP6_SENDMSG'', 15),
     (''BPF_LIRC_MODE2'', 16),
     (''BPF_FLOW_DISSECTOR'', 17),
     (''BPF_CGROUP_SYSCTL'', 18),
     (''BPF_CGROUP_UDP4_RECVMSG'', 19),
     (''BPF_CGROUP_UDP6_RECVMSG'', 20),
     (''BPF_CGROUP_GETSOCKOPT'', 21),
     (''BPF_CGROUP_SETSOCKOPT'', 22),
     (''BPF_TRACE_RAW_TP'', 23),
     (''BPF_TRACE_FENTRY'', 24),
     (''BPF_TRACE_FEXIT'', 25),
     (''BPF_MODIFY_RETURN'', 26),
     (''BPF_LSM_MAC'', 27),
     (''BPF_TRACE_ITER'', 28),
     (''BPF_CGROUP_INET4_GETPEERNAME'', 29),
     (''BPF_CGROUP_INET6_GETPEERNAME'', 30),
     (''BPF_CGROUP_INET4_GETSOCKNAME'', 31),
     (''BPF_CGROUP_INET6_GETSOCKNAME'', 32),
     (''BPF_XDP_DEVMAP'', 33),
     (''BPF_CGROUP_INET_SOCK_RELEASE'', 34),
     (''BPF_XDP_CPUMAP'', 35),
     (''BPF_SK_LOOKUP'', 36),
     (''BPF_XDP'', 37),
     (''BPF_SK_SKB_VERDICT'', 38),
     (''BPF_SK_REUSEPORT_SELECT'', 39),
     (''BPF_SK_REUSEPORT_SELECT_OR_MIGRATE'', 40),
     (''BPF_PERF_EVENT'', 41),
     (''BPF_TRACE_KPROBE_MULTI'', 42),
     (''BPF_LSM_CGROUP'', 43),
     (''BPF_STRUCT_OPS'', 44),
     (''BPF_NETFILTER'', 45),
     (''BPF_TCX_INGRESS'', 46),
     (''BPF_TCX_EGRESS'', 47),
     (''BPF_TRACE_UPROBE_MULTI'', 48),
     (''BPF_CGROUP_UNIX_CONNECT'', 49),
     (''BPF_CGROUP_UNIX_SENDMSG'', 50),
     (''BPF_CGROUP_UNIX_RECVMSG'', 51),
     (''BPF_CGROUP_UNIX_GETPEERNAME'', 52),
     (''BPF_CGROUP_UNIX_GETSOCKNAME'', 53),
     (''BPF_NETKIT_PRIMARY'', 54),
     (''BPF_NETKIT_PEER'', 55),
     (''__MAX_BPF_ATTACH_TYPE'', 56)]"

definition enum_bpf_func_id_low :: "(string \<times> int) list" where
  "enum_bpf_func_id_low =
    [(''BPF_FUNC_unspec'', 0),
     (''BPF_FUNC_map_lookup_elem'', 1),
     (''BPF_FUNC_map_update_elem'', 2),
     (''BPF_FUNC_map_delete_elem'', 3),
     (''BPF_FUNC_probe_read'', 4),
     (''BPF_FUNC_ktime_get_ns'', 5),
     (''BPF_FUNC_trace_printk'', 6),
     (''BPF_FUNC_get_prandom_u32'', 7),
     (''BPF_FUNC_get_smp_processor_id'', 8),
     (''BPF_FUNC_skb_store_bytes'', 9),
     (''BPF_FUNC_l3_csum_replace'', 10),
     (''BPF_FUNC_l4_csum_replace'', 11),
     (''BPF_FUNC_tail_call'', 12),
     (''BPF_FUNC_clone_redirect'', 13),
     (''BPF_FUNC_get_current_pid_tgid'', 14),
     (''BPF_FUNC_get_current_uid_gid'', 15),
     (''BPF_FUNC_get_current_comm'', 16),
     (''BPF_FUNC_get_cgroup_classid'', 17),
     (''BPF_FUNC_skb_vlan_push'', 18),
     (''BPF_FUNC_skb_vlan_pop'', 19),
     (''BPF_FUNC_skb_get_tunnel_key'', 20),
     (''BPF_FUNC_skb_set_tunnel_key'', 21),
     (''BPF_FUNC_perf_event_read'', 22),
     (''BPF_FUNC_redirect'', 23),
     (''BPF_FUNC_get_route_realm'', 24),
     (''BPF_FUNC_perf_event_output'', 25),
     (''BPF_FUNC_skb_load_bytes'', 26),
     (''BPF_FUNC_get_stackid'', 27),
     (''BPF_FUNC_csum_diff'', 28),
     (''BPF_FUNC_skb_get_tunnel_opt'', 29),
     (''BPF_FUNC_skb_set_tunnel_opt'', 30),
     (''BPF_FUNC_skb_change_proto'', 31),
     (''BPF_FUNC_skb_change_type'', 32),
     (''BPF_FUNC_skb_under_cgroup'', 33),
     (''BPF_FUNC_get_hash_recalc'', 34),
     (''BPF_FUNC_get_current_task'', 35),
     (''BPF_FUNC_probe_write_user'', 36),
     (''BPF_FUNC_current_task_under_cgroup'', 37),
     (''BPF_FUNC_skb_change_tail'', 38),
     (''BPF_FUNC_skb_pull_data'', 39),
     (''BPF_FUNC_csum_update'', 40),
     (''BPF_FUNC_set_hash_invalid'', 41),
     (''BPF_FUNC_get_numa_node_id'', 42),
     (''BPF_FUNC_skb_change_head'', 43),
     (''BPF_FUNC_xdp_adjust_head'', 44),
     (''BPF_FUNC_probe_read_str'', 45),
     (''BPF_FUNC_get_socket_cookie'', 46),
     (''BPF_FUNC_get_socket_uid'', 47),
     (''BPF_FUNC_set_hash'', 48),
     (''BPF_FUNC_setsockopt'', 49),
     (''BPF_FUNC_skb_adjust_room'', 50),
     (''BPF_FUNC_redirect_map'', 51),
     (''BPF_FUNC_sk_redirect_map'', 52),
     (''BPF_FUNC_sock_map_update'', 53),
     (''BPF_FUNC_xdp_adjust_meta'', 54),
     (''BPF_FUNC_perf_event_read_value'', 55),
     (''BPF_FUNC_perf_prog_read_value'', 56),
     (''BPF_FUNC_getsockopt'', 57),
     (''BPF_FUNC_override_return'', 58),
     (''BPF_FUNC_sock_ops_cb_flags_set'', 59),
     (''BPF_FUNC_msg_redirect_map'', 60),
     (''BPF_FUNC_msg_apply_bytes'', 61),
     (''BPF_FUNC_msg_cork_bytes'', 62),
     (''BPF_FUNC_msg_pull_data'', 63),
     (''BPF_FUNC_bind'', 64),
     (''BPF_FUNC_xdp_adjust_tail'', 65),
     (''BPF_FUNC_skb_get_xfrm_state'', 66),
     (''BPF_FUNC_get_stack'', 67),
     (''BPF_FUNC_skb_load_bytes_relative'', 68),
     (''BPF_FUNC_fib_lookup'', 69),
     (''BPF_FUNC_sock_hash_update'', 70),
     (''BPF_FUNC_msg_redirect_hash'', 71),
     (''BPF_FUNC_sk_redirect_hash'', 72),
     (''BPF_FUNC_lwt_push_encap'', 73),
     (''BPF_FUNC_lwt_seg6_store_bytes'', 74),
     (''BPF_FUNC_lwt_seg6_adjust_srh'', 75),
     (''BPF_FUNC_lwt_seg6_action'', 76),
     (''BPF_FUNC_rc_repeat'', 77),
     (''BPF_FUNC_rc_keydown'', 78),
     (''BPF_FUNC_skb_cgroup_id'', 79),
     (''BPF_FUNC_get_current_cgroup_id'', 80),
     (''BPF_FUNC_get_local_storage'', 81),
     (''BPF_FUNC_sk_select_reuseport'', 82),
     (''BPF_FUNC_skb_ancestor_cgroup_id'', 83),
     (''BPF_FUNC_sk_lookup_tcp'', 84),
     (''BPF_FUNC_sk_lookup_udp'', 85),
     (''BPF_FUNC_sk_release'', 86),
     (''BPF_FUNC_map_push_elem'', 87),
     (''BPF_FUNC_map_pop_elem'', 88),
     (''BPF_FUNC_map_peek_elem'', 89),
     (''BPF_FUNC_msg_push_data'', 90),
     (''BPF_FUNC_msg_pop_data'', 91),
     (''BPF_FUNC_rc_pointer_rel'', 92),
     (''BPF_FUNC_spin_lock'', 93),
     (''BPF_FUNC_spin_unlock'', 94),
     (''BPF_FUNC_sk_fullsock'', 95),
     (''BPF_FUNC_tcp_sock'', 96),
     (''BPF_FUNC_skb_ecn_set_ce'', 97),
     (''BPF_FUNC_get_listener_sock'', 98),
     (''BPF_FUNC_skc_lookup_tcp'', 99),
     (''BPF_FUNC_tcp_check_syncookie'', 100),
     (''BPF_FUNC_sysctl_get_name'', 101),
     (''BPF_FUNC_sysctl_get_current_value'', 102),
     (''BPF_FUNC_sysctl_get_new_value'', 103),
     (''BPF_FUNC_sysctl_set_new_value'', 104),
     (''BPF_FUNC_strtol'', 105),
     (''BPF_FUNC_strtoul'', 106),
     (''BPF_FUNC_sk_storage_get'', 107)]"

definition enum_bpf_func_id_high :: "(string \<times> int) list" where
  "enum_bpf_func_id_high =
    [(''BPF_FUNC_sk_storage_delete'', 108),
     (''BPF_FUNC_send_signal'', 109),
     (''BPF_FUNC_tcp_gen_syncookie'', 110),
     (''BPF_FUNC_skb_output'', 111),
     (''BPF_FUNC_probe_read_user'', 112),
     (''BPF_FUNC_probe_read_kernel'', 113),
     (''BPF_FUNC_probe_read_user_str'', 114),
     (''BPF_FUNC_probe_read_kernel_str'', 115),
     (''BPF_FUNC_tcp_send_ack'', 116),
     (''BPF_FUNC_send_signal_thread'', 117),
     (''BPF_FUNC_jiffies64'', 118),
     (''BPF_FUNC_read_branch_records'', 119),
     (''BPF_FUNC_get_ns_current_pid_tgid'', 120),
     (''BPF_FUNC_xdp_output'', 121),
     (''BPF_FUNC_get_netns_cookie'', 122),
     (''BPF_FUNC_get_current_ancestor_cgroup_id'', 123),
     (''BPF_FUNC_sk_assign'', 124),
     (''BPF_FUNC_ktime_get_boot_ns'', 125),
     (''BPF_FUNC_seq_printf'', 126),
     (''BPF_FUNC_seq_write'', 127),
     (''BPF_FUNC_sk_cgroup_id'', 128),
     (''BPF_FUNC_sk_ancestor_cgroup_id'', 129),
     (''BPF_FUNC_ringbuf_output'', 130),
     (''BPF_FUNC_ringbuf_reserve'', 131),
     (''BPF_FUNC_ringbuf_submit'', 132),
     (''BPF_FUNC_ringbuf_discard'', 133),
     (''BPF_FUNC_ringbuf_query'', 134),
     (''BPF_FUNC_csum_level'', 135),
     (''BPF_FUNC_skc_to_tcp6_sock'', 136),
     (''BPF_FUNC_skc_to_tcp_sock'', 137),
     (''BPF_FUNC_skc_to_tcp_timewait_sock'', 138),
     (''BPF_FUNC_skc_to_tcp_request_sock'', 139),
     (''BPF_FUNC_skc_to_udp6_sock'', 140),
     (''BPF_FUNC_get_task_stack'', 141),
     (''BPF_FUNC_load_hdr_opt'', 142),
     (''BPF_FUNC_store_hdr_opt'', 143),
     (''BPF_FUNC_reserve_hdr_opt'', 144),
     (''BPF_FUNC_inode_storage_get'', 145),
     (''BPF_FUNC_inode_storage_delete'', 146),
     (''BPF_FUNC_d_path'', 147),
     (''BPF_FUNC_copy_from_user'', 148),
     (''BPF_FUNC_snprintf_btf'', 149),
     (''BPF_FUNC_seq_printf_btf'', 150),
     (''BPF_FUNC_skb_cgroup_classid'', 151),
     (''BPF_FUNC_redirect_neigh'', 152),
     (''BPF_FUNC_per_cpu_ptr'', 153),
     (''BPF_FUNC_this_cpu_ptr'', 154),
     (''BPF_FUNC_redirect_peer'', 155),
     (''BPF_FUNC_task_storage_get'', 156),
     (''BPF_FUNC_task_storage_delete'', 157),
     (''BPF_FUNC_get_current_task_btf'', 158),
     (''BPF_FUNC_bprm_opts_set'', 159),
     (''BPF_FUNC_ktime_get_coarse_ns'', 160),
     (''BPF_FUNC_ima_inode_hash'', 161),
     (''BPF_FUNC_sock_from_file'', 162),
     (''BPF_FUNC_check_mtu'', 163),
     (''BPF_FUNC_for_each_map_elem'', 164),
     (''BPF_FUNC_snprintf'', 165),
     (''BPF_FUNC_sys_bpf'', 166),
     (''BPF_FUNC_btf_find_by_name_kind'', 167),
     (''BPF_FUNC_sys_close'', 168),
     (''BPF_FUNC_timer_init'', 169),
     (''BPF_FUNC_timer_set_callback'', 170),
     (''BPF_FUNC_timer_start'', 171),
     (''BPF_FUNC_timer_cancel'', 172),
     (''BPF_FUNC_get_func_ip'', 173),
     (''BPF_FUNC_get_attach_cookie'', 174),
     (''BPF_FUNC_task_pt_regs'', 175),
     (''BPF_FUNC_get_branch_snapshot'', 176),
     (''BPF_FUNC_trace_vprintk'', 177),
     (''BPF_FUNC_skc_to_unix_sock'', 178),
     (''BPF_FUNC_kallsyms_lookup_name'', 179),
     (''BPF_FUNC_find_vma'', 180),
     (''BPF_FUNC_loop'', 181),
     (''BPF_FUNC_strncmp'', 182),
     (''BPF_FUNC_get_func_arg'', 183),
     (''BPF_FUNC_get_func_ret'', 184),
     (''BPF_FUNC_get_func_arg_cnt'', 185),
     (''BPF_FUNC_get_retval'', 186),
     (''BPF_FUNC_set_retval'', 187),
     (''BPF_FUNC_xdp_get_buff_len'', 188),
     (''BPF_FUNC_xdp_load_bytes'', 189),
     (''BPF_FUNC_xdp_store_bytes'', 190),
     (''BPF_FUNC_copy_from_user_task'', 191),
     (''BPF_FUNC_skb_set_tstamp'', 192),
     (''BPF_FUNC_ima_file_hash'', 193),
     (''BPF_FUNC_kptr_xchg'', 194),
     (''BPF_FUNC_map_lookup_percpu_elem'', 195),
     (''BPF_FUNC_skc_to_mptcp_sock'', 196),
     (''BPF_FUNC_dynptr_from_mem'', 197),
     (''BPF_FUNC_ringbuf_reserve_dynptr'', 198),
     (''BPF_FUNC_ringbuf_submit_dynptr'', 199),
     (''BPF_FUNC_ringbuf_discard_dynptr'', 200),
     (''BPF_FUNC_dynptr_read'', 201),
     (''BPF_FUNC_dynptr_write'', 202),
     (''BPF_FUNC_dynptr_data'', 203),
     (''BPF_FUNC_tcp_raw_gen_syncookie_ipv4'', 204),
     (''BPF_FUNC_tcp_raw_gen_syncookie_ipv6'', 205),
     (''BPF_FUNC_tcp_raw_check_syncookie_ipv4'', 206),
     (''BPF_FUNC_tcp_raw_check_syncookie_ipv6'', 207),
     (''BPF_FUNC_ktime_get_tai_ns'', 208),
     (''BPF_FUNC_user_ringbuf_drain'', 209),
     (''BPF_FUNC_cgrp_storage_get'', 210),
     (''BPF_FUNC_cgrp_storage_delete'', 211),
     (''__BPF_FUNC_MAX_ID'', 212)]"

definition enum_bpf_func_id :: "(string \<times> int) list" where
  "enum_bpf_func_id = enum_bpf_func_id_low @ enum_bpf_func_id_high"

definition enum_bpf_cmd :: "(string \<times> int) list" where
  "enum_bpf_cmd =
    [(''BPF_MAP_CREATE'', 0),
     (''BPF_MAP_LOOKUP_ELEM'', 1),
     (''BPF_MAP_UPDATE_ELEM'', 2),
     (''BPF_MAP_DELETE_ELEM'', 3),
     (''BPF_MAP_GET_NEXT_KEY'', 4),
     (''BPF_PROG_LOAD'', 5),
     (''BPF_OBJ_PIN'', 6),
     (''BPF_OBJ_GET'', 7),
     (''BPF_PROG_ATTACH'', 8),
     (''BPF_PROG_DETACH'', 9),
     (''BPF_PROG_TEST_RUN'', 10),
     (''BPF_PROG_RUN'', 10),
     (''BPF_PROG_GET_NEXT_ID'', 11),
     (''BPF_MAP_GET_NEXT_ID'', 12),
     (''BPF_PROG_GET_FD_BY_ID'', 13),
     (''BPF_MAP_GET_FD_BY_ID'', 14),
     (''BPF_OBJ_GET_INFO_BY_FD'', 15),
     (''BPF_PROG_QUERY'', 16),
     (''BPF_RAW_TRACEPOINT_OPEN'', 17),
     (''BPF_BTF_LOAD'', 18),
     (''BPF_BTF_GET_FD_BY_ID'', 19),
     (''BPF_TASK_FD_QUERY'', 20),
     (''BPF_MAP_LOOKUP_AND_DELETE_ELEM'', 21),
     (''BPF_MAP_FREEZE'', 22),
     (''BPF_BTF_GET_NEXT_ID'', 23),
     (''BPF_MAP_LOOKUP_BATCH'', 24),
     (''BPF_MAP_LOOKUP_AND_DELETE_BATCH'', 25),
     (''BPF_MAP_UPDATE_BATCH'', 26),
     (''BPF_MAP_DELETE_BATCH'', 27),
     (''BPF_LINK_CREATE'', 28),
     (''BPF_LINK_UPDATE'', 29),
     (''BPF_LINK_GET_FD_BY_ID'', 30),
     (''BPF_LINK_GET_NEXT_ID'', 31),
     (''BPF_ENABLE_STATS'', 32),
     (''BPF_ITER_CREATE'', 33),
     (''BPF_LINK_DETACH'', 34),
     (''BPF_PROG_BIND_MAP'', 35)]"

definition enum_bpf_link_type :: "(string \<times> int) list" where
  "enum_bpf_link_type =
    [(''BPF_LINK_TYPE_UNSPEC'', 0),
     (''BPF_LINK_TYPE_RAW_TRACEPOINT'', 1),
     (''BPF_LINK_TYPE_TRACING'', 2),
     (''BPF_LINK_TYPE_CGROUP'', 3),
     (''BPF_LINK_TYPE_ITER'', 4),
     (''BPF_LINK_TYPE_NETNS'', 5),
     (''BPF_LINK_TYPE_XDP'', 6),
     (''BPF_LINK_TYPE_PERF_EVENT'', 7),
     (''BPF_LINK_TYPE_KPROBE_MULTI'', 8),
     (''BPF_LINK_TYPE_STRUCT_OPS'', 9),
     (''BPF_LINK_TYPE_NETFILTER'', 10),
     (''BPF_LINK_TYPE_TCX'', 11),
     (''BPF_LINK_TYPE_UPROBE_MULTI'', 12),
     (''BPF_LINK_TYPE_NETKIT'', 13),
     (''__MAX_BPF_LINK_TYPE'', 14)]"

end
