(* ===== verification/KernelTrace.thy ===== *)
theory KernelTrace
  imports KernelBpf
begin

text \<open>
  The objects behind an attached probe (\<^verbatim>\<open>src/src/bpf/vmlinux.h\<close>): the
  breakpoint, its consumers, the per-thread return stack and the perf event.
  Each declaration is followed by its size and alignment.
\<close>

definition struct_arch_uprobe :: ctype where
  "struct_arch_uprobe = struct
    [Member '''' (union
        [Member ''insn'' (Array 16 c_u8),
         Member ''ixol'' (Array 16 c_u8)]),
     Member ''ops'' Ptr,
     Member '''' (union
        [Member ''branch'' (struct
            [Member ''offs'' c_s32,
             Member ''ilen'' c_u8,
             Member ''opc1'' c_u8]),
         Member ''defparam'' (struct
            [Member ''fixups'' c_u8,
             Member ''ilen'' c_u8]),
         Member ''push'' (struct
            [Member ''reg_offset'' c_u8,
             Member ''ilen'' c_u8])])]"

lemma struct_arch_uprobe_layout [layout_simps]: "sizeof struct_arch_uprobe = 32" "alignof struct_arch_uprobe = 8"
  by (simp_all add: struct_arch_uprobe_def layout_simps)

definition struct_uprobe :: ctype where
  "struct_uprobe = struct
    [Member ''rb_node'' struct_rb_node,
     Member ''ref'' struct_refcount_struct,
     Member ''register_rwsem'' struct_rw_semaphore,
     Member ''consumer_rwsem'' struct_rw_semaphore,
     Member ''pending_list'' struct_list_head,
     Member ''consumers'' Ptr,
     Member ''inode'' Ptr,
     Member ''offset'' c_loff_t,
     Member ''ref_ctr_offset'' c_loff_t,
     Member ''flags'' c_ulong,
     Member ''arch'' struct_arch_uprobe]"

lemma struct_uprobe_layout [layout_simps]: "sizeof struct_uprobe = 200" "alignof struct_uprobe = 8"
  by (simp_all add: struct_uprobe_def layout_simps)

definition struct_uprobe_consumer :: ctype where
  "struct_uprobe_consumer = struct
    [Member ''handler'' Ptr,
     Member ''ret_handler'' Ptr,
     Member ''filter'' Ptr,
     Member ''next'' Ptr]"

lemma struct_uprobe_consumer_layout [layout_simps]: "sizeof struct_uprobe_consumer = 32" "alignof struct_uprobe_consumer = 8"
  by (simp_all add: struct_uprobe_consumer_def layout_simps)

definition struct_arch_uprobe_task :: ctype where
  "struct_arch_uprobe_task = struct
    [Member ''saved_scratch_register'' c_ulong,
     Member ''saved_trap_nr'' c_uint,
     Member ''saved_tf'' c_uint]"

lemma struct_arch_uprobe_task_layout [layout_simps]: "sizeof struct_arch_uprobe_task = 16" "alignof struct_arch_uprobe_task = 8"
  by (simp_all add: struct_arch_uprobe_task_def layout_simps)

definition struct_uprobe_task :: ctype where
  "struct_uprobe_task = struct
    [Member ''state'' c_enum,
     Member '''' (union
        [Member '''' (struct
            [Member ''autask'' struct_arch_uprobe_task,
             Member ''vaddr'' c_ulong]),
         Member '''' (struct
            [Member ''dup_xol_work'' struct_callback_head,
             Member ''dup_xol_addr'' c_ulong])]),
     Member ''active_uprobe'' Ptr,
     Member ''xol_vaddr'' c_ulong,
     Member ''auprobe'' Ptr,
     Member ''return_instances'' Ptr,
     Member ''depth'' c_uint]"

lemma struct_uprobe_task_layout [layout_simps]: "sizeof struct_uprobe_task = 72" "alignof struct_uprobe_task = 8"
  by (simp_all add: struct_uprobe_task_def layout_simps)

definition struct_return_instance :: ctype where
  "struct_return_instance = struct
    [Member ''uprobe'' Ptr,
     Member ''func'' c_ulong,
     Member ''stack'' c_ulong,
     Member ''orig_ret_vaddr'' c_ulong,
     Member ''chained'' c_bool,
     Member ''next'' Ptr]"

lemma struct_return_instance_layout [layout_simps]: "sizeof struct_return_instance = 48" "alignof struct_return_instance = 8"
  by (simp_all add: struct_return_instance_def layout_simps)

definition struct_bpf_uprobe :: ctype where
  "struct_bpf_uprobe = struct
    [Member ''link'' Ptr,
     Member ''offset'' c_loff_t,
     Member ''ref_ctr_offset'' c_ulong,
     Member ''cookie'' c_u64,
     Member ''consumer'' struct_uprobe_consumer]"

lemma struct_bpf_uprobe_layout [layout_simps]: "sizeof struct_bpf_uprobe = 64" "alignof struct_bpf_uprobe = 8"
  by (simp_all add: struct_bpf_uprobe_def layout_simps)

definition struct_path :: ctype where
  "struct_path = struct
    [Member ''mnt'' Ptr,
     Member ''dentry'' Ptr]"

lemma struct_path_layout [layout_simps]: "sizeof struct_path = 16" "alignof struct_path = 8"
  by (simp_all add: struct_path_def layout_simps)

definition struct_bpf_uprobe_multi_link :: ctype where
  "struct_bpf_uprobe_multi_link = struct
    [Member ''path'' struct_path,
     Member ''link'' struct_bpf_link,
     Member ''cnt'' c_u32,
     Member ''flags'' c_u32,
     Member ''uprobes'' Ptr,
     Member ''task'' Ptr]"

lemma struct_bpf_uprobe_multi_link_layout [layout_simps]: "sizeof struct_bpf_uprobe_multi_link = 104" "alignof struct_bpf_uprobe_multi_link = 8"
  by (simp_all add: struct_bpf_uprobe_multi_link_def layout_simps)

definition ty_local_t :: ctype where
  "ty_local_t = struct
    [Member ''a'' ty_atomic64_t]"

lemma ty_local_t_layout [layout_simps]: "sizeof ty_local_t = 8" "alignof ty_local_t = 8"
  by (simp_all add: ty_local_t_def layout_simps)

definition ty_local64_t :: ctype where
  "ty_local64_t = struct
    [Member ''a'' ty_local_t]"

lemma ty_local64_t_layout [layout_simps]: "sizeof ty_local64_t = 8" "alignof ty_local64_t = 8"
  by (simp_all add: ty_local64_t_def layout_simps)

definition struct_perf_event_attr :: ctype where
  "struct_perf_event_attr = struct
    [Member ''type'' c__u32,
     Member ''size'' c__u32,
     Member ''config'' c__u64,
     Member '''' (union
        [Member ''sample_period'' c__u64,
         Member ''sample_freq'' c__u64]),
     Member ''sample_type'' c__u64,
     Member ''read_format'' c__u64,
     Bits ''disabled'' 8 1,
     Bits ''inherit'' 8 1,
     Bits ''pinned'' 8 1,
     Bits ''exclusive'' 8 1,
     Bits ''exclude_user'' 8 1,
     Bits ''exclude_kernel'' 8 1,
     Bits ''exclude_hv'' 8 1,
     Bits ''exclude_idle'' 8 1,
     Bits ''mmap'' 8 1,
     Bits ''comm'' 8 1,
     Bits ''freq'' 8 1,
     Bits ''inherit_stat'' 8 1,
     Bits ''enable_on_exec'' 8 1,
     Bits ''task'' 8 1,
     Bits ''watermark'' 8 1,
     Bits ''precise_ip'' 8 2,
     Bits ''mmap_data'' 8 1,
     Bits ''sample_id_all'' 8 1,
     Bits ''exclude_host'' 8 1,
     Bits ''exclude_guest'' 8 1,
     Bits ''exclude_callchain_kernel'' 8 1,
     Bits ''exclude_callchain_user'' 8 1,
     Bits ''mmap2'' 8 1,
     Bits ''comm_exec'' 8 1,
     Bits ''use_clockid'' 8 1,
     Bits ''context_switch'' 8 1,
     Bits ''write_backward'' 8 1,
     Bits ''namespaces'' 8 1,
     Bits ''ksymbol'' 8 1,
     Bits ''bpf_event'' 8 1,
     Bits ''aux_output'' 8 1,
     Bits ''cgroup'' 8 1,
     Bits ''text_poke'' 8 1,
     Bits ''build_id'' 8 1,
     Bits ''inherit_thread'' 8 1,
     Bits ''remove_on_exec'' 8 1,
     Bits ''sigtrap'' 8 1,
     Bits ''__reserved_1'' 8 26,
     Member '''' (union
        [Member ''wakeup_events'' c__u32,
         Member ''wakeup_watermark'' c__u32]),
     Member ''bp_type'' c__u32,
     Member '''' (union
        [Member ''bp_addr'' c__u64,
         Member ''kprobe_func'' c__u64,
         Member ''uprobe_path'' c__u64,
         Member ''config1'' c__u64]),
     Member '''' (union
        [Member ''bp_len'' c__u64,
         Member ''kprobe_addr'' c__u64,
         Member ''probe_offset'' c__u64,
         Member ''config2'' c__u64]),
     Member ''branch_sample_type'' c__u64,
     Member ''sample_regs_user'' c__u64,
     Member ''sample_stack_user'' c__u32,
     Member ''clockid'' c__s32,
     Member ''sample_regs_intr'' c__u64,
     Member ''aux_watermark'' c__u32,
     Member ''sample_max_stack'' c__u16,
     Member ''__reserved_2'' c__u16,
     Member ''aux_sample_size'' c__u32,
     Member ''__reserved_3'' c__u32,
     Member ''sig_data'' c__u64,
     Member ''config3'' c__u64]"

lemma struct_perf_event_attr_layout [layout_simps]: "sizeof struct_perf_event_attr = 136" "alignof struct_perf_event_attr = 8"
  by (simp_all add: struct_perf_event_attr_def layout_simps)

definition struct_hw_perf_event_extra :: ctype where
  "struct_hw_perf_event_extra = struct
    [Member ''config'' c_u64,
     Member ''reg'' c_uint,
     Member ''alloc'' c_int,
     Member ''idx'' c_int]"

lemma struct_hw_perf_event_extra_layout [layout_simps]: "sizeof struct_hw_perf_event_extra = 24" "alignof struct_hw_perf_event_extra = 8"
  by (simp_all add: struct_hw_perf_event_extra_def layout_simps)

definition struct_arch_hw_breakpoint :: ctype where
  "struct_arch_hw_breakpoint = struct
    [Member ''address'' c_ulong,
     Member ''mask'' c_ulong,
     Member ''len'' c_u8,
     Member ''type'' c_u8]"

lemma struct_arch_hw_breakpoint_layout [layout_simps]: "sizeof struct_arch_hw_breakpoint = 24" "alignof struct_arch_hw_breakpoint = 8"
  by (simp_all add: struct_arch_hw_breakpoint_def layout_simps)

definition struct_rhash_head :: ctype where
  "struct_rhash_head = struct
    [Member ''next'' Ptr]"

lemma struct_rhash_head_layout [layout_simps]: "sizeof struct_rhash_head = 8" "alignof struct_rhash_head = 8"
  by (simp_all add: struct_rhash_head_def layout_simps)

definition struct_rhlist_head :: ctype where
  "struct_rhlist_head = struct
    [Member ''rhead'' struct_rhash_head,
     Member ''next'' Ptr]"

lemma struct_rhlist_head_layout [layout_simps]: "sizeof struct_rhlist_head = 16" "alignof struct_rhlist_head = 8"
  by (simp_all add: struct_rhlist_head_def layout_simps)

definition struct_hw_perf_event :: ctype where
  "struct_hw_perf_event = struct
    [Member '''' (union
        [Member '''' (struct
            [Member ''config'' c_u64,
             Member ''last_tag'' c_u64,
             Member ''config_base'' c_ulong,
             Member ''event_base'' c_ulong,
             Member ''event_base_rdpmc'' c_int,
             Member ''idx'' c_int,
             Member ''last_cpu'' c_int,
             Member ''flags'' c_int,
             Member ''extra_reg'' struct_hw_perf_event_extra,
             Member ''branch_reg'' struct_hw_perf_event_extra]),
         Member '''' (struct
            [Member ''hrtimer'' struct_hrtimer]),
         Member '''' (struct
            [Member ''tp_list'' struct_list_head]),
         Member '''' (struct
            [Member ''pwr_acc'' c_u64,
             Member ''ptsc'' c_u64]),
         Member '''' (struct
            [Member ''info'' struct_arch_hw_breakpoint,
             Member ''bp_list'' struct_rhlist_head]),
         Member '''' (struct
            [Member ''iommu_bank'' c_u8,
             Member ''iommu_cntr'' c_u8,
             Member ''padding'' c_u16,
             Member ''conf'' c_u64,
             Member ''conf1'' c_u64])]),
     Member ''target'' Ptr,
     Member ''addr_filters'' Ptr,
     Member ''addr_filters_gen'' c_ulong,
     Member ''state'' c_int,
     Member ''prev_count'' ty_local64_t,
     Member ''sample_period'' c_u64,
     Member '''' (union
        [Member '''' (struct
            [Member ''last_period'' c_u64,
             Member ''period_left'' ty_local64_t]),
         Member '''' (struct
            [Member ''saved_metric'' c_u64,
             Member ''saved_slots'' c_u64])]),
     Member ''interrupts_seq'' c_u64,
     Member ''interrupts'' c_u64,
     Member ''freq_time_stamp'' c_u64,
     Member ''freq_count_stamp'' c_u64]"

lemma struct_hw_perf_event_layout [layout_simps]: "sizeof struct_hw_perf_event = 192" "alignof struct_hw_perf_event = 8"
  by (simp_all add: struct_hw_perf_event_def layout_simps)

definition struct_perf_addr_filters_head :: ctype where
  "struct_perf_addr_filters_head = struct
    [Member ''list'' struct_list_head,
     Member ''lock'' struct_raw_spinlock,
     Member ''nr_file_filters'' c_uint]"

lemma struct_perf_addr_filters_head_layout [layout_simps]: "sizeof struct_perf_addr_filters_head = 24" "alignof struct_perf_addr_filters_head = 8"
  by (simp_all add: struct_perf_addr_filters_head_def layout_simps)

definition struct_ftrace_ops_hash :: ctype where
  "struct_ftrace_ops_hash = struct
    [Member ''notrace_hash'' Ptr,
     Member ''filter_hash'' Ptr,
     Member ''regex_lock'' struct_mutex]"

lemma struct_ftrace_ops_hash_layout [layout_simps]: "sizeof struct_ftrace_ops_hash = 48" "alignof struct_ftrace_ops_hash = 8"
  by (simp_all add: struct_ftrace_ops_hash_def layout_simps)

definition struct_ftrace_ops :: ctype where
  "struct_ftrace_ops = struct
    [Member ''func'' Ptr,
     Member ''next'' Ptr,
     Member ''flags'' c_ulong,
     Member ''private'' Ptr,
     Member ''saved_func'' Ptr,
     Member ''local_hash'' struct_ftrace_ops_hash,
     Member ''func_hash'' Ptr,
     Member ''old_hash'' struct_ftrace_ops_hash,
     Member ''trampoline'' c_ulong,
     Member ''trampoline_size'' c_ulong,
     Member ''list'' struct_list_head,
     Member ''ops_func'' Ptr,
     Member ''direct_call'' c_ulong]"

lemma struct_ftrace_ops_layout [layout_simps]: "sizeof struct_ftrace_ops = 192" "alignof struct_ftrace_ops = 8"
  by (simp_all add: struct_ftrace_ops_def layout_simps)

definition struct_perf_event :: ctype where
  "struct_perf_event = struct
    [Member ''event_entry'' struct_list_head,
     Member ''sibling_list'' struct_list_head,
     Member ''active_list'' struct_list_head,
     Member ''group_node'' struct_rb_node,
     Member ''group_index'' c_u64,
     Member ''migrate_entry'' struct_list_head,
     Member ''hlist_entry'' struct_hlist_node,
     Member ''active_entry'' struct_list_head,
     Member ''nr_siblings'' c_int,
     Member ''event_caps'' c_int,
     Member ''group_caps'' c_int,
     Member ''group_generation'' c_uint,
     Member ''group_leader'' Ptr,
     Member ''pmu'' Ptr,
     Member ''pmu_private'' Ptr,
     Member ''state'' c_enum,
     Member ''attach_state'' c_uint,
     Member ''count'' ty_local64_t,
     Member ''child_count'' ty_atomic64_t,
     Member ''total_time_enabled'' c_u64,
     Member ''total_time_running'' c_u64,
     Member ''tstamp'' c_u64,
     Member ''attr'' struct_perf_event_attr,
     Member ''header_size'' c_u16,
     Member ''id_header_size'' c_u16,
     Member ''read_size'' c_u16,
     Member ''hw'' struct_hw_perf_event,
     Member ''ctx'' Ptr,
     Member ''pmu_ctx'' Ptr,
     Member ''refcount'' ty_atomic64_t,
     Member ''child_total_time_enabled'' ty_atomic64_t,
     Member ''child_total_time_running'' ty_atomic64_t,
     Member ''child_mutex'' struct_mutex,
     Member ''child_list'' struct_list_head,
     Member ''parent'' Ptr,
     Member ''oncpu'' c_int,
     Member ''cpu'' c_int,
     Member ''owner_entry'' struct_list_head,
     Member ''owner'' Ptr,
     Member ''mmap_mutex'' struct_mutex,
     Member ''mmap_count'' ty_atomic_t,
     Member ''rb'' Ptr,
     Member ''rb_entry'' struct_list_head,
     Member ''rcu_batches'' c_ulong,
     Member ''rcu_pending'' c_int,
     Member ''waitq'' struct_wait_queue_head,
     Member ''fasync'' Ptr,
     Member ''pending_wakeup'' c_uint,
     Member ''pending_kill'' c_uint,
     Member ''pending_disable'' c_uint,
     Member ''pending_sigtrap'' c_uint,
     Member ''pending_addr'' c_ulong,
     Member ''pending_irq'' struct_irq_work,
     Member ''pending_task'' struct_callback_head,
     Member ''pending_work'' c_uint,
     Member ''pending_work_wait'' struct_rcuwait,
     Member ''event_limit'' ty_atomic_t,
     Member ''addr_filters'' struct_perf_addr_filters_head,
     Member ''addr_filter_ranges'' Ptr,
     Member ''addr_filters_gen'' c_ulong,
     Member ''aux_event'' Ptr,
     Member ''destroy'' Ptr,
     Member ''callback_head'' struct_callback_head,
     Member ''ns'' Ptr,
     Member ''id'' c_u64,
     Member ''lost_samples'' ty_atomic64_t,
     Member ''clock'' Ptr,
     Member ''overflow_handler'' Ptr,
     Member ''overflow_handler_context'' Ptr,
     Member ''orig_overflow_handler'' Ptr,
     Member ''prog'' Ptr,
     Member ''bpf_cookie'' c_u64,
     Member ''tp_event'' Ptr,
     Member ''filter'' Ptr,
     Member ''ftrace_ops'' struct_ftrace_ops,
     Member ''cgrp'' Ptr,
     Member ''security'' Ptr,
     Member ''sb_list'' struct_list_head,
     Member ''orig_type'' c__u32]"

lemma struct_perf_event_layout [layout_simps]: "sizeof struct_perf_event = 1280" "alignof struct_perf_event = 8"
  by (simp_all add: struct_perf_event_def layout_simps)

end
