(* ===== verification/KernelTask.thy ===== *)
theory KernelTask
  imports KernelTrace
begin

text \<open>
  The task a probe fires in and its address space
  (\<^verbatim>\<open>src/src/bpf/vmlinux.h\<close>).
  Each declaration is followed by its size and alignment.
\<close>

definition ty_lockdep_map_p :: ctype where
  "ty_lockdep_map_p = struct
    []"

lemma ty_lockdep_map_p_layout [layout_simps]: "sizeof ty_lockdep_map_p = 0" "alignof ty_lockdep_map_p = 1"
  by (simp_all add: ty_lockdep_map_p_def layout_simps)

definition struct_maple_tree :: ctype where
  "struct_maple_tree = struct
    [Member '''' (union
        [Member ''ma_lock'' struct_spinlock,
         Member ''ma_external_lock'' ty_lockdep_map_p]),
     Member ''ma_flags'' c_uint,
     Member ''ma_root'' Ptr]"

lemma struct_maple_tree_layout [layout_simps]: "sizeof struct_maple_tree = 16" "alignof struct_maple_tree = 8"
  by (simp_all add: struct_maple_tree_def layout_simps)

definition ty_mm_context_t :: ctype where
  "ty_mm_context_t = struct
    [Member ''ctx_id'' c_u64,
     Member ''tlb_gen'' ty_atomic64_t,
     Member ''next_trim_cpumask'' c_ulong,
     Member ''ldt_usr_sem'' struct_rw_semaphore,
     Member ''ldt'' Ptr,
     Member ''flags'' c_ulong,
     Member ''lock'' struct_mutex,
     Member ''vdso'' Ptr,
     Member ''vdso_image'' Ptr,
     Member ''perf_rdpmc_allowed'' ty_atomic_t,
     Member ''pkey_allocation_map'' c_u16,
     Member ''execute_only_pkey'' c_s16]"

lemma ty_mm_context_t_layout [layout_simps]: "sizeof ty_mm_context_t = 136" "alignof ty_mm_context_t = 8"
  by (simp_all add: ty_mm_context_t_def layout_simps)

definition struct_uprobes_state :: ctype where
  "struct_uprobes_state = struct
    [Member ''xol_area'' Ptr]"

lemma struct_uprobes_state_layout [layout_simps]: "sizeof struct_uprobes_state = 8" "alignof struct_uprobes_state = 8"
  by (simp_all add: struct_uprobes_state_def layout_simps)

definition struct_mm_struct :: ctype where
  "struct_mm_struct = struct
    [Member '''' (struct
        [Member '''' (struct
            [Member ''mm_count'' ty_atomic_t,
             pads 7]),
         Member ''mm_mt'' struct_maple_tree,
         Member ''get_unmapped_area'' Ptr,
         Member ''mmap_base'' c_ulong,
         Member ''mmap_legacy_base'' c_ulong,
         Member ''mmap_compat_base'' c_ulong,
         Member ''mmap_compat_legacy_base'' c_ulong,
         Member ''task_size'' c_ulong,
         Member ''pgd'' Ptr,
         Member ''membarrier_state'' ty_atomic_t,
         Member ''mm_users'' ty_atomic_t,
         Member ''pcpu_cid'' Ptr,
         Member ''mm_cid_next_scan'' c_ulong,
         Member ''pgtables_bytes'' ty_atomic64_t,
         Member ''map_count'' c_int,
         Member ''page_table_lock'' struct_spinlock,
         Member ''mmap_lock'' struct_rw_semaphore,
         Member ''mmlist'' struct_list_head,
         Member ''mm_lock_seq'' c_int,
         Member ''hiwater_rss'' c_ulong,
         Member ''hiwater_vm'' c_ulong,
         Member ''total_vm'' c_ulong,
         Member ''locked_vm'' c_ulong,
         Member ''pinned_vm'' ty_atomic64_t,
         Member ''data_vm'' c_ulong,
         Member ''exec_vm'' c_ulong,
         Member ''stack_vm'' c_ulong,
         Member ''def_flags'' c_ulong,
         Member ''write_protect_seq'' struct_seqcount,
         Member ''arg_lock'' struct_spinlock,
         Member ''start_code'' c_ulong,
         Member ''end_code'' c_ulong,
         Member ''start_data'' c_ulong,
         Member ''end_data'' c_ulong,
         Member ''start_brk'' c_ulong,
         Member ''brk'' c_ulong,
         Member ''start_stack'' c_ulong,
         Member ''arg_start'' c_ulong,
         Member ''arg_end'' c_ulong,
         Member ''env_start'' c_ulong,
         Member ''env_end'' c_ulong,
         Member ''saved_auxv'' (Array 52 c_ulong),
         Member ''rss_stat'' (Array 4 struct_percpu_counter),
         Member ''binfmt'' Ptr,
         Member ''context'' ty_mm_context_t,
         Member ''flags'' c_ulong,
         Member ''ioctx_lock'' struct_spinlock,
         Member ''ioctx_table'' Ptr,
         Member ''owner'' Ptr,
         Member ''user_ns'' Ptr,
         Member ''exe_file'' Ptr,
         Member ''notifier_subscriptions'' Ptr,
         Member ''numa_next_scan'' c_ulong,
         Member ''numa_scan_offset'' c_ulong,
         Member ''numa_scan_seq'' c_int,
         Member ''tlb_flush_pending'' ty_atomic_t,
         Member ''tlb_flush_batched'' ty_atomic_t,
         Member ''uprobes_state'' struct_uprobes_state,
         Member ''hugetlb_usage'' ty_atomic64_t,
         Member ''async_put_work'' struct_work_struct,
         Member ''iommu_mm'' Ptr,
         Member ''ksm_merging_pages'' c_ulong,
         Member ''ksm_rmap_items'' c_ulong,
         Member ''ksm_zero_pages'' ty_atomic64_t,
         Member ''lru_gen'' (struct
            [Member ''list'' struct_list_head,
             Member ''bitmap'' c_ulong,
             Member ''memcg'' Ptr]),
         pads 2]),
     Member ''cpu_bitmap'' (Array 0 c_ulong)]"

lemma struct_mm_struct_layout [layout_simps]: "sizeof struct_mm_struct = 1344" "alignof struct_mm_struct = 8"
  by (simp_all add: struct_mm_struct_def layout_simps)

definition struct_thread_info :: ctype where
  "struct_thread_info = struct
    [Member ''flags'' c_ulong,
     Member ''syscall_work'' c_ulong,
     Member ''status'' c_u32,
     Member ''cpu'' c_u32]"

lemma struct_thread_info_layout [layout_simps]: "sizeof struct_thread_info = 24" "alignof struct_thread_info = 8"
  by (simp_all add: struct_thread_info_def layout_simps)

definition struct_load_weight :: ctype where
  "struct_load_weight = struct
    [Member ''weight'' c_ulong,
     Member ''inv_weight'' c_u32]"

lemma struct_load_weight_layout [layout_simps]: "sizeof struct_load_weight = 16" "alignof struct_load_weight = 8"
  by (simp_all add: struct_load_weight_def layout_simps)

definition struct_sched_avg :: ctype where
  "struct_sched_avg = struct
    [Member ''last_update_time'' c_u64,
     Member ''load_sum'' c_u64,
     Member ''runnable_sum'' c_u64,
     Member ''util_sum'' c_u32,
     Member ''period_contrib'' c_u32,
     Member ''load_avg'' c_ulong,
     Member ''runnable_avg'' c_ulong,
     Member ''util_avg'' c_ulong,
     Member ''util_est'' c_uint]"

lemma struct_sched_avg_layout [layout_simps]: "sizeof struct_sched_avg = 64" "alignof struct_sched_avg = 8"
  by (simp_all add: struct_sched_avg_def layout_simps)

definition struct_sched_entity :: ctype where
  "struct_sched_entity = struct
    [Member ''load'' struct_load_weight,
     Member ''run_node'' struct_rb_node,
     Member ''deadline'' c_u64,
     Member ''min_vruntime'' c_u64,
     Member ''group_node'' struct_list_head,
     Member ''on_rq'' c_uint,
     Member ''exec_start'' c_u64,
     Member ''sum_exec_runtime'' c_u64,
     Member ''prev_sum_exec_runtime'' c_u64,
     Member ''vruntime'' c_u64,
     Member ''vlag'' c_s64,
     Member ''slice'' c_u64,
     Member ''nr_migrations'' c_u64,
     Member ''depth'' c_int,
     Member ''parent'' Ptr,
     Member ''cfs_rq'' Ptr,
     Member ''my_q'' Ptr,
     Member ''runnable_weight'' c_ulong,
     pads 2,
     Member ''avg'' struct_sched_avg]"

lemma struct_sched_entity_layout [layout_simps]: "sizeof struct_sched_entity = 256" "alignof struct_sched_entity = 8"
  by (simp_all add: struct_sched_entity_def layout_simps)

definition struct_sched_rt_entity :: ctype where
  "struct_sched_rt_entity = struct
    [Member ''run_list'' struct_list_head,
     Member ''timeout'' c_ulong,
     Member ''watchdog_stamp'' c_ulong,
     Member ''time_slice'' c_uint,
     Member ''on_rq'' c_ushort,
     Member ''on_list'' c_ushort,
     Member ''back'' Ptr]"

lemma struct_sched_rt_entity_layout [layout_simps]: "sizeof struct_sched_rt_entity = 48" "alignof struct_sched_rt_entity = 8"
  by (simp_all add: struct_sched_rt_entity_def layout_simps)

definition struct_sched_dl_entity :: ctype where
  "struct_sched_dl_entity = struct
    [Member ''rb_node'' struct_rb_node,
     Member ''dl_runtime'' c_u64,
     Member ''dl_deadline'' c_u64,
     Member ''dl_period'' c_u64,
     Member ''dl_bw'' c_u64,
     Member ''dl_density'' c_u64,
     Member ''runtime'' c_s64,
     Member ''deadline'' c_u64,
     Member ''flags'' c_uint,
     Bits ''dl_throttled'' 4 1,
     Bits ''dl_yielded'' 4 1,
     Bits ''dl_non_contending'' 4 1,
     Bits ''dl_overrun'' 4 1,
     Bits ''dl_server'' 4 1,
     Member ''dl_timer'' struct_hrtimer,
     Member ''inactive_timer'' struct_hrtimer,
     Member ''rq'' Ptr,
     Member ''server_has_tasks'' Ptr,
     Member ''server_pick'' Ptr,
     Member ''pi_se'' Ptr]"

lemma struct_sched_dl_entity_layout [layout_simps]: "sizeof struct_sched_dl_entity = 248" "alignof struct_sched_dl_entity = 8"
  by (simp_all add: struct_sched_dl_entity_def layout_simps)

definition struct_uclamp_se :: ctype where
  "struct_uclamp_se = struct
    [Bits ''value'' 4 11,
     Bits ''bucket_id'' 4 3,
     Bits ''active'' 4 1,
     Bits ''user_defined'' 4 1]"

lemma struct_uclamp_se_layout [layout_simps]: "sizeof struct_uclamp_se = 4" "alignof struct_uclamp_se = 4"
  by (simp_all add: struct_uclamp_se_def layout_simps)

definition struct_sched_statistics :: ctype where
  "struct_sched_statistics = struct
    [Member ''wait_start'' c_u64,
     Member ''wait_max'' c_u64,
     Member ''wait_count'' c_u64,
     Member ''wait_sum'' c_u64,
     Member ''iowait_count'' c_u64,
     Member ''iowait_sum'' c_u64,
     Member ''sleep_start'' c_u64,
     Member ''sleep_max'' c_u64,
     Member ''sum_sleep_runtime'' c_s64,
     Member ''block_start'' c_u64,
     Member ''block_max'' c_u64,
     Member ''sum_block_runtime'' c_s64,
     Member ''exec_max'' c_s64,
     Member ''slice_max'' c_u64,
     Member ''nr_migrations_cold'' c_u64,
     Member ''nr_failed_migrations_affine'' c_u64,
     Member ''nr_failed_migrations_running'' c_u64,
     Member ''nr_failed_migrations_hot'' c_u64,
     Member ''nr_forced_migrations'' c_u64,
     Member ''nr_wakeups'' c_u64,
     Member ''nr_wakeups_sync'' c_u64,
     Member ''nr_wakeups_migrate'' c_u64,
     Member ''nr_wakeups_local'' c_u64,
     Member ''nr_wakeups_remote'' c_u64,
     Member ''nr_wakeups_affine'' c_u64,
     Member ''nr_wakeups_affine_attempts'' c_u64,
     Member ''nr_wakeups_passive'' c_u64,
     Member ''nr_wakeups_idle'' c_u64,
     Member ''core_forceidle_sum'' c_u64,
     pads 3]"

lemma struct_sched_statistics_layout [layout_simps]: "sizeof struct_sched_statistics = 256" "alignof struct_sched_statistics = 8"
  by (simp_all add: struct_sched_statistics_def layout_simps)

definition struct_hlist_head :: ctype where
  "struct_hlist_head = struct
    [Member ''first'' Ptr]"

lemma struct_hlist_head_layout [layout_simps]: "sizeof struct_hlist_head = 8" "alignof struct_hlist_head = 8"
  by (simp_all add: struct_hlist_head_def layout_simps)

definition struct_cpumask :: ctype where
  "struct_cpumask = struct
    [Member ''bits'' (Array 128 c_ulong)]"

lemma struct_cpumask_layout [layout_simps]: "sizeof struct_cpumask = 1024" "alignof struct_cpumask = 8"
  by (simp_all add: struct_cpumask_def layout_simps)

definition union_rcu_special :: ctype where
  "union_rcu_special = union
    [Member ''b'' (struct
        [Member ''blocked'' c_u8,
         Member ''need_qs'' c_u8,
         Member ''exp_hint'' c_u8,
         Member ''need_mb'' c_u8]),
     Member ''s'' c_u32]"

lemma union_rcu_special_layout [layout_simps]: "sizeof union_rcu_special = 4" "alignof union_rcu_special = 4"
  by (simp_all add: union_rcu_special_def layout_simps)

definition struct_sched_info :: ctype where
  "struct_sched_info = struct
    [Member ''pcount'' c_ulong,
     Member ''run_delay'' c_ullong,
     Member ''last_arrival'' c_ullong,
     Member ''last_queued'' c_ullong]"

lemma struct_sched_info_layout [layout_simps]: "sizeof struct_sched_info = 32" "alignof struct_sched_info = 8"
  by (simp_all add: struct_sched_info_def layout_simps)

definition struct_plist_node :: ctype where
  "struct_plist_node = struct
    [Member ''prio'' c_int,
     Member ''prio_list'' struct_list_head,
     Member ''node_list'' struct_list_head]"

lemma struct_plist_node_layout [layout_simps]: "sizeof struct_plist_node = 40" "alignof struct_plist_node = 8"
  by (simp_all add: struct_plist_node_def layout_simps)

definition struct_restart_block :: ctype where
  "struct_restart_block = struct
    [Member ''arch_data'' c_ulong,
     Member ''fn'' Ptr,
     Member '''' (union
        [Member ''futex'' (struct
            [Member ''uaddr'' Ptr,
             Member ''val'' c_u32,
             Member ''flags'' c_u32,
             Member ''bitset'' c_u32,
             Member ''time'' c_u64,
             Member ''uaddr2'' Ptr]),
         Member ''nanosleep'' (struct
            [Member ''clockid'' c_clockid_t,
             Member ''type'' c_enum,
             Member '''' (union
                [Member ''rmtp'' Ptr,
                 Member ''compat_rmtp'' Ptr]),
             Member ''expires'' c_u64]),
         Member ''poll'' (struct
            [Member ''ufds'' Ptr,
             Member ''nfds'' c_int,
             Member ''has_timeout'' c_int,
             Member ''tv_sec'' c_ulong,
             Member ''tv_nsec'' c_ulong])])]"

lemma struct_restart_block_layout [layout_simps]: "sizeof struct_restart_block = 56" "alignof struct_restart_block = 8"
  by (simp_all add: struct_restart_block_def layout_simps)

definition struct_prev_cputime :: ctype where
  "struct_prev_cputime = struct
    [Member ''utime'' c_u64,
     Member ''stime'' c_u64,
     Member ''lock'' struct_raw_spinlock]"

lemma struct_prev_cputime_layout [layout_simps]: "sizeof struct_prev_cputime = 24" "alignof struct_prev_cputime = 8"
  by (simp_all add: struct_prev_cputime_def layout_simps)

definition struct_vtime :: ctype where
  "struct_vtime = struct
    [Member ''seqcount'' struct_seqcount,
     Member ''starttime'' c_ullong,
     Member ''state'' c_enum,
     Member ''cpu'' c_uint,
     Member ''utime'' c_u64,
     Member ''stime'' c_u64,
     Member ''gtime'' c_u64]"

lemma struct_vtime_layout [layout_simps]: "sizeof struct_vtime = 48" "alignof struct_vtime = 8"
  by (simp_all add: struct_vtime_def layout_simps)

definition struct_rb_root :: ctype where
  "struct_rb_root = struct
    [Member ''rb_node'' Ptr]"

lemma struct_rb_root_layout [layout_simps]: "sizeof struct_rb_root = 8" "alignof struct_rb_root = 8"
  by (simp_all add: struct_rb_root_def layout_simps)

definition struct_rb_root_cached :: ctype where
  "struct_rb_root_cached = struct
    [Member ''rb_root'' struct_rb_root,
     Member ''rb_leftmost'' Ptr]"

lemma struct_rb_root_cached_layout [layout_simps]: "sizeof struct_rb_root_cached = 16" "alignof struct_rb_root_cached = 8"
  by (simp_all add: struct_rb_root_cached_def layout_simps)

definition struct_timerqueue_head :: ctype where
  "struct_timerqueue_head = struct
    [Member ''rb_root'' struct_rb_root_cached]"

lemma struct_timerqueue_head_layout [layout_simps]: "sizeof struct_timerqueue_head = 16" "alignof struct_timerqueue_head = 8"
  by (simp_all add: struct_timerqueue_head_def layout_simps)

definition struct_posix_cputimer_base :: ctype where
  "struct_posix_cputimer_base = struct
    [Member ''nextevt'' c_u64,
     Member ''tqhead'' struct_timerqueue_head]"

lemma struct_posix_cputimer_base_layout [layout_simps]: "sizeof struct_posix_cputimer_base = 24" "alignof struct_posix_cputimer_base = 8"
  by (simp_all add: struct_posix_cputimer_base_def layout_simps)

definition struct_posix_cputimers :: ctype where
  "struct_posix_cputimers = struct
    [Member ''bases'' (Array 3 struct_posix_cputimer_base),
     Member ''timers_active'' c_uint,
     Member ''expiry_active'' c_uint]"

lemma struct_posix_cputimers_layout [layout_simps]: "sizeof struct_posix_cputimers = 80" "alignof struct_posix_cputimers = 8"
  by (simp_all add: struct_posix_cputimers_def layout_simps)

definition struct_posix_cputimers_work :: ctype where
  "struct_posix_cputimers_work = struct
    [Member ''work'' struct_callback_head,
     Member ''mutex'' struct_mutex,
     Member ''scheduled'' c_uint]"

lemma struct_posix_cputimers_work_layout [layout_simps]: "sizeof struct_posix_cputimers_work = 56" "alignof struct_posix_cputimers_work = 8"
  by (simp_all add: struct_posix_cputimers_work_def layout_simps)

definition struct_sysv_sem :: ctype where
  "struct_sysv_sem = struct
    [Member ''undo_list'' Ptr]"

lemma struct_sysv_sem_layout [layout_simps]: "sizeof struct_sysv_sem = 8" "alignof struct_sysv_sem = 8"
  by (simp_all add: struct_sysv_sem_def layout_simps)

definition struct_sysv_shm :: ctype where
  "struct_sysv_shm = struct
    [Member ''shm_clist'' struct_list_head]"

lemma struct_sysv_shm_layout [layout_simps]: "sizeof struct_sysv_shm = 16" "alignof struct_sysv_shm = 8"
  by (simp_all add: struct_sysv_shm_def layout_simps)

definition ty_sigset_t :: ctype where
  "ty_sigset_t = struct
    [Member ''sig'' (Array 1 c_ulong)]"

lemma ty_sigset_t_layout [layout_simps]: "sizeof ty_sigset_t = 8" "alignof ty_sigset_t = 8"
  by (simp_all add: ty_sigset_t_def layout_simps)

definition struct_sigpending :: ctype where
  "struct_sigpending = struct
    [Member ''list'' struct_list_head,
     Member ''signal'' ty_sigset_t]"

lemma struct_sigpending_layout [layout_simps]: "sizeof struct_sigpending = 24" "alignof struct_sigpending = 8"
  by (simp_all add: struct_sigpending_def layout_simps)

definition ty_kuid_t :: ctype where
  "ty_kuid_t = struct
    [Member ''val'' c_uid_t]"

lemma ty_kuid_t_layout [layout_simps]: "sizeof ty_kuid_t = 4" "alignof ty_kuid_t = 4"
  by (simp_all add: ty_kuid_t_def layout_simps)

definition struct_seccomp :: ctype where
  "struct_seccomp = struct
    [Member ''mode'' c_int,
     Member ''filter_count'' ty_atomic_t,
     Member ''filter'' Ptr]"

lemma struct_seccomp_layout [layout_simps]: "sizeof struct_seccomp = 16" "alignof struct_seccomp = 8"
  by (simp_all add: struct_seccomp_def layout_simps)

definition struct_syscall_user_dispatch :: ctype where
  "struct_syscall_user_dispatch = struct
    [Member ''selector'' Ptr,
     Member ''offset'' c_ulong,
     Member ''len'' c_ulong,
     Member ''on_dispatch'' c_bool]"

lemma struct_syscall_user_dispatch_layout [layout_simps]: "sizeof struct_syscall_user_dispatch = 32" "alignof struct_syscall_user_dispatch = 8"
  by (simp_all add: struct_syscall_user_dispatch_def layout_simps)

definition struct_wake_q_node :: ctype where
  "struct_wake_q_node = struct
    [Member ''next'' Ptr]"

lemma struct_wake_q_node_layout [layout_simps]: "sizeof struct_wake_q_node = 8" "alignof struct_wake_q_node = 8"
  by (simp_all add: struct_wake_q_node_def layout_simps)

definition struct_task_io_accounting :: ctype where
  "struct_task_io_accounting = struct
    [Member ''rchar'' c_u64,
     Member ''wchar'' c_u64,
     Member ''syscr'' c_u64,
     Member ''syscw'' c_u64,
     Member ''read_bytes'' c_u64,
     Member ''write_bytes'' c_u64,
     Member ''cancelled_write_bytes'' c_u64]"

lemma struct_task_io_accounting_layout [layout_simps]: "sizeof struct_task_io_accounting = 56" "alignof struct_task_io_accounting = 8"
  by (simp_all add: struct_task_io_accounting_def layout_simps)

definition ty_nodemask_t :: ctype where
  "ty_nodemask_t = struct
    [Member ''bits'' (Array 16 c_ulong)]"

lemma ty_nodemask_t_layout [layout_simps]: "sizeof ty_nodemask_t = 128" "alignof ty_nodemask_t = 8"
  by (simp_all add: ty_nodemask_t_def layout_simps)

definition struct_seqcount_spinlock :: ctype where
  "struct_seqcount_spinlock = struct
    [Member ''seqcount'' struct_seqcount]"

lemma struct_seqcount_spinlock_layout [layout_simps]: "sizeof struct_seqcount_spinlock = 4" "alignof struct_seqcount_spinlock = 4"
  by (simp_all add: struct_seqcount_spinlock_def layout_simps)

definition struct_arch_tlbflush_unmap_batch :: ctype where
  "struct_arch_tlbflush_unmap_batch = struct
    [Member ''cpumask'' struct_cpumask]"

lemma struct_arch_tlbflush_unmap_batch_layout [layout_simps]: "sizeof struct_arch_tlbflush_unmap_batch = 1024" "alignof struct_arch_tlbflush_unmap_batch = 8"
  by (simp_all add: struct_arch_tlbflush_unmap_batch_def layout_simps)

definition struct_tlbflush_unmap_batch :: ctype where
  "struct_tlbflush_unmap_batch = struct
    [Member ''arch'' struct_arch_tlbflush_unmap_batch,
     Member ''flush_required'' c_bool,
     Member ''writable'' c_bool]"

lemma struct_tlbflush_unmap_batch_layout [layout_simps]: "sizeof struct_tlbflush_unmap_batch = 1032" "alignof struct_tlbflush_unmap_batch = 8"
  by (simp_all add: struct_tlbflush_unmap_batch_def layout_simps)

definition struct_page_frag :: ctype where
  "struct_page_frag = struct
    [Member ''page'' Ptr,
     Member ''offset'' c__u32,
     Member ''size'' c__u32]"

lemma struct_page_frag_layout [layout_simps]: "sizeof struct_page_frag = 16" "alignof struct_page_frag = 8"
  by (simp_all add: struct_page_frag_def layout_simps)

definition struct_latency_record :: ctype where
  "struct_latency_record = struct
    [Member ''backtrace'' (Array 12 c_ulong),
     Member ''count'' c_uint,
     Member ''time'' c_ulong,
     Member ''max'' c_ulong]"

lemma struct_latency_record_layout [layout_simps]: "sizeof struct_latency_record = 120" "alignof struct_latency_record = 8"
  by (simp_all add: struct_latency_record_def layout_simps)

definition struct_kmap_ctrl :: ctype where
  "struct_kmap_ctrl = struct
    []"

lemma struct_kmap_ctrl_layout [layout_simps]: "sizeof struct_kmap_ctrl = 0" "alignof struct_kmap_ctrl = 1"
  by (simp_all add: struct_kmap_ctrl_def layout_simps)

definition struct_da_monitor :: ctype where
  "struct_da_monitor = struct
    [Member ''monitoring'' c_bool,
     Member ''curr_state'' c_uint]"

lemma struct_da_monitor_layout [layout_simps]: "sizeof struct_da_monitor = 8" "alignof struct_da_monitor = 4"
  by (simp_all add: struct_da_monitor_def layout_simps)

definition union_rv_task_monitor :: ctype where
  "union_rv_task_monitor = union
    [Member ''da_mon'' struct_da_monitor]"

lemma union_rv_task_monitor_layout [layout_simps]: "sizeof union_rv_task_monitor = 8" "alignof union_rv_task_monitor = 4"
  by (simp_all add: union_rv_task_monitor_def layout_simps)

definition struct_desc_struct :: ctype where
  "struct_desc_struct = struct
    [Member ''limit0'' c_u16,
     Member ''base0'' c_u16,
     Bits ''base1'' 2 8,
     Bits ''type'' 2 4,
     Bits ''s'' 2 1,
     Bits ''dpl'' 2 2,
     Bits ''p'' 2 1,
     Bits ''limit1'' 2 4,
     Bits ''avl'' 2 1,
     Bits ''l'' 2 1,
     Bits ''d'' 2 1,
     Bits ''g'' 2 1,
     Bits ''base2'' 2 8]"

lemma struct_desc_struct_layout [layout_simps]: "sizeof struct_desc_struct = 8" "alignof struct_desc_struct = 2"
  by (simp_all add: struct_desc_struct_def layout_simps)

definition struct_thread_shstk :: ctype where
  "struct_thread_shstk = struct
    [Member ''base'' c_u64,
     Member ''size'' c_u64]"

lemma struct_thread_shstk_layout [layout_simps]: "sizeof struct_thread_shstk = 16" "alignof struct_thread_shstk = 8"
  by (simp_all add: struct_thread_shstk_def layout_simps)

definition struct_fpu_state_perm :: ctype where
  "struct_fpu_state_perm = struct
    [Member ''__state_perm'' c_u64,
     Member ''__state_size'' c_uint,
     Member ''__user_state_size'' c_uint]"

lemma struct_fpu_state_perm_layout [layout_simps]: "sizeof struct_fpu_state_perm = 16" "alignof struct_fpu_state_perm = 8"
  by (simp_all add: struct_fpu_state_perm_def layout_simps)

definition struct_fregs_state :: ctype where
  "struct_fregs_state = struct
    [Member ''cwd'' c_u32,
     Member ''swd'' c_u32,
     Member ''twd'' c_u32,
     Member ''fip'' c_u32,
     Member ''fcs'' c_u32,
     Member ''foo'' c_u32,
     Member ''fos'' c_u32,
     Member ''st_space'' (Array 20 c_u32),
     Member ''status'' c_u32]"

lemma struct_fregs_state_layout [layout_simps]: "sizeof struct_fregs_state = 112" "alignof struct_fregs_state = 4"
  by (simp_all add: struct_fregs_state_def layout_simps)

definition struct_fxregs_state :: ctype where
  "struct_fxregs_state = struct
    [Member ''cwd'' c_u16,
     Member ''swd'' c_u16,
     Member ''twd'' c_u16,
     Member ''fop'' c_u16,
     Member '''' (union
        [Member '''' (struct
            [Member ''rip'' c_u64,
             Member ''rdp'' c_u64]),
         Member '''' (struct
            [Member ''fip'' c_u32,
             Member ''fcs'' c_u32,
             Member ''foo'' c_u32,
             Member ''fos'' c_u32])]),
     Member ''mxcsr'' c_u32,
     Member ''mxcsr_mask'' c_u32,
     Member ''st_space'' (Array 32 c_u32),
     Member ''xmm_space'' (Array 64 c_u32),
     Member ''padding'' (Array 12 c_u32),
     Member '''' (union
        [Member ''padding1'' (Array 12 c_u32),
         Member ''sw_reserved'' (Array 12 c_u32)])]"

lemma struct_fxregs_state_layout [layout_simps]: "sizeof struct_fxregs_state = 512" "alignof struct_fxregs_state = 8"
  by (simp_all add: struct_fxregs_state_def layout_simps)

definition struct_swregs_state :: ctype where
  "struct_swregs_state = struct
    [Member ''cwd'' c_u32,
     Member ''swd'' c_u32,
     Member ''twd'' c_u32,
     Member ''fip'' c_u32,
     Member ''fcs'' c_u32,
     Member ''foo'' c_u32,
     Member ''fos'' c_u32,
     Member ''st_space'' (Array 20 c_u32),
     Member ''ftop'' c_u8,
     Member ''changed'' c_u8,
     Member ''lookahead'' c_u8,
     Member ''no_update'' c_u8,
     Member ''rm'' c_u8,
     Member ''alimit'' c_u8,
     Member ''info'' Ptr,
     Member ''entry_eip'' c_u32]"

lemma struct_swregs_state_layout [layout_simps]: "sizeof struct_swregs_state = 136" "alignof struct_swregs_state = 8"
  by (simp_all add: struct_swregs_state_def layout_simps)

definition struct_xstate_header :: ctype where
  "struct_xstate_header = struct
    [Member ''xfeatures'' c_u64,
     Member ''xcomp_bv'' c_u64,
     Member ''reserved'' (Array 6 c_u64)]"

lemma struct_xstate_header_layout [layout_simps]: "sizeof struct_xstate_header = 64" "alignof struct_xstate_header = 8"
  by (simp_all add: struct_xstate_header_def layout_simps)

definition struct_xregs_state :: ctype where
  "struct_xregs_state = struct
    [Member ''i387'' struct_fxregs_state,
     Member ''header'' struct_xstate_header,
     Member ''extended_state_area'' (Array 0 c_u8)]"

lemma struct_xregs_state_layout [layout_simps]: "sizeof struct_xregs_state = 576" "alignof struct_xregs_state = 8"
  by (simp_all add: struct_xregs_state_def layout_simps)

definition union_fpregs_state :: ctype where
  "union_fpregs_state = union
    [Member ''fsave'' struct_fregs_state,
     Member ''fxsave'' struct_fxregs_state,
     Member ''soft'' struct_swregs_state,
     Member ''xsave'' struct_xregs_state,
     Member ''__padding'' (Array 4096 c_u8)]"

lemma union_fpregs_state_layout [layout_simps]: "sizeof union_fpregs_state = 4096" "alignof union_fpregs_state = 8"
  by (simp_all add: union_fpregs_state_def layout_simps)

definition struct_fpstate :: ctype where
  "struct_fpstate = struct
    [Member ''size'' c_uint,
     Member ''user_size'' c_uint,
     Member ''xfeatures'' c_u64,
     Member ''user_xfeatures'' c_u64,
     Member ''xfd'' c_u64,
     Bits ''is_valloc'' 4 1,
     Bits ''is_guest'' 4 1,
     Bits ''is_confidential'' 4 1,
     Bits ''in_use'' 4 1,
     pads 3,
     Member ''regs'' union_fpregs_state]"

lemma struct_fpstate_layout [layout_simps]: "sizeof struct_fpstate = 4160" "alignof struct_fpstate = 8"
  by (simp_all add: struct_fpstate_def layout_simps)

definition struct_fpu :: ctype where
  "struct_fpu = struct
    [Member ''last_cpu'' c_uint,
     Member ''avx512_timestamp'' c_ulong,
     Member ''fpstate'' Ptr,
     Member ''__task_fpstate'' Ptr,
     Member ''perm'' struct_fpu_state_perm,
     Member ''guest_perm'' struct_fpu_state_perm,
     Member ''__fpstate'' struct_fpstate]"

lemma struct_fpu_layout [layout_simps]: "sizeof struct_fpu = 4224" "alignof struct_fpu = 8"
  by (simp_all add: struct_fpu_def layout_simps)

definition struct_thread_struct :: ctype where
  "struct_thread_struct = struct
    [Member ''tls_array'' (Array 3 struct_desc_struct),
     Member ''sp'' c_ulong,
     Member ''es'' c_ushort,
     Member ''ds'' c_ushort,
     Member ''fsindex'' c_ushort,
     Member ''gsindex'' c_ushort,
     Member ''fsbase'' c_ulong,
     Member ''gsbase'' c_ulong,
     Member ''ptrace_bps'' (Array 4 Ptr),
     Member ''virtual_dr6'' c_ulong,
     Member ''ptrace_dr7'' c_ulong,
     Member ''cr2'' c_ulong,
     Member ''trap_nr'' c_ulong,
     Member ''error_code'' c_ulong,
     Member ''io_bitmap'' Ptr,
     Member ''iopl_emul'' c_ulong,
     Bits ''iopl_warn'' 4 1,
     Member ''pkru'' c_u32,
     Member ''features'' c_ulong,
     Member ''features_locked'' c_ulong,
     Member ''shstk'' struct_thread_shstk,
     pads 1,
     Member ''fpu'' struct_fpu]"

lemma struct_thread_struct_layout [layout_simps]: "sizeof struct_thread_struct = 4416" "alignof struct_thread_struct = 8"
  by (simp_all add: struct_thread_struct_def layout_simps)

definition struct_task_struct_sched :: "(members \<Rightarrow> members) list" where
  "struct_task_struct_sched =
    [Member ''thread_info'' struct_thread_info,
     Member ''__state'' c_uint,
     Member ''saved_state'' c_uint,
     Member ''stack'' Ptr,
     Member ''usage'' struct_refcount_struct,
     Member ''flags'' c_uint,
     Member ''ptrace'' c_uint,
     Member ''on_cpu'' c_int,
     Member ''wake_entry'' struct___call_single_node,
     Member ''wakee_flips'' c_uint,
     Member ''wakee_flip_decay_ts'' c_ulong,
     Member ''last_wakee'' Ptr,
     Member ''recent_used_cpu'' c_int,
     Member ''wake_cpu'' c_int,
     Member ''on_rq'' c_int,
     Member ''prio'' c_int,
     Member ''static_prio'' c_int,
     Member ''normal_prio'' c_int,
     Member ''rt_priority'' c_uint,
     Member ''se'' struct_sched_entity,
     Member ''rt'' struct_sched_rt_entity,
     Member ''dl'' struct_sched_dl_entity,
     Member ''dl_server'' Ptr,
     Member ''sched_class'' Ptr,
     Member ''core_node'' struct_rb_node,
     Member ''core_cookie'' c_ulong,
     Member ''core_occupation'' c_uint,
     Member ''sched_task_group'' Ptr,
     Member ''uclamp_req'' (Array 2 struct_uclamp_se),
     Member ''uclamp'' (Array 2 struct_uclamp_se),
     pads 1,
     Member ''stats'' struct_sched_statistics,
     Member ''preempt_notifiers'' struct_hlist_head,
     Member ''btrace_seq'' c_uint,
     Member ''policy'' c_uint,
     Member ''nr_cpus_allowed'' c_int,
     Member ''cpus_ptr'' Ptr,
     Member ''user_cpus_ptr'' Ptr,
     Member ''cpus_mask'' struct_cpumask,
     Member ''migration_pending'' Ptr,
     Member ''migration_disabled'' c_ushort,
     Member ''migration_flags'' c_ushort,
     Member ''rcu_read_lock_nesting'' c_int,
     Member ''rcu_read_unlock_special'' union_rcu_special,
     Member ''rcu_node_entry'' struct_list_head,
     Member ''rcu_blocked_node'' Ptr,
     Member ''rcu_tasks_nvcsw'' c_ulong,
     Member ''rcu_tasks_holdout'' c_u8,
     Member ''rcu_tasks_idx'' c_u8,
     Member ''rcu_tasks_idle_cpu'' c_int,
     Member ''rcu_tasks_holdout_list'' struct_list_head,
     Member ''rcu_tasks_exit_cpu'' c_int,
     Member ''rcu_tasks_exit_list'' struct_list_head,
     Member ''trc_reader_nesting'' c_int,
     Member ''trc_ipi_to_cpu'' c_int,
     Member ''trc_reader_special'' union_rcu_special,
     Member ''trc_holdout_list'' struct_list_head,
     Member ''trc_blkd_node'' struct_list_head,
     Member ''trc_blkd_cpu'' c_int,
     Member ''sched_info'' struct_sched_info,
     Member ''tasks'' struct_list_head,
     Member ''pushable_tasks'' struct_plist_node,
     Member ''pushable_dl_tasks'' struct_rb_node,
     Member ''mm'' Ptr,
     Member ''active_mm'' Ptr,
     Member ''faults_disabled_mapping'' Ptr,
     Member ''exit_state'' c_int,
     Member ''exit_code'' c_int,
     Member ''exit_signal'' c_int,
     Member ''pdeath_signal'' c_int,
     Member ''jobctl'' c_ulong,
     Member ''personality'' c_uint,
     Bits ''sched_reset_on_fork'' 4 1,
     Bits ''sched_contributes_to_load'' 4 1,
     Bits ''sched_migrated'' 4 1,
     Bits ''sched_task_hot'' 4 1,
     Bits '''' 8 28,
     Bits ''sched_remote_wakeup'' 4 1,
     Bits ''sched_rt_mutex'' 4 1,
     Bits ''in_execve'' 4 1,
     Bits ''in_iowait'' 4 1,
     Bits ''restore_sigmask'' 4 1,
     Bits ''in_user_fault'' 4 1,
     Bits ''in_lru_fault'' 4 1,
     Bits ''no_cgroup_migration'' 4 1,
     Bits ''frozen'' 4 1,
     Bits ''use_memdelay'' 4 1,
     Bits ''in_memstall'' 4 1,
     Bits ''in_eventfd'' 4 1,
     Bits ''pasid_activated'' 4 1,
     Bits ''reported_split_lock'' 4 1,
     Bits ''in_thrashing'' 4 1,
     Member ''atomic_flags'' c_ulong,
     Member ''restart_block'' struct_restart_block,
     Member ''pid'' c_pid_t,
     Member ''tgid'' c_pid_t,
     Member ''stack_canary'' c_ulong,
     Member ''real_parent'' Ptr,
     Member ''parent'' Ptr,
     Member ''children'' struct_list_head,
     Member ''sibling'' struct_list_head,
     Member ''group_leader'' Ptr,
     Member ''ptraced'' struct_list_head,
     Member ''ptrace_entry'' struct_list_head,
     Member ''thread_pid'' Ptr,
     Member ''pid_links'' (Array 4 struct_hlist_node),
     Member ''thread_node'' struct_list_head,
     Member ''vfork_done'' Ptr,
     Member ''set_child_tid'' Ptr,
     Member ''clear_child_tid'' Ptr,
     Member ''worker_private'' Ptr,
     Member ''utime'' c_u64,
     Member ''stime'' c_u64,
     Member ''gtime'' c_u64,
     Member ''prev_cputime'' struct_prev_cputime,
     Member ''vtime'' struct_vtime,
     Member ''tick_dep_mask'' ty_atomic_t,
     Member ''nvcsw'' c_ulong,
     Member ''nivcsw'' c_ulong,
     Member ''start_time'' c_u64,
     Member ''start_boottime'' c_u64,
     Member ''min_flt'' c_ulong,
     Member ''maj_flt'' c_ulong,
     Member ''posix_cputimers'' struct_posix_cputimers,
     Member ''posix_cputimers_work'' struct_posix_cputimers_work,
     Member ''ptracer_cred'' Ptr,
     Member ''real_cred'' Ptr,
     Member ''cred'' Ptr,
     Member ''cached_requested_key'' Ptr,
     Member ''comm'' (Array 16 c_char),
     Member ''nameidata'' Ptr,
     Member ''sysvsem'' struct_sysv_sem,
     Member ''sysvshm'' struct_sysv_shm,
     Member ''last_switch_count'' c_ulong,
     Member ''last_switch_time'' c_ulong,
     Member ''fs'' Ptr,
     Member ''files'' Ptr]"

definition struct_task_struct_rest :: "(members \<Rightarrow> members) list" where
  "struct_task_struct_rest =
    [Member ''io_uring'' Ptr,
     Member ''nsproxy'' Ptr,
     Member ''signal'' Ptr,
     Member ''sighand'' Ptr,
     Member ''blocked'' ty_sigset_t,
     Member ''real_blocked'' ty_sigset_t,
     Member ''saved_sigmask'' ty_sigset_t,
     Member ''pending'' struct_sigpending,
     Member ''sas_ss_sp'' c_ulong,
     Member ''sas_ss_size'' c_size_t,
     Member ''sas_ss_flags'' c_uint,
     Member ''task_works'' Ptr,
     Member ''audit_context'' Ptr,
     Member ''loginuid'' ty_kuid_t,
     Member ''sessionid'' c_uint,
     Member ''seccomp'' struct_seccomp,
     Member ''syscall_dispatch'' struct_syscall_user_dispatch,
     Member ''parent_exec_id'' c_u64,
     Member ''self_exec_id'' c_u64,
     Member ''alloc_lock'' struct_spinlock,
     Member ''pi_lock'' struct_raw_spinlock,
     Member ''wake_q'' struct_wake_q_node,
     Member ''pi_waiters'' struct_rb_root_cached,
     Member ''pi_top_task'' Ptr,
     Member ''pi_blocked_on'' Ptr,
     Member ''in_ubsan'' c_uint,
     Member ''journal_info'' Ptr,
     Member ''bio_list'' Ptr,
     Member ''plug'' Ptr,
     Member ''reclaim_state'' Ptr,
     Member ''io_context'' Ptr,
     Member ''capture_control'' Ptr,
     Member ''ptrace_message'' c_ulong,
     Member ''last_siginfo'' Ptr,
     Member ''ioac'' struct_task_io_accounting,
     Member ''psi_flags'' c_uint,
     Member ''acct_rss_mem1'' c_u64,
     Member ''acct_vm_mem1'' c_u64,
     Member ''acct_timexpd'' c_u64,
     Member ''mems_allowed'' ty_nodemask_t,
     Member ''mems_allowed_seq'' struct_seqcount_spinlock,
     Member ''cpuset_mem_spread_rotor'' c_int,
     Member ''cpuset_slab_spread_rotor'' c_int,
     Member ''cgroups'' Ptr,
     Member ''cg_list'' struct_list_head,
     Member ''closid'' c_u32,
     Member ''rmid'' c_u32,
     Member ''robust_list'' Ptr,
     Member ''compat_robust_list'' Ptr,
     Member ''pi_state_list'' struct_list_head,
     Member ''pi_state_cache'' Ptr,
     Member ''futex_exit_mutex'' struct_mutex,
     Member ''futex_state'' c_uint,
     Member ''perf_event_ctxp'' Ptr,
     Member ''perf_event_mutex'' struct_mutex,
     Member ''perf_event_list'' struct_list_head,
     Member ''mempolicy'' Ptr,
     Member ''il_prev'' c_short,
     Member ''pref_node_fork'' c_short,
     Member ''numa_scan_seq'' c_int,
     Member ''numa_scan_period'' c_uint,
     Member ''numa_scan_period_max'' c_uint,
     Member ''numa_preferred_nid'' c_int,
     Member ''numa_migrate_retry'' c_ulong,
     Member ''node_stamp'' c_u64,
     Member ''last_task_numa_placement'' c_u64,
     Member ''last_sum_exec_runtime'' c_u64,
     Member ''numa_work'' struct_callback_head,
     Member ''numa_group'' Ptr,
     Member ''numa_faults'' Ptr,
     Member ''total_numa_faults'' c_ulong,
     Member ''numa_faults_locality'' (Array 3 c_ulong),
     Member ''numa_pages_migrated'' c_ulong,
     Member ''rseq'' Ptr,
     Member ''rseq_len'' c_u32,
     Member ''rseq_sig'' c_u32,
     Member ''rseq_event_mask'' c_ulong,
     Member ''mm_cid'' c_int,
     Member ''last_mm_cid'' c_int,
     Member ''migrate_from_cpu'' c_int,
     Member ''mm_cid_active'' c_int,
     Member ''cid_work'' struct_callback_head,
     Member ''tlb_ubc'' struct_tlbflush_unmap_batch,
     Member ''splice_pipe'' Ptr,
     Member ''task_frag'' struct_page_frag,
     Member ''delays'' Ptr,
     Member ''nr_dirtied'' c_int,
     Member ''nr_dirtied_pause'' c_int,
     Member ''dirty_paused_when'' c_ulong,
     Member ''latency_record_count'' c_int,
     Member ''latency_record'' (Array 32 struct_latency_record),
     Member ''timer_slack_ns'' c_u64,
     Member ''default_timer_slack_ns'' c_u64,
     Member ''curr_ret_stack'' c_int,
     Member ''curr_ret_depth'' c_int,
     Member ''ret_stack'' Ptr,
     Member ''ftrace_timestamp'' c_ullong,
     Member ''trace_overrun'' ty_atomic_t,
     Member ''tracing_graph_pause'' ty_atomic_t,
     Member ''trace_recursion'' c_ulong,
     Member ''memcg_in_oom'' Ptr,
     Member ''memcg_oom_gfp_mask'' c_gfp_t,
     Member ''memcg_oom_order'' c_int,
     Member ''memcg_nr_pages_over_high'' c_uint,
     Member ''active_memcg'' Ptr,
     Member ''objcg'' Ptr,
     Member ''throttle_disk'' Ptr,
     Member ''utask'' Ptr,
     Member ''sequential_io'' c_uint,
     Member ''sequential_io_avg'' c_uint,
     Member ''kmap_ctrl'' struct_kmap_ctrl,
     Member ''rcu'' struct_callback_head,
     Member ''rcu_users'' struct_refcount_struct,
     Member ''pagefault_disabled'' c_int,
     Member ''oom_reaper_list'' Ptr,
     Member ''oom_reaper_timer'' struct_timer_list,
     Member ''stack_vm_area'' Ptr,
     Member ''stack_refcount'' struct_refcount_struct,
     Member ''patch_state'' c_int,
     Member ''security'' Ptr,
     Member ''bpf_storage'' Ptr,
     Member ''bpf_ctx'' Ptr,
     Member ''mce_vaddr'' Ptr,
     Member ''mce_kflags'' c__u64,
     Member ''mce_addr'' c_u64,
     Bits ''mce_ripv'' 8 1,
     Bits ''mce_whole_page'' 8 1,
     Bits ''__mce_reserved'' 8 62,
     Member ''mce_kill_me'' struct_callback_head,
     Member ''mce_count'' c_int,
     Member ''kretprobe_instances'' struct_llist_head,
     Member ''rethooks'' struct_llist_head,
     Member ''l1d_flush_kill'' struct_callback_head,
     Member ''rv'' (Array 1 union_rv_task_monitor),
     Member ''user_event_mm'' Ptr,
     Member ''thread'' struct_thread_struct]"

definition struct_task_struct :: ctype where
  "struct_task_struct = struct (struct_task_struct_sched @ struct_task_struct_rest)"

lemma struct_task_struct_layout [layout_simps]: "sizeof struct_task_struct = 13696" "alignof struct_task_struct = 8"
  by (simp_all add: struct_task_struct_def struct_task_struct_sched_def struct_task_struct_rest_def layout_simps)

end
