(* ===== verification/Layouts.thy ===== *)
theory Layouts
  imports KernelTask Invariants
begin

text \<open>
  The layout of the data that crosses a boundary: the structs of
  \<^verbatim>\<open>src/src/bpf/profi_events.h\<close> shared with user space, their mirror in
  \<^verbatim>\<open>src/src/events.rs\<close> with its compile-time asserts, the map declarations of
  \<^verbatim>\<open>src/src/bpf/profi.bpf.c\<close>, and the kernel objects these rest on. The byte encodings of
  the map keys justify modelling hash maps as functions on key records.
\<close>

section \<open>The shared structs\<close>

definition struct_CudaEvent :: ctype where
  "struct_CudaEvent = struct
    [Member ''event_type'' c__u32, Member ''pid'' c__u32, Member ''tid'' c__u32,
     Member ''memcpy_kind'' c__u32, Member ''timestamp_ns'' c__u64, Member ''duration_ns'' c__u64,
     Member ''size'' c__u64, Member ''addr'' c__u64, Member ''stream'' c__u64,
     Member ''nvtx_marker'' (Array 16 c__u8), Member ''comm'' (Array 16 c__u8),
     Member ''error_code'' c__u32, Member ''_pad2'' c__u32]"

definition struct_KernelRegEvent :: ctype where
  "struct_KernelRegEvent = struct
    [Member ''pid'' c__u32, Member ''_pad'' c__u32, Member ''host_fun'' c__u64,
     Member ''name_ptr'' c__u64]"

definition struct_EntryData :: ctype where
  "struct_EntryData = struct
    [Member ''timestamp_ns'' c__u64, Member ''arg0'' c__u64, Member ''arg1'' c__u64,
     Member ''arg2'' c__u64, Member ''event_type'' c__u32, Member ''_pad'' c__u32]"

definition struct_AggKey :: ctype where
  "struct_AggKey = struct
    [Member ''event_type'' c__u32, Member ''pid'' c__u32, Member ''memcpy_kind'' c__u32,
     Member ''error_code'' c__u32, Member ''stream'' c__u64]"

definition struct_AggValue :: ctype where
  "struct_AggValue = struct
    [Member ''count'' c__u64, Member ''duration_sum_ns'' c__u64, Member ''size_sum'' c__u64,
     Member ''bucket_counts'' (Array 14 c__u32)]"

definition struct_LaunchKey :: ctype where
  "struct_LaunchKey = struct
    [Member ''pid'' c__u32, Member ''_pad'' c__u32, Member ''host_fun'' c__u64,
     Member ''stream'' c__u64]"

definition struct_LaunchAggValue :: ctype where
  "struct_LaunchAggValue = struct
    [Member ''count'' c__u64, Member ''total_duration_ns'' c__u64, Member ''max_duration_ns'' c__u64,
     Member ''bucket_counts'' (Array 9 c__u32)]"

definition struct_NcclAggValue :: ctype where
  "struct_NcclAggValue = struct
    [Member ''count'' c__u64, Member ''duration_sum_ns'' c__u64, Member ''bytes_sum'' c__u64,
     Member ''bucket_counts'' (Array 12 c__u32)]"

definition struct_MallocKey :: ctype where
  "struct_MallocKey = struct
    [Member ''pid'' c__u32, Member ''_pad'' c__u32, Member ''addr'' c__u64]"

definition struct_nvtx_name_t :: ctype where
  "struct_nvtx_name_t = struct [Member ''name'' (Array 64 c__u8)]"

lemmas shared_defs =
  struct_CudaEvent_def struct_KernelRegEvent_def struct_EntryData_def struct_AggKey_def
  struct_AggValue_def struct_LaunchKey_def struct_LaunchAggValue_def struct_NcclAggValue_def
  struct_MallocKey_def struct_nvtx_name_t_def

text \<open>
  The asserts of \<^verbatim>\<open>events.rs\<close>: the size of each mirrored struct and the offset of each of
  its fields.
\<close>

definition layout_asserts :: "(ctype \<times> nat \<times> (string \<times> nat) list) list" where
  "layout_asserts =
    [(struct_CudaEvent, 96,
      [(''event_type'', 0), (''pid'', 4), (''tid'', 8), (''memcpy_kind'', 12),
       (''timestamp_ns'', 16), (''duration_ns'', 24), (''size'', 32), (''addr'', 40),
       (''stream'', 48), (''nvtx_marker'', 56), (''comm'', 72), (''error_code'', 88),
       (''_pad2'', 92)]),
     (struct_KernelRegEvent, 24, [(''pid'', 0), (''_pad'', 4), (''host_fun'', 8), (''name_ptr'', 16)]),
     (struct_EntryData, 40,
      [(''timestamp_ns'', 0), (''arg0'', 8), (''arg1'', 16), (''arg2'', 24), (''event_type'', 32),
       (''_pad'', 36)]),
     (struct_AggKey, 24,
      [(''event_type'', 0), (''pid'', 4), (''memcpy_kind'', 8), (''error_code'', 12), (''stream'', 16)]),
     (struct_AggValue, 80,
      [(''count'', 0), (''duration_sum_ns'', 8), (''size_sum'', 16), (''bucket_counts'', 24)]),
     (struct_LaunchKey, 24, [(''pid'', 0), (''_pad'', 4), (''host_fun'', 8), (''stream'', 16)]),
     (struct_LaunchAggValue, 64,
      [(''count'', 0), (''total_duration_ns'', 8), (''max_duration_ns'', 16), (''bucket_counts'', 24)]),
     (struct_NcclAggValue, 72,
      [(''count'', 0), (''duration_sum_ns'', 8), (''bytes_sum'', 16), (''bucket_counts'', 24)])]"

section \<open>Byte encodings of the keys\<close>

text \<open>Little-endian bytes of a word.\<close>

definition le_bytes :: "nat \<Rightarrow> 'a::len word \<Rightarrow> u8 list" where
  "le_bytes n w = map (\<lambda>i. ucast (drop_bit (8 * i) w)) [0..<n]"

lemma length_le_bytes [simp]: "length (le_bytes n w) = n"
  by (simp add: le_bytes_def)

lemma le_bytes_inject:
  fixes v w :: "'a::len word"
  assumes "LENGTH('a) \<le> 8 * n" and "le_bytes n v = le_bytes n w"
  shows "v = w"
proof (rule bit_word_eqI)
  fix k assume k: "k < LENGTH('a)"
  then have i: "k div 8 < n" using assms(1) by linarith
  have "(ucast (drop_bit (8 * (k div 8)) v) :: u8) = ucast (drop_bit (8 * (k div 8)) w)"
    using arg_cong [OF assms(2), of "\<lambda>bs. bs ! (k div 8)"] i by (simp add: le_bytes_def)
  then have "bit (ucast (drop_bit (8 * (k div 8)) v) :: u8) (k mod 8) =
      bit (ucast (drop_bit (8 * (k div 8)) w) :: u8) (k mod 8)"
    by simp
  then show "bit v k = bit w k"
    by (simp add: bit_ucast_iff bit_drop_bit_eq)
qed

definition bytes_AggKey :: "AggKey \<Rightarrow> u8 list" where
  "bytes_AggKey k = le_bytes 4 (ak_event_type k) @ le_bytes 4 (ak_pid k) @
     le_bytes 4 (ak_memcpy_kind k) @ le_bytes 4 (ak_error_code k) @ le_bytes 8 (ak_stream k)"

definition bytes_LaunchKey :: "LaunchKey \<Rightarrow> u8 list" where
  "bytes_LaunchKey k = le_bytes 4 (lk_pid k) @ le_bytes 4 (lk_pad k) @
     le_bytes 8 (lk_host_fun k) @ le_bytes 8 (lk_stream k)"

definition bytes_MallocKey :: "MallocKey \<Rightarrow> u8 list" where
  "bytes_MallocKey k = le_bytes 4 (mk_pid k) @ le_bytes 4 (mk_pad k) @ le_bytes 8 (mk_addr k)"

lemma le_bytes_eq_iff [simp]:
  "le_bytes 4 (v :: u32) = le_bytes 4 w \<longleftrightarrow> v = w"
  "le_bytes 8 (x :: u64) = le_bytes 8 y \<longleftrightarrow> x = y"
  by (auto dest: le_bytes_inject [rotated])

section \<open>Map declarations\<close>

text \<open>
  One declaration per map of the state record: the name of its type, its capacity, and the
  types of its keys and values (a ring buffer declares neither).
\<close>

record map_decl =
  md_type :: string
  md_max_entries :: nat
  md_key :: "ctype option"
  md_value :: "ctype option"

definition decl_INFLIGHT :: map_decl where
  "decl_INFLIGHT = \<lparr>md_type = ''BPF_MAP_TYPE_LRU_HASH'', md_max_entries = 10240,
     md_key = Some c__u64, md_value = Some struct_EntryData\<rparr>"

definition decl_EVENTS :: map_decl where
  "decl_EVENTS = \<lparr>md_type = ''BPF_MAP_TYPE_RINGBUF'', md_max_entries = 2 * 1024 * 1024,
     md_key = None, md_value = None\<rparr>"

definition decl_KERNEL_REGS :: map_decl where
  "decl_KERNEL_REGS = \<lparr>md_type = ''BPF_MAP_TYPE_RINGBUF'', md_max_entries = 256 * 1024,
     md_key = None, md_value = None\<rparr>"

definition decl_AGGREGATED :: map_decl where
  "decl_AGGREGATED = \<lparr>md_type = ''BPF_MAP_TYPE_PERCPU_HASH'', md_max_entries = 2048,
     md_key = Some struct_AggKey, md_value = Some struct_AggValue\<rparr>"

definition decl_LAUNCH_AGG :: map_decl where
  "decl_LAUNCH_AGG = \<lparr>md_type = ''BPF_MAP_TYPE_PERCPU_HASH'', md_max_entries = 8192,
     md_key = Some struct_LaunchKey, md_value = Some struct_LaunchAggValue\<rparr>"

definition decl_LAUNCH_DROPPED :: map_decl where
  "decl_LAUNCH_DROPPED = \<lparr>md_type = ''BPF_MAP_TYPE_PERCPU_ARRAY'', md_max_entries = 1,
     md_key = Some c__u32, md_value = Some c__u64\<rparr>"

definition decl_DETAILED_LAUNCHES :: map_decl where
  "decl_DETAILED_LAUNCHES = \<lparr>md_type = ''BPF_MAP_TYPE_ARRAY'', md_max_entries = 1,
     md_key = Some c__u32, md_value = Some c__u32\<rparr>"

definition decl_UPGRADED_PIDS :: map_decl where
  "decl_UPGRADED_PIDS = \<lparr>md_type = ''BPF_MAP_TYPE_HASH'', md_max_entries = 1024,
     md_key = Some c__u32, md_value = Some c__u8\<rparr>"

definition decl_NCCL_AGG :: map_decl where
  "decl_NCCL_AGG = \<lparr>md_type = ''BPF_MAP_TYPE_PERCPU_HASH'', md_max_entries = 1024,
     md_key = Some struct_AggKey, md_value = Some struct_NcclAggValue\<rparr>"

definition decl_DROPPED :: map_decl where
  "decl_DROPPED = \<lparr>md_type = ''BPF_MAP_TYPE_PERCPU_ARRAY'', md_max_entries = 1,
     md_key = Some c__u32, md_value = Some c__u64\<rparr>"

definition decl_NVTX_STACK :: map_decl where
  "decl_NVTX_STACK = \<lparr>md_type = ''BPF_MAP_TYPE_LRU_HASH'', md_max_entries = 1024,
     md_key = Some c__u64, md_value = Some struct_nvtx_name_t\<rparr>"

definition decl_KERNEL_AGG_MODE :: map_decl where
  "decl_KERNEL_AGG_MODE = \<lparr>md_type = ''BPF_MAP_TYPE_ARRAY'', md_max_entries = 1,
     md_key = Some c__u32, md_value = Some c__u32\<rparr>"

definition decl_SAMPLE_RATE :: map_decl where
  "decl_SAMPLE_RATE = \<lparr>md_type = ''BPF_MAP_TYPE_ARRAY'', md_max_entries = 1,
     md_key = Some c__u32, md_value = Some c__u32\<rparr>"

definition decl_SAMPLE_COUNTER :: map_decl where
  "decl_SAMPLE_COUNTER = \<lparr>md_type = ''BPF_MAP_TYPE_PERCPU_ARRAY'', md_max_entries = 1,
     md_key = Some c__u32, md_value = Some c__u64\<rparr>"

definition decl_MALLOC_SIZES :: map_decl where
  "decl_MALLOC_SIZES = \<lparr>md_type = ''BPF_MAP_TYPE_LRU_HASH'', md_max_entries = 131072,
     md_key = Some struct_MallocKey, md_value = Some c__u64\<rparr>"

definition decl_MALLOC_PTRS :: map_decl where
  "decl_MALLOC_PTRS = \<lparr>md_type = ''BPF_MAP_TYPE_LRU_HASH'', md_max_entries = 512,
     md_key = Some c__u64, md_value = Some c__u64\<rparr>"

definition map_decls :: "map_decl list" where
  "map_decls =
    [decl_INFLIGHT, decl_EVENTS, decl_KERNEL_REGS, decl_AGGREGATED,
     decl_LAUNCH_AGG, decl_LAUNCH_DROPPED, decl_DETAILED_LAUNCHES, decl_UPGRADED_PIDS,
     decl_NCCL_AGG, decl_DROPPED, decl_NVTX_STACK, decl_KERNEL_AGG_MODE,
     decl_SAMPLE_RATE, decl_SAMPLE_COUNTER, decl_MALLOC_SIZES, decl_MALLOC_PTRS]"

lemmas decl_defs =
  map_decls_def decl_INFLIGHT_def decl_EVENTS_def decl_KERNEL_REGS_def decl_AGGREGATED_def
  decl_LAUNCH_AGG_def decl_LAUNCH_DROPPED_def decl_DETAILED_LAUNCHES_def decl_UPGRADED_PIDS_def
  decl_NCCL_AGG_def decl_DROPPED_def decl_NVTX_STACK_def decl_KERNEL_AGG_MODE_def
  decl_SAMPLE_RATE_def decl_SAMPLE_COUNTER_def decl_MALLOC_SIZES_def decl_MALLOC_PTRS_def

text \<open>What the kernel requires of a declaration, by type.\<close>

definition decl_ok :: "map_decl \<Rightarrow> bool" where
  "decl_ok d \<longleftrightarrow>
     md_type d \<in> fst ` set enum_bpf_map_type \<and> 0 < md_max_entries d \<and>
     (if md_type d = ''BPF_MAP_TYPE_RINGBUF''
      then md_key d = None \<and> md_value d = None \<and>
           4096 dvd md_max_entries d \<and> (\<exists>n. md_max_entries d = 2 ^ n)
      else (\<exists>k v. md_key d = Some k \<and> md_value d = Some v \<and> 0 < sizeof k \<and> 0 < sizeof v \<and>
              (if md_type d \<in> {''BPF_MAP_TYPE_ARRAY'', ''BPF_MAP_TYPE_PERCPU_ARRAY''}
               then sizeof k = 4 else places k = [] \<or> no_padding k)))"

section \<open>Properties\<close>

text \<open>
  The shared structs have the layout user space asserts: for each of the eight structs
  of the header, size and all field offsets, computed from the C declaration by the layout
  rules, are the numbers in the asserts of the Rust mirror.
\<close>

lemma layout_asserts_hold:
  "list_all (\<lambda>(t, n, offs). sizeof t = n \<and> list_all (\<lambda>(x, b). offsetof t x = Some b) offs) layout_asserts"
  by (simp add: layout_asserts_def shared_defs layout_simps offsetof_def Let_def cong: let_weak_cong)

text \<open>
  C39. Keys and ring records have no padding bytes, and distinct keys have distinct bytes: the
  kernel, which compares the bytes of a key, tells keys apart exactly when the records
  differ.
\<close>

theorem keys_faithful:
  "list_all no_padding [struct_AggKey, struct_LaunchKey, struct_MallocKey, struct_CudaEvent,
      struct_KernelRegEvent, struct_EntryData] \<and>
   length (bytes_AggKey a) = sizeof struct_AggKey \<and> (bytes_AggKey a = bytes_AggKey a' \<longleftrightarrow> a = a') \<and>
   length (bytes_LaunchKey l) = sizeof struct_LaunchKey \<and>
     (bytes_LaunchKey l = bytes_LaunchKey l' \<longleftrightarrow> l = l') \<and>
   length (bytes_MallocKey m) = sizeof struct_MallocKey \<and>
     (bytes_MallocKey m = bytes_MallocKey m' \<longleftrightarrow> m = m')"
proof -
  have "list_all no_padding [struct_AggKey, struct_LaunchKey, struct_MallocKey, struct_CudaEvent,
      struct_KernelRegEvent, struct_EntryData]"
    by (simp add: shared_defs layout_simps no_padding_def Let_def cong: let_weak_cong)
  moreover have "length (bytes_AggKey a) = sizeof struct_AggKey"
    "length (bytes_LaunchKey l) = sizeof struct_LaunchKey"
    "length (bytes_MallocKey m) = sizeof struct_MallocKey"
    by (simp_all add: bytes_AggKey_def bytes_LaunchKey_def bytes_MallocKey_def shared_defs layout_simps)
  moreover have "bytes_AggKey a = bytes_AggKey a' \<longleftrightarrow> a = a'"
    by (cases a; cases a') (simp add: bytes_AggKey_def)
  moreover have "bytes_LaunchKey l = bytes_LaunchKey l' \<longleftrightarrow> l = l'"
    by (cases l; cases l') (simp add: bytes_LaunchKey_def)
  moreover have "bytes_MallocKey m = bytes_MallocKey m' \<longleftrightarrow> m = m'"
    by (cases m; cases m') (simp add: bytes_MallocKey_def)
  ultimately show ?thesis by blast
qed

text \<open>
  The map declarations are ones the kernel accepts: every map type is an enumerator of the
  kernel's list, ring buffers are a power of two and a multiple of the page size, array
  keys are four bytes, hash keys are scalars or structs without padding, and the arrays
  the probes index with 0 have exactly one element, as in the initial state of the model.
\<close>

lemma map_decls_ok:
  "list_all decl_ok map_decls \<and>
   md_max_entries decl_DETAILED_LAUNCHES = length (DETAILED_LAUNCHES (initial m r d)) \<and>
   md_max_entries decl_KERNEL_AGG_MODE = length (KERNEL_AGG_MODE (initial m r d)) \<and>
   md_max_entries decl_SAMPLE_RATE = length (SAMPLE_RATE (initial m r d)) \<and>
   md_max_entries decl_SAMPLE_COUNTER = length (SAMPLE_COUNTER (initial m r d) c) \<and>
   md_max_entries decl_DROPPED = length (DROPPED (initial m r d) c) \<and>
   md_max_entries decl_LAUNCH_DROPPED = length (LAUNCH_DROPPED (initial m r d) c)"
proof -
  have "\<exists>n. (2097152::nat) = 2 ^ n" "\<exists>n. (262144::nat) = 2 ^ n"
    by (rule exI [of _ 21], simp, rule exI [of _ 18], simp)
  then have "list_all decl_ok map_decls"
    by (simp add: decl_defs decl_ok_def enum_bpf_map_type_def shared_defs layout_simps no_padding_def Let_def cong: let_weak_cong)
  then show ?thesis by (simp add: decl_defs)
qed

text \<open>
  The registers the probe macros read are where the macros expect them: \<^verbatim>\<open>struct pt_regs\<close>
  has 168 bytes, the first five integer arguments (di, si, dx, cx, r8) are at 112, 104,
  96, 88 and 72, the return value (ax) at 80 and the stack pointer at 152.
\<close>

lemma pt_regs_layout:
  "sizeof struct_pt_regs = 168 \<and>
   map (offsetof struct_pt_regs) [''di'', ''si'', ''dx'', ''cx'', ''r8'', ''ax'', ''sp''] =
     [Some 112, Some 104, Some 96, Some 88, Some 72, Some 80, Some 152]"
  by (simp add: struct_pt_regs_def layout_simps offsetof_def Let_def cong: let_weak_cong)

text \<open>
  The ring buffer keeps its positions on pages of their own: in \<^verbatim>\<open>struct bpf_ringbuf\<close> the
  consumer position (writable by user space) starts the second page, the producer position
  (read-only to user space) the third, the data the fourth, and the header ends there.
\<close>

lemma ringbuf_pages:
  "offsetof struct_bpf_ringbuf ''consumer_pos'' = Some 4096 \<and>
   offsetof struct_bpf_ringbuf ''producer_pos'' = Some (2 * 4096) \<and>
   offsetof struct_bpf_ringbuf ''data'' = Some (3 * 4096) \<and>
   sizeof struct_bpf_ringbuf = 3 * 4096"
  by (simp add: struct_bpf_ringbuf_def struct_bpf_ringbuf_page0_def struct_bpf_ringbuf_page1_def
      struct_bpf_ringbuf_page2_def layout_simps offsetof_def Let_def cong: let_weak_cong)

text \<open>The helpers the probes call.\<close>

definition helpers_used :: "(string \<times> int) list" where
  "helpers_used =
    [(''BPF_FUNC_map_lookup_elem'', 1), (''BPF_FUNC_map_update_elem'', 2),
     (''BPF_FUNC_map_delete_elem'', 3), (''BPF_FUNC_ktime_get_ns'', 5),
     (''BPF_FUNC_get_current_pid_tgid'', 14), (''BPF_FUNC_get_current_comm'', 16),
     (''BPF_FUNC_probe_read_user'', 112), (''BPF_FUNC_probe_read_user_str'', 114),
     (''BPF_FUNC_ringbuf_reserve'', 131), (''BPF_FUNC_ringbuf_submit'', 132),
     (''BPF_FUNC_get_attach_cookie'', 174)]"

text \<open>
  Helpers are numbered densely: the enumeration of helpers counts from 0 without gaps, so
  a helper's number is its position, and every helper the probes call has the number the
  kernel gives it.
\<close>

lemma helper_numbers:
  "map snd enum_bpf_func_id = map int [0..<length enum_bpf_func_id] \<and>
   set helpers_used \<subseteq> set enum_bpf_func_id"
  by (simp add: enum_bpf_func_id_def enum_bpf_func_id_low_def enum_bpf_func_id_high_def helpers_used_def
      upt_rec)

text \<open>
  The command name fits: the name of a task in the kernel is sixteen bytes, the width of
  the \<^verbatim>\<open>comm\<close> field of an event that \<^verbatim>\<open>bpf_get_current_comm\<close> fills.
\<close>

lemma comm_fits:
  "\<exists>b c. (''comm'', b, 8 * 16) \<in> set (places struct_task_struct) \<and>
         (''comm'', c, 8 * 16) \<in> set (places struct_CudaEvent)"
proof -
  have "\<exists>c. (''comm'', c, 8 * 16) \<in> set (places struct_CudaEvent)"
    by (simp add: shared_defs layout_simps Let_def cong: let_weak_cong)
  moreover have "\<exists>b. (''comm'', b, 8 * 16) \<in> set (places struct_task_struct)"
    by (simp add: struct_task_struct_def struct_task_struct_sched_def struct_task_struct_rest_def
        layout_simps Let_def cong: let_weak_cong)
  ultimately show ?thesis by blast
qed


end
