(* ===== verification/RustEvents.thy ===== *)
theory RustEvents
  imports Layouts
begin

text \<open>
  The Rust mirror of the shared header, \<^verbatim>\<open>src/src/events.rs\<close>: its constants, classification
  functions, bucket tables and functions, and \<^verbatim>\<open>repr(C)\<close> structs. User space decodes with
  the mirror what the probes wrote with the header, so both must agree.
\<close>

section \<open>Constants\<close>

definition rs_EVENT_CUDA_MALLOC :: u32 where "rs_EVENT_CUDA_MALLOC = 1"
definition rs_EVENT_CUDA_FREE :: u32 where "rs_EVENT_CUDA_FREE = 2"
definition rs_EVENT_CUDA_MEMCPY :: u32 where "rs_EVENT_CUDA_MEMCPY = 3"
definition rs_EVENT_CUDA_LAUNCH_KERNEL :: u32 where "rs_EVENT_CUDA_LAUNCH_KERNEL = 4"
definition rs_EVENT_CUDA_MEMCPY_ASYNC :: u32 where "rs_EVENT_CUDA_MEMCPY_ASYNC = 5"
definition rs_EVENT_CUDA_MALLOC_ASYNC :: u32 where "rs_EVENT_CUDA_MALLOC_ASYNC = 6"
definition rs_EVENT_CUDA_FREE_ASYNC :: u32 where "rs_EVENT_CUDA_FREE_ASYNC = 7"
definition rs_EVENT_CUDA_REGISTER_FUNCTION :: u32 where "rs_EVENT_CUDA_REGISTER_FUNCTION = 8"
definition rs_EVENT_NCCL_ALL_REDUCE :: u32 where "rs_EVENT_NCCL_ALL_REDUCE = 9"
definition rs_EVENT_NCCL_ALL_GATHER :: u32 where "rs_EVENT_NCCL_ALL_GATHER = 10"
definition rs_EVENT_NCCL_REDUCE_SCATTER :: u32 where "rs_EVENT_NCCL_REDUCE_SCATTER = 11"
definition rs_EVENT_NCCL_BROADCAST :: u32 where "rs_EVENT_NCCL_BROADCAST = 12"
definition rs_EVENT_NCCL_SEND :: u32 where "rs_EVENT_NCCL_SEND = 13"
definition rs_EVENT_NCCL_RECV :: u32 where "rs_EVENT_NCCL_RECV = 14"
definition rs_EVENT_CUDA_STREAM_SYNC :: u32 where "rs_EVENT_CUDA_STREAM_SYNC = 15"
definition rs_EVENT_CUDA_EVENT_SYNC :: u32 where "rs_EVENT_CUDA_EVENT_SYNC = 16"
definition rs_EVENT_CUDA_MALLOC_HOST :: u32 where "rs_EVENT_CUDA_MALLOC_HOST = 17"
definition rs_EVENT_CUDA_FREE_HOST :: u32 where "rs_EVENT_CUDA_FREE_HOST = 18"
definition rs_EVENT_CUDA_MEMSET :: u32 where "rs_EVENT_CUDA_MEMSET = 19"
definition rs_EVENT_CUDA_MEMSET_ASYNC :: u32 where "rs_EVENT_CUDA_MEMSET_ASYNC = 20"
definition rs_EVENT_CUDA_GRAPH_LAUNCH :: u32 where "rs_EVENT_CUDA_GRAPH_LAUNCH = 21"
definition rs_EVENT_CUDA_GRAPH_INSTANTIATE :: u32 where "rs_EVENT_CUDA_GRAPH_INSTANTIATE = 22"
definition rs_EVENT_CUDA_MODULE_LOAD :: u32 where "rs_EVENT_CUDA_MODULE_LOAD = 23"
definition rs_MEMCPY_H2H :: u32 where "rs_MEMCPY_H2H = 0"
definition rs_MEMCPY_H2D :: u32 where "rs_MEMCPY_H2D = 1"
definition rs_MEMCPY_D2H :: u32 where "rs_MEMCPY_D2H = 2"
definition rs_MEMCPY_D2D :: u32 where "rs_MEMCPY_D2D = 3"

lemmas rust_const_defs =
  rs_EVENT_CUDA_MALLOC_def rs_EVENT_CUDA_FREE_def rs_EVENT_CUDA_MEMCPY_def
  rs_EVENT_CUDA_LAUNCH_KERNEL_def rs_EVENT_CUDA_MEMCPY_ASYNC_def
  rs_EVENT_CUDA_MALLOC_ASYNC_def rs_EVENT_CUDA_FREE_ASYNC_def
  rs_EVENT_CUDA_REGISTER_FUNCTION_def rs_EVENT_NCCL_ALL_REDUCE_def
  rs_EVENT_NCCL_ALL_GATHER_def rs_EVENT_NCCL_REDUCE_SCATTER_def
  rs_EVENT_NCCL_BROADCAST_def rs_EVENT_NCCL_SEND_def rs_EVENT_NCCL_RECV_def
  rs_EVENT_CUDA_STREAM_SYNC_def rs_EVENT_CUDA_EVENT_SYNC_def rs_EVENT_CUDA_MALLOC_HOST_def
  rs_EVENT_CUDA_FREE_HOST_def rs_EVENT_CUDA_MEMSET_def rs_EVENT_CUDA_MEMSET_ASYNC_def
  rs_EVENT_CUDA_GRAPH_LAUNCH_def rs_EVENT_CUDA_GRAPH_INSTANTIATE_def
  rs_EVENT_CUDA_MODULE_LOAD_def rs_MEMCPY_H2H_def rs_MEMCPY_H2D_def rs_MEMCPY_D2H_def
  rs_MEMCPY_D2D_def

section \<open>Bucket functions\<close>

definition rs_NCCL_BUCKET_BOUNDS_NS :: "u64 list" where
  "rs_NCCL_BUCKET_BOUNDS_NS =
     [10000, 50000, 100000, 500000, 1000000, 5000000, 10000000, 50000000, 100000000, 500000000,
      1000000000]"

definition rs_CUDA_BUCKET_BOUNDS_NS :: "u64 list" where
  "rs_CUDA_BUCKET_BOUNDS_NS =
     [1000, 5000, 10000, 50000, 100000, 500000, 1000000, 5000000, 10000000, 50000000, 100000000,
      500000000, 1000000000]"

definition rs_KERNEL_BUCKET_BOUNDS_NS :: "u64 list" where
  "rs_KERNEL_BUCKET_BOUNDS_NS = [1000, 5000, 10000, 50000, 100000, 500000, 1000000, 10000000]"

definition rs_NCCL_DTYPE_SIZES :: "u64 list" where
  "rs_NCCL_DTYPE_SIZES = [1, 1, 4, 4, 2, 4, 8, 8, 8, 2]"

definition nccl_bucket_idx :: "u64 \<Rightarrow> nat" where
  "nccl_bucket_idx duration_ns =
     (if duration_ns \<le> rs_NCCL_BUCKET_BOUNDS_NS ! 0 then 0
      else if duration_ns \<le> rs_NCCL_BUCKET_BOUNDS_NS ! 1 then 1
      else if duration_ns \<le> rs_NCCL_BUCKET_BOUNDS_NS ! 2 then 2
      else if duration_ns \<le> rs_NCCL_BUCKET_BOUNDS_NS ! 3 then 3
      else if duration_ns \<le> rs_NCCL_BUCKET_BOUNDS_NS ! 4 then 4
      else if duration_ns \<le> rs_NCCL_BUCKET_BOUNDS_NS ! 5 then 5
      else if duration_ns \<le> rs_NCCL_BUCKET_BOUNDS_NS ! 6 then 6
      else if duration_ns \<le> rs_NCCL_BUCKET_BOUNDS_NS ! 7 then 7
      else if duration_ns \<le> rs_NCCL_BUCKET_BOUNDS_NS ! 8 then 8
      else if duration_ns \<le> rs_NCCL_BUCKET_BOUNDS_NS ! 9 then 9
      else if duration_ns \<le> rs_NCCL_BUCKET_BOUNDS_NS ! 10 then 10
      else 11)"

text \<open>\<^verbatim>\<open>for (i, bound) in BOUNDS.iter().enumerate()\<close> with an early return, then the length.\<close>

fun bucket_loop :: "nat \<Rightarrow> u64 list \<Rightarrow> u64 \<Rightarrow> nat" where
  "bucket_loop i [] duration_ns = i"
| "bucket_loop i (bound # bounds) duration_ns =
     (if duration_ns \<le> bound then i else bucket_loop (Suc i) bounds duration_ns)"

definition cuda_bucket_idx :: "u64 \<Rightarrow> nat" where
  "cuda_bucket_idx duration_ns = bucket_loop 0 rs_CUDA_BUCKET_BOUNDS_NS duration_ns"

definition kernel_bucket_idx :: "u64 \<Rightarrow> nat" where
  "kernel_bucket_idx duration_ns = bucket_loop 0 rs_KERNEL_BUCKET_BOUNDS_NS duration_ns"

lemma bucket_loop_eq:
  "bucket_loop i bounds d = i + length (takeWhile (\<lambda>b. b < d) bounds)"
  by (induction bounds arbitrary: i) (auto simp: linorder_not_le)

lemma nccl_bucket_idx_eq: "int (nccl_bucket_idx d) = profi_nccl_bucket_idx d"
proof -
  have "rs_NCCL_BUCKET_BOUNDS_NS = NCCL_BUCKET_BOUNDS_NS"
    by (simp add: rs_NCCL_BUCKET_BOUNDS_NS_def NCCL_BUCKET_BOUNDS_NS_def)
  then show ?thesis
    unfolding nccl_bucket_idx_def profi_nccl_bucket_idx_def
    by (simp only: if_distrib [of int] semiring_1_class.of_nat_0 of_nat_1 of_nat_numeral)
qed

section \<open>Classification\<close>

definition is_nccl_event :: "u32 \<Rightarrow> bool" where
  "is_nccl_event event_type \<longleftrightarrow>
     rs_EVENT_NCCL_ALL_REDUCE \<le> event_type \<and> event_type \<le> rs_EVENT_NCCL_RECV"

definition is_aggregatable :: "u32 \<Rightarrow> bool" where
  "is_aggregatable event_type \<longleftrightarrow>
     event_type \<in>
       {rs_EVENT_CUDA_MALLOC, rs_EVENT_CUDA_FREE, rs_EVENT_CUDA_MEMCPY,
        rs_EVENT_CUDA_MEMCPY_ASYNC, rs_EVENT_CUDA_MALLOC_ASYNC, rs_EVENT_CUDA_FREE_ASYNC,
        rs_EVENT_CUDA_MALLOC_HOST, rs_EVENT_CUDA_FREE_HOST, rs_EVENT_CUDA_MEMSET,
        rs_EVENT_CUDA_MEMSET_ASYNC, rs_EVENT_CUDA_STREAM_SYNC, rs_EVENT_CUDA_EVENT_SYNC,
        rs_EVENT_CUDA_GRAPH_LAUNCH, rs_EVENT_CUDA_GRAPH_INSTANTIATE, rs_EVENT_CUDA_MODULE_LOAD}"

section \<open>Structs\<close>

definition rs_CudaEvent :: ctype where
  "rs_CudaEvent = struct
    [Member ''event_type'' c_u32, Member ''pid'' c_u32, Member ''tid'' c_u32,
     Member ''memcpy_kind'' c_u32, Member ''timestamp_ns'' c_u64, Member ''duration_ns'' c_u64,
     Member ''size'' c_u64, Member ''addr'' c_u64, Member ''stream'' c_u64,
     Member ''nvtx_marker'' (Array 16 c_u8), Member ''comm'' (Array 16 c_u8),
     Member ''error_code'' c_u32, Member ''_pad2'' c_u32]"

definition rs_KernelRegEvent :: ctype where
  "rs_KernelRegEvent = struct
    [Member ''pid'' c_u32, Member ''_pad'' c_u32, Member ''host_fun'' c_u64, Member ''name_ptr'' c_u64]"

definition rs_EntryData :: ctype where
  "rs_EntryData = struct
    [Member ''timestamp_ns'' c_u64, Member ''arg0'' c_u64, Member ''arg1'' c_u64,
     Member ''arg2'' c_u64, Member ''event_type'' c_u32, Member ''_pad'' c_u32]"

definition rs_AggKey :: ctype where
  "rs_AggKey = struct
    [Member ''event_type'' c_u32, Member ''pid'' c_u32, Member ''memcpy_kind'' c_u32,
     Member ''error_code'' c_u32, Member ''stream'' c_u64]"

definition rs_AggValue :: ctype where
  "rs_AggValue = struct
    [Member ''count'' c_u64, Member ''duration_sum_ns'' c_u64, Member ''size_sum'' c_u64,
     Member ''bucket_counts'' (Array 14 c_u32)]"

definition rs_LaunchKey :: ctype where
  "rs_LaunchKey = struct
    [Member ''pid'' c_u32, Member ''_pad'' c_u32, Member ''host_fun'' c_u64, Member ''stream'' c_u64]"

definition rs_LaunchAggValue :: ctype where
  "rs_LaunchAggValue = struct
    [Member ''count'' c_u64, Member ''total_duration_ns'' c_u64, Member ''max_duration_ns'' c_u64,
     Member ''bucket_counts'' (Array 9 c_u32)]"

definition rs_NcclAggValue :: ctype where
  "rs_NcclAggValue = struct
    [Member ''count'' c_u64, Member ''duration_sum_ns'' c_u64, Member ''bytes_sum'' c_u64,
     Member ''bucket_counts'' (Array 12 c_u32)]"

lemmas rust_struct_defs =
  rs_CudaEvent_def rs_KernelRegEvent_def rs_EntryData_def rs_AggKey_def rs_AggValue_def
  rs_LaunchKey_def rs_LaunchAggValue_def rs_NcclAggValue_def

section \<open>Properties\<close>

text \<open>
  C38. The mirror computes what the header computes: for every duration the three bucket
  functions of user space give the index the probes used (the comparison chains of the
  header and the loops of the mirror included), for every event type both sides agree on
  whether it is aggregated and whether it is a collective, and the element sizes and all
  event and copy-kind numbers agree.
\<close>

theorem mirror_agrees:
  "int (nccl_bucket_idx d) = profi_nccl_bucket_idx d \<and>
   int (cuda_bucket_idx d) = profi_cuda_bucket_idx d \<and>
   int (kernel_bucket_idx d) = profi_kernel_bucket_idx d \<and>
   is_nccl_event t = profi_is_nccl_event t \<and>
   is_aggregatable t = profi_is_aggregatable t \<and>
   rs_NCCL_DTYPE_SIZES = NCCL_DTYPE_SIZES \<and>
   [rs_EVENT_CUDA_MALLOC, rs_EVENT_CUDA_FREE, rs_EVENT_CUDA_MEMCPY,
    rs_EVENT_CUDA_LAUNCH_KERNEL, rs_EVENT_CUDA_MEMCPY_ASYNC, rs_EVENT_CUDA_MALLOC_ASYNC,
    rs_EVENT_CUDA_FREE_ASYNC, rs_EVENT_CUDA_REGISTER_FUNCTION, rs_EVENT_NCCL_ALL_REDUCE,
    rs_EVENT_NCCL_ALL_GATHER, rs_EVENT_NCCL_REDUCE_SCATTER, rs_EVENT_NCCL_BROADCAST,
    rs_EVENT_NCCL_SEND, rs_EVENT_NCCL_RECV, rs_EVENT_CUDA_STREAM_SYNC,
    rs_EVENT_CUDA_EVENT_SYNC, rs_EVENT_CUDA_MALLOC_HOST, rs_EVENT_CUDA_FREE_HOST,
    rs_EVENT_CUDA_MEMSET, rs_EVENT_CUDA_MEMSET_ASYNC, rs_EVENT_CUDA_GRAPH_LAUNCH,
    rs_EVENT_CUDA_GRAPH_INSTANTIATE, rs_EVENT_CUDA_MODULE_LOAD, rs_MEMCPY_H2H,
    rs_MEMCPY_H2D, rs_MEMCPY_D2H, rs_MEMCPY_D2D] =
   [EVENT_CUDA_MALLOC, EVENT_CUDA_FREE, EVENT_CUDA_MEMCPY, EVENT_CUDA_LAUNCH_KERNEL,
    EVENT_CUDA_MEMCPY_ASYNC, EVENT_CUDA_MALLOC_ASYNC, EVENT_CUDA_FREE_ASYNC,
    EVENT_CUDA_REGISTER_FUNCTION, EVENT_NCCL_ALL_REDUCE, EVENT_NCCL_ALL_GATHER,
    EVENT_NCCL_REDUCE_SCATTER, EVENT_NCCL_BROADCAST, EVENT_NCCL_SEND, EVENT_NCCL_RECV,
    EVENT_CUDA_STREAM_SYNC, EVENT_CUDA_EVENT_SYNC, EVENT_CUDA_MALLOC_HOST,
    EVENT_CUDA_FREE_HOST, EVENT_CUDA_MEMSET, EVENT_CUDA_MEMSET_ASYNC,
    EVENT_CUDA_GRAPH_LAUNCH, EVENT_CUDA_GRAPH_INSTANTIATE, EVENT_CUDA_MODULE_LOAD,
    MEMCPY_H2H, MEMCPY_H2D, MEMCPY_D2H, MEMCPY_D2D]"
proof (intro conjI)
  show "int (cuda_bucket_idx d) = profi_cuda_bucket_idx d"
    by (simp add: cuda_bucket_idx_def bucket_loop_eq cuda_hist.idx_counts rs_CUDA_BUCKET_BOUNDS_NS_def
        CUDA_BUCKET_BOUNDS_NS_def)
  show "int (kernel_bucket_idx d) = profi_kernel_bucket_idx d"
    by (simp add: kernel_bucket_idx_def bucket_loop_eq kernel_hist.idx_counts
        rs_KERNEL_BUCKET_BOUNDS_NS_def KERNEL_BUCKET_BOUNDS_NS_def)
  show "is_aggregatable t = profi_is_aggregatable t"
    by (auto simp: is_aggregatable_def profi_is_aggregatable_def event_defs rust_const_defs)
qed (simp_all add: nccl_bucket_idx_eq is_nccl_event_def profi_is_nccl_event_def event_defs rust_const_defs
    rs_NCCL_DTYPE_SIZES_def NCCL_DTYPE_SIZES_def)

text \<open>
  The mirror declares the same structs: member by member, in order, with the same names and
  types, for all eight structs of the header; and the size and all field offsets that the
  layout rules give them are the numbers its compile-time asserts state.
\<close>

lemma mirror_layout:
  "[rs_CudaEvent, rs_KernelRegEvent, rs_EntryData, rs_AggKey, rs_AggValue, rs_LaunchKey,
    rs_LaunchAggValue, rs_NcclAggValue] =
   [struct_CudaEvent, struct_KernelRegEvent, struct_EntryData, struct_AggKey, struct_AggValue,
    struct_LaunchKey, struct_LaunchAggValue, struct_NcclAggValue] \<and>
   list_all (\<lambda>(t, n, offs). sizeof t = n \<and> list_all (\<lambda>(x, b). offsetof t x = Some b) offs) layout_asserts"
  by (rule conjI [OF _ layout_asserts_hold]) (simp add: rust_struct_defs shared_defs)

end
