(* ===== verification/Drain.thy ===== *)
theory Drain
  imports Refinement
begin

text \<open>
  The reader of the maps, from \<^verbatim>\<open>src/src/main.rs\<close>: on every tick it walks the keys of the
  per-CPU hash maps, adds up the slots of each key over the CPUs, reports the totals and
  deletes the key; it reads the drop counters, adapts its own frequency to them, keeps
  \<^verbatim>\<open>UPGRADED_PIDS\<close> in step with the processes marked for full mode, and scans the in-flight
  map for collectives that hang. The metrics library is outside the program: what is added
  to its counters is recorded as a list of reports. Totals are 64-bit and wrap.
\<close>

section \<open>Draining a per-CPU hash map\<close>

definition PERCPU_HASH_DRAIN_KEY_BUDGET :: nat where
  "PERCPU_HASH_DRAIN_KEY_BUDGET = 8192"

text \<open>
  One pass over a list of keys: a key that has gone is skipped, the slots of the others are
  handed to \<open>process\<close> in the order of the possible CPUs and the key is deleted. The probes
  keep running: \<open>between key\<close> is what they do to the map after the lookup of \<open>key\<close> and
  before its deletion. Returns the number of keys drained, the map and the reader's state.
\<close>

fun drain_keys ::
    "cpu list \<Rightarrow> ('k \<Rightarrow> 'v list \<Rightarrow> 'a \<Rightarrow> 'a) \<Rightarrow> ('k \<Rightarrow> ('k, 'v) percpu_hash \<Rightarrow> ('k, 'v) percpu_hash) \<Rightarrow>
     'k list \<Rightarrow> ('k, 'v) percpu_hash \<Rightarrow> 'a \<Rightarrow> nat \<times> ('k, 'v) percpu_hash \<times> 'a" where
  "drain_keys cpus process between [] m a = (0, m, a)"
| "drain_keys cpus process between (key # keys) m a =
     (case m key of
        None \<Rightarrow> drain_keys cpus process between keys m a
      | Some slots \<Rightarrow>
          (let (drained, m', a') =
             drain_keys cpus process between keys (hash_delete (between key m) key)
               (process key (map slots cpus) a)
           in (drained + 1, m', a')))"

text \<open>\<open>keys\<close> is the order in which the kernel lists the keys of the map.\<close>

definition drain_percpu_hash ::
    "cpu list \<Rightarrow> ('k \<Rightarrow> 'v list \<Rightarrow> 'a \<Rightarrow> 'a) \<Rightarrow> ('k \<Rightarrow> ('k, 'v) percpu_hash \<Rightarrow> ('k, 'v) percpu_hash) \<Rightarrow>
     'k list \<Rightarrow> ('k, 'v) percpu_hash \<Rightarrow> 'a \<Rightarrow> nat \<times> ('k, 'v) percpu_hash \<times> 'a" where
  "drain_percpu_hash cpus process between keys m a =
     drain_keys cpus process between (take PERCPU_HASH_DRAIN_KEY_BUDGET keys) m a"

text \<open>No probe fires while the map is drained.\<close>

abbreviation quiet :: "'k \<Rightarrow> ('k, 'v) percpu_hash \<Rightarrow> ('k, 'v) percpu_hash" where
  "quiet \<equiv> \<lambda>_ m. m"

section \<open>Totals over the CPUs\<close>

record totals =
  t_count :: u64
  t_duration :: u64
  t_size :: u64
  t_max :: u64
  t_buckets :: "u64 list"

definition no_totals :: "nat \<Rightarrow> totals" where
  "no_totals n = \<lparr>t_count = 0, t_duration = 0, t_size = 0, t_max = 0, t_buckets = replicate n 0\<rparr>"

text \<open>\<^verbatim>\<open>buckets[i] += u64::from(*c)\<close> for every cell.\<close>

definition add_cells :: "u64 list \<Rightarrow> u32 list \<Rightarrow> u64 list" where
  "add_cells buckets cells = map2 (\<lambda>b c. b + ucast c) buckets cells"

definition add_agg :: "AggValue \<Rightarrow> totals \<Rightarrow> totals" where
  "add_agg v t = t\<lparr>t_count := t_count t + av_count v,
     t_duration := t_duration t + av_duration_sum_ns v,
     t_size := t_size t + av_size_sum v,
     t_buckets := add_cells (t_buckets t) (av_bucket_counts v)\<rparr>"

definition add_launch :: "LaunchAggValue \<Rightarrow> totals \<Rightarrow> totals" where
  "add_launch v t = t\<lparr>t_count := t_count t + lv_count v,
     t_duration := t_duration t + lv_total_duration_ns v,
     t_max := (if lv_max_duration_ns v > t_max t then lv_max_duration_ns v else t_max t),
     t_buckets := add_cells (t_buckets t) (lv_bucket_counts v)\<rparr>"

definition add_nccl :: "NcclAggValue \<Rightarrow> totals \<Rightarrow> totals" where
  "add_nccl v t = t\<lparr>t_count := t_count t + nv_count v,
     t_duration := t_duration t + nv_duration_sum_ns v,
     t_size := t_size t + nv_bytes_sum v,
     t_buckets := add_cells (t_buckets t) (nv_bucket_counts v)\<rparr>"

text \<open>The three closures: sum up, drop empty totals, report the rest under the key.\<close>

definition process_aggregated ::
    "AggKey \<Rightarrow> AggValue list \<Rightarrow> (AggKey \<times> totals) list \<Rightarrow> (AggKey \<times> totals) list" where
  "process_aggregated key per_cpu reports =
     (let t = fold add_agg per_cpu (no_totals 14)
      in if t_count t = 0 then reports else reports @ [(key, t)])"

definition process_launch ::
    "LaunchKey \<Rightarrow> LaunchAggValue list \<Rightarrow> (LaunchKey \<times> totals) list \<Rightarrow> (LaunchKey \<times> totals) list" where
  "process_launch key per_cpu reports =
     (let t = fold add_launch per_cpu (no_totals 9)
      in if t_count t = 0 then reports else reports @ [(key, t)])"

definition process_nccl ::
    "AggKey \<Rightarrow> NcclAggValue list \<Rightarrow> (AggKey \<times> totals) list \<Rightarrow> (AggKey \<times> totals) list" where
  "process_nccl key per_cpu reports =
     (let t = fold add_nccl per_cpu (no_totals 12)
      in if t_count t = 0 then reports else reports @ [(key, t)])"

section \<open>Facts about a drain pass\<close>

lemma drain_keys_other:
  "key \<notin> set keys \<Longrightarrow> (fst (snd (drain_keys cpus process quiet keys m a))) key = m key"
  by (induction keys arbitrary: m a) (auto simp: Let_def case_prod_beta map_defs split: option.split)

lemma drain_keys_gone:
  "key \<in> set keys \<Longrightarrow> (fst (snd (drain_keys cpus process quiet keys m a))) key = None"
proof (induction keys arbitrary: m a)
  case Nil
  then show ?case by simp
next
  case (Cons k keys)
  show ?case
  proof (cases "key \<in> set keys")
    case True
    with Cons.IH show ?thesis by (simp add: Let_def case_prod_beta split: option.split)
  next
    case False
    with Cons.prems have "k = key" by simp
    with False show ?thesis
      by (auto simp: Let_def case_prod_beta drain_keys_other map_defs split: option.split)
  qed
qed

lemma drain_keys_dom:
  "dom (fst (snd (drain_keys cpus process quiet keys m a))) = dom m - set keys"
proof (rule set_eqI)
  fix key
  show "key \<in> dom (fst (snd (drain_keys cpus process quiet keys m a))) \<longleftrightarrow> key \<in> dom m - set keys"
    by (cases "key \<in> set keys") (simp_all add: domIff drain_keys_gone drain_keys_other)
qed

lemma drain_keys_count:
  "distinct keys \<Longrightarrow> set keys \<subseteq> dom m \<Longrightarrow>
     fst (drain_keys cpus process quiet keys m a) = length keys"
proof (induction keys arbitrary: m a)
  case Nil
  then show ?case by simp
next
  case (Cons key keys)
  then obtain slots where "m key = Some slots" by auto
  moreover have "set keys \<subseteq> dom (hash_delete m key)"
    using Cons.prems by (auto simp: map_defs)
  ultimately show ?case using Cons by (simp add: Let_def case_prod_beta)
qed

text \<open>What a pass reports: the totals of the present keys, in order, without the empty ones.\<close>

definition reports_of ::
    "cpu list \<Rightarrow> ('v \<Rightarrow> totals \<Rightarrow> totals) \<Rightarrow> nat \<Rightarrow> 'k list \<Rightarrow> ('k, 'v) percpu_hash \<Rightarrow> ('k \<times> totals) list" where
  "reports_of cpus add n keys m =
     filter (\<lambda>(k, t). t_count t \<noteq> 0)
       (map (\<lambda>k. (k, fold add (map (the (m k)) cpus) (no_totals n))) (filter (\<lambda>k. m k \<noteq> None) keys))"

lemma reports_of_Nil [simp]: "reports_of cpus add n [] m = []"
  by (simp add: reports_of_def)

lemma reports_of_Cons:
  "reports_of cpus add n (key # keys) m =
     (case m key of
        None \<Rightarrow> []
      | Some slots \<Rightarrow>
          (let t = fold add (map slots cpus) (no_totals n) in if t_count t = 0 then [] else [(key, t)])) @
     reports_of cpus add n keys m"
  by (auto simp: reports_of_def Let_def split: option.split)

lemma reports_of_delete:
  "key \<notin> set keys \<Longrightarrow> reports_of cpus add n keys (hash_delete m key) = reports_of cpus add n keys m"
  unfolding reports_of_def
  by (rule arg_cong [where f = "filter _"], rule map_cong) (auto simp: map_defs intro!: filter_cong)

lemma drain_keys_reports:
  assumes "\<And>key vs rs. process key vs rs =
      (let t = fold add vs (no_totals n) in if t_count t = 0 then rs else rs @ [(key, t)])"
    and "distinct keys"
  shows "snd (snd (drain_keys cpus process quiet keys m rs)) = rs @ reports_of cpus add n keys m"
  using assms(2)
proof (induction keys arbitrary: m rs)
  case Nil
  then show ?case by simp
next
  case (Cons key keys)
  then show ?case
    by (simp add: Let_def case_prod_beta assms(1) reports_of_delete reports_of_Cons split: option.split)
qed

text \<open>The reports about one key, seen from the per-CPU slots: a missing key is all zeros.\<close>

lemma reports_of_absent:
  "k \<notin> set keys \<Longrightarrow> filter (\<lambda>r. fst r = k) (reports_of cpus add n keys m) = []"
  by (auto simp: reports_of_def filter_empty_conv)

lemma reports_of_key:
  fixes m :: "('k, 'v) percpu_hash" and n :: nat and cpus :: "cpu list"
  assumes "distinct keys" and "k \<in> set keys"
    and zero: "\<And>t. t_count (add zero t) = t_count t"
  defines "t \<equiv> fold add (map (slot zero m k) cpus) (no_totals n)"
  shows "map snd (filter (\<lambda>r. fst r = k) (reports_of cpus add n keys m)) =
    (if t_count t = 0 then [] else [t])"
proof -
  have none: "t_count t = 0" if "m k = None"
  proof -
    have "t_count (fold add (map (slot zero m k) cs) u) = t_count u" for cs u
      using that by (induction cs arbitrary: u) (simp_all add: slot_def zero)
    then show ?thesis by (simp add: t_def no_totals_def)
  qed
  have some: "t = fold add (map slots cpus) (no_totals n)" if "m k = Some slots" for slots
    using that by (simp add: t_def slot_def cong: map_cong)
  show ?thesis
    using assms(1,2)
  proof (induction keys)
    case Nil
    then show ?case by simp
  next
    case (Cons key keys)
    then show ?case
      using none some
      by (cases "m k") (auto simp: reports_of_Cons reports_of_absent Let_def split: option.split)
  qed
qed

end
