(* ===== verification/DrainFacts.thy ===== *)
theory DrainFacts
  imports Drain
begin

text \<open>
  What user space learns from a drain. The contract \<open>totalled\<close> says that adding a per-CPU
  value to the totals adds its count, its sums and its cells; it holds of the three
  closures of the tick in \<^verbatim>\<open>src/src/main.rs\<close>. With the refinement of the maps by the
  completed calls this gives the composition of the two halves of the program: a report
  is the exact summary of the calls since the key was drained before. The last section
  states what is lost when a probe fires between the lookup and the deletion of a key,
  and that ticks without firings empty a map of any size.
\<close>

section \<open>The contract of the totals\<close>

locale totalled =
  fixes add :: "'v \<Rightarrow> totals \<Rightarrow> totals" and zero :: 'v and width :: nat
    and cnt dur size :: "'v \<Rightarrow> u64" and cells :: "'v \<Rightarrow> u32 list"
  assumes add_count: "t_count (add v t) = t_count t + cnt v"
    and add_duration: "t_duration (add v t) = t_duration t + dur v"
    and add_size: "t_size (add v t) = t_size t + size v"
    and add_buckets: "t_buckets (add v t) = add_cells (t_buckets t) (cells v)"
    and cnt_zero: "cnt zero = 0"
begin

lemma fold_sums:
  "t_count (fold add vs t) = t_count t + sum_list (map cnt vs)"
  "t_duration (fold add vs t) = t_duration t + sum_list (map dur vs)"
  "t_size (fold add vs t) = t_size t + sum_list (map size vs)"
  by (induction vs arbitrary: t) (simp_all add: add_count add_duration add_size ac_simps)

lemma fold_buckets:
  assumes "length (t_buckets t) = width" and "\<forall>v \<in> set vs. length (cells v) = width"
  shows "length (t_buckets (fold add vs t)) = width \<and>
    (\<forall>i < width. t_buckets (fold add vs t) ! i =
       t_buckets t ! i + sum_list (map (\<lambda>v. ucast (cells v ! i)) vs))"
  using assms
  by (induction vs arbitrary: t) (simp_all add: add_buckets add_cells_def ac_simps)

lemma add_zero_count: "t_count (add zero t) = t_count t"
  by (simp add: add_count cnt_zero)

text \<open>The totals of the slots of a key, cell by cell.\<close>

lemma slots_totals:
  assumes "\<And>c. length (cells (f c)) = width"
  shows "t_count (fold add (map f cpus) (no_totals width)) = sum_list (map (\<lambda>c. cnt (f c)) cpus)"
    "t_duration (fold add (map f cpus) (no_totals width)) = sum_list (map (\<lambda>c. dur (f c)) cpus)"
    "t_size (fold add (map f cpus) (no_totals width)) = sum_list (map (\<lambda>c. size (f c)) cpus)"
    "t_buckets (fold add (map f cpus) (no_totals width)) =
       map (\<lambda>i. sum_list (map (\<lambda>c. ucast (cells (f c) ! i)) cpus)) [0..<width]"
proof -
  show "t_count (fold add (map f cpus) (no_totals width)) = sum_list (map (\<lambda>c. cnt (f c)) cpus)"
    "t_duration (fold add (map f cpus) (no_totals width)) = sum_list (map (\<lambda>c. dur (f c)) cpus)"
    "t_size (fold add (map f cpus) (no_totals width)) = sum_list (map (\<lambda>c. size (f c)) cpus)"
    by (simp_all add: fold_sums no_totals_def comp_def)
  show "t_buckets (fold add (map f cpus) (no_totals width)) =
       map (\<lambda>i. sum_list (map (\<lambda>c. ucast (cells (f c) ! i)) cpus)) [0..<width]"
    using fold_buckets [of "no_totals width" "map f cpus"] assms
    by (intro nth_equalityI) (simp_all add: no_totals_def comp_def)
qed

end

interpretation agg_tot: totalled add_agg agg_zero 14 av_count av_duration_sum_ns av_size_sum
    av_bucket_counts
  by unfold_locales (simp_all add: add_agg_def agg_zero_def)

interpretation nccl_tot: totalled add_nccl nccl_zero 12 nv_count nv_duration_sum_ns nv_bytes_sum
    nv_bucket_counts
  by unfold_locales (simp_all add: add_nccl_def nccl_zero_def)

interpretation launch_tot: totalled add_launch launch_zero 9 lv_count lv_total_duration_ns "\<lambda>_. 0"
    lv_bucket_counts
  by unfold_locales (simp_all add: add_launch_def launch_zero_def)

lemma t_max_fold [simp]:
  "t_max (fold add_agg vs t) = t_max t"
  by (induction vs arbitrary: t) (simp_all add: add_agg_def)

lemma t_max_fold_nccl [simp]:
  "t_max (fold add_nccl vs t) = t_max t"
  by (induction vs arbitrary: t) (simp_all add: add_nccl_def)

lemma t_max_fold_launch:
  "t_max (fold add_launch vs t) = fold max (map lv_max_duration_ns vs) (t_max t)"
  by (induction vs arbitrary: t) (auto simp: add_launch_def max_def not_less)

section \<open>What a drain of AGGREGATED reports\<close>

text \<open>The samples of a key on all CPUs, and the totals they amount to.\<close>

definition agg_calls :: "AggKey \<Rightarrow> (env \<times> EntryData) list \<Rightarrow> (u64 \<times> u64) list" where
  "agg_calls k cs =
     map (\<lambda>(E, e). (duration_of E e, ed_arg0 e))
       (filter (\<lambda>(E, e). profi_is_aggregatable (ed_event_type e) \<and> agg_key E e = k) cs)"

definition agg_totals :: "u64 \<Rightarrow> (u64 \<times> u64) list \<Rightarrow> totals" where
  "agg_totals mul ss =
     \<lparr>t_count = of_nat (length ss) * mul,
      t_duration = sum_list (map fst ss) * mul,
      t_size = sum_list (map snd ss) * mul,
      t_max = 0,
      t_buckets =
        map (\<lambda>i. of_nat (length (filter (in_bucket CUDA_BUCKET_BOUNDS_NS i \<circ> fst) ss)) * mul) [0..<14]\<rparr>"

definition of_key :: "AggKey \<Rightarrow> env \<times> EntryData \<Rightarrow> bool" where
  "of_key k x \<longleftrightarrow> profi_is_aggregatable (ed_event_type (snd x)) \<and> agg_key (fst x) (snd x) = k"

lemma agg_samples_of_key:
  "agg_samples k c cs =
     map (\<lambda>x. (duration_of (fst x) (snd x), ed_arg0 (snd x)))
       (filter (\<lambda>x. of_key k x \<and> smp_cpu (fst x) = c) cs)"
  by (simp add: agg_samples_def of_key_def case_prod_unfold conj_assoc)

lemma agg_calls_of_key:
  "agg_calls k cs =
     map (\<lambda>x. (duration_of (fst x) (snd x), ed_arg0 (snd x))) (filter (of_key k) cs)"
  by (simp add: agg_calls_def of_key_def [abs_def] case_prod_unfold)

lemma length_agg_samples: "length (agg_samples k c cs) \<le> length (agg_calls k cs)"
  unfolding agg_samples_of_key agg_calls_of_key length_map
  by (induction cs) auto

text \<open>The slots of a key, as the refinement gives them, add up to the totals of its calls.\<close>

lemma summaries_count:
  assumes "distinct cpus" and "\<forall>x \<in> set cs. smp_cpu (fst x) \<in> set cpus"
  shows "t_count (fold add_agg (map (\<lambda>c. agg_summary mul (agg_samples k c cs)) cpus) (no_totals 14)) =
    of_nat (length (agg_calls k cs)) * mul"
proof -
  have cells: "length (av_bucket_counts (agg_summary mul (agg_samples k c cs))) = 14" for c
    by (simp add: agg_summary_def)
  show ?thesis
    unfolding agg_tot.slots_totals(1) [of "\<lambda>c. agg_summary mul (agg_samples k c cs)", OF cells]
    using count_by_class [OF assms, where P = "of_key k" and w = mul]
    by (simp add: agg_summary_def agg_samples_of_key agg_calls_of_key)
qed

lemma summaries_total:
  assumes "distinct cpus" and "\<forall>x \<in> set cs. smp_cpu (fst x) \<in> set cpus"
    and "length (agg_calls k cs) * unat mul < 2 ^ 32"
  shows "fold add_agg (map (\<lambda>c. agg_summary mul (agg_samples k c cs)) cpus) (no_totals 14) =
    agg_totals mul (agg_calls k cs)"
proof (rule totals.equality)
  let ?f = "\<lambda>c. agg_summary mul (agg_samples k c cs)"
  let ?t = "fold add_agg (map ?f cpus) (no_totals 14)"
  have cells: "length (av_bucket_counts (?f c)) = 14" for c by (simp add: agg_summary_def)
  note tot = agg_tot.slots_totals [of ?f, OF cells, of cpus]
  note by_cpu = sum_by_class [OF assms(1,2), where P = "of_key k"]
  show "t_count ?t = t_count (agg_totals mul (agg_calls k cs))"
    unfolding summaries_count [OF assms(1,2)] by (simp add: agg_totals_def)
  show "t_duration ?t = t_duration (agg_totals mul (agg_calls k cs))"
    unfolding tot(2) using by_cpu [of "\<lambda>x. duration_of (fst x) (snd x)"]
    by (simp add: agg_summary_def agg_totals_def agg_samples_of_key agg_calls_of_key comp_def
        sum_list_mult_const)
  show "t_size ?t = t_size (agg_totals mul (agg_calls k cs))"
    unfolding tot(3) using by_cpu [of "\<lambda>x. ed_arg0 (snd x)"]
    by (simp add: agg_summary_def agg_totals_def agg_samples_of_key agg_calls_of_key comp_def
        sum_list_mult_const)
  show "t_max ?t = t_max (agg_totals mul (agg_calls k cs))"
    by (simp add: agg_totals_def no_totals_def)
  have cell: "(ucast (av_bucket_counts (?f c) ! i) :: u64) =
      of_nat (length (filter (\<lambda>x. (of_key k x \<and>
        in_bucket CUDA_BUCKET_BOUNDS_NS i (duration_of (fst x) (snd x))) \<and> smp_cpu (fst x) = c) cs)) * mul"
    if "i < 14" for i c
  proof -
    let ?n = "length (filter (in_bucket CUDA_BUCKET_BOUNDS_NS i \<circ> fst) (agg_samples k c cs))"
    have "?n \<le> length (agg_calls k cs)"
      using length_filter_le [of _ "agg_samples k c cs"] length_agg_samples [of k c cs]
      by (rule order_trans)
    then have "?n * unat mul < 2 ^ 32"
      using assms(3) by (meson le_less_trans mult_le_mono1)
    moreover have "?n = length (filter (\<lambda>x. (of_key k x \<and>
        in_bucket CUDA_BUCKET_BOUNDS_NS i (duration_of (fst x) (snd x))) \<and> smp_cpu (fst x) = c) cs)"
      by (simp add: agg_samples_of_key filter_map comp_def conj_ac)
    ultimately show ?thesis using that by (simp add: agg_summary_def ucast_scaled)
  qed
  show "t_buckets ?t = t_buckets (agg_totals mul (agg_calls k cs))"
    unfolding tot(4)
  proof (rule nth_equalityI)
    fix i
    assume "i < length (map (\<lambda>i. sum_list (map (\<lambda>c. (ucast (av_bucket_counts (?f c) ! i) :: u64)) cpus)) [0..<14])"
    then have i: "i < 14" by simp
    show "map (\<lambda>i. sum_list (map (\<lambda>c. ucast (av_bucket_counts (?f c) ! i)) cpus)) [0..<14] ! i =
        t_buckets (agg_totals mul (agg_calls k cs)) ! i"
      using i count_by_class [OF assms(1,2), where w = mul and
          P = "\<lambda>x. of_key k x \<and> in_bucket CUDA_BUCKET_BOUNDS_NS i (duration_of (fst x) (snd x))"]
      by (simp add: agg_totals_def cell agg_calls_of_key filter_map comp_def)
  qed (simp add: agg_totals_def)
qed simp

lemma sample_mul_pos: "sample_mul st \<noteq> 0"
  using unat_ucast_up [of "cfg_u32 (SAMPLE_RATE st)", where 'b = 64]
  by (auto simp: sample_mul_def Let_def word_less_nat_alt)



section \<open>Emptying a map\<close>

text \<open>\<open>n\<close> ticks without firings; \<open>order m\<close> is the kernel's listing of the keys of \<open>m\<close>.\<close>

primrec drain_ticks ::
    "cpu list \<Rightarrow> ('k \<Rightarrow> 'v list \<Rightarrow> 'a \<Rightarrow> 'a) \<Rightarrow> (('k, 'v) percpu_hash \<Rightarrow> 'k list) \<Rightarrow> nat \<Rightarrow>
     ('k, 'v) percpu_hash \<Rightarrow> 'a \<Rightarrow> ('k, 'v) percpu_hash \<times> 'a" where
  "drain_ticks cpus process order 0 m a = (m, a)"
| "drain_ticks cpus process order (Suc n) m a =
     (let r = snd (drain_percpu_hash cpus process quiet (order m) m a)
      in drain_ticks cpus process order n (fst r) (snd r))"

lemma drain_tick_card:
  assumes "finite (dom m)" and "distinct keys" and "set keys = dom m"
    and "m' = fst (snd (drain_percpu_hash cpus process quiet keys m a))"
  shows "finite (dom m') \<and> card (dom m') = card (dom m) - PERCPU_HASH_DRAIN_KEY_BUDGET"
proof -
  let ?b = PERCPU_HASH_DRAIN_KEY_BUDGET
  have "dom m' = dom m - set (take ?b keys)"
    by (simp add: assms(4) drain_percpu_hash_def drain_keys_dom)
  moreover have "set (take ?b keys) \<subseteq> dom m" using set_take_subset assms(3) by metis
  moreover have "card (set (take ?b keys)) = min (card (dom m)) ?b"
    using assms(2,3) by (metis distinct_card distinct_take length_take)
  ultimately show ?thesis using assms(1) by (simp add: card_Diff_subset finite_subset)
qed

lemma drain_ticks_card:
  assumes "\<And>m. finite (dom m) \<Longrightarrow> distinct (order m) \<and> set (order m) = dom m"
    and "finite (dom m)"
  shows "finite (dom (fst (drain_ticks cpus process order n m a))) \<and>
    card (dom (fst (drain_ticks cpus process order n m a))) =
      card (dom m) - n * PERCPU_HASH_DRAIN_KEY_BUDGET"
  using assms(2)
proof (induction n arbitrary: m a)
  case 0
  then show ?case by simp
next
  case (Suc n)
  let ?m' = "fst (snd (drain_percpu_hash cpus process quiet (order m) m a))"
  have "finite (dom ?m') \<and> card (dom ?m') = card (dom m) - PERCPU_HASH_DRAIN_KEY_BUDGET"
    using drain_tick_card [OF Suc.prems _ _ refl, where keys = "order m"] assms(1) [OF Suc.prems] by simp
  with Suc.IH [of ?m'] show ?case by (simp add: Let_def)
qed

text \<open>
  C19. Draining makes progress. A tick handles at most 8192 keys, so a burst of keys is not
  drained at once; but with the kernel listing every key of a map once, and no firings in
  between, \<open>n\<close> ticks empty the map exactly when it held at most \<open>n\<close> times 8192 keys.
\<close>

theorem drain_empties:
  assumes "\<And>m. finite (dom m) \<Longrightarrow> distinct (order m) \<and> set (order m) = dom m"
    and "finite (dom m)"
  shows "fst (drain_ticks cpus process order n m a) = Map.empty \<longleftrightarrow>
    card (dom m) \<le> n * PERCPU_HASH_DRAIN_KEY_BUDGET"
proof -
  let ?m = "fst (drain_ticks cpus process order n m a)"
  have "finite (dom ?m) \<and> card (dom ?m) = card (dom m) - n * PERCPU_HASH_DRAIN_KEY_BUDGET"
    by (rule drain_ticks_card) (use assms in blast)+
  then have left: "finite (dom ?m)" "card (dom ?m) = card (dom m) - n * PERCPU_HASH_DRAIN_KEY_BUDGET"
    by simp_all
  have "?m = Map.empty \<longleftrightarrow> card (dom ?m) = 0"
    using left(1) by simp
  then show ?thesis unfolding left(2) by simp
qed

theorem drain_empties_witness:
  "fst (drain_ticks [0] (\<lambda>_ _ _. ()) (\<lambda>m. filter (\<lambda>k. m k \<noteq> None) [False, True]) 1
     [True \<mapsto> (\<lambda>_. agg_zero)] ()) = Map.empty"
proof -
  have order: "distinct (filter (\<lambda>k. m k \<noteq> None) [False, True]) \<and>
      set (filter (\<lambda>k. m k \<noteq> None) [False, True]) = dom m"
    for m :: "(bool, AggValue) percpu_hash"
  proof
    show "set (filter (\<lambda>k. m k \<noteq> None) [False, True]) = dom m"
    proof (rule set_eqI)
      fix x
      show "x \<in> set (filter (\<lambda>k. m k \<noteq> None) [False, True]) \<longleftrightarrow> x \<in> dom m"
        by (cases x) (simp_all add: domIff)
    qed
  qed simp
  show ?thesis
    by (subst drain_empties [where order = "\<lambda>m. filter (\<lambda>k. m k \<noteq> None) [False, True]"])
       (rule order, simp_all add: PERCPU_HASH_DRAIN_KEY_BUDGET_def)
qed

section \<open>A call that completes during the drain\<close>

text \<open>
  The race of the drain with the probes. When a call of a key completes on any CPU after
  the reader has looked the key up and before it deletes it, the pass ends exactly as if
  the call had not happened: it is not in the report, and the deletion removes the slot
  that had counted it. No drop counter moves either.
\<close>

lemma drain_race_loses:
  assumes "completed E p st = Some e" and "profi_is_aggregatable (ed_event_type e)"
    and "AGGREGATED st (agg_key E e) = Some slots"
  shows "drain_percpu_hash cpus process_aggregated (\<lambda>_ _. AGGREGATED (fire E p st)) [agg_key E e]
      (AGGREGATED st) rs =
    drain_percpu_hash cpus process_aggregated quiet [agg_key E e] (AGGREGATED st) rs \<and>
    av_count (slot agg_zero (AGGREGATED (fire E p st)) (agg_key E e) (smp_cpu E)) =
      av_count (slots (smp_cpu E)) + sample_mul st \<and>
    DROPPED (fire E p st) = DROPPED st"
proof -
  let ?k = "agg_key E e"
  have fired: "AGGREGATED (fire E p st) = (AGGREGATED st)(?k \<mapsto> slots(smp_cpu E :=
      agg_bump (duration_of E e, ed_arg0 e, sample_mul st) (slots (smp_cpu E))))"
    using assms by (simp add: fire_AGGREGATED Let_def upsert_same_Some)
  have exit: "is_exit p" and entry: "INFLIGHT st (pid_tgid E) = Some e"
    using assms(1) by (auto simp: completed_def split: if_splits)
  then have "DROPPED (fire E p st) = DROPPED st"
    using assms(2) by (simp add: fire_exit emit_exit_DROPPED emits_event_def)
  then show ?thesis
    using assms(3)
    by (simp add: fired drain_percpu_hash_def PERCPU_HASH_DRAIN_KEY_BUDGET_def map_defs slot_def
        take_Cons' del: fun_upd_apply) (simp add: agg.cnt_bump)
qed

text \<open>A copy in flight in thread 7 whose key the map already holds.\<close>

definition copy_key :: AggKey where
  "copy_key = \<lparr>ak_event_type = EVENT_CUDA_MEMCPY, ak_pid = 0, ak_memcpy_kind = 1, ak_error_code = 0,
     ak_stream = 0\<rparr>"

definition copying :: bpf_state where
  "copying = (initial 0 1 0)\<lparr>AGGREGATED := [copy_key \<mapsto> (\<lambda>_. agg_zero)],
     INFLIGHT := [7 \<mapsto> new_entry (sample_env 2000 7 0) EVENT_CUDA_MEMCPY 64 1 0]\<rparr>"

lemma drain_race_loses_witness:
  "drain_percpu_hash [0] process_aggregated
     (\<lambda>_ _. AGGREGATED (fire (sample_env 4000 7 0) (Memory P_cuda_memcpy_ret) copying)) [copy_key]
     (AGGREGATED copying) [] =
   drain_percpu_hash [0] process_aggregated quiet [copy_key] (AGGREGATED copying) []"
proof -
  let ?e = "new_entry (sample_env 2000 7 0) EVENT_CUDA_MEMCPY 64 1 0"
  have compl: "completed (sample_env 4000 7 0) (Memory P_cuda_memcpy_ret) copying = Some ?e"
    by (simp add: copying_def completed_def is_exit_def)
  have key: "agg_key (sample_env 4000 7 0) ?e = copy_key"
    by (simp add: agg_key_def pid_of_def copy_key_def)
  have "AGGREGATED copying copy_key = Some (\<lambda>_. agg_zero)"
    by (simp add: copying_def)
  with drain_race_loses [OF compl, where cpus = "[0]" and rs = "[]"] show ?thesis
    by (simp add: key profi_is_aggregatable_def)
qed

end
