(* ===== verification/RustStrings.thy ===== *)
theory RustStrings
  imports Prelude "HOL-Library.Sublist"
begin

text \<open>
  Strings of the Rust sources and the operations of the standard library the modules use.
  A string slice is its list of UTF-8 bytes, one \<^typ>\<open>char\<close> per byte; indices are byte
  indices. Slicing at an index that is not a character boundary, or with the end before the
  start, panics: \<open>str_slice\<close> returns \<open>None\<close> then.
\<close>

section \<open>Bytes, characters and slices\<close>

abbreviation byte :: "char \<Rightarrow> nat" where
  "byte \<equiv> of_char"

definition is_ascii_digit :: "char \<Rightarrow> bool" where
  "is_ascii_digit c \<longleftrightarrow> 48 \<le> byte c \<and> byte c \<le> 57"

definition is_ascii_alnum :: "nat \<Rightarrow> bool" where
  "is_ascii_alnum b \<longleftrightarrow> 48 \<le> b \<and> b \<le> 57 \<or> 65 \<le> b \<and> b \<le> 90 \<or> 97 \<le> b \<and> b \<le> 122"

text \<open>\<^verbatim>\<open>str::is_char_boundary\<close>: the ends, and every byte that does not continue a character.\<close>

definition is_char_boundary :: "string \<Rightarrow> nat \<Rightarrow> bool" where
  "is_char_boundary s i \<longleftrightarrow>
     i = 0 \<or> i = length s \<or> i < length s \<and> \<not> (128 \<le> byte (s ! i) \<and> byte (s ! i) < 192)"

text \<open>\<^verbatim>\<open>&s[a..b]\<close>, \<open>None\<close> for a panic.\<close>

definition str_slice :: "string \<Rightarrow> nat \<Rightarrow> nat \<Rightarrow> string option" where
  "str_slice s a b =
     (if a \<le> b \<and> b \<le> length s \<and> is_char_boundary s a \<and> is_char_boundary s b
      then Some (take (b - a) (drop a s)) else None)"

text \<open>\<^verbatim>\<open>str::chars\<close>: the code points of a string.\<close>

fun chars :: "nat list \<Rightarrow> nat list" where
  "chars [] = []"
| "chars (a # bs) =
     (if a < 128 then a # chars bs
      else if a < 224 then
        (case bs of b # r \<Rightarrow> ((a - 192) * 64 + (b - 128)) # chars r | [] \<Rightarrow> [])
      else if a < 240 then
        (case bs of b # c # r \<Rightarrow> ((a - 224) * 4096 + (b - 128) * 64 + (c - 128)) # chars r | _ \<Rightarrow> [])
      else
        (case bs of b # c # d # r \<Rightarrow>
           ((a - 240) * 262144 + (b - 128) * 4096 + (c - 128) * 64 + (d - 128)) # chars r | _ \<Rightarrow> []))"

text \<open>\<^verbatim>\<open>char::is_alphanumeric\<close>.\<close>

definition is_alphanumeric :: "(nat \<Rightarrow> bool) \<Rightarrow> nat \<Rightarrow> bool" where
  "is_alphanumeric uni c = (if c < 128 then is_ascii_alnum c else uni c)"

text \<open>
  \<^verbatim>\<open>str::trim_end\<close>: drops the characters with the White-Space property from the end. On the
  reversed bytes these are the ASCII ones and six groups of longer encodings.
\<close>

fun trim_rev :: "string \<Rightarrow> string" where
  "trim_rev (a # r) =
     (if 9 \<le> byte a \<and> byte a \<le> 13 \<or> byte a = 32 then trim_rev r
      else case r of
        b # q \<Rightarrow>
          if byte b = 194 \<and> (byte a = 133 \<or> byte a = 160) then trim_rev q
          else (case q of
            c # p \<Rightarrow>
              if byte c = 225 \<and> byte b = 154 \<and> byte a = 128 \<or>
                 byte c = 226 \<and> byte b = 128 \<and>
                   (128 \<le> byte a \<and> byte a \<le> 138 \<or> byte a = 168 \<or> byte a = 169 \<or> byte a = 175) \<or>
                 byte c = 226 \<and> byte b = 129 \<and> byte a = 159 \<or>
                 byte c = 227 \<and> byte b = 128 \<and> byte a = 128
              then trim_rev p else a # r
          | [] \<Rightarrow> a # r)
      | [] \<Rightarrow> a # r)"
| "trim_rev [] = []"

definition trim_end :: "string \<Rightarrow> string" where
  "trim_end s = rev (trim_rev (rev s))"

text \<open>\<^verbatim>\<open>str::strip_prefix\<close>.\<close>

definition strip_prefix :: "string \<Rightarrow> string \<Rightarrow> string option" where
  "strip_prefix p s = (if prefix p s then Some (drop (length p) s) else None)"

text \<open>\<^verbatim>\<open>str::contains\<close> with a string pattern, and \<^verbatim>\<open>to_ascii_lowercase\<close>.\<close>

fun str_contains :: "string \<Rightarrow> string \<Rightarrow> bool" where
  "str_contains pat [] \<longleftrightarrow> pat = []"
| "str_contains pat (c # s) \<longleftrightarrow> prefix pat (c # s) \<or> str_contains pat s"

definition ascii_lower :: "char \<Rightarrow> char" where
  "ascii_lower c = (if 65 \<le> byte c \<and> byte c \<le> 90 then char_of (byte c + 32) else c)"

definition to_ascii_lowercase :: "string \<Rightarrow> string" where
  "to_ascii_lowercase = map ascii_lower"


text \<open>\<^verbatim>\<open>parse::<usize>().unwrap_or(0)\<close> of a run of digits: a number that does not fit is 0.\<close>

definition digits_value :: "string \<Rightarrow> nat" where
  "digits_value ds = foldl (\<lambda>v d. 10 * v + (byte d - 48)) 0 ds"

definition parse_usize :: "string \<Rightarrow> nat" where
  "parse_usize ds = (if digits_value ds < 2 ^ 64 then digits_value ds else 0)"

lemma str_slice_SomeD: "str_slice s a b = Some t \<Longrightarrow> a \<le> b \<and> b \<le> length s \<and> length t = b - a"
  by (auto simp: str_slice_def split: if_splits)

definition ascii :: "string \<Rightarrow> bool" where
  "ascii s \<longleftrightarrow> list_all (\<lambda>c. byte c < 128) s"

lemma ascii_boundary:
  assumes "ascii s" and "i \<le> length s"
  shows "is_char_boundary s i"
proof (cases "i < length s")
  case True
  then have "byte (s ! i) < 128" using assms(1) by (simp add: ascii_def list_all_length)
  with True show ?thesis by (simp add: is_char_boundary_def)
next
  case False
  with assms(2) show ?thesis by (simp add: is_char_boundary_def)
qed

lemma ascii_slice:
  "ascii s \<Longrightarrow> a \<le> b \<Longrightarrow> b \<le> length s \<Longrightarrow> str_slice s a b = Some (take (b - a) (drop a s))"
  by (simp add: str_slice_def ascii_boundary)

lemma digits_value_snoc: "digits_value (ds @ [d]) = 10 * digits_value ds + (byte d - 48)"
  by (simp add: digits_value_def)

lemma digits_value_bound:
  "list_all is_ascii_digit ds \<Longrightarrow> digits_value ds < 10 ^ length ds"
proof (induction ds rule: rev_induct)
  case Nil
  then show ?case by (simp add: digits_value_def)
next
  case (snoc d ds)
  then have "digits_value ds < 10 ^ length ds" and "byte d - 48 < 10"
    by (auto simp: is_ascii_digit_def)
  then show ?case by (simp add: digits_value_snoc)
qed

lemma trim_rev_ascii:
  assumes "byte a < 128" and "\<not> (9 \<le> byte a \<and> byte a \<le> 13)" and "byte a \<noteq> 32"
  shows "trim_rev (a # r) = a # r"
proof -
  have "\<not> 128 \<le> byte a" "byte a \<noteq> 128" "byte a \<noteq> 133" "byte a \<noteq> 160" "byte a \<noteq> 168" "byte a \<noteq> 169"
    "byte a \<noteq> 175" "byte a \<noteq> 159"
    using assms(1) by auto
  with assms(2,3) show ?thesis
    by (subst trim_rev.simps(1)) (auto simp del: trim_rev.simps split: list.split)
qed

section \<open>UTF-8\<close>

text \<open>
  \<^verbatim>\<open>std::str::from_utf8\<close>: the well-formed sequences of one to four bytes, without overlong
  forms and surrogates.
\<close>

abbreviation continuation :: "nat \<Rightarrow> bool" where
  "continuation b \<equiv> 128 \<le> b \<and> b < 192"

fun utf8_valid :: "nat list \<Rightarrow> bool" where
  "utf8_valid [] \<longleftrightarrow> True"
| "utf8_valid (a # bs) \<longleftrightarrow>
     (if a < 128 then utf8_valid bs
      else if 194 \<le> a \<and> a < 224 then
        (case bs of b # r \<Rightarrow> continuation b \<and> utf8_valid r | [] \<Rightarrow> False)
      else if 224 \<le> a \<and> a < 240 then
        (case bs of b # c # r \<Rightarrow>
           continuation b \<and> (a = 224 \<longrightarrow> 160 \<le> b) \<and> (a = 237 \<longrightarrow> b < 160) \<and> continuation c \<and> utf8_valid r
         | _ \<Rightarrow> False)
      else if 240 \<le> a \<and> a < 245 then
        (case bs of b # c # d # r \<Rightarrow>
           continuation b \<and> (a = 240 \<longrightarrow> 144 \<le> b) \<and> (a = 244 \<longrightarrow> b < 144) \<and>
           continuation c \<and> continuation d \<and> utf8_valid r
         | _ \<Rightarrow> False)
      else False)"

definition bytes_str :: "u8 list \<Rightarrow> string" where
  "bytes_str = map (\<lambda>b. char_of (unat b))"

definition from_utf8 :: "u8 list \<Rightarrow> string option" where
  "from_utf8 bs = (if utf8_valid (map unat bs) then Some (bytes_str bs) else None)"

text \<open>The bytes before the first NUL: \<^verbatim>\<open>position(|&c| c == 0).unwrap_or(len)\<close> and the slice.\<close>

definition until_nul :: "u8 list \<Rightarrow> u8 list" where
  "until_nul = takeWhile (\<lambda>b. b \<noteq> 0)"

lemma utf8_valid_ascii: "list_all (\<lambda>b. b < 128) bs \<Longrightarrow> utf8_valid bs"
  by (induction bs) simp_all

section \<open>White space\<close>

text \<open>The number of bytes of a white-space character at the front, 0 when there is none.\<close>

fun ws_len :: "string \<Rightarrow> nat" where
  "ws_len [] = 0"
| "ws_len (a # r) =
     (if 9 \<le> byte a \<and> byte a \<le> 13 \<or> byte a = 32 then 1
      else case r of
        b # q \<Rightarrow>
          if byte a = 194 \<and> (byte b = 133 \<or> byte b = 160) then 2
          else (case q of
            c # p \<Rightarrow>
              if byte a = 225 \<and> byte b = 154 \<and> byte c = 128 \<or>
                 byte a = 226 \<and> byte b = 128 \<and>
                   (128 \<le> byte c \<and> byte c \<le> 138 \<or> byte c = 168 \<or> byte c = 169 \<or> byte c = 175) \<or>
                 byte a = 226 \<and> byte b = 129 \<and> byte c = 159 \<or>
                 byte a = 227 \<and> byte b = 128 \<and> byte c = 128
              then 3 else 0
          | [] \<Rightarrow> 0)
      | [] \<Rightarrow> 0)"

lemma ws_len_ascii: "byte a < 128 \<Longrightarrow> ws_len (a # r) = (if 9 \<le> byte a \<and> byte a \<le> 13 \<or> byte a = 32 then 1 else 0)"
  by (auto split: list.split)

lemma ws_len_pos: "ws_len s \<noteq> 0 \<Longrightarrow> s \<noteq> []"
  by (cases s) auto

function trim_start :: "string \<Rightarrow> string" where
  "trim_start s = (if ws_len s = 0 then s else trim_start (drop (ws_len s) s))"
  by pat_completeness auto

termination
  by (relation "measure length") (use ws_len_pos in auto)

declare trim_start.simps [simp del]

definition trim :: "string \<Rightarrow> string" where
  "trim s = trim_end (trim_start s)"

text \<open>\<^verbatim>\<open>split_whitespace\<close>; the first argument collects the current word, reversed.\<close>

function split_ws :: "string \<Rightarrow> string \<Rightarrow> string list" where
  "split_ws cur s =
     (if s = [] then (if cur = [] then [] else [rev cur])
      else if ws_len s = 0 then split_ws (hd s # cur) (tl s)
      else (if cur = [] then [] else [rev cur]) @ split_ws [] (drop (ws_len s) s))"
  by pat_completeness auto

termination
  by (relation "measure (length \<circ> snd)") auto

declare split_ws.simps [simp del]

definition split_whitespace :: "string \<Rightarrow> string list" where
  "split_whitespace s = split_ws [] s"

text \<open>Words of ASCII characters other than white space are split at blanks.\<close>

definition plain_char :: "char \<Rightarrow> bool" where
  "plain_char c \<longleftrightarrow> byte c < 128 \<and> \<not> (9 \<le> byte c \<and> byte c \<le> 13) \<and> byte c \<noteq> 32"

definition plain_word :: "string \<Rightarrow> bool" where
  "plain_word w \<longleftrightarrow> list_all plain_char w"

lemma ws_len_plain: "plain_char c \<Longrightarrow> ws_len (c # s) = 0"
  by (simp only: plain_char_def ws_len_ascii) auto

lemma split_ws_chars: "plain_word w \<Longrightarrow> split_ws cur (w @ s) = split_ws (rev w @ cur) s"
proof (induction w arbitrary: cur)
  case (Cons c w)
  then have "split_ws cur ((c # w) @ s) = split_ws (c # cur) (w @ s)"
    by (subst split_ws.simps) (simp add: plain_word_def ws_len_plain del: ws_len.simps)
  with Cons show ?case by (simp add: plain_word_def)
qed simp

lemma split_ws_blank:
  "split_ws cur (CHR '' '' # s) = (if cur = [] then [] else [rev cur]) @ split_ws [] s"
  by (subst split_ws.simps) simp

lemma split_ws_word:
  "plain_word w \<Longrightarrow> w \<noteq> [] \<Longrightarrow> split_ws [] (w @ CHR '' '' # s) = w # split_ws [] s"
  by (simp add: split_ws_chars split_ws_blank)

lemma split_ws_last: "plain_word w \<Longrightarrow> split_ws [] w = (if w = [] then [] else [w])"
  using split_ws_chars [of w "[]" "[]"] by (simp add: split_ws.simps [of _ "[]"])

lemma split_ws_spaces: "split_ws [] (replicate n (CHR '' '') @ s) = split_ws [] s"
  by (induction n) (simp_all add: split_ws_blank)

section \<open>Splitting at a character\<close>

text \<open>\<^verbatim>\<open>split(c)\<close>: always at least one part.\<close>

fun split_at_char :: "char \<Rightarrow> string \<Rightarrow> string list" where
  "split_at_char sep [] = [[]]"
| "split_at_char sep (c # s) =
     (if c = sep then [] # split_at_char sep s
      else (case split_at_char sep s of w # ws \<Rightarrow> (c # w) # ws | [] \<Rightarrow> [[c]]))"

text \<open>\<^verbatim>\<open>lines\<close>: parts at line feeds, without a final empty one and without carriage returns.\<close>

definition str_lines :: "string \<Rightarrow> string list" where
  "str_lines s =
     (let parts = split_at_char (CHR 0x0A) s;
          ls = (if last parts = [] then butlast parts else parts)
      in map (\<lambda>l. if l \<noteq> [] \<and> last l = CHR 0x0D then butlast l else l) ls)"

lemma split_at_char_nonempty [simp]: "split_at_char sep s \<noteq> []"
  by (induction s) (auto split: list.split)

text \<open>Joining the parts with the separator gives the string back, and no part contains it.\<close>

fun join_with :: "char \<Rightarrow> string list \<Rightarrow> string" where
  "join_with sep [] = []"
| "join_with sep [w] = w"
| "join_with sep (w # ws) = w @ sep # join_with sep ws"

lemma join_split: "join_with sep (split_at_char sep s) = s"
proof (induction s)
  case Nil
  then show ?case by simp
next
  case (Cons c s)
  then show ?case
    by (cases "split_at_char sep s"; cases "tl (split_at_char sep s)") auto
qed

lemma split_parts: "w \<in> set (split_at_char sep s) \<Longrightarrow> sep \<notin> set w"
  by (induction s arbitrary: w) (auto split: if_splits list.splits)

lemma split_no_sep: "sep \<notin> set w \<Longrightarrow> split_at_char sep w = [w]"
  by (induction w) auto

lemma split_append: "sep \<notin> set w \<Longrightarrow> split_at_char sep (w @ sep # s) = w # split_at_char sep s"
  by (induction w) auto

lemma split_join:
  "ws \<noteq> [] \<Longrightarrow> list_all (\<lambda>w. sep \<notin> set w) ws \<Longrightarrow> split_at_char sep (join_with sep ws) = ws"
  by (induction ws rule: join_with.induct) (auto simp: split_append split_no_sep)

section \<open>Numbers\<close>

definition hex_digit :: "nat \<Rightarrow> char" where
  "hex_digit d = (if d < 10 then char_of (48 + d) else char_of (87 + d))"

text \<open>The digits of a number in a base; \<^verbatim>\<open>{:x}\<close> and \<^verbatim>\<open>to_string\<close>.\<close>

fun to_base :: "nat \<Rightarrow> nat \<Rightarrow> string" where
  "to_base b n = (if b < 2 \<or> n < b then [hex_digit n] else to_base b (n div b) @ [hex_digit (n mod b)])"

declare to_base.simps [simp del]

definition fmt_hex :: "nat \<Rightarrow> string" where
  "fmt_hex n = to_base 16 n"

definition fmt_dec :: "nat \<Rightarrow> string" where
  "fmt_dec n = to_base 10 n"

text \<open>\<^verbatim>\<open>from_str_radix\<close>: a leading plus sign, then at least one digit of the base; \<open>None\<close> when the number does not fit \<open>bits\<close> bits.\<close>

definition digit_value :: "char \<Rightarrow> nat" where
  "digit_value c =
     (if 48 \<le> byte c \<and> byte c \<le> 57 then byte c - 48
      else if 97 \<le> byte c \<and> byte c \<le> 122 then byte c - 87
      else if 65 \<le> byte c \<and> byte c \<le> 90 then byte c - 55
      else 255)"

definition base_value :: "nat \<Rightarrow> string \<Rightarrow> nat" where
  "base_value b ds = foldl (\<lambda>v d. b * v + digit_value d) 0 ds"

definition from_str_radix :: "nat \<Rightarrow> nat \<Rightarrow> string \<Rightarrow> nat option" where
  "from_str_radix bits b s =
     (let ds = (if s \<noteq> [] \<and> hd s = CHR ''+'' then tl s else s)
      in if ds \<noteq> [] \<and> list_all (\<lambda>d. digit_value d < b) ds \<and> base_value b ds < 2 ^ bits
         then Some (base_value b ds) else None)"

lemma from_str_radix_code [code]:
  "from_str_radix bits b s =
     (let ds = (if s \<noteq> [] \<and> hd s = CHR ''+'' then tl s else s)
      in if ds \<noteq> [] \<and> list_all (\<lambda>d. digit_value d < b) ds \<and> int (base_value b ds) < 2 ^ bits
         then Some (base_value b ds) else None)"
proof -
  have "int (base_value b ds) < 2 ^ bits \<longleftrightarrow> base_value b ds < 2 ^ bits" for ds
    by (metis of_nat_less_iff of_nat_numeral of_nat_power)
  then show ?thesis by (simp only: from_str_radix_def)
qed

lemma digit_value_hex_digit: "d < 16 \<Longrightarrow> digit_value (hex_digit d) = d"
  by (simp add: digit_value_def hex_digit_def)

lemma hex_digit_no_sign: "d < 16 \<Longrightarrow> hex_digit d \<noteq> CHR ''+''"
  using digit_value_hex_digit [of d] by (auto simp: digit_value_def)

lemma base_value_snoc: "base_value b (ds @ [d]) = b * base_value b ds + digit_value d"
  by (simp add: base_value_def)

lemma to_base_props:
  assumes "2 \<le> b" and "b \<le> 16"
  shows "to_base b n \<noteq> [] \<and> list_all (\<lambda>d. digit_value d < b) (to_base b n) \<and>
    base_value b (to_base b n) = n \<and> hd (to_base b n) \<noteq> CHR ''+''"
proof (induction n rule: less_induct)
  case (less n)
  show ?case
  proof (cases "n < b")
    case True
    with assms show ?thesis
      by (simp add: to_base.simps base_value_def digit_value_hex_digit hex_digit_no_sign)
  next
    case False
    then have "n div b < n" using assms by simp
    moreover have "n mod b < b" using assms by simp
    moreover from this have "digit_value (hex_digit (n mod b)) = n mod b"
      using assms by (intro digit_value_hex_digit) linarith
    ultimately show ?thesis
      using less.IH [of "n div b"] False assms
      by (subst (1 2 3 4) to_base.simps) (simp add: base_value_snoc)
  qed
qed

text \<open>Formatting and parsing are inverse.\<close>

lemma from_str_radix_to_base:
  assumes "2 \<le> b" and "b \<le> 16" and "n < 2 ^ bits"
  shows "from_str_radix bits b (to_base b n) = Some n"
  using to_base_props [OF assms(1,2), of n] assms(3) by (simp add: from_str_radix_def Let_def)

lemma to_base_inject:
  "2 \<le> b \<Longrightarrow> b \<le> 16 \<Longrightarrow> to_base b m = to_base b n \<longleftrightarrow> m = n"
  using to_base_props by metis

text \<open>The lines of a text are split off again.\<close>

lemma split_lines:
  assumes "list_all (\<lambda>l. CHR 0x0A \<notin> set l) ls"
  shows "split_at_char (CHR 0x0A) (concat (map (\<lambda>l. l @ [CHR 0x0A]) ls)) = ls @ [[]]"
  using assms by (induction ls) (simp_all add: split_append)

lemma str_lines_concat:
  assumes "list_all (\<lambda>l. CHR 0x0A \<notin> set l \<and> (l = [] \<or> last l \<noteq> CHR 0x0D)) ls"
  shows "str_lines (concat (map (\<lambda>l. l @ [CHR 0x0A]) ls)) = ls"
proof -
  have "split_at_char (CHR 0x0A) (concat (map (\<lambda>l. l @ [CHR 0x0A]) ls)) = ls @ [[]]"
    using assms by (intro split_lines) (auto simp: list_all_iff)
  with assms show ?thesis by (auto simp: str_lines_def Let_def list_all_iff intro!: map_idI)
qed

end
