(* ===== verification/KernelNames.thy ===== *)
theory KernelNames
  imports RustStrings
begin

text \<open>
  Kernel names and phases, from \<^verbatim>\<open>src/src/kernel.rs\<close>: normalising the names that traced
  processes register, classifying kernels, and mapping range names to a fixed vocabulary.
  The functions that slice return \<open>None\<close> for a panic. Whether a character outside ASCII is
  alphanumeric is the argument \<open>uni\<close> (the compiler's Unicode table).
\<close>

section \<open>Mangled names\<close>

definition ident_ok :: "(nat \<Rightarrow> bool) \<Rightarrow> string \<Rightarrow> bool" where
  "ident_ok uni ident \<longleftrightarrow> list_all (\<lambda>c. is_alphanumeric uni c \<or> c = 95) (chars (map byte ident))"

lemma digit_run_length:
  "i < length name \<Longrightarrow> is_ascii_digit (name ! i) \<Longrightarrow>
     0 < length (takeWhile is_ascii_digit (drop i name))"
  by (simp add: Cons_nth_drop_Suc [symmetric])

text \<open>
  The scan for the longest identifier behind a length prefix. \<open>i + len\<close> is 64-bit arithmetic,
  which wraps in a release build.
\<close>

function scan_mangled :: "(nat \<Rightarrow> bool) \<Rightarrow> string \<Rightarrow> nat \<Rightarrow> string \<Rightarrow> string option" where
  "scan_mangled uni name i best =
     (if i < length name then
        if is_ascii_digit (name ! i) then
          let ds = takeWhile is_ascii_digit (drop i name);
              j = i + length ds;
              len = parse_usize ds;
              e = (j + len) mod 2 ^ 64
          in if len > 0 \<and> e \<le> length name then
               case str_slice name j e of
                 None \<Rightarrow> None
               | Some ident \<Rightarrow>
                   scan_mangled uni name e
                     (if length ident > length best \<and> ident_ok uni ident then ident else best)
             else scan_mangled uni name (j + 1) best
        else scan_mangled uni name (i + 1) best
      else Some best)"
  by pat_completeness auto

termination
proof (relation "measure (\<lambda>(uni, name, i, best). length name - i)")
  fix uni :: "nat \<Rightarrow> bool" and name best :: string and i ds j len e ident
  assume "i < length name" and "is_ascii_digit (name ! i)"
    and "ds = takeWhile is_ascii_digit (drop i name)" and "j = i + length ds"
    and "str_slice name j e = Some ident"
  then have "0 < length ds" and "j = i + length ds" and "j \<le> e"
    by (simp_all add: digit_run_length del: length_greater_0_conv) (auto dest: str_slice_SomeD)
  then have "i < e" by linarith
  with \<open>i < length name\<close> show "((uni, name, e, if length best < length ident \<and> ident_ok uni ident then ident else best),
      uni, name, i, best) \<in> measure (\<lambda>(uni, name, i, best). length name - i)"
    by auto
qed auto

declare scan_mangled.simps [simp del]

section \<open>Normalisation\<close>

fun floor_boundary :: "string \<Rightarrow> nat \<Rightarrow> nat" where
  "floor_boundary s 0 = 0"
| "floor_boundary s (Suc n) = (if is_char_boundary s (Suc n) then Suc n else floor_boundary s n)"

definition truncate_utf8_bytes :: "string \<Rightarrow> nat \<Rightarrow> string" where
  "truncate_utf8_bytes s max_len =
     (if length s \<le> max_len then s else take (floor_boundary s max_len) s)"

text \<open>Template arguments: the nesting depth never exceeds the length of the name.\<close>

fun strip_angles :: "nat \<Rightarrow> string \<Rightarrow> string" where
  "strip_angles d [] = []"
| "strip_angles d (c # s) =
     (if c = CHR ''<'' then strip_angles (d + 1) s
      else if c = CHR ''>'' \<and> d > 0 then strip_angles (d - 1) s
      else if d = 0 then c # strip_angles d s
      else strip_angles d s)"

definition strip_args :: "string \<Rightarrow> string" where
  "strip_args s = takeWhile (\<lambda>c. c \<noteq> CHR ''('') s"

definition strip_suffix :: "string \<Rightarrow> string" where
  "strip_suffix s =
     (let suffix = rev (takeWhile (\<lambda>c. c \<noteq> CHR ''_'') (rev s))
      in if CHR ''_'' \<in> set s \<and> suffix \<noteq> [] \<and> list_all is_ascii_digit suffix
         then take (length s - length suffix - 1) s else s)"

definition normalize_kernel_name :: "(nat \<Rightarrow> bool) \<Rightarrow> string \<Rightarrow> string option" where
  "normalize_kernel_name uni raw =
     (case (if prefix ''_Z'' raw
            then map_option (\<lambda>best. if best = [] then raw else best) (scan_mangled uni raw 2 [])
            else Some raw) of
        None \<Rightarrow> None
      | Some name \<Rightarrow>
          (let final_name = strip_suffix (trim_end (strip_args (strip_angles 0 name)));
               truncated = truncate_utf8_bytes final_name 64
           in Some (if truncated = [] then truncate_utf8_bytes raw 64 else truncated)))"

section \<open>Classification\<close>

definition any_of :: "string list \<Rightarrow> string \<Rightarrow> bool" where
  "any_of pats s \<longleftrightarrow> list_ex (\<lambda>pat. str_contains pat s) pats"

definition classify_kernel :: "string \<Rightarrow> string" where
  "classify_kernel name =
     (let lower = to_ascii_lowercase name
      in if any_of [''flash_fwd'', ''flash_bwd'', ''paged_attention'', ''radix_attention'',
           ''attention'', ''sdpa''] lower then ''attention''
         else if any_of [''gemm'', ''cgemm'', ''cutlass'', ''linear'', ''matmul''] lower then ''gemm''
         else if any_of [''nccl'', ''allreduce'', ''allgather'', ''reduce_scatter''] lower
         then ''collective''
         else if any_of [''softmax'', ''layernorm'', ''rms_norm'', ''gelu'', ''silu''] lower
         then ''activation''
         else if any_of [''memset'', ''memcpy'', ''copy'', ''transpose''] lower then ''memory''
         else if any_of [''sampling'', ''topk'', ''argmax''] lower then ''sampling''
         else ''other'')"

definition sanitize_phase :: "string \<Rightarrow> string" where
  "sanitize_phase raw =
     (if raw = [] then []
      else let lower = to_ascii_lowercase raw
      in if any_of [''prefill'', ''prompt'', ''encode''] lower then ''prefill''
         else if any_of [''decode'', ''generate''] lower then ''decode''
         else if any_of [''attention'', ''attn''] lower then ''attention''
         else if any_of [''mlp'', ''ffn'', ''expert''] lower then ''mlp''
         else if any_of [''norm'', ''embed''] lower then ''norm''
         else ''other'')"

section \<open>Lengths\<close>

lemma floor_boundary_le: "floor_boundary s n \<le> n"
  by (induction n) (auto simp: le_SucI)

lemma floor_boundary_boundary: "is_char_boundary s (floor_boundary s n)"
  by (induction n) (auto simp: is_char_boundary_def)

lemma truncate_length: "length (truncate_utf8_bytes s n) \<le> n"
  using floor_boundary_le [of s n] by (auto simp: truncate_utf8_bytes_def)

lemma truncate_short [simp]: "length s \<le> n \<Longrightarrow> truncate_utf8_bytes s n = s"
  by (simp add: truncate_utf8_bytes_def)

text \<open>Truncation cuts at a character boundary and keeps as much as fits.\<close>

lemma floor_boundary_max:
  "m \<le> n \<Longrightarrow> is_char_boundary s m \<Longrightarrow> m \<le> floor_boundary s n"
  by (induction n) (auto simp: le_Suc_eq)

section \<open>The scan returns on ASCII names\<close>

text \<open>No length prefix of the name has more than eighteen digits.\<close>

definition short_prefixes :: "string \<Rightarrow> bool" where
  "short_prefixes s \<longleftrightarrow>
     list_all (\<lambda>i. length (takeWhile is_ascii_digit (drop i s)) \<le> 18) [0..<length s]"

lemma parse_usize_bound:
  assumes "length (takeWhile is_ascii_digit xs) \<le> 18"
  shows "parse_usize (takeWhile is_ascii_digit xs) < 10 ^ 18"
proof -
  let ?ds = "takeWhile is_ascii_digit xs"
  have "digits_value ?ds < 10 ^ length ?ds"
    by (rule digits_value_bound) (auto simp: list_all_iff dest: set_takeWhileD)
  also have "\<dots> \<le> 10 ^ 18" using assms by (intro power_increasing) simp_all
  finally show ?thesis by (simp add: parse_usize_def)
qed

lemma scan_returns:
  assumes "ascii name" and "short_prefixes name" and "length name < 2 ^ 63"
  shows "\<exists>best'. scan_mangled uni name i best = Some best'"
  using assms
proof (induction uni name i best rule: scan_mangled.induct)
  case (1 uni name i best)
  define ds where "ds = takeWhile is_ascii_digit (drop i name)"
  define j where "j = i + length ds"
  define len where "len = parse_usize ds"
  define e where "e = (j + len) mod 2 ^ 64"
  note IH = "1.IH"(1) [OF _ _ ds_def j_def len_def e_def] "1.IH"(2) [OF _ _ ds_def j_def len_def e_def]
  show ?case
  proof (cases "i < length name \<and> is_ascii_digit (name ! i)")
    case False
    with "1.IH"(3) "1.prems" show ?thesis
      by (subst scan_mangled.simps) auto
  next
    case True
    have "length ds \<le> 18"
      using "1.prems"(2) True by (auto simp: short_prefixes_def ds_def list_all_iff)
    then have "len < 10 ^ 18" unfolding len_def ds_def by (rule parse_usize_bound)
    moreover have "j \<le> length name"
      using True length_takeWhile_le [of is_ascii_digit "drop i name"]
      by (simp add: j_def ds_def) linarith
    ultimately have e: "e = j + len" using "1.prems"(3) by (simp add: e_def)
    have eq: "scan_mangled uni name i best =
        (if len > 0 \<and> e \<le> length name then
           case str_slice name j e of None \<Rightarrow> None
           | Some ident \<Rightarrow> scan_mangled uni name e
               (if length ident > length best \<and> ident_ok uni ident then ident else best)
         else scan_mangled uni name (j + 1) best)"
      using True unfolding e_def len_def j_def ds_def
      by (subst scan_mangled.simps) (simp only: Let_def simp_thms if_True)
    show ?thesis
    proof (cases "len > 0 \<and> e \<le> length name")
      case fit: True
      then have slice: "str_slice name j e = Some (take (e - j) (drop j name))"
        using "1.prems"(1) e by (intro ascii_slice) simp_all
      from IH(1) [OF _ _ fit slice] True "1.prems" slice fit show ?thesis
        by (simp add: eq)
    next
      case nofit: False
      from IH(2) [OF _ _ nofit] True "1.prems" nofit show ?thesis
        unfolding eq by auto
    qed
  qed
qed

section \<open>Stripping\<close>

text \<open>Identifiers of plain names: ASCII letters, digits and underscores.\<close>

definition plain_ident :: "string \<Rightarrow> bool" where
  "plain_ident s \<longleftrightarrow> list_all (\<lambda>c. is_ascii_alnum (byte c) \<or> c = CHR ''_'') s"

lemma plain_ident_chars:
  assumes "plain_ident s" and "c \<in> set s"
  shows "c \<noteq> CHR ''<''" "c \<noteq> CHR ''>''" "c \<noteq> CHR ''(''" "c \<noteq> CHR '' ''"
    "\<not> (9 \<le> byte c \<and> byte c \<le> 13)" "byte c \<noteq> 32" "byte c < 128"
  using assms by (auto simp: plain_ident_def list_all_iff is_ascii_alnum_def)

lemma strip_angles_ident:
  "\<forall>c \<in> set s. c \<noteq> CHR ''<'' \<Longrightarrow> strip_angles 0 (s @ t) = s @ strip_angles 0 t"
  by (induction s) simp_all

lemma strip_angles_inside:
  "\<forall>c \<in> set s. c \<noteq> CHR ''<'' \<and> c \<noteq> CHR ''>'' \<Longrightarrow>
     strip_angles (Suc d) (s @ CHR ''>'' # t) = strip_angles d t"
  by (induction s) simp_all

lemma strip_args_ident:
  "plain_ident s \<Longrightarrow> strip_args (s @ CHR ''('' # t) = s" "plain_ident s \<Longrightarrow> strip_args s = s"
  by (simp_all add: strip_args_def plain_ident_chars(3) takeWhile_eq_all_conv cong: takeWhile_cong)

lemma trim_end_ident: "plain_ident s \<Longrightarrow> trim_end s = s"
proof (cases s rule: rev_cases)
  case (snoc t c)
  assume "plain_ident s"
  then have "byte c < 128" "\<not> (9 \<le> byte c \<and> byte c \<le> 13)" "byte c \<noteq> 32"
    using plain_ident_chars [of s c] snoc by auto
  then show ?thesis by (simp add: trim_end_def snoc trim_rev_ascii del: trim_rev.simps(1))
qed (simp add: trim_end_def)

lemma strip_suffix_numbered:
  assumes "ds \<noteq> []" and "list_all is_ascii_digit ds"
  shows "strip_suffix (s @ CHR ''_'' # ds) = s"
proof -
  have "CHR ''_'' \<notin> set ds"
    using assms(2) by (auto simp: list_all_iff is_ascii_digit_def)
  then have "takeWhile (\<lambda>c. c \<noteq> CHR ''_'') (rev ds @ CHR ''_'' # rev s) = rev ds"
    by (subst takeWhile_append2) auto
  then show ?thesis using assms by (simp add: strip_suffix_def)
qed

lemma strip_suffix_id:
  assumes "\<And>t ds. s = t @ CHR ''_'' # ds \<Longrightarrow> ds \<noteq> [] \<Longrightarrow> \<not> list_all is_ascii_digit ds"
  shows "strip_suffix s = s"
proof (cases "CHR ''_'' \<in> set s")
  case True
  then obtain t ds where split: "s = t @ CHR ''_'' # ds" "CHR ''_'' \<notin> set ds"
    by (meson split_list_last)
  then have "takeWhile (\<lambda>c. c \<noteq> CHR ''_'') (rev ds @ CHR ''_'' # rev t) = rev ds"
    by (subst takeWhile_append2) auto
  with split assms [of t ds] show ?thesis by (auto simp: strip_suffix_def)
qed (simp add: strip_suffix_def)

text \<open>A name with nothing to strip: no mangling, no numeric suffix, short enough.\<close>

definition clean_name :: "string \<Rightarrow> bool" where
  "clean_name s \<longleftrightarrow>
     s \<noteq> [] \<and> length s \<le> 64 \<and> plain_ident s \<and> \<not> prefix ''_Z'' s \<and> strip_suffix s = s"

lemma not_mangled:
  assumes "clean_name s" and "hd t \<noteq> CHR ''Z''" and "t \<noteq> []"
  shows "\<not> prefix ''_Z'' (s @ t)"
proof (cases s)
  case Nil
  with assms(1) show ?thesis by (simp add: clean_name_def)
next
  case (Cons a r)
  with assms show ?thesis
    by (cases r; cases t) (auto simp: clean_name_def)
qed

lemma normalize_plain:
  assumes "\<not> prefix ''_Z'' raw" and "trim_end (strip_args (strip_angles 0 raw)) = base"
    and "strip_suffix base = s" and "s \<noteq> []" and "length s \<le> 64"
  shows "normalize_kernel_name uni raw = Some s"
  using assms by (simp add: normalize_kernel_name_def)

section \<open>Properties\<close>

text \<open>
  What is stripped. A plain kernel name comes out of every decoration unchanged: as it is,
  with template arguments and a parameter list, with a parameter list alone, and with a
  numeric suffix.
\<close>

lemma normalize_strips:
  assumes "clean_name s" and "list_all (\<lambda>c. c \<noteq> CHR ''<'' \<and> c \<noteq> CHR ''>'') targs"
    and "list_all is_ascii_digit ds" and "ds \<noteq> []"
  shows "normalize_kernel_name uni s = Some s \<and>
    normalize_kernel_name uni (s @ ''<'' @ targs @ ''>('' @ args) = Some s \<and>
    normalize_kernel_name uni (s @ ''('' @ args) = Some s \<and>
    normalize_kernel_name uni (s @ ''_'' @ ds) = Some s"
proof (intro conjI)
  have plain: "plain_ident s" and nonempty: "s \<noteq> []" and short: "length s \<le> 64"
    and id: "strip_suffix s = s" and unmangled: "\<not> prefix ''_Z'' s"
    using assms(1) by (simp_all add: clean_name_def)
  have no_lt: "\<forall>c \<in> set s. c \<noteq> CHR ''<''" using plain_ident_chars [OF plain] by blast
  have angles: "strip_angles 0 s = s"
    using strip_angles_ident [OF no_lt, of "[]"] by simp
  note facts = normalize_plain [OF _ _ _ nonempty short]
  note strip = strip_angles_ident [OF no_lt] strip_args_ident [OF plain] trim_end_ident [OF plain]
  show "normalize_kernel_name uni s = Some s"
    by (rule facts [OF unmangled _ id]) (simp add: angles strip)
  show "normalize_kernel_name uni (s @ ''<'' @ targs @ ''>('' @ args) = Some s"
  proof (rule facts [OF not_mangled [OF assms(1)] _ id])
    have inside: "strip_angles (Suc 0) (targs @ CHR ''>'' # CHR ''('' # args) =
        CHR ''('' # strip_angles 0 args"
      using assms(2) by (subst strip_angles_inside) (simp_all add: list_all_iff)
    show "trim_end (strip_args (strip_angles 0 (s @ ''<'' @ targs @ ''>('' @ args))) = s"
      by (simp add: strip inside)
  qed simp_all
  show "normalize_kernel_name uni (s @ ''('' @ args) = Some s"
    by (rule facts [OF not_mangled [OF assms(1)] _ id]) (simp_all add: strip)
  show "normalize_kernel_name uni (s @ ''_'' @ ds) = Some s"
  proof (rule facts [OF not_mangled [OF assms(1)]])
    have "plain_ident (s @ ''_'' @ ds)"
      using plain assms(3) by (auto simp: plain_ident_def list_all_iff is_ascii_digit_def is_ascii_alnum_def)
    moreover from this have "\<forall>c \<in> set (s @ ''_'' @ ds). c \<noteq> CHR ''<''"
      using plain_ident_chars by blast
    ultimately show "trim_end (strip_args (strip_angles 0 (s @ ''_'' @ ds))) = s @ ''_'' @ ds"
      using strip_angles_ident [of "s @ ''_'' @ ds" "[]"] by (simp add: strip_args_ident trim_end_ident)
    show "strip_suffix (s @ ''_'' @ ds) = s"
      using strip_suffix_numbered [OF assms(4,3)] by simp
  qed simp_all
qed

lemma normalize_strips_witness:
  "normalize_kernel_name (\<lambda>_. False) (''gemm'' @ ''<'' @ ''float, 128'' @ ''>('' @ ''float*)'') = Some ''gemm''"
proof -
  have "clean_name ''gemm''"
    by code_simp
  then show ?thesis
    using normalize_strips [of "''gemm''" "''float, 128''" "''2''" "\<lambda>_. False" "''float*)''"]
    by (simp add: is_ascii_digit_def)
qed

lemma normalize_bounded: "normalize_kernel_name uni raw = Some s \<Longrightarrow> length s \<le> 64"
  using truncate_length
  by (auto simp: normalize_kernel_name_def Let_def split: option.splits if_splits)

lemma truncate_ascii: "ascii s \<Longrightarrow> truncate_utf8_bytes s n = take n s"
proof (cases "length s \<le> n")
  case False
  moreover assume "ascii s"
  ultimately have "floor_boundary s n = n"
    using floor_boundary_max [of n n s] floor_boundary_le [of s n] ascii_boundary by force
  with False show ?thesis by (simp add: truncate_utf8_bytes_def)
qed simp

text \<open>
  C36. Names are always produced. For an ASCII name none of whose length prefixes has more than
  eighteen digits, normalisation returns; the result has at most 64 bytes and is empty only
  for the empty name. (A string never has 2 to the 63 bytes.)
\<close>

theorem normalize_returns:
  assumes "ascii raw" and "short_prefixes raw" and "length raw < 2 ^ 63"
  shows "\<exists>s. normalize_kernel_name uni raw = Some s \<and> length s \<le> 64 \<and> (s = [] \<longleftrightarrow> raw = [])"
proof -
  obtain best where "scan_mangled uni raw 2 [] = Some best"
    using scan_returns [OF assms] by blast
  then have "normalize_kernel_name uni raw \<noteq> None"
    by (simp add: normalize_kernel_name_def Let_def)
  then obtain s where s: "normalize_kernel_name uni raw = Some s" by blast
  moreover have "s = [] \<longleftrightarrow> raw = []"
  proof
    assume "s = []"
    with s have "truncate_utf8_bytes raw 64 = []"
      by (auto simp: normalize_kernel_name_def Let_def split: option.splits if_splits)
    then show "raw = []" by (simp add: truncate_ascii [OF assms(1)])
  next
    assume "raw = []"
    with s show "s = []"
      by (simp add: normalize_kernel_name_def strip_args_def trim_end_def strip_suffix_def)
  qed
  ultimately show ?thesis using normalize_bounded by blast
qed

theorem normalize_returns_witness:
  "\<exists>s. normalize_kernel_name (\<lambda>_. False) ''_ZN4cuda6detail20softmax_warp_forwardIfEvPT_'' = Some s \<and>
     length s \<le> 64 \<and> s \<noteq> []"
proof -
  have "ascii ''_ZN4cuda6detail20softmax_warp_forwardIfEvPT_''" by code_simp
  moreover have "short_prefixes ''_ZN4cuda6detail20softmax_warp_forwardIfEvPT_''" by code_simp
  ultimately show ?thesis
    using normalize_returns [of "''_ZN4cuda6detail20softmax_warp_forwardIfEvPT_''" "\<lambda>_. False"] by auto
qed

lemma scan_panics:
  assumes "i < length name" and "is_ascii_digit (name ! i)"
    and "takeWhile is_ascii_digit (drop i name) = ds" and "parse_usize ds > 0"
    and "(i + length ds + parse_usize ds) mod 2 ^ 64 \<le> length name"
    and "str_slice name (i + length ds) ((i + length ds + parse_usize ds) mod 2 ^ 64) = None"
  shows "scan_mangled uni name i best = None"
  using assms by (subst scan_mangled.simps) (simp only: Let_def simp_thms if_True option.case)



text \<open>
  Labels come from fixed vocabularies. The class of a kernel is one of seven words and the
  phase of a range is one of six or empty, empty exactly for the empty range name; neither
  depends on upper or lower case. Range names and kernel names therefore add at most a
  constant number of label values.
\<close>

lemma labels_from_vocabulary:
  "classify_kernel name \<in> {''attention'', ''gemm'', ''collective'', ''activation'', ''memory'',
     ''sampling'', ''other''} \<and>
   sanitize_phase raw \<in> {[], ''prefill'', ''decode'', ''attention'', ''mlp'', ''norm'', ''other''} \<and>
   (sanitize_phase raw = [] \<longleftrightarrow> raw = []) \<and>
   classify_kernel (to_ascii_lowercase name) = classify_kernel name \<and>
   sanitize_phase (to_ascii_lowercase raw) = sanitize_phase raw"
proof -
  have "ascii_lower (ascii_lower c) = ascii_lower c" for c
    by (simp add: ascii_lower_def)
  then have lower: "to_ascii_lowercase (to_ascii_lowercase s) = to_ascii_lowercase s" for s
    by (simp add: to_ascii_lowercase_def)
  have nil: "to_ascii_lowercase raw = [] \<longleftrightarrow> raw = []" by (simp add: to_ascii_lowercase_def)
  show ?thesis
    by (intro conjI) (simp_all add: classify_kernel_def sanitize_phase_def Let_def lower nil)
qed

text \<open>
  Two names of the documentation of \<^verbatim>\<open>normalize_kernel_name\<close>: a return type is kept, and a
  length prefix that covers the template marker keeps the marker.
\<close>

lemma normalize_documented:
  "normalize_kernel_name uni ''void gemm_kernel<float, 128, 64>(float*, int)'' = Some ''void gemm_kernel''"
  by (simp add: normalize_kernel_name_def strip_args_def trim_end_def strip_suffix_def
      is_ascii_digit_def)

lemma normalize_documented_mangled:
  "normalize_kernel_name (\<lambda>_. False) ''_ZN4cuda6detail21softmax_warp_forwardIfEvPT_'' =
     Some ''softmax_warp_forwardI''"
  by (simp add: normalize_kernel_name_def scan_mangled.simps strip_args_def trim_end_def
      strip_suffix_def is_ascii_digit_def parse_usize_def digits_value_def str_slice_def
      is_char_boundary_def ident_ok_def is_alphanumeric_def is_ascii_alnum_def Let_def)

end
