(* ===== verification/MetricNames.thy ===== *)
theory MetricNames
  imports RustStrings Events KernelNames
begin

text \<open>
  The label values of the exported metrics, from \<^verbatim>\<open>src/src/metrics.rs\<close>: names of operations,
  copy directions and streams, the hash that stands for a range name in the key of a
  metric handle, the byte size of a collective, and the upper bounds of the histogram
  counters as their label texts. The event numbers are those of the shared header, which
  the Rust mirror repeats.
\<close>

section \<open>Label values\<close>

definition operation_names :: "(u32 \<times> string) list" where
  "operation_names =
     [(EVENT_CUDA_MALLOC, ''cudaMalloc''), (EVENT_CUDA_FREE, ''cudaFree''),
      (EVENT_CUDA_MEMCPY, ''cudaMemcpy''), (EVENT_CUDA_MEMCPY_ASYNC, ''cudaMemcpyAsync''),
      (EVENT_CUDA_LAUNCH_KERNEL, ''cudaLaunchKernel''),
      (EVENT_CUDA_MALLOC_ASYNC, ''cudaMallocAsync''), (EVENT_CUDA_FREE_ASYNC, ''cudaFreeAsync''),
      (EVENT_NCCL_ALL_REDUCE, ''ncclAllReduce''), (EVENT_NCCL_ALL_GATHER, ''ncclAllGather''),
      (EVENT_NCCL_REDUCE_SCATTER, ''ncclReduceScatter''), (EVENT_NCCL_BROADCAST, ''ncclBroadcast''),
      (EVENT_NCCL_SEND, ''ncclSend''), (EVENT_NCCL_RECV, ''ncclRecv''),
      (EVENT_CUDA_STREAM_SYNC, ''cudaStreamSync''), (EVENT_CUDA_EVENT_SYNC, ''cudaEventSync''),
      (EVENT_CUDA_MALLOC_HOST, ''cudaMallocHost''), (EVENT_CUDA_FREE_HOST, ''cudaFreeHost''),
      (EVENT_CUDA_MEMSET, ''cudaMemset''), (EVENT_CUDA_MEMSET_ASYNC, ''cudaMemsetAsync''),
      (EVENT_CUDA_GRAPH_LAUNCH, ''cudaGraphLaunch''),
      (EVENT_CUDA_GRAPH_INSTANTIATE, ''cudaGraphInstantiate''),
      (EVENT_CUDA_MODULE_LOAD, ''cuModuleLoadData'')]"

definition operation_name :: "u32 \<Rightarrow> string" where
  "operation_name event_type =
     (case map_of operation_names event_type of Some n \<Rightarrow> n | None \<Rightarrow> ''unknown'')"

definition nccl_event_bytes :: "CudaEvent \<Rightarrow> u64" where
  "nccl_event_bytes event =
     (let count = ce_size event; dtype = unat (ce_memcpy_kind event);
          dtype_size = (if dtype < length NCCL_DTYPE_SIZES then NCCL_DTYPE_SIZES ! dtype else 1)
      in count * dtype_size)"

definition stream_label :: "u64 \<Rightarrow> string" where
  "stream_label stream = (if stream = 0 then ''default'' else ''0x'' @ fmt_hex (unat stream))"

definition memcpy_direction :: "u32 \<Rightarrow> string" where
  "memcpy_direction kind =
     (if kind = MEMCPY_H2H then ''h2h'' else if kind = MEMCPY_H2D then ''h2d''
      else if kind = MEMCPY_D2H then ''d2h'' else if kind = MEMCPY_D2D then ''d2d''
      else if kind > 255 then ''p2p'' else ''unknown'')"

definition nvtx_hash :: "u8 list \<Rightarrow> u64" where
  "nvtx_hash marker = fold (\<lambda>b h. h * 31 + ucast b) marker 0"

section \<open>Histogram bounds as label texts\<close>

definition CUDA_DURATION_BUCKET_LE :: "string list" where
  "CUDA_DURATION_BUCKET_LE =
     [''0.000001'', ''0.000005'', ''0.00001'', ''0.00005'', ''0.0001'', ''0.0005'', ''0.001'',
      ''0.005'', ''0.01'', ''0.05'', ''0.1'', ''0.5'', ''1'', ''+Inf'']"

definition NCCL_DURATION_BUCKET_LE :: "string list" where
  "NCCL_DURATION_BUCKET_LE =
     [''0.00001'', ''0.00005'', ''0.0001'', ''0.0005'', ''0.001'', ''0.005'', ''0.01'', ''0.05'',
      ''0.1'', ''0.5'', ''1'', ''+Inf'']"

definition CUDA_KERNEL_DURATION_BUCKET_LE :: "string list" where
  "CUDA_KERNEL_DURATION_BUCKET_LE =
     [''0.000001'', ''0.000005'', ''0.00001'', ''0.00005'', ''0.0001'', ''0.0005'', ''0.001'',
      ''0.01'', ''+Inf'']"

text \<open>
  \<^verbatim>\<open>inc_cumulative_bucket_counters\<close> of \<^verbatim>\<open>src/src/main.rs\<close>: the increments of the counters
  under the base labels, with the label text of the bound; nothing is added while the running
  sum is 0.
\<close>

fun cumulative_incs :: "u64 \<Rightarrow> string list \<Rightarrow> u64 list \<Rightarrow> (string \<times> u64) list" where
  "cumulative_incs cumulative (le # les) (count # counts) =
     (let cumulative' = cumulative + count
      in (if cumulative' = 0 then [] else [(le, cumulative')]) @ cumulative_incs cumulative' les counts)"
| "cumulative_incs cumulative _ _ = []"

definition inc_cumulative_bucket_counters :: "string list \<Rightarrow> u64 list \<Rightarrow> (string \<times> u64) list" where
  "inc_cumulative_bucket_counters le_values bucket_counts = cumulative_incs 0 le_values bucket_counts"

section \<open>Operations\<close>

lemma operation_names_distinct:
  "distinct (map fst operation_names)" "distinct (map snd operation_names)"
  "''unknown'' \<notin> set (map snd operation_names)"
  by (simp_all add: operation_names_def event_defs)

lemma map_of_inj:
  assumes "distinct (map fst xs)" and "distinct (map snd xs)"
    and "map_of xs a = Some v" and "map_of xs b = Some v"
  shows "a = b"
proof -
  have "(a, v) \<in> set xs" and "(b, v) \<in> set xs" using assms(3,4) by (auto dest: map_of_SomeD)
  then show ?thesis
    using assms(2) inj_onD [of snd "set xs" "(a, v)" "(b, v)"] by (simp add: distinct_map)
qed

text \<open>Operations with different numbers never share a label, apart from the unknown ones.\<close>

lemma operation_name_inject:
  assumes "operation_name a = operation_name b" and "operation_name a \<noteq> ''unknown''"
  shows "a = b"
proof -
  obtain n m where n: "map_of operation_names a = Some n" and m: "map_of operation_names b = Some m"
    using assms by (auto simp: operation_name_def split: option.splits)
  with assms(1) have "n = m" by (simp add: operation_name_def)
  with map_of_inj [OF operation_names_distinct(1,2) n] m show ?thesis by simp
qed

lemma stream_label_inject: "stream_label a = stream_label b \<longleftrightarrow> a = b"
  by (auto simp: stream_label_def fmt_hex_def to_base_inject word_unat_eq_iff)

section \<open>The hash of a range name\<close>

text \<open>
  Two range names with the same hash, of which one belongs to a phase and the other does
  not: launches under the second use the handle, and the phase label, of the first.
\<close>

definition marker_of :: "string \<Rightarrow> u8 list" where
  "marker_of s = map (\<lambda>c. of_nat (byte c)) s @ replicate (16 - length s) 0"

lemma nvtx_hash_collision:
  "nvtx_hash (marker_of ''norm'') = nvtx_hash (marker_of ''npSm'') \<and>
   sanitize_phase ''norm'' = ''norm'' \<and> sanitize_phase ''npSm'' = ''other''"
  by (simp add: nvtx_hash_def marker_of_def sanitize_phase_def any_of_def to_ascii_lowercase_def
      ascii_lower_def)

end
