(* ===== verification/Exposition.thy ===== *)
theory Exposition
  imports DrainFacts MetricNames
begin

text \<open>
  What a scrape of the histogram counters shows. The tick adds to the counter of every bound
  the running sum of the drained cells up to it; together with the meaning of the cells this
  gives the number of calls whose duration does not exceed the bound that the label text
  of the counter names.
\<close>

section \<open>Label texts and bounds\<close>

text \<open>A decimal number of seconds in nanoseconds.\<close>

definition label_ns :: "string \<Rightarrow> nat" where
  "label_ns s =
     (case split_at_char (CHR ''.'') s of
        [i] \<Rightarrow> base_value 10 i * 10 ^ 9
      | [i, f] \<Rightarrow> base_value 10 i * 10 ^ 9 + base_value 10 f * 10 ^ (9 - length f)
      | _ \<Rightarrow> 0)"

lemma label_texts:
  "map label_ns (butlast CUDA_DURATION_BUCKET_LE) = map unat CUDA_BUCKET_BOUNDS_NS"
  "map label_ns (butlast NCCL_DURATION_BUCKET_LE) = map unat NCCL_BUCKET_BOUNDS_NS"
  "map label_ns (butlast CUDA_KERNEL_DURATION_BUCKET_LE) = map unat KERNEL_BUCKET_BOUNDS_NS"
  "last CUDA_DURATION_BUCKET_LE = ''+Inf''" "last NCCL_DURATION_BUCKET_LE = ''+Inf''"
  "last CUDA_KERNEL_DURATION_BUCKET_LE = ''+Inf''"
  by (simp_all add: CUDA_DURATION_BUCKET_LE_def NCCL_DURATION_BUCKET_LE_def
      CUDA_KERNEL_DURATION_BUCKET_LE_def CUDA_BUCKET_BOUNDS_NS_def NCCL_BUCKET_BOUNDS_NS_def
      KERNEL_BUCKET_BOUNDS_NS_def label_ns_def base_value_def digit_value_def)

section \<open>Running sums\<close>

lemma cumulative_incs_labels:
  "x \<in> set (cumulative_incs d les counts) \<Longrightarrow> fst x \<in> set les"
  by (induction d les counts rule: cumulative_incs.induct) (auto simp: Let_def split: if_splits)

lemma cumulative_incs_nth:
  assumes "distinct les" and "j < length les" and "length counts = length les"
  shows "map_of (cumulative_incs c les counts) (les ! j) =
    (let n = c + sum_list (take (Suc j) counts) in if n = 0 then None else Some n)"
  using assms
proof (induction c les counts arbitrary: j rule: cumulative_incs.induct)
  case (1 c le les count counts)
  have fresh: "le \<notin> fst ` set (cumulative_incs d les counts)" for d
    using "1.prems"(1) cumulative_incs_labels by fastforce
  then have none: "map_of (cumulative_incs d les counts) le = None" for d
    by (simp add: map_of_eq_None_iff)
  show ?case
  proof (cases j)
    case 0
    then show ?thesis by (simp add: Let_def none map_add_def)
  next
    case (Suc k)
    with "1.prems" have "les ! k \<noteq> le" by (auto simp: set_conv_nth)
    with Suc 1 show ?thesis by (auto simp: Let_def add.assoc)
  qed
qed simp_all

text \<open>
  C18. The exported histogram is exact. When the totals of a set of calls are added to the
  histogram counters, the counter whose label text names a bound grows by the number of
  calls not longer than that bound, the one labelled \<^verbatim>\<open>+Inf\<close> by the number of all calls, each
  times the sampling rate; and the label texts are the bounds the probes sort by, in
  seconds.
\<close>

theorem histogram_exact:
  assumes "j < 14"
  shows "map_of (inc_cumulative_bucket_counters CUDA_DURATION_BUCKET_LE (t_buckets (agg_totals mul ss)))
      (CUDA_DURATION_BUCKET_LE ! j) =
    (let n = of_nat (length (filter (\<lambda>s. j = 13 \<or> fst s \<le> CUDA_BUCKET_BOUNDS_NS ! j) ss)) * mul
     in if n = 0 then None else Some n) \<and>
    (if j = 13 then CUDA_DURATION_BUCKET_LE ! j = ''+Inf''
     else label_ns (CUDA_DURATION_BUCKET_LE ! j) = unat (CUDA_BUCKET_BOUNDS_NS ! j))"
proof
  let ?cell = "\<lambda>i. of_nat (length (filter (in_bucket CUDA_BUCKET_BOUNDS_NS i \<circ> fst) ss)) * mul"
  have les: "distinct CUDA_DURATION_BUCKET_LE" "length CUDA_DURATION_BUCKET_LE = 14"
    and bounds: "length CUDA_BUCKET_BOUNDS_NS = 13"
    by (simp_all add: CUDA_DURATION_BUCKET_LE_def CUDA_BUCKET_BOUNDS_NS_def)
  have "take (Suc j) (t_buckets (agg_totals mul ss)) = map ?cell [0..<Suc j]"
    using assms by (simp add: agg_totals_def take_map min_def del: upt_Suc)
  moreover have "sum_list (map ?cell [0..<Suc j]) =
      of_nat (length (filter (\<lambda>s. j = 13 \<or> fst s \<le> CUDA_BUCKET_BOUNDS_NS ! j) ss)) * mul"
    using cuda_hist.cells_upto [of j fst ss mul] bounds assms by fastforce
  ultimately show "map_of (inc_cumulative_bucket_counters CUDA_DURATION_BUCKET_LE
      (t_buckets (agg_totals mul ss))) (CUDA_DURATION_BUCKET_LE ! j) =
    (let n = of_nat (length (filter (\<lambda>s. j = 13 \<or> fst s \<le> CUDA_BUCKET_BOUNDS_NS ! j) ss)) * mul
     in if n = 0 then None else Some n)"
    unfolding inc_cumulative_bucket_counters_def
    by (subst cumulative_incs_nth) (use les assms in \<open>simp_all add: agg_totals_def\<close>)
  show "if j = 13 then CUDA_DURATION_BUCKET_LE ! j = ''+Inf''
     else label_ns (CUDA_DURATION_BUCKET_LE ! j) = unat (CUDA_BUCKET_BOUNDS_NS ! j)"
  proof (cases "j = 13")
    case True
    then show ?thesis by (simp add: CUDA_DURATION_BUCKET_LE_def)
  next
    case False
    with arg_cong [OF label_texts(1), of "\<lambda>xs. xs ! j"] les(2) bounds assms show ?thesis
      by (simp add: nth_butlast)
  qed
qed

theorem histogram_exact_witness:
  "map_of (inc_cumulative_bucket_counters CUDA_DURATION_BUCKET_LE
     (t_buckets (agg_totals 1 [(1500, 64), (7000, 8)]))) ''0.000005'' = Some 1"
  using histogram_exact [of 1 1 "[(1500, 64), (7000, 8)]"]
  by (simp add: CUDA_DURATION_BUCKET_LE_def CUDA_BUCKET_BOUNDS_NS_def Let_def)

end
