(* ===== verification/Ticks.thy ===== *)
theory Ticks
  imports Threads
begin

text \<open>
  The periodic work of the main loop of \<^verbatim>\<open>src/src/main.rs\<close> besides draining: the aggregation
  tick reads the two drop counters, adds what is new to the exported counters and adapts its
  own frequency, and brings \<^verbatim>\<open>UPGRADED_PIDS\<close> in step with the processes of annotated pods;
  the collection tick looks for collectives that have been in flight too long. Arithmetic
  is that of a release build: it wraps.
\<close>

section \<open>Reading a drop counter\<close>

text \<open>
  \<^verbatim>\<open>read_percpu_counter\<close>: the sum of element 0 over the CPUs; a failed lookup gives nothing.
  Every value is eight bytes long, so none is skipped.
\<close>

definition read_percpu_counter :: "cpu list \<Rightarrow> u64 percpu_array \<Rightarrow> u64 option" where
  "read_percpu_counter cpus m =
     (if list_all (\<lambda>c. percpu_array_lookup c m 0 \<noteq> None) cpus
      then Some (sum_list (map (\<lambda>c. the (percpu_array_lookup c m 0)) cpus)) else None)"

text \<open>\<^verbatim>\<open>saturating_sub\<close>.\<close>

definition sat_sub :: "u64 \<Rightarrow> u64 \<Rightarrow> u64" where
  "sat_sub a b = (if b \<le> a then a - b else 0)"

section \<open>The state of the tick\<close>

text \<open>
  The loop's variables, and the exported counters \<^verbatim>\<open>dropped_events\<close> and
  \<^verbatim>\<open>launch_agg_drops\<close>. The interval is 100 ms when \<open>agg_interval_fast\<close> holds and 1 s
  otherwise.
\<close>

record tick_state =
  last_dropped_total :: u64
  last_launch_dropped :: u64
  consecutive_overflow_ticks :: u32
  consecutive_clear_ticks :: u32
  agg_interval_fast :: bool
  dropped_events :: u64
  launch_agg_drops :: u64

definition tick_init :: tick_state where
  "tick_init = \<lparr>last_dropped_total = 0, last_launch_dropped = 0, consecutive_overflow_ticks = 0,
     consecutive_clear_ticks = 0, agg_interval_fast = False, dropped_events = 0,
     launch_agg_drops = 0\<rparr>"

definition launch_drop_tick :: "u64 option \<Rightarrow> tick_state \<Rightarrow> tick_state" where
  "launch_drop_tick read s =
     (case read of
        None \<Rightarrow> s
      | Some tot \<Rightarrow>
          (let delta = sat_sub tot (last_launch_dropped s)
           in if delta > 0
              then s\<lparr>launch_agg_drops := launch_agg_drops s + delta, last_launch_dropped := tot\<rparr>
              else s))"

definition drop_tick :: "u64 option \<Rightarrow> tick_state \<Rightarrow> tick_state" where
  "drop_tick read s =
     (case read of
        None \<Rightarrow> s
      | Some tot \<Rightarrow>
          (let delta = sat_sub tot (last_dropped_total s)
           in if delta > 0
              then (let overflow = consecutive_overflow_ticks s + 1
                    in s\<lparr>dropped_events := dropped_events s + delta,
                         consecutive_overflow_ticks := overflow,
                         consecutive_clear_ticks := 0,
                         agg_interval_fast :=
                           (if overflow \<ge> 3 \<and> \<not> agg_interval_fast s then True else agg_interval_fast s),
                         last_dropped_total := tot\<rparr>)
              else (let clear = consecutive_clear_ticks s + 1
                    in s\<lparr>consecutive_overflow_ticks := 0,
                         consecutive_clear_ticks := clear,
                         agg_interval_fast :=
                           (if clear \<ge> 30 \<and> agg_interval_fast s then False else agg_interval_fast s)\<rparr>)))"

text \<open>The counter part of one aggregation tick.\<close>

definition counters_tick :: "cpu list \<Rightarrow> bpf_state \<Rightarrow> tick_state \<Rightarrow> tick_state" where
  "counters_tick cpus st s =
     drop_tick (read_percpu_counter cpus (DROPPED st))
       (launch_drop_tick (read_percpu_counter cpus (LAUNCH_DROPPED st)) s)"

section \<open>Processes in full mode\<close>

text \<open>
  Keeping the map in step with \<open>desired\<close>, the processes of annotated pods. The reader
  remembers in \<open>synced\<close> what it wrote last, and looks at the map itself only while that is
  empty. \<open>fails pid\<close>: the insertion does not find room; the code ignores the result.
\<close>

definition sync_upgraded ::
    "(u32 \<Rightarrow> bool) \<Rightarrow> u32 set \<Rightarrow> u32 set \<Rightarrow> (u32, u8) hash \<Rightarrow> u32 set \<times> (u32, u8) hash" where
  "sync_upgraded fails desired synced m =
     (let known = (if synced = {} then dom m else synced)
      in (desired,
          (\<lambda>pid. if pid \<in> known - desired then None
                 else if pid \<in> desired - known \<and> \<not> fails pid then Some 1
                 else m pid)))"

section \<open>Collectives that hang\<close>

text \<open>
  The scan of the in-flight map, over the keys the kernel lists: event type and process of
  every collective older than the timeout; a timeout of 0 turns the scan off.
\<close>

definition nccl_hang_scan ::
    "u64 \<Rightarrow> u64 \<Rightarrow> u64 list \<Rightarrow> (u64, EntryData) hash \<Rightarrow> (u32 \<times> u32) list" where
  "nccl_hang_scan now_ns timeout_ns keys m =
     (if timeout_ns = 0 then []
      else List.map_filter
        (\<lambda>key. case m key of
           None \<Rightarrow> None
         | Some entry \<Rightarrow>
             if EVENT_NCCL_ALL_REDUCE \<le> ed_event_type entry \<and> ed_event_type entry \<le> EVENT_NCCL_RECV \<and>
                sat_sub now_ns (ed_timestamp_ns entry) > timeout_ns
             then Some (ed_event_type entry, ucast (drop_bit 32 key)) else None) keys)"

section \<open>Adaptive frequency\<close>

text \<open>
  The counters of consecutive ticks stay below their thresholds until the mode changes, so
  the mode cannot be missed even though they are 32 bits wide.
\<close>

definition tick_inv :: "tick_state \<Rightarrow> bool" where
  "tick_inv s \<longleftrightarrow>
     (\<not> agg_interval_fast s \<longrightarrow> consecutive_overflow_ticks s < 3) \<and>
     (agg_interval_fast s \<longrightarrow> consecutive_clear_ticks s < 30)"

lemma tick_inv_init: "tick_inv tick_init"
  by (simp add: tick_inv_def tick_init_def)

lemma tick_inv_drop_tick: "tick_inv s \<Longrightarrow> tick_inv (drop_tick read s)"
  by (auto simp: tick_inv_def drop_tick_def Let_def split: option.split)

lemma tick_inv_launch_drop_tick: "tick_inv s \<Longrightarrow> tick_inv (launch_drop_tick read s)"
  by (auto simp: tick_inv_def launch_drop_tick_def Let_def split: option.split)

lemma drop_tick_overflow:
  assumes "tot > last_dropped_total s"
  shows "last_dropped_total (drop_tick (Some tot) s) = tot"
    "consecutive_overflow_ticks (drop_tick (Some tot) s) = consecutive_overflow_ticks s + 1"
    "consecutive_clear_ticks (drop_tick (Some tot) s) = 0"
    "agg_interval_fast (drop_tick (Some tot) s) \<longleftrightarrow>
       agg_interval_fast s \<or> consecutive_overflow_ticks s + 1 \<ge> 3"
    "dropped_events (drop_tick (Some tot) s) = dropped_events s + (tot - last_dropped_total s)"
proof -
  have "sat_sub tot (last_dropped_total s) > 0"
    using assms order.strict_implies_order [OF assms] by (auto simp: sat_sub_def word_gt_0)
  moreover have "sat_sub tot (last_dropped_total s) = tot - last_dropped_total s"
    using order.strict_implies_order [OF assms] by (simp add: sat_sub_def)
  ultimately show
    "last_dropped_total (drop_tick (Some tot) s) = tot"
    "consecutive_overflow_ticks (drop_tick (Some tot) s) = consecutive_overflow_ticks s + 1"
    "consecutive_clear_ticks (drop_tick (Some tot) s) = 0"
    "agg_interval_fast (drop_tick (Some tot) s) \<longleftrightarrow>
       agg_interval_fast s \<or> consecutive_overflow_ticks s + 1 \<ge> 3"
    "dropped_events (drop_tick (Some tot) s) = dropped_events s + (tot - last_dropped_total s)"
    by (auto simp: drop_tick_def Let_def)
qed

lemma drop_tick_clear:
  assumes "tot \<le> last_dropped_total s"
  shows "last_dropped_total (drop_tick (Some tot) s) = last_dropped_total s"
    "consecutive_overflow_ticks (drop_tick (Some tot) s) = 0"
    "consecutive_clear_ticks (drop_tick (Some tot) s) = consecutive_clear_ticks s + 1"
    "agg_interval_fast (drop_tick (Some tot) s) \<longleftrightarrow>
       agg_interval_fast s \<and> \<not> consecutive_clear_ticks s + 1 \<ge> 30"
    "dropped_events (drop_tick (Some tot) s) = dropped_events s"
proof -
  have "sat_sub tot (last_dropped_total s) = 0"
    using assms by (auto simp: sat_sub_def)
  then show
    "last_dropped_total (drop_tick (Some tot) s) = last_dropped_total s"
    "consecutive_overflow_ticks (drop_tick (Some tot) s) = 0"
    "consecutive_clear_ticks (drop_tick (Some tot) s) = consecutive_clear_ticks s + 1"
    "agg_interval_fast (drop_tick (Some tot) s) \<longleftrightarrow>
       agg_interval_fast s \<and> \<not> consecutive_clear_ticks s + 1 \<ge> 30"
    "dropped_events (drop_tick (Some tot) s) = dropped_events s"
    by (auto simp: drop_tick_def Let_def)
qed

lemma tick_inv_fold: "tick_inv s \<Longrightarrow> tick_inv (fold drop_tick reads s)"
  by (induction reads arbitrary: s) (simp_all add: tick_inv_drop_tick)

lemma three_overflows:
  assumes "tick_inv s" and "last_dropped_total s < a" and "a < b" and "b < c"
  shows "agg_interval_fast (fold drop_tick [Some a, Some b, Some c] s)"
proof (cases "agg_interval_fast s")
  case True
  with assms show ?thesis by (simp add: drop_tick_overflow)
next
  case False
  let ?n = "consecutive_overflow_ticks s"
  have "?n < 3" using assms(1) False by (simp add: tick_inv_def)
  then have "unat ?n < 3" by (simp add: word_less_nat_alt)
  then have "unat ?n = unat (0 :: u32) \<or> unat ?n = unat (1 :: u32) \<or> unat ?n = unat (2 :: u32)"
    by simp linarith
  then have "?n = 0 \<or> ?n = 1 \<or> ?n = 2" by (simp only: word_unat_eq_iff)
  then have "?n + 1 \<ge> 3 \<or> ?n + 1 + 1 \<ge> 3 \<or> ?n + 1 + 1 + 1 \<ge> 3" by auto
  with assms show ?thesis by (simp add: drop_tick_overflow)
qed

lemma clear_ticks:
  assumes "tick_inv s" and "list_all (\<lambda>t. t \<le> last_dropped_total s) ts" and "ts \<noteq> []"
    and "agg_interval_fast (fold drop_tick (map Some ts) s)"
  shows "agg_interval_fast s \<and> unat (consecutive_clear_ticks s) + length ts < 30"
  using assms
proof (induction ts arbitrary: s)
  case Nil
  then show ?case by simp
next
  case (Cons t ts)
  let ?s = "drop_tick (Some t) s"
  from Cons.prems have le: "t \<le> last_dropped_total s" by simp
  have next_fast: "agg_interval_fast ?s"
  proof (cases "ts = []")
    case True
    with Cons.prems show ?thesis by simp
  next
    case False
    with Cons.IH [of ?s] Cons.prems le show ?thesis
      by (simp add: tick_inv_drop_tick drop_tick_clear)
  qed
  with le have fast: "agg_interval_fast s" and small: "consecutive_clear_ticks s + 1 < 30"
    by (simp_all add: drop_tick_clear not_le)
  have "unat (consecutive_clear_ticks s) < 30"
    using Cons.prems(1) fast by (simp add: tick_inv_def word_less_nat_alt)
  then have suc: "unat (consecutive_clear_ticks s + 1) = unat (consecutive_clear_ticks s) + 1"
    by (simp add: unat_word_ariths)
  show ?case
  proof (cases "ts = []")
    case True
    with fast small suc show ?thesis by (simp add: word_less_nat_alt)
  next
    case False
    with Cons.IH [of ?s] Cons.prems le fast suc show ?thesis
      by (simp add: tick_inv_drop_tick drop_tick_clear)
  qed
qed

text \<open>
  The adaptive frequency reacts. In every state the loop can be in, three ticks in a row
  that each see new drops put the loop into the fast mode, and thirty readable ticks in a
  row without new drops take it out of it, for every value the 32-bit tick counters have
  reached before.
\<close>

lemma adaptive_frequency:
  fixes reads :: "u64 option list"
  defines "s \<equiv> fold drop_tick reads tick_init"
  shows "(last_dropped_total s < a \<and> a < b \<and> b < c \<longrightarrow>
      agg_interval_fast (fold drop_tick [Some a, Some b, Some c] s)) \<and>
    (length ts = 30 \<and> list_all (\<lambda>t. t \<le> last_dropped_total s) ts \<longrightarrow>
      \<not> agg_interval_fast (fold drop_tick (map Some ts) s))"
proof -
  have inv: "tick_inv s" unfolding s_def by (rule tick_inv_fold) (rule tick_inv_init)
  show ?thesis
  proof (intro conjI impI)
    assume "last_dropped_total s < a \<and> a < b \<and> b < c"
    with three_overflows [OF inv] show "agg_interval_fast (fold drop_tick [Some a, Some b, Some c] s)"
      by blast
  next
    assume ts: "length ts = 30 \<and> list_all (\<lambda>t. t \<le> last_dropped_total s) ts"
    then have "ts \<noteq> []" by auto
    with clear_ticks [OF inv, of ts] ts show "\<not> agg_interval_fast (fold drop_tick (map Some ts) s)"
      by auto
  qed
qed

lemma adaptive_frequency_witness:
  "agg_interval_fast (fold drop_tick [Some 1, Some 2, Some 3] tick_init) \<and>
   \<not> agg_interval_fast (fold drop_tick (map Some (replicate 30 3))
       (fold drop_tick [Some 1, Some 2, Some 3] tick_init))"
proof
  show "agg_interval_fast (fold drop_tick [Some 1, Some 2, Some 3] tick_init)"
    using adaptive_frequency [of "[]" 1 2 3] by (simp add: tick_init_def)
  have "last_dropped_total (fold drop_tick [Some 1, Some 2, Some 3] tick_init) = 3"
    by (simp add: drop_tick_overflow tick_init_def)
  then show "\<not> agg_interval_fast (fold drop_tick (map Some (replicate 30 3))
       (fold drop_tick [Some 1, Some 2, Some 3] tick_init))"
    using adaptive_frequency [of "[Some 1, Some 2, Some 3]" _ _ _ "replicate 30 3"]
    by (simp add: list_all_iff del: fold.simps map_replicate)
qed

section \<open>What the exported drop counter says\<close>

text \<open>Rounds of firings, each followed by the counter part of a tick.\<close>

definition round_step ::
    "cpu list \<Rightarrow> firing list \<Rightarrow> bpf_state \<times> tick_state \<Rightarrow> bpf_state \<times> tick_state" where
  "round_step cpus fs x = (let st' = run fs (fst x) in (st', counters_tick cpus st' (snd x)))"

definition lost_events :: "bpf_state \<Rightarrow> firing list \<Rightarrow> nat" where
  "lost_events st fs = length (filter (\<lambda>(E, e). \<not> reserve_events E) (reported st (calls fs st)))"

lemma calls_append: "calls (fs @ gs) st = calls fs st @ calls gs (run fs st)"
  by (induction fs arbitrary: st) simp_all

lemma reported_run: "reported (run fs st) cs = reported st cs"
  by (rule reported_cong) simp_all

lemma lost_events_append:
  "lost_events st (fs @ gs) = lost_events st fs + lost_events (run fs st) gs"
  by (simp add: lost_events_def calls_append reported_run)

lemma read_dropped:
  assumes "\<And>c. DROPPED st c = [0]" and "distinct cpus"
    and "list_all (\<lambda>f. smp_cpu (fst f) \<in> set cpus) fs"
  shows "read_percpu_counter cpus (DROPPED (run fs st)) = Some (of_nat (lost_events st fs))"
proof -
  have cpus: "\<forall>x \<in> set (reported st (calls fs st)). smp_cpu (fst x) \<in> set cpus"
    using calls_cpus [OF assms(3), of st] by (auto simp: reported_def)
  have "DROPPED (run fs st) c = [of_nat (length (filter (\<lambda>x. \<not> reserve_events (fst x) \<and> smp_cpu (fst x) = c)
      (reported st (calls fs st))))]" for c
    using run_DROPPED [of st c fs] assms(1) by (simp add: case_prod_unfold)
  then show ?thesis
    using count_by_class [OF assms(2) cpus, where P = "\<lambda>x. \<not> reserve_events (fst x)" and w = "1 :: u64"]
    by (simp add: read_percpu_counter_def lost_events_def map_defs list_all_iff case_prod_unfold)
qed

lemma launch_drop_tick_fields [simp]:
  "last_dropped_total (launch_drop_tick read s) = last_dropped_total s"
  "dropped_events (launch_drop_tick read s) = dropped_events s"
  by (simp_all add: launch_drop_tick_def Let_def split: option.split)

lemma drop_tick_reports:
  assumes "dropped_events s = last_dropped_total s" and "last_dropped_total s \<le> t"
  shows "dropped_events (drop_tick (Some t) s) = t \<and> last_dropped_total (drop_tick (Some t) s) = t"
proof (cases "last_dropped_total s < t")
  case True
  with assms show ?thesis by (simp add: drop_tick_overflow)
next
  case False
  with assms have "t = last_dropped_total s" by simp
  with assms show ?thesis by (simp add: drop_tick_clear)
qed

text \<open>
  C35. Dropped events are reported exactly. Through any number of rounds, each an arbitrary
  run of firings on the listed CPUs followed by a tick, the exported counter is the number
  of completed calls since loading that should have been reported as events and found no
  room in the ring, as long as there are fewer than 2 to the 64 of them.
\<close>

theorem drops_reported:
  assumes "\<And>c. DROPPED st c = [0]" and "distinct cpus"
    and "list_all (list_all (\<lambda>f. smp_cpu (fst f) \<in> set cpus)) fss"
    and "lost_events st (concat fss) < 2 ^ 64"
  shows "dropped_events (snd (fold (round_step cpus) fss (st, tick_init))) =
    of_nat (lost_events st (concat fss))"
proof -
  have "fst (fold (round_step cpus) fss (st, tick_init)) = run (concat fss) st \<and>
    dropped_events (snd (fold (round_step cpus) fss (st, tick_init))) =
      of_nat (lost_events st (concat fss)) \<and>
    last_dropped_total (snd (fold (round_step cpus) fss (st, tick_init))) =
      of_nat (lost_events st (concat fss))"
    using assms(3,4)
  proof (induction fss rule: rev_induct)
    case Nil
    then show ?case by (simp add: tick_init_def lost_events_def)
  next
    case (snoc fs fss)
    let ?x = "fold (round_step cpus) fss (st, tick_init)"
    let ?n = "lost_events st (concat fss)" and ?n' = "lost_events st (concat fss @ fs)"
    have le: "?n \<le> ?n'" and small: "?n' < 2 ^ 64"
      using snoc.prems by (simp_all add: lost_events_append)
    then have grow: "(of_nat ?n :: u64) \<le> of_nat ?n'"
      by (simp add: word_le_nat_alt unat_of_nat_small)
    have IH: "fst ?x = run (concat fss) st" "dropped_events (snd ?x) = of_nat ?n"
      "last_dropped_total (snd ?x) = of_nat ?n"
      using snoc le by simp_all
    have "read_percpu_counter cpus (DROPPED (run (concat fss @ fs) st)) = Some (of_nat ?n')"
      by (rule read_dropped) (use assms(1,2) snoc.prems in \<open>auto simp: list_all_iff\<close>)
    then obtain s where s: "round_step cpus fs ?x = (run (concat fss @ fs) st, drop_tick (Some (of_nat ?n')) s)"
        "dropped_events s = of_nat ?n" "last_dropped_total s = of_nat ?n"
      using IH by (auto simp: round_step_def Let_def counters_tick_def run_append)
    with drop_tick_reports [of s "of_nat ?n'"] grow show ?case by simp
  qed
  then show ?thesis by simp
qed

text \<open>A detailed launch whose event finds the ring full.\<close>

definition dropping_run :: "firing list" where
  "dropping_run = [(sample_env 100 7 0, Runtime (P_cuda_launch_kernel 4096)),
     ((sample_env 1600 7 0)\<lparr>reserve_events := False\<rparr>, Runtime P_cuda_launch_kernel_ret)]"

theorem drops_reported_witness:
  "dropped_events (snd (fold (round_step [0, 1]) [dropping_run, []] (initial 0 1 1, tick_init))) = 1"
proof -
  have "calls dropping_run (initial 0 1 1) = [((sample_env 1600 7 0)\<lparr>reserve_events := False\<rparr>,
      new_entry (sample_env 100 7 0) EVENT_CUDA_LAUNCH_KERNEL 4096 0 0)]"
    by (simp add: dropping_run_def run_eval cuda_launch_kernel_def)
  then have lost: "lost_events (initial 0 1 1) (concat [dropping_run, []]) = 1"
    by (simp add: lost_events_def reported_def emits_event_def launch_mode_def cfg_u32_def map_defs)
  have fires: "list_all (list_all (\<lambda>f. smp_cpu (fst f) \<in> set [0, 1])) [dropping_run, []]"
    by (simp add: dropping_run_def)
  have "dropped_events (snd (fold (round_step [0, 1]) [dropping_run, []] (initial 0 1 1, tick_init))) =
      of_nat (lost_events (initial 0 1 1) (concat [dropping_run, []]))"
    by (rule drops_reported) (use lost fires in \<open>simp_all\<close>)
  then show ?thesis unfolding lost by simp
qed

section \<open>Keeping the processes in full mode in step\<close>

lemma sync_upgraded_dom:
  assumes "synced = {} \<or> synced = dom m"
  shows "dom (snd (sync_upgraded fails desired synced m)) =
    {pid \<in> desired. pid \<in> dom m \<or> \<not> fails pid}"
  using assms by (auto simp: sync_upgraded_def Let_def dom_def split: if_splits)

text \<open>
  Full mode follows the annotations. As long as insertions find room, a sync that starts
  where the remembered set is empty or what the map holds makes the map hold exactly the
  desired processes, whatever it held before, and the remembered set agrees with it again;
  launches of a process then get the mode of its pod: full mode exactly for the desired ones.
\<close>

lemma upgraded_in_step:
  assumes "synced = {} \<or> synced = dom (UPGRADED_PIDS st)" and "\<And>pid. \<not> fails pid"
    and "sync_upgraded fails desired synced (UPGRADED_PIDS st) = (synced', m')"
  shows "dom m' = desired \<and> synced' = dom m' \<and>
    (launch_mode pid (st\<lparr>UPGRADED_PIDS := m'\<rparr>) =
       (if pid \<in> desired then 0 else cfg_u32 (KERNEL_AGG_MODE st)))"
proof -
  have "dom m' = desired"
    using sync_upgraded_dom [OF assms(1), of fails desired] assms(2,3) by simp
  moreover have "synced' = desired" using assms(3) by (simp add: sync_upgraded_def Let_def)
  ultimately show ?thesis
    by (auto simp: launch_mode_def split: option.split)
qed

lemma upgraded_in_step_witness:
  "dom (snd (sync_upgraded (\<lambda>_. False) {3, 4} {} [2 \<mapsto> 1, 3 \<mapsto> 1])) = {3, 4}"
  using upgraded_in_step [of "{}" "(initial 1 1 0)\<lparr>UPGRADED_PIDS := [2 \<mapsto> 1, 3 \<mapsto> 1]\<rparr>" "\<lambda>_. False" "{3, 4}"
      "fst (sync_upgraded (\<lambda>_. False) {3, 4} {} [2 \<mapsto> 1, 3 \<mapsto> 1])"
      "snd (sync_upgraded (\<lambda>_. False) {3, 4} {} [2 \<mapsto> 1, 3 \<mapsto> 1])"]
  by simp

text \<open>
  A failed upgrade is never made up for. When the insertion of a desired process finds the
  map full, the reader still remembers it as written: every later sync with the same
  desired set, with room for everything, leaves the map without the process.
\<close>

lemma upgrade_never_retried:
  assumes "synced = {} \<or> synced = dom m" and "pid \<in> desired" and "pid \<notin> dom m" and "fails pid"
    and "sync_upgraded fails desired synced m = (synced', m')"
  shows "sync_upgraded (\<lambda>_. False) desired synced' m' = (synced', m') \<and> pid \<notin> dom m'"
proof
  have synced': "synced' = desired" using assms(5) by (simp add: sync_upgraded_def Let_def)
  have "dom m' = {pid \<in> desired. pid \<in> dom m \<or> \<not> fails pid}"
    using sync_upgraded_dom [OF assms(1), of fails desired] assms(5) by simp
  then show "pid \<notin> dom m'" using assms(3,4) by simp
  show "sync_upgraded (\<lambda>_. False) desired synced' m' = (synced', m')"
    using assms(2) by (auto simp: sync_upgraded_def Let_def synced')
qed

lemma upgrade_never_retried_witness:
  "5 \<notin> dom (snd (sync_upgraded (\<lambda>pid. pid = 5) {5, 6} {} Map.empty))"
  using upgrade_never_retried [of "{}" Map.empty 5 "{5, 6}" "\<lambda>pid. pid = 5"
      "fst (sync_upgraded (\<lambda>pid. pid = 5) {5, 6} {} Map.empty)"
      "snd (sync_upgraded (\<lambda>pid. pid = 5) {5, 6} {} Map.empty)"]
  by simp

section \<open>Hanging collectives are found\<close>

text \<open>
  A hanging collective is found. When a thread enters a collective and does not return,
  then after any firings of other threads that do not evict its entry, a scan that lists
  the thread reports the collective under its type and process as soon as more than the
  timeout has passed since the entry, and not before.
\<close>

lemma hang_found:
  assumes "traced E st p = Some (t, a0, a1, a2)"
    and "EVENT_NCCL_ALL_REDUCE \<le> t" and "t \<le> EVENT_NCCL_RECV"
    and "INFLIGHT st (pid_tgid E) = None" and "fst (sample_entry E t st)"
    and "undisturbed (pid_tgid E) fs" and "timeout_ns \<noteq> 0"
  shows "nccl_hang_scan now timeout_ns [pid_tgid E] (INFLIGHT (run fs (fire E p st))) =
    (if unat (ktime_ns E) + unat timeout_ns < unat now then [(t, pid_of (pid_tgid E))] else [])"
proof -
  have "INFLIGHT (run fs (fire E p st)) (pid_tgid E) = Some (new_entry E t a0 a1 a2)"
    using run_INFLIGHT_undisturbed [OF assms(6)] fire_saved [OF assms(1,4,5)] by simp
  moreover have "sat_sub now (ktime_ns E) > timeout_ns \<longleftrightarrow> unat (ktime_ns E) + unat timeout_ns < unat now"
    by (auto simp: sat_sub_def word_less_nat_alt word_le_nat_alt unat_sub)
  ultimately show ?thesis
    using assms(2,3,7) by (simp add: nccl_hang_scan_def List.map_filter_def pid_of_def)
qed

lemma hang_found_witness:
  "nccl_hang_scan 5000 1000 [7]
     (INFLIGHT (run [(sample_env 500 8 0, Memory (P_cuda_free 64))]
       (fire (sample_env 100 7 0) (Nccl (P_nccl_all_reduce 0 0 256 7)) (initial 0 1 0)))) =
   [(EVENT_NCCL_ALL_REDUCE, 0)]"
proof -
  have sampled: "fst (sample_entry (sample_env 100 7 0) EVENT_NCCL_ALL_REDUCE (initial 0 1 0))"
    by (simp add: sample_entry_plain cfg_u32_def map_defs)
  have quiet: "undisturbed (pid_tgid (sample_env 100 7 0)) [(sample_env 500 8 0, Memory (P_cuda_free 64))]"
    by (simp add: undisturbed_def)
  show ?thesis
    using hang_found [OF _ _ _ _ sampled quiet, of "Nccl (P_nccl_all_reduce 0 0 256 7)" 256 7 0 1000 5000]
    by (simp add: traced_defs event_defs pid_of_def del: fire.simps run.simps)
qed

end
