(* ===== verification/HandleCache.thy ===== *)
theory HandleCache
  imports MetricNames "HOL-Library.Product_Lexorder"
begin

text \<open>
  The cache of metric handles, \<^verbatim>\<open>src/src/cache.rs\<close>: which series an event is counted under,
  the limits on streams, kernels and series, the invalidation of processes and the
  collection of stale ones. The metrics library is outside the program: a handle is the
  label vectors it was created with, and removing series is the list of the families and
  label vectors the code asks the library to remove. Interned strings are their texts.
\<close>

section \<open>State\<close>

text \<open>Event type, process, copy kind, error code, stream, kernel address, range hash.\<close>

type_synonym MetricKey = "u32 \<times> u32 \<times> u32 \<times> u32 \<times> u64 \<times> u64 \<times> u64"

fun key_pid :: "MetricKey \<Rightarrow> u32" where
  "key_pid (event_type, pid, memcpy_kind, error_code, stream, addr, nvtx_key) = pid"

fun key_type :: "MetricKey \<Rightarrow> u32" where
  "key_type (event_type, pid, memcpy_kind, error_code, stream, addr, nvtx_key) = event_type"

fun key_stream :: "MetricKey \<Rightarrow> u64" where
  "key_stream (event_type, pid, memcpy_kind, error_code, stream, addr, nvtx_key) = stream"

fun key_addr :: "MetricKey \<Rightarrow> u64" where
  "key_addr (event_type, pid, memcpy_kind, error_code, stream, addr, nvtx_key) = addr"

record CardinalityLimits =
  max_time_series :: nat
  max_streams_per_pid :: nat
  max_kernels_per_pid :: nat

definition default_limits :: CardinalityLimits where
  "default_limits = \<lparr>max_time_series = 50000, max_streams_per_pid = 32, max_kernels_per_pid = 512\<rparr>"

text \<open>The enrichment of a process, from \<^verbatim>\<open>src/src/enrichment.rs\<close>.\<close>

record Labels =
  l_comm :: string
  l_namespace :: string
  l_pod :: string
  l_container :: string
  l_gpu :: string
  l_gpu_uuid :: string

text \<open>
  A handle: the counters and histograms it holds are determined by these label vectors, an
  absent vector meaning an absent counter.
\<close>

record CachedHandles =
  calls_labels :: "string list"
  hist_labels :: "string list"
  memcpy_labels :: "string list option"
  malloc_labels :: "string list option"
  nccl_bytes_labels :: "string list option"
  kernel_counter_labels :: "string list option"
  kernel_hist_labels :: "string list option"
  errors_labels :: "string list option"

text \<open>\<open>last_seen\<close> holds the time of the last event of a process, in nanoseconds.\<close>

record MetricHandleCache =
  handles :: "MetricKey \<rightharpoonup> CachedHandles"
  last_seen :: "u32 \<rightharpoonup> nat"
  streams_per_pid :: "u32 \<rightharpoonup> u64 list"
  kernels_per_pid :: "u32 \<rightharpoonup> u64 list"

definition new_cache :: MetricHandleCache where
  "new_cache = \<lparr>handles = Map.empty, last_seen = Map.empty, streams_per_pid = Map.empty,
     kernels_per_pid = Map.empty\<rparr>"

section \<open>Looking a handle up\<close>

text \<open>
  Admitting an identifier of a process: known ones pass, new ones while there is room, the
  others become 0.
\<close>

definition admit :: "nat \<Rightarrow> u64 list \<Rightarrow> u64 \<Rightarrow> u64 \<times> u64 list" where
  "admit limit known x =
     (if x \<in> set known then (x, known)
      else if length known < limit then (x, x # known)
      else (0, known))"

definition admit_stream ::
    "CardinalityLimits \<Rightarrow> u32 \<Rightarrow> u64 \<Rightarrow> MetricHandleCache \<Rightarrow> u64 \<times> MetricHandleCache" where
  "admit_stream limits pid stream c =
     (if stream \<noteq> 0 then
        (let known = (case streams_per_pid c pid of None \<Rightarrow> [] | Some xs \<Rightarrow> xs);
             (s, known') = admit (max_streams_per_pid limits) known stream
         in (s, c\<lparr>streams_per_pid := (streams_per_pid c)(pid \<mapsto> known')\<rparr>))
      else (stream, c))"

definition admit_kernel ::
    "CardinalityLimits \<Rightarrow> u32 \<Rightarrow> u32 \<Rightarrow> u64 \<Rightarrow> MetricHandleCache \<Rightarrow> u64 \<times> MetricHandleCache" where
  "admit_kernel limits event_type pid addr c =
     (if addr \<noteq> 0 \<and> event_type = EVENT_CUDA_LAUNCH_KERNEL then
        (let known = (case kernels_per_pid c pid of None \<Rightarrow> [] | Some xs \<Rightarrow> xs);
             (a, known') = admit (max_kernels_per_pid limits) known addr
         in (a, c\<lparr>kernels_per_pid := (kernels_per_pid c)(pid \<mapsto> known')\<rparr>))
      else (addr, c))"

text \<open>
  The task name of an event: its bytes up to the first NUL; an empty one is looked up in
  \<open>read_comm\<close>, the \<^verbatim>\<open>comm\<close> file of the process.
\<close>

definition comm_str :: "(u32 \<Rightarrow> string option) \<Rightarrow> CudaEvent \<Rightarrow> string" where
  "comm_str read_comm event =
     (let s = (case from_utf8 (until_nul (take 16 (ce_comm event))) of
                 None \<Rightarrow> ''unknown'' | Some s \<Rightarrow> s)
      in if s = [] then (case read_comm (ce_pid event) of Some c \<Rightarrow> trim_end c | None \<Rightarrow> ''unknown'')
         else s)"

definition kernel_label ::
    "(u32 \<times> u64 \<rightharpoonup> string) \<Rightarrow> u32 \<Rightarrow> u64 \<Rightarrow> string" where
  "kernel_label kernel_names pid addr =
     (if addr \<noteq> 0
      then (case kernel_names (pid, addr) of
              Some s \<Rightarrow> s | None \<Rightarrow> ''unknown_0x'' @ fmt_hex (unat addr))
      else ''aggregated'')"

definition phase_label :: "CudaEvent \<Rightarrow> string" where
  "phase_label event =
     (case from_utf8 (until_nul (take 16 (ce_nvtx_marker event))) of
        None \<Rightarrow> sanitize_phase [] | Some s \<Rightarrow> sanitize_phase s)"

text \<open>
  The handle a missing key is created with. \<open>hist\<close> says whether the kernel histogram is
  enabled (full kernel mode).
\<close>

definition process_labels :: "CudaEvent \<Rightarrow> Labels \<Rightarrow> string list" where
  "process_labels event labels =
     [fmt_dec (unat (ce_pid event)), l_comm labels, l_namespace labels, l_pod labels,
      l_container labels, l_gpu labels, l_gpu_uuid labels]"

definition create_handle ::
    "bool \<Rightarrow> (u32 \<times> u64 \<rightharpoonup> string) \<Rightarrow> Labels \<Rightarrow> CudaEvent \<Rightarrow> MetricKey \<Rightarrow> CachedHandles" where
  "create_handle hist kernel_names labels event key =
     (case key of (event_type, pid, memcpy_kind, error_code, stream, addr, nvtx_key) \<Rightarrow>
        let op = operation_name event_type;
            procl = process_labels event labels;
            kernel = kernel_label kernel_names (ce_pid event) addr;
            class_label = classify_kernel kernel;
            phase = phase_label event;
            errors = (if error_code \<noteq> 0
                      then Some (op # procl @ [fmt_dec (unat error_code)]) else None)
        in if profi_is_nccl_event event_type then
             \<lparr>calls_labels = op # procl,
              hist_labels = [op, l_namespace labels, l_pod labels, l_gpu labels],
              memcpy_labels = None, malloc_labels = None,
              nccl_bytes_labels = Some (op # procl),
              kernel_counter_labels = None, kernel_hist_labels = None,
              errors_labels = errors\<rparr>
           else
             \<lparr>calls_labels = op # procl @ [stream_label stream],
              hist_labels = [op, l_namespace labels, l_pod labels, l_gpu labels],
              memcpy_labels =
                (if event_type \<in> {EVENT_CUDA_MEMCPY, EVENT_CUDA_MEMCPY_ASYNC, EVENT_CUDA_MEMSET,
                                  EVENT_CUDA_MEMSET_ASYNC}
                 then Some (memcpy_direction memcpy_kind # procl @ [stream_label stream]) else None),
              malloc_labels =
                (if event_type \<in> {EVENT_CUDA_MALLOC, EVENT_CUDA_MALLOC_HOST}
                 then Some procl else None),
              nccl_bytes_labels = None,
              kernel_counter_labels =
                (if event_type = EVENT_CUDA_LAUNCH_KERNEL
                 then Some (kernel # procl @ [class_label, phase]) else None),
              kernel_hist_labels =
                (if event_type = EVENT_CUDA_LAUNCH_KERNEL \<and> hist
                 then Some [kernel, l_namespace labels, l_pod labels, l_gpu labels, class_label, phase]
                 else None),
              errors_labels = errors\<rparr>)"

text \<open>
  \<open>order\<close> is the order in which the hash map lists its keys. \<open>enrich pid comm\<close> is what the
  enricher looks up. Returns the handle, the number of cardinality drops counted, and the
  cache.
\<close>

definition limit_key ::
    "CardinalityLimits \<Rightarrow> MetricKey \<Rightarrow> MetricHandleCache \<Rightarrow> MetricKey \<times> MetricHandleCache" where
  "limit_key limits key c =
     (case key of (event_type, pid, memcpy_kind, error_code, stream, addr, nvtx_key) \<Rightarrow>
        let (s, c1) = admit_stream limits pid stream c;
            (a, c2) = admit_kernel limits event_type pid addr c1
        in ((event_type, pid, memcpy_kind, error_code, s, a, nvtx_key), c2))"

definition get_or_create ::
    "bool \<Rightarrow> (u32 \<Rightarrow> string option) \<Rightarrow> (u32 \<Rightarrow> string \<Rightarrow> Labels) \<Rightarrow>
     ((MetricKey \<rightharpoonup> CachedHandles) \<Rightarrow> MetricKey list) \<Rightarrow> CardinalityLimits \<Rightarrow>
     (u32 \<times> u64 \<rightharpoonup> string) \<Rightarrow> CudaEvent \<Rightarrow> MetricKey \<Rightarrow> MetricHandleCache \<Rightarrow>
     CachedHandles \<times> nat \<times> MetricHandleCache" where
  "get_or_create hist read_comm enrich order limits kernel_names event key0 c0 =
     (let (key, c) = limit_key limits key0 c0
      in case handles c key of
           Some h \<Rightarrow> (h, 0, c)
         | None \<Rightarrow>
             (let full = length (order (handles c)) \<ge> max_time_series limits;
                  new = create_handle hist kernel_names
                          (enrich (ce_pid event) (comm_str read_comm event)) event key;
                  c' = c\<lparr>handles := (handles c)(key \<mapsto> new)\<rparr>
              in if full
                 then (case find (\<lambda>k. key_pid k = key_pid key) (order (handles c)) of
                         Some fallback_key \<Rightarrow> (the (handles c fallback_key), 1, c)
                       | None \<Rightarrow> (new, 1, c'))
                 else (new, 0, c')))"

definition touch :: "nat \<Rightarrow> u32 \<Rightarrow> MetricHandleCache \<Rightarrow> MetricHandleCache" where
  "touch now pid c = c\<lparr>last_seen := (last_seen c)(pid \<mapsto> now)\<rparr>"

section \<open>Removing handles\<close>

text \<open>The metric families the main loop works on, fields of \<^verbatim>\<open>Metrics\<close> in \<^verbatim>\<open>src/src/metrics.rs\<close>.\<close>

datatype family =
    Cuda_calls | Cuda_duration | Cuda_duration_bucket_total | Cuda_duration_sum_seconds_total
  | Cuda_duration_count_total | Cuda_memcpy_bytes | Cuda_malloc_bytes | Cuda_errors
  | Nccl_calls | Nccl_duration | Nccl_duration_bucket_total | Nccl_duration_sum_seconds_total
  | Nccl_duration_count_total | Nccl_bytes | Cuda_kernel_launches | Cuda_kernel_duration
  | Cuda_kernel_duration_bucket_total | Cuda_kernel_duration_sum_seconds_total
  | Cuda_kernel_duration_count_total | Kernel_name_resolve_failures | Nccl_hang_detected
  | Nccl_straggler_ratio

definition remove_bucket_counter_values ::
    "family \<Rightarrow> string list \<Rightarrow> string list \<Rightarrow> (family \<times> string list) list" where
  "remove_bucket_counter_values metric base_labels le_values =
     map (\<lambda>le. (metric, base_labels @ [le])) le_values"

definition remove_handle_metrics :: "bool \<Rightarrow> u32 \<Rightarrow> CachedHandles \<Rightarrow> (family \<times> string list) list" where
  "remove_handle_metrics hist event_type h =
     (if profi_is_nccl_event event_type then
        [(Nccl_calls, calls_labels h), (Nccl_duration, hist_labels h)] @
        remove_bucket_counter_values Nccl_duration_bucket_total (hist_labels h) NCCL_DURATION_BUCKET_LE @
        [(Nccl_duration_sum_seconds_total, hist_labels h), (Nccl_duration_count_total, hist_labels h)]
      else
        [(Cuda_calls, calls_labels h), (Cuda_duration, hist_labels h)] @
        remove_bucket_counter_values Cuda_duration_bucket_total (hist_labels h) CUDA_DURATION_BUCKET_LE @
        [(Cuda_duration_sum_seconds_total, hist_labels h), (Cuda_duration_count_total, hist_labels h)]) @
     (case memcpy_labels h of Some ml \<Rightarrow> [(Cuda_memcpy_bytes, ml)] | None \<Rightarrow> []) @
     (case malloc_labels h of Some ml \<Rightarrow> [(Cuda_malloc_bytes, ml)] | None \<Rightarrow> []) @
     (case nccl_bytes_labels h of Some ml \<Rightarrow> [(Nccl_bytes, ml)] | None \<Rightarrow> []) @
     (case kernel_counter_labels h of Some ml \<Rightarrow> [(Cuda_kernel_launches, ml)] | None \<Rightarrow> []) @
     (case kernel_hist_labels h of
        Some ml \<Rightarrow>
          if hist then
            [(Cuda_kernel_duration, ml)] @
            remove_bucket_counter_values Cuda_kernel_duration_bucket_total ml
              CUDA_KERNEL_DURATION_BUCKET_LE @
            [(Cuda_kernel_duration_sum_seconds_total, ml), (Cuda_kernel_duration_count_total, ml)]
          else []
      | None \<Rightarrow> []) @
     (case errors_labels h of Some ml \<Rightarrow> [(Cuda_errors, ml)] | None \<Rightarrow> [])"

text \<open>Removing the handles of some processes: the series removed, in order, and the cache.\<close>

definition remove_handles ::
    "bool \<Rightarrow> ((MetricKey \<rightharpoonup> CachedHandles) \<Rightarrow> MetricKey list) \<Rightarrow> (u32 \<Rightarrow> bool) \<Rightarrow> MetricHandleCache \<Rightarrow>
     (family \<times> string list) list \<times> MetricHandleCache" where
  "remove_handles hist order gone c =
     (let keys = filter (\<lambda>k. gone (key_pid k)) (order (handles c))
      in (concat (map (\<lambda>k. remove_handle_metrics hist (key_type k) (the (handles c k))) keys),
          c\<lparr>handles := (\<lambda>k. if k \<in> set keys then None else handles c k)\<rparr>))"

definition invalidate_pids ::
    "bool \<Rightarrow> ((MetricKey \<rightharpoonup> CachedHandles) \<Rightarrow> MetricKey list) \<Rightarrow> u32 set \<Rightarrow> MetricHandleCache \<Rightarrow>
     (family \<times> string list) list \<times> MetricHandleCache" where
  "invalidate_pids hist order pids c = remove_handles hist order (\<lambda>p. p \<in> pids) c"

text \<open>
  The collection of processes not seen for \<open>stale_after\<close> nanoseconds. \<open>pids\<close> is the order in
  which \<open>last_seen\<close> lists its keys; a clock reading is never before an earlier one. Returns
  the stale processes, the removed series and the cache.
\<close>

definition gc_stale :: "nat \<Rightarrow> nat \<Rightarrow> u32 list \<Rightarrow> MetricHandleCache \<Rightarrow> u32 list" where
  "gc_stale now stale_after pids c =
     filter (\<lambda>p. case last_seen c p of None \<Rightarrow> False | Some ts \<Rightarrow> now - ts > stale_after) pids"

fun gc_pids ::
    "bool \<Rightarrow> ((MetricKey \<rightharpoonup> CachedHandles) \<Rightarrow> MetricKey list) \<Rightarrow> u32 list \<Rightarrow> MetricHandleCache \<Rightarrow>
     (family \<times> string list) list \<times> MetricHandleCache" where
  "gc_pids hist order [] c = ([], c)"
| "gc_pids hist order (pid # pids) c =
     (let (removed, c1) = remove_handles hist order (\<lambda>p. p = pid) c;
          c2 = c1\<lparr>last_seen := (last_seen c1)(pid := None),
                   streams_per_pid := (streams_per_pid c1)(pid := None),
                   kernels_per_pid := (kernels_per_pid c1)(pid := None)\<rparr>;
          (removed', c3) = gc_pids hist order pids c2
      in (removed @ removed', c3))"

definition gc ::
    "bool \<Rightarrow> ((MetricKey \<rightharpoonup> CachedHandles) \<Rightarrow> MetricKey list) \<Rightarrow> nat \<Rightarrow> nat \<Rightarrow> u32 list \<Rightarrow>
     MetricHandleCache \<Rightarrow> u32 list \<times> (family \<times> string list) list \<times> MetricHandleCache" where
  "gc hist order now stale_after pids c =
     (let stale = gc_stale now stale_after pids c in (stale, gc_pids hist order stale c))"

section \<open>The invariant of the cache\<close>

text \<open>What the hash map promises of listing its keys.\<close>

definition lists_keys :: "((MetricKey \<rightharpoonup> CachedHandles) \<Rightarrow> MetricKey list) \<Rightarrow> bool" where
  "lists_keys order \<longleftrightarrow> (\<forall>m. finite (dom m) \<longrightarrow> distinct (order m) \<and> set (order m) = dom m)"

definition known_ids :: "(u32 \<rightharpoonup> u64 list) \<Rightarrow> u32 \<Rightarrow> u64 list" where
  "known_ids m pid = (case m pid of None \<Rightarrow> [] | Some xs \<Rightarrow> xs)"

fun key_ok :: "MetricHandleCache \<Rightarrow> MetricKey \<Rightarrow> bool" where
  "key_ok c (event_type, pid, memcpy_kind, error_code, stream, addr, nvtx_key) \<longleftrightarrow>
     (stream = 0 \<or> stream \<in> set (known_ids (streams_per_pid c) pid)) \<and>
     (event_type = EVENT_CUDA_LAUNCH_KERNEL \<longrightarrow>
        addr = 0 \<or> addr \<in> set (known_ids (kernels_per_pid c) pid))"

text \<open>
  Streams and kernels of a process stay within their limits, and every handle is for an
  admitted stream and kernel and counts under its own operation and process; only processes
  new at the limit add handles beyond the limit on series.
\<close>

definition cache_inv :: "CardinalityLimits \<Rightarrow> MetricHandleCache \<Rightarrow> bool" where
  "cache_inv limits c \<longleftrightarrow>
     (\<forall>pid. length (known_ids (streams_per_pid c) pid) \<le> max_streams_per_pid limits) \<and>
     (\<forall>pid. length (known_ids (kernels_per_pid c) pid) \<le> max_kernels_per_pid limits) \<and>
     (\<forall>key h. handles c key = Some h \<longrightarrow>
        key_ok c key \<and>
        take 2 (calls_labels h) = [operation_name (key_type key), fmt_dec (unat (key_pid key))] \<and>
        (profi_is_nccl_event (key_type key) \<longleftrightarrow> nccl_bytes_labels h \<noteq> None)) \<and>
     finite (dom (handles c)) \<and>
     card (dom (handles c)) \<le> max_time_series limits + card (key_pid ` dom (handles c))"

lemma cache_inv_new: "cache_inv limits new_cache"
  by (simp add: cache_inv_def new_cache_def known_ids_def)

lemma admit_facts:
  assumes "admit limit known x = (y, known')" and "length known \<le> limit"
  shows "length known' \<le> limit" "y = 0 \<or> y \<in> set known'" "set known \<subseteq> set known'"
  using assms by (auto simp: admit_def split: if_splits)

lemma known_ids_upd:
  "known_ids (m(pid \<mapsto> xs)) p = (if p = pid then xs else known_ids m p)"
  by (simp add: known_ids_def)

lemma admit_stream_facts:
  assumes "admit_stream limits pid stream c = (s, c')"
    and "\<And>p. length (known_ids (streams_per_pid c) p) \<le> max_streams_per_pid limits"
  shows "s = 0 \<or> s \<in> set (known_ids (streams_per_pid c') pid)"
    "length (known_ids (streams_per_pid c') p) \<le> max_streams_per_pid limits"
    "set (known_ids (streams_per_pid c) p) \<subseteq> set (known_ids (streams_per_pid c') p)"
    "handles c' = handles c" "kernels_per_pid c' = kernels_per_pid c" "last_seen c' = last_seen c"
proof -
  obtain y known' where admitted:
      "admit (max_streams_per_pid limits) (known_ids (streams_per_pid c) pid) stream = (y, known')"
    by fastforce
  note facts = admit_facts [OF admitted assms(2)]
  have c': "stream \<noteq> 0 \<Longrightarrow> s = y \<and> c' = c\<lparr>streams_per_pid := (streams_per_pid c)(pid \<mapsto> known')\<rparr>"
    "stream = 0 \<Longrightarrow> s = 0 \<and> c' = c"
    using assms(1) admitted by (auto simp: admit_stream_def known_ids_def)
  show "s = 0 \<or> s \<in> set (known_ids (streams_per_pid c') pid)"
    using facts(2) c' by (cases "stream = 0") (auto simp: known_ids_upd)
  show "length (known_ids (streams_per_pid c') p) \<le> max_streams_per_pid limits"
    using facts(1) c' assms(2) by (cases "stream = 0") (auto simp: known_ids_upd)
  show "set (known_ids (streams_per_pid c) p) \<subseteq> set (known_ids (streams_per_pid c') p)"
    using facts(3) c' by (cases "stream = 0") (auto simp: known_ids_upd)
  show "handles c' = handles c" "kernels_per_pid c' = kernels_per_pid c" "last_seen c' = last_seen c"
    using c' by (cases "stream = 0"; simp)+
qed

lemma admit_kernel_facts:
  assumes "admit_kernel limits t pid addr c = (a, c')"
    and "\<And>p. length (known_ids (kernels_per_pid c) p) \<le> max_kernels_per_pid limits"
  shows "t = EVENT_CUDA_LAUNCH_KERNEL \<Longrightarrow> a = 0 \<or> a \<in> set (known_ids (kernels_per_pid c') pid)"
    "length (known_ids (kernels_per_pid c') p) \<le> max_kernels_per_pid limits"
    "set (known_ids (kernels_per_pid c) p) \<subseteq> set (known_ids (kernels_per_pid c') p)"
    "handles c' = handles c" "streams_per_pid c' = streams_per_pid c" "last_seen c' = last_seen c"
proof -
  let ?limited = "addr \<noteq> 0 \<and> t = EVENT_CUDA_LAUNCH_KERNEL"
  obtain y known' where admitted:
      "admit (max_kernels_per_pid limits) (known_ids (kernels_per_pid c) pid) addr = (y, known')"
    by fastforce
  note facts = admit_facts [OF admitted assms(2)]
  have c': "?limited \<Longrightarrow> a = y \<and> c' = c\<lparr>kernels_per_pid := (kernels_per_pid c)(pid \<mapsto> known')\<rparr>"
    "\<not> ?limited \<Longrightarrow> a = addr \<and> c' = c"
    using assms(1) admitted by (auto simp: admit_kernel_def known_ids_def)
  show "t = EVENT_CUDA_LAUNCH_KERNEL \<Longrightarrow> a = 0 \<or> a \<in> set (known_ids (kernels_per_pid c') pid)"
    using facts(2) c' by (cases ?limited) (auto simp: known_ids_upd)
  show "length (known_ids (kernels_per_pid c') p) \<le> max_kernels_per_pid limits"
    using facts(1) c' assms(2) by (cases ?limited) (auto simp: known_ids_upd)
  show "set (known_ids (kernels_per_pid c) p) \<subseteq> set (known_ids (kernels_per_pid c') p)"
    using facts(3) c' by (cases ?limited) (auto simp: known_ids_upd)
  show "handles c' = handles c" "streams_per_pid c' = streams_per_pid c" "last_seen c' = last_seen c"
    using c' by (cases ?limited; auto)+
qed

lemma key_ok_mono:
  assumes "key_ok c key"
    and "\<And>p. set (known_ids (streams_per_pid c) p) \<subseteq> set (known_ids (streams_per_pid c') p)"
    and "\<And>p. set (known_ids (kernels_per_pid c) p) \<subseteq> set (known_ids (kernels_per_pid c') p)"
  shows "key_ok c' key"
  using assms by (cases key) auto

lemma limit_key_facts:
  assumes "cache_inv limits c" and "limit_key limits key c = (key', c')"
  shows "cache_inv limits c'" "key_ok c' key'" "handles c' = handles c" "last_seen c' = last_seen c"
    "key_pid key' = key_pid key" "key_type key' = key_type key"
proof -
  obtain t p mk ec s a n where key: "key = (t, p, mk, ec, s, a, n)" by (cases key)
  obtain s' c1 where s': "admit_stream limits p s c = (s', c1)" by fastforce
  obtain a' c2 where a': "admit_kernel limits t p a c1 = (a', c2)" by fastforce
  have res: "key' = (t, p, mk, ec, s', a', n)" "c' = c2"
    using assms(2) by (auto simp: limit_key_def key s' a')
  have sf: "\<And>q. length (known_ids (streams_per_pid c) q) \<le> max_streams_per_pid limits"
    and kf: "\<And>q. length (known_ids (kernels_per_pid c) q) \<le> max_kernels_per_pid limits"
    using assms(1) by (simp_all add: cache_inv_def)
  note S = admit_stream_facts [OF s' sf]
  have kf1: "\<And>q. length (known_ids (kernels_per_pid c1) q) \<le> max_kernels_per_pid limits"
    using kf S(5) by simp
  note K = admit_kernel_facts [OF a' kf1]
  have mono: "key_ok c k \<Longrightarrow> key_ok c2 k" for k
    by (erule key_ok_mono) (use S(3) K(3) S(5) K(5) in auto)
  show "handles c' = handles c" "last_seen c' = last_seen c" "key_pid key' = key_pid key"
    "key_type key' = key_type key"
    using res S K by (simp_all add: key)
  show "key_ok c' key'" using res S(1) K(1,5) by simp
  show "cache_inv limits c'"
    using assms(1) res S(2,4) K(2,4,5) mono
    by (simp add: cache_inv_def del: split_paired_All split_paired_Ex key_ok.simps)
qed

lemma create_handle_facts:
  "ce_pid event = key_pid key \<Longrightarrow> take 2 (calls_labels (create_handle hist kn labels event key)) =
     [operation_name (key_type key), fmt_dec (unat (key_pid key))]"
  "nccl_bytes_labels (create_handle hist kn labels event key) \<noteq> None \<longleftrightarrow>
     profi_is_nccl_event (key_type key)"
  by (cases key; simp add: create_handle_def process_labels_def Let_def)+

lemma insert_handle_inv:
  assumes "cache_inv limits c" and "key_ok c key" and "handles c key = None"
    and "take 2 (calls_labels h) = [operation_name (key_type key), fmt_dec (unat (key_pid key))]"
    and "nccl_bytes_labels h \<noteq> None \<longleftrightarrow> profi_is_nccl_event (key_type key)"
    and "card (dom (handles c)) < max_time_series limits \<or> key_pid key \<notin> key_pid ` dom (handles c)"
  shows "cache_inv limits (c\<lparr>handles := (handles c)(key \<mapsto> h)\<rparr>)"
proof -
  let ?D = "dom (handles c)"
  have fin: "finite ?D" and old: "card ?D \<le> max_time_series limits + card (key_pid ` ?D)"
    using assms(1) by (simp_all add: cache_inv_def)
  have new: "key \<notin> ?D" using assms(3) by auto
  have "card (insert key ?D) \<le> max_time_series limits + card (key_pid ` insert key ?D)"
  proof (cases "card ?D < max_time_series limits")
    case True
    then show ?thesis using fin new by simp
  next
    case False
    with assms(6) have "key_pid key \<notin> key_pid ` ?D" by simp
    then have "card (key_pid ` insert key ?D) = Suc (card (key_pid ` ?D))" using fin by simp
    with old fin new show ?thesis by simp
  qed
  moreover have "key_ok (c\<lparr>handles := m\<rparr>) k = key_ok c k" for m k by (cases k) simp
  ultimately show ?thesis
    using assms(1,2,4,5) fin by (auto simp: cache_inv_def)
qed

lemma get_or_create_inv:
  assumes "cache_inv limits c" and "lists_keys order"
    and "get_or_create hist rc enrich order limits kn event key c = (h, drops, c')"
    and "ce_pid event = key_pid key"
  shows "cache_inv limits c'"
proof -
  obtain key' c1 where lk: "limit_key limits key c = (key', c1)" by fastforce
  note L = limit_key_facts [OF assms(1) lk]
  let ?new = "create_handle hist kn (enrich (ce_pid event) (comm_str rc event)) event key'"
  have fin: "finite (dom (handles c1))" using L(1) by (simp add: cache_inv_def)
  then have order: "distinct (order (handles c1))" "set (order (handles c1)) = dom (handles c1)"
    using assms(2) by (simp_all add: lists_keys_def)
  then have len: "length (order (handles c1)) = card (dom (handles c1))"
    by (metis distinct_card)
  show ?thesis
  proof (cases "c' = c1")
    case True
    with L(1) show ?thesis by simp
  next
    case False
    with assms(3) have none: "handles c1 key' = None"
      and c': "c' = c1\<lparr>handles := (handles c1)(key' \<mapsto> ?new)\<rparr>"
      and room: "length (order (handles c1)) < max_time_series limits \<or>
        find (\<lambda>k. key_pid k = key_pid key') (order (handles c1)) = None"
      by (auto simp: get_or_create_def lk Let_def split: option.splits if_splits)
    from room have "card (dom (handles c1)) < max_time_series limits \<or>
        key_pid key' \<notin> key_pid ` dom (handles c1)"
      unfolding find_None_iff order(2) len by (metis (no_types, lifting) imageE)
    then show ?thesis
      unfolding c' using assms(4) L(5) by (intro insert_handle_inv L none create_handle_facts) simp
  qed
qed

lemma remove_handles_eq:
  assumes "lists_keys order" and "finite (dom (handles c))"
  shows "handles (snd (remove_handles hist order gone c)) =
    (\<lambda>k. if gone (key_pid k) then None else handles c k)"
proof -
  have "set (order (handles c)) = dom (handles c)" using assms by (simp add: lists_keys_def)
  then show ?thesis
    by (simp add: remove_handles_def Let_def fun_eq_iff domIff del: split_paired_All)
qed

text \<open>Dropping all handles of some processes keeps the bound on the number of handles.\<close>

lemma card_remove_pids:
  assumes "finite D" and "card D \<le> n + card (f ` D)" and "D' = {k \<in> D. \<not> gone (f k)}"
  shows "card D' \<le> n + card (f ` D')"
proof -
  let ?G = "{k \<in> D. gone (f k)}"
  have "card D = card D' + card ?G"
    using assms(1,3) by (subst card_Un_disjoint [symmetric]) (auto intro: arg_cong [where f = card])
  moreover have "f ` D = f ` D' \<union> f ` ?G" using assms(3) by auto
  then have "card (f ` D) \<le> card (f ` D') + card (f ` ?G)"
    by (simp add: card_Un_le)
  moreover have "card (f ` ?G) \<le> card ?G"
    using assms(1) by (intro card_image_le) simp
  ultimately show ?thesis using assms(2) by linarith
qed

lemma drop_pids_inv:
  assumes "cache_inv limits c"
    and "handles c' = (\<lambda>k. if gone (key_pid k) then None else handles c k)"
    and "\<And>p. known_ids (streams_per_pid c') p = known_ids (streams_per_pid c) p \<or>
      gone p \<and> known_ids (streams_per_pid c') p = []"
    and "\<And>p. known_ids (kernels_per_pid c') p = known_ids (kernels_per_pid c) p \<or>
      gone p \<and> known_ids (kernels_per_pid c') p = []"
  shows "cache_inv limits c'"
proof -
  have "length (known_ids (streams_per_pid c') p) \<le> max_streams_per_pid limits" for p
    using assms(1,3) by (metis cache_inv_def le0 list.size(3))
  moreover have "length (known_ids (kernels_per_pid c') p) \<le> max_kernels_per_pid limits" for p
    using assms(1,4) by (metis cache_inv_def le0 list.size(3))
  moreover have "key_ok c' k" if "key_ok c k" and "\<not> gone (key_pid k)" for k
    using that assms(3,4) by (cases k) (metis (no_types, opaque_lifting) key_ok.simps key_pid.simps)
  moreover have dom: "dom (handles c') = {k \<in> dom (handles c). \<not> gone (key_pid k)}"
    using assms(2) by (auto split: if_splits)
  moreover have "card (dom (handles c')) \<le> max_time_series limits + card (key_pid ` dom (handles c'))"
    by (rule card_remove_pids [where f = key_pid and gone = gone, OF _ _ dom]) (use assms(1) in \<open>simp_all add: cache_inv_def\<close>)
  ultimately show ?thesis
    using assms(1,2)
    by (simp add: cache_inv_def del: split_paired_All split_paired_Ex key_ok.simps)
qed

lemma invalidate_pids_inv:
  assumes "cache_inv limits c" and "lists_keys order"
  shows "cache_inv limits (snd (invalidate_pids hist order pids c))"
proof (rule drop_pids_inv [OF assms(1), where gone = "\<lambda>p. p \<in> pids"])
  show "handles (snd (invalidate_pids hist order pids c)) =
      (\<lambda>k. if key_pid k \<in> pids then None else handles c k)"
    using assms remove_handles_eq by (simp add: invalidate_pids_def cache_inv_def)
qed (simp_all add: invalidate_pids_def remove_handles_def Let_def)

lemma gc_pids_inv:
  assumes "cache_inv limits c" and "lists_keys order"
  shows "cache_inv limits (snd (gc_pids hist order pids c))"
  using assms(1)
proof (induction pids arbitrary: c)
  case Nil
  then show ?case by simp
next
  case (Cons pid pids)
  let ?c1 = "snd (remove_handles hist order (\<lambda>p. p = pid) c)"
  let ?c2 = "?c1\<lparr>last_seen := (last_seen ?c1)(pid := None),
      streams_per_pid := (streams_per_pid ?c1)(pid := None),
      kernels_per_pid := (kernels_per_pid ?c1)(pid := None)\<rparr>"
  have "cache_inv limits ?c2"
  proof (rule drop_pids_inv [OF Cons.prems, where gone = "\<lambda>p. p = pid"])
    show "handles ?c2 = (\<lambda>k. if key_pid k = pid then None else handles c k)"
      using Cons.prems assms(2) by (simp add: remove_handles_eq cache_inv_def)
  qed (simp_all add: remove_handles_def Let_def known_ids_def)
  from Cons.IH [OF this] show ?case by (simp add: case_prod_beta Let_def)
qed

section \<open>Reachable caches\<close>

inductive cache_reachable ::
    "bool \<Rightarrow> ((MetricKey \<rightharpoonup> CachedHandles) \<Rightarrow> MetricKey list) \<Rightarrow> CardinalityLimits \<Rightarrow> MetricHandleCache \<Rightarrow> bool"
  for hist order limits where
  start: "cache_reachable hist order limits new_cache"
| event: "cache_reachable hist order limits c \<Longrightarrow>
    get_or_create hist rc enrich order limits kn event key c = (h, drops, c') \<Longrightarrow>
    ce_pid event = key_pid key \<Longrightarrow>
    cache_reachable hist order limits c'"
| seen: "cache_reachable hist order limits c \<Longrightarrow> cache_reachable hist order limits (touch now pid c)"
| invalidated: "cache_reachable hist order limits c \<Longrightarrow>
    cache_reachable hist order limits (snd (invalidate_pids hist order pids c))"
| collected: "cache_reachable hist order limits c \<Longrightarrow>
    cache_reachable hist order limits (snd (snd (gc hist order now stale_after listed c)))"

lemma touch_inv: "cache_inv limits c \<Longrightarrow> cache_inv limits (touch now pid c)"
proof -
  have "key_ok (touch now pid c) k = key_ok c k" for k by (cases k) (simp add: touch_def)
  then show "cache_inv limits c \<Longrightarrow> cache_inv limits (touch now pid c)"
    by (simp add: cache_inv_def touch_def del: split_paired_All split_paired_Ex key_ok.simps)
qed

lemma cache_reachable_inv:
  assumes "cache_reachable hist order limits c" and "lists_keys order"
  shows "cache_inv limits c"
  using assms(1)
  by induction
     (use assms(2) in \<open>auto simp: gc_def Let_def
        intro: cache_inv_new get_or_create_inv touch_inv invalidate_pids_inv gc_pids_inv\<close>)

section \<open>What the cache guarantees\<close>

text \<open>A listing of the keys in their order, for examples.\<close>

definition sorted_keys :: "(MetricKey \<rightharpoonup> CachedHandles) \<Rightarrow> MetricKey list" where
  "sorted_keys m = sorted_list_of_set (dom m)"

lemma lists_keys_sorted: "lists_keys sorted_keys"
  by (simp add: lists_keys_def sorted_keys_def)

lemma card_subset_insert:
  assumes "A \<subseteq> insert z (set xs)" and "length xs \<le> n"
  shows "card A \<le> Suc n"
proof -
  have "card A \<le> card (insert z (set xs))" using assms(1) by (intro card_mono) simp_all
  also have "\<dots> \<le> Suc (length xs)" by (simp add: card_insert_if card_length le_SucI)
  finally show ?thesis using assms(2) by simp
qed


text \<open>
  An example: a cache with room for one handle, after an allocation of process 7 on stream 5.
\<close>

definition ex_limits :: CardinalityLimits where
  "ex_limits = \<lparr>max_time_series = 1, max_streams_per_pid = 1, max_kernels_per_pid = 1\<rparr>"

definition ex_labels :: Labels where
  "ex_labels = \<lparr>l_comm = ''train'', l_namespace = ''ml'', l_pod = ''job-0'', l_container = ''main'',
     l_gpu = ''0'', l_gpu_uuid = ''GPU-0''\<rparr>"

definition ex_event :: "u32 \<Rightarrow> u32 \<Rightarrow> CudaEvent" where
  "ex_event t pid = \<lparr>ce_event_type = t, ce_pid = pid, ce_tid = pid, ce_memcpy_kind = 0,
     ce_timestamp_ns = 0, ce_duration_ns = 0, ce_size = 0, ce_addr = 0, ce_stream = 5,
     ce_nvtx_marker = replicate 16 0, ce_comm = replicate 16 0, ce_error_code = 0, ce_pad2 = 0\<rparr>"

definition ex_key :: "u32 \<Rightarrow> u32 \<Rightarrow> MetricKey" where
  "ex_key t pid = (t, pid, 0, 0, 5, 0, 0)"

definition ex_use :: "CardinalityLimits \<Rightarrow> u32 \<Rightarrow> u32 \<Rightarrow> MetricHandleCache \<Rightarrow>
    CachedHandles \<times> nat \<times> MetricHandleCache" where
  "ex_use limits t pid = get_or_create False (\<lambda>_. None) (\<lambda>_ _. ex_labels) sorted_keys limits Map.empty
     (ex_event t pid) (ex_key t pid)"

definition ex_cache :: MetricHandleCache where
  "ex_cache = snd (snd (ex_use ex_limits EVENT_CUDA_MALLOC 7 new_cache))"

lemma ex_use_reachable:
  assumes "cache_reachable False sorted_keys limits c"
  shows "cache_reachable False sorted_keys limits (snd (snd (ex_use limits t pid c)))"
  unfolding ex_use_def
  by (rule cache_reachable.event [OF assms, where event = "ex_event t pid" and key = "ex_key t pid"])
     (auto simp: ex_event_def ex_key_def intro!: prod_eqI)


lemmas ex_simps = ex_cache_def ex_use_def ex_limits_def ex_key_def get_or_create_def limit_key_def
  admit_stream_def admit_kernel_def admit_def new_cache_def sorted_keys_def Let_def

text \<open>
  At the limit on series an event is not dropped but counted under some other handle of
  its process, whichever the hash map lists first: the cache is left alone, a drop is
  counted, and the handle returned is filed under a key that is not the event's.
\<close>

lemma overflow_falls_back:
  assumes "limit_key limits key c = (key', c1)" and "handles c1 key' = None"
    and "lists_keys order" and "finite (dom (handles c1))"
    and "max_time_series limits \<le> card (dom (handles c1))"
    and "k \<in> dom (handles c1)" and "key_pid k = key_pid key'"
  shows "\<exists>other h. key_pid other = key_pid key' \<and> other \<noteq> key' \<and> handles c1 other = Some h \<and>
    get_or_create hist rc enrich order limits kn event key c = (h, 1, c1)"
proof -
  have listed: "set (order (handles c1)) = dom (handles c1)"
    "length (order (handles c1)) = card (dom (handles c1))"
    using assms(3,4) by (auto simp: lists_keys_def distinct_card [symmetric]
      simp del: split_paired_All split_paired_Ex)
  obtain other where other: "find (\<lambda>k. key_pid k = key_pid key') (order (handles c1)) = Some other"
    using assms(6,7) listed(1) by (metis (mono_tags, lifting) find_None_iff option.exhaust)
  then have "key_pid other = key_pid key'" "other \<in> dom (handles c1)"
    using listed(1) by (auto simp: find_Some_iff simp del: split_paired_All split_paired_Ex
      dest: nth_mem)
  moreover from this obtain h where "handles c1 other = Some h" by blast
  ultimately show ?thesis
    using assms(1,2,5) listed(2) other
    by (intro exI [of _ other] exI [of _ h]) (auto simp: get_or_create_def Let_def)
qed

lemma ex_cache_handles:
  "handles ex_cache = [ex_key EVENT_CUDA_MALLOC 7 \<mapsto>
     create_handle False Map.empty ex_labels (ex_event EVENT_CUDA_MALLOC 7) (ex_key EVENT_CUDA_MALLOC 7)]"
  "limit_key ex_limits (ex_key t 7) ex_cache = (ex_key t 7, ex_cache)"
  by (simp_all add: ex_simps)

lemma overflow_falls_back_witness:
  "\<exists>h. ex_use ex_limits EVENT_CUDA_FREE 7 ex_cache = (h, 1, ex_cache) \<and>
     hd (calls_labels h) = ''cudaMalloc'' \<and> operation_name EVENT_CUDA_FREE = ''cudaFree''"
proof -
  have "\<exists>other h. key_pid other = key_pid (ex_key EVENT_CUDA_FREE 7) \<and>
      other \<noteq> ex_key EVENT_CUDA_FREE 7 \<and> handles ex_cache other = Some h \<and>
      ex_use ex_limits EVENT_CUDA_FREE 7 ex_cache = (h, 1, ex_cache)"
    unfolding ex_use_def
    by (rule overflow_falls_back [OF ex_cache_handles(2) _ lists_keys_sorted,
          where k = "ex_key EVENT_CUDA_MALLOC 7"])
       (simp_all add: ex_cache_handles(1) ex_key_def ex_limits_def event_defs)
  then show ?thesis
    by (auto simp: ex_cache_handles(1) create_handle_def Let_def ex_key_def operation_name_def
      operation_names_def event_defs split: if_splits)
qed

lemma removed_in_turn:
  "{s. \<exists>k h. H k = Some h \<and> f k = p \<and> Q s k h} \<union>
   {s. \<exists>k h. (if f k = p then None else H k) = Some h \<and> f k \<in> P \<and> Q s k h} =
   {s. \<exists>k h. H k = Some h \<and> f k \<in> insert p P \<and> Q s k h}"
  by (auto split: if_splits)

lemma gc_pids_effect:
  assumes "lists_keys order" and "finite (dom (handles c))"
  shows "handles (snd (gc_pids hist order pids c)) =
      (\<lambda>k. if key_pid k \<in> set pids then None else handles c k) \<and>
    last_seen (snd (gc_pids hist order pids c)) =
      (\<lambda>p. if p \<in> set pids then None else last_seen c p) \<and>
    set (fst (gc_pids hist order pids c)) =
      {s. \<exists>k h. handles c k = Some h \<and> key_pid k \<in> set pids \<and>
          s \<in> set (remove_handle_metrics hist (key_type k) h)}"
  using assms(2)
proof (induction pids arbitrary: c)
  case Nil
  then show ?case by simp
next
  case (Cons pid pids)
  let ?c1 = "snd (remove_handles hist order (\<lambda>p. p = pid) c)"
  let ?c2 = "?c1\<lparr>last_seen := (last_seen ?c1)(pid := None),
      streams_per_pid := (streams_per_pid ?c1)(pid := None),
      kernels_per_pid := (kernels_per_pid ?c1)(pid := None)\<rparr>"
  have h: "handles ?c2 = (\<lambda>k. if key_pid k = pid then None else handles c k)"
    using remove_handles_eq [OF assms(1) Cons.prems] by simp
  then have "finite (dom (handles ?c2))"
    using Cons.prems by (auto intro: finite_subset [rotated] split: if_splits)
  note IH = Cons.IH [OF this]
  have "set (order (handles c)) = dom (handles c)"
    using assms(1) Cons.prems by (simp add: lists_keys_def)
  then have first: "set (fst (remove_handles hist order (\<lambda>p. p = pid) c)) =
      {s. \<exists>k h. handles c k = Some h \<and> key_pid k = pid \<and>
          s \<in> set (remove_handle_metrics hist (key_type k) h)}"
    by (auto simp: remove_handles_def Let_def simp del: split_paired_All split_paired_Ex; force)
  have seen: "last_seen ?c2 = (last_seen c)(pid := None)" by (simp add: remove_handles_def Let_def)
  obtain r c3 where rest: "gc_pids hist order pids ?c2 = (r, c3)" by fastforce
  have "gc_pids hist order (pid # pids) c =
      (fst (remove_handles hist order (\<lambda>p. p = pid) c) @ r, c3)"
    using rest by (simp add: case_prod_beta Let_def)
  moreover have "handles c3 = (\<lambda>k. if key_pid k \<in> set (pid # pids) then None else handles c k)"
    using IH unfolding rest h by (auto simp: fun_eq_iff simp del: split_paired_All)
  moreover have "last_seen c3 = (\<lambda>p. if p \<in> set (pid # pids) then None else last_seen c p)"
    using IH unfolding rest seen by (auto simp: fun_eq_iff)
  moreover have "set (fst (remove_handles hist order (\<lambda>p. p = pid) c) @ r) =
      {s. \<exists>k h. handles c k = Some h \<and> key_pid k \<in> set (pid # pids) \<and>
          s \<in> set (remove_handle_metrics hist (key_type k) h)}"
    using IH unfolding rest h fst_conv set_append first list.set(2)
    by (simp only: removed_in_turn)
  ultimately show ?case by (simp only: fst_conv snd_conv simp_thms)
qed


text \<open>
  An example: processes 7 and 8 of one pod allocate; 7 was last seen at time 0, 8 at time 100.
\<close>

definition ex_shared :: MetricHandleCache where
  "ex_shared = touch 100 8 (touch 0 7 (snd (snd (ex_use default_limits EVENT_CUDA_MALLOC 8
     (snd (snd (ex_use default_limits EVENT_CUDA_MALLOC 7 new_cache)))))))"

definition ex_handle :: "u32 \<Rightarrow> CachedHandles" where
  "ex_handle pid = create_handle False Map.empty ex_labels (ex_event EVENT_CUDA_MALLOC pid)
     (ex_key EVENT_CUDA_MALLOC pid)"

lemma ex_shared_simps:
  "handles ex_shared = [ex_key EVENT_CUDA_MALLOC 7 \<mapsto> ex_handle 7, ex_key EVENT_CUDA_MALLOC 8 \<mapsto> ex_handle 8]"
  "last_seen ex_shared = [7 \<mapsto> 0, 8 \<mapsto> 100]"
  by (simp_all add: ex_shared_def ex_handle_def touch_def default_limits_def ex_simps)

lemma ex_shared_gc:
  "fst (gc False sorted_keys 100 50 [7, 8] ex_shared) = [7]"
  by (simp add: gc_def gc_stale_def ex_shared_simps)


text \<open>
  The histogram series of a handle carry no process id, so a collection of one process
  also removes the histogram of the same operation from the handles of live processes in the
  same pod on the same GPU, which stay in the cache and go on counting into series that are no
  longer exported.
\<close>

lemma gc_removes_live_series:
  assumes "lists_keys order" and "finite (dom (handles c))" and "set listed = dom (last_seen c)"
    and "gc hist order now stale_after listed c = (stale, removed, c')"
    and "handles c k1 = Some h1" and "key_pid k1 \<in> set stale"
    and "handles c k2 = Some h2" and "key_pid k2 \<notin> set stale"
    and "\<not> profi_is_nccl_event (key_type k1)" and "hist_labels h1 = hist_labels h2"
  shows "handles c' k2 = Some h2 \<and> (Cuda_duration, hist_labels h2) \<in> set removed"
proof -
  have res: "gc_pids hist order stale c = (removed, c')"
    using assms(4) by (auto simp: gc_def Let_def)
  note effect = gc_pids_effect [OF assms(1,2), of hist stale, unfolded res fst_conv snd_conv]
  have "(Cuda_duration, hist_labels h2) \<in> set (remove_handle_metrics hist (key_type k1) h1)"
    using assms(9,10) by (simp add: remove_handle_metrics_def)
  with assms(5,6) have "(Cuda_duration, hist_labels h2) \<in> set removed"
    unfolding effect [THEN conjunct2, THEN conjunct2] by blast
  then show ?thesis using effect assms(7,8) by simp
qed

lemma gc_removes_live_series_witness:
  "handles (snd (snd (gc False sorted_keys 100 50 [7, 8] ex_shared))) (ex_key EVENT_CUDA_MALLOC 8) = Some (ex_handle 8) \<and>
   (Cuda_duration, hist_labels (ex_handle 8)) \<in>
     set (fst (snd (gc False sorted_keys 100 50 [7, 8] ex_shared)))"
proof -
  obtain removed c' where res: "gc False sorted_keys 100 50 [7, 8] ex_shared = ([7], removed, c')"
    using ex_shared_gc by (metis prod.collapse)
  have "handles c' (ex_key EVENT_CUDA_MALLOC 8) = Some (ex_handle 8) \<and>
      (Cuda_duration, hist_labels (ex_handle 8)) \<in> set removed"
    by (rule gc_removes_live_series [OF lists_keys_sorted _ _ res,
          where ?k1.0 = "ex_key EVENT_CUDA_MALLOC 7" and ?h1.0 = "ex_handle 7"])
       (auto simp: ex_shared_simps ex_key_def ex_handle_def create_handle_def Let_def
          profi_is_nccl_event_def event_defs word_le_nat_alt)
  then show ?thesis unfolding res by simp
qed

end
