(* ===== verification/TermReport.thy ===== *)
theory TermReport
  imports Events
begin

text \<open>
  The terminal report, \<^verbatim>\<open>src/src/report.rs\<close>: statistics of durations and sizes, kept per event
  type and copy kind, merged from the local table of the main loop into the shared one, and
  the rows printed from it. The abstract value of the statistics is a summary of the list of
  recorded calls, which recording and merging refine. Formatting durations and sizes with
  two digits is left out: a row carries the numbers that are formatted.
\<close>

section \<open>Statistics\<close>

record TermStats =
  ts_count :: u64
  ts_total_ns :: u64
  ts_total_bytes :: u64
  ts_min_ns :: u64
  ts_max_ns :: u64

definition default_stats :: TermStats where
  "default_stats = \<lparr>ts_count = 0, ts_total_ns = 0, ts_total_bytes = 0, ts_min_ns = 0, ts_max_ns = 0\<rparr>"

definition record_call :: "u64 \<Rightarrow> u64 \<Rightarrow> TermStats \<Rightarrow> TermStats" where
  "record_call dur_ns bytes s =
     (let n = ts_count s + 1 in
      \<lparr>ts_count = n,
       ts_total_ns = ts_total_ns s + dur_ns,
       ts_total_bytes = ts_total_bytes s + bytes,
       ts_min_ns = (if n = 1 \<or> dur_ns < ts_min_ns s then dur_ns else ts_min_ns s),
       ts_max_ns = (if dur_ns > ts_max_ns s then dur_ns else ts_max_ns s)\<rparr>)"

definition merge :: "TermStats \<Rightarrow> TermStats \<Rightarrow> TermStats" where
  "merge s other =
     (if ts_count other = 0 then s
      else let n = ts_count s + ts_count other in
        \<lparr>ts_count = n,
         ts_total_ns = ts_total_ns s + ts_total_ns other,
         ts_total_bytes = ts_total_bytes s + ts_total_bytes other,
         ts_min_ns = (if n = ts_count other \<or> ts_min_ns other < ts_min_ns s
                      then ts_min_ns other else ts_min_ns s),
         ts_max_ns = (if ts_max_ns other > ts_max_ns s then ts_max_ns other else ts_max_ns s)\<rparr>)"

text \<open>What the main loop does with the totals of a drained key: minimum and maximum stay.\<close>

definition record_totals :: "u64 \<Rightarrow> u64 \<Rightarrow> u64 \<Rightarrow> TermStats \<Rightarrow> TermStats" where
  "record_totals count duration bytes s =
     s\<lparr>ts_count := ts_count s + count, ts_total_ns := ts_total_ns s + duration,
       ts_total_bytes := ts_total_bytes s + bytes\<rparr>"

text \<open>The table, by event type and copy kind; a missing entry starts as the default.\<close>

type_synonym stats_table = "u32 \<times> u32 \<rightharpoonup> TermStats"

definition stats_at :: "stats_table \<Rightarrow> u32 \<times> u32 \<Rightarrow> TermStats" where
  "stats_at m key = (case m key of None \<Rightarrow> default_stats | Some s \<Rightarrow> s)"

definition upd_stats :: "u32 \<times> u32 \<Rightarrow> (TermStats \<Rightarrow> TermStats) \<Rightarrow> stats_table \<Rightarrow> stats_table" where
  "upd_stats key f m = m(key \<mapsto> f (stats_at m key))"

text \<open>
  \<^verbatim>\<open>drain\<close> of the local table into the shared one; every key is merged once, so the order does
  not matter.
\<close>

definition merge_tables :: "stats_table \<Rightarrow> stats_table \<Rightarrow> stats_table" where
  "merge_tables shared local = (\<lambda>key. case local key of
     None \<Rightarrow> shared key | Some l \<Rightarrow> Some (merge (stats_at shared key) l))"

section \<open>Rows of the report\<close>

text \<open>Label, count, total, average, minimum, maximum and bytes, before formatting.\<close>

type_synonym row = "string \<times> u64 \<times> u64 \<times> u64 \<times> u64 \<times> u64 \<times> u64"

definition reported_types :: "u32 list" where
  "reported_types = [EVENT_CUDA_MALLOC, EVENT_CUDA_FREE, EVENT_CUDA_MEMCPY, EVENT_CUDA_MEMCPY_ASYNC,
     EVENT_CUDA_LAUNCH_KERNEL]"

definition direction_text :: "u32 \<Rightarrow> string" where
  "direction_text kind =
     (if kind = MEMCPY_H2H then '' H->H'' else if kind = MEMCPY_H2D then '' H->D''
      else if kind = MEMCPY_D2H then '' D->H'' else if kind = MEMCPY_D2D then '' D->D'' else '' ???'')"

definition row_label :: "u32 \<times> u32 \<Rightarrow> string" where
  "row_label key =
     (if fst key = EVENT_CUDA_MALLOC then ''cudaMalloc''
      else if fst key = EVENT_CUDA_FREE then ''cudaFree''
      else if fst key = EVENT_CUDA_MEMCPY \<or> fst key = EVENT_CUDA_MEMCPY_ASYNC
      then ''cudaMemcpy'' @ (if fst key = EVENT_CUDA_MEMCPY_ASYNC then ''Async '' else []) @
           direction_text (snd key)
      else if fst key = EVENT_CUDA_LAUNCH_KERNEL then ''cudaLaunchKernel'' else ''unknown'')"

definition row_of :: "u32 \<times> u32 \<Rightarrow> TermStats \<Rightarrow> row" where
  "row_of key s = (row_label key, ts_count s, ts_total_ns s, ts_total_ns s div ts_count s,
     ts_min_ns s, ts_max_ns s, ts_total_bytes s)"

text \<open>
  \<open>keys\<close> lists the keys of the table in any order; the keys of one type are sorted, by the
  copy kind, and those with a zero count skipped.
\<close>

definition report_rows :: "(u32 \<times> u32) list \<Rightarrow> stats_table \<Rightarrow> row list" where
  "report_rows keys stats =
     concat (map (\<lambda>et. map (\<lambda>k. row_of k (stats_at stats k))
       (filter (\<lambda>k. ts_count (stats_at stats k) \<noteq> 0)
         (sort_key snd (filter (\<lambda>k. fst k = et) keys)))) reported_types)"

section \<open>Refinement of the list of calls\<close>

text \<open>The calls seen, as pairs of duration and size, summed up over the integers.\<close>

definition stats_of :: "(u64 \<times> u64) list \<Rightarrow> TermStats" where
  "stats_of cs = \<lparr>ts_count = of_nat (length cs), ts_total_ns = sum_list (map fst cs),
     ts_total_bytes = sum_list (map snd cs),
     ts_min_ns = (if cs = [] then 0 else Min (fst ` set cs)),
     ts_max_ns = (if cs = [] then 0 else Max (fst ` set cs))\<rparr>"

lemma min_max_if:
  fixes a b :: "'a :: linorder"
  shows "min a b = (if a < b then a else b)" "max a b = (if b < a then a else b)"
  by (auto simp: min_def max_def)

lemma no_calls:
  assumes "length cs < 2 ^ 64"
  shows "(of_nat (length cs) :: u64) = 0 \<longleftrightarrow> cs = []"
proof -
  have "unat (of_nat (length cs) :: u64) = length cs" using assms by (simp add: unat_of_nat_small)
  then show ?thesis by (simp only: unat_0_iff [symmetric] length_0_conv)
qed

lemma record_call_stats:
  assumes "length cs + 1 < 2 ^ 64"
  shows "record_call d s (stats_of cs) = stats_of (cs @ [(d, s)])"
proof -
  have first: "(of_nat (length cs) + 1 = (1::u64)) = (cs = [])"
    using no_calls [of cs] assms by simp
  then show ?thesis
  proof (cases "cs = []")
    case True
    then show ?thesis by (simp add: record_call_def stats_of_def Let_def word_gt_0)
  next
    case False
    obtain m x where mx: "Min (fst ` set cs) = m" "Max (fst ` set cs) = x" by blast
    have "fst ` set (cs @ [(d, s)]) = insert d (fst ` set cs)" by auto
    moreover have "Min (insert d (fst ` set cs)) = (if d < m then d else m)"
      "Max (insert d (fst ` set cs)) = (if x < d then d else x)"
      using False unfolding mx [symmetric] min_max_if [symmetric] by (simp_all add: Min_insert Max_insert)
    ultimately show ?thesis
      using False first mx unfolding record_call_def stats_of_def Let_def
      by (simp add: add.commute)
  qed
qed

lemma merge_stats:
  assumes "length xs + length ys < 2 ^ 64"
  shows "merge (stats_of xs) (stats_of ys) = stats_of (xs @ ys)"
proof (cases "ys = []")
  case True
  then show ?thesis by (simp add: merge_def stats_of_def)
next
  case False
  have nz: "(of_nat (length ys) :: u64) \<noteq> 0" and z: "((of_nat (length xs) :: u64) = 0) = (xs = [])"
    using False assms no_calls [of xs] no_calls [of ys] by simp_all
  show ?thesis
  proof (cases "xs = []")
    case True
    then show ?thesis using False nz by (simp add: merge_def stats_of_def Let_def word_gt_0)
  next
    case xs: False
    obtain m x n y where mx: "Min (fst ` set xs) = m" "Max (fst ` set xs) = x"
      "Min (fst ` set ys) = n" "Max (fst ` set ys) = y" by blast
    have "Min (fst ` set xs \<union> fst ` set ys) = (if n < m then n else m)"
      "Max (fst ` set xs \<union> fst ` set ys) = (if x < y then y else x)"
      using xs False unfolding mx [symmetric] min_max_if [symmetric]
      by (simp_all add: Min_Un Max_Un min.commute max.commute)
    then show ?thesis
      using False nz z xs mx unfolding merge_def stats_of_def Let_def set_append image_Un by simp
  qed
qed

text \<open>
  The contract of statistics that are collected in parts: \<open>add\<close> takes in one item, \<open>join\<close> a
  part, and both agree with summing up the list of all items, as long as fewer than \<open>cap\<close>
  were seen.
\<close>

locale mergeable =
  fixes empty :: 's
    and add :: "'a \<Rightarrow> 's \<Rightarrow> 's"
    and join :: "'s \<Rightarrow> 's \<Rightarrow> 's"
    and sum_of :: "'a list \<Rightarrow> 's"
    and cap :: nat
  assumes sum_empty: "sum_of [] = empty"
    and add_sum: "length xs + 1 < cap \<Longrightarrow> add x (sum_of xs) = sum_of (xs @ [x])"
    and join_sum: "length xs + length ys < cap \<Longrightarrow> join (sum_of xs) (sum_of ys) = sum_of (xs @ ys)"
begin

lemma fold_add: "length xs < cap \<Longrightarrow> fold add xs empty = sum_of xs"
  by (induction xs rule: rev_induct) (simp_all add: sum_empty add_sum)

lemma fold_join:
  "length (concat bs) < cap \<Longrightarrow> fold (\<lambda>b s. join s (fold add b empty)) bs empty = sum_of (concat bs)"
  by (induction bs rule: rev_induct) (simp_all add: sum_empty fold_add join_sum)

end

interpretation call_stats: mergeable default_stats "\<lambda>(d, b). record_call d b" merge stats_of "2 ^ 64"
proof unfold_locales
  fix c :: "u64 \<times> u64" and cs :: "(u64 \<times> u64) list"
  show "length cs + 1 < 2 ^ 64 \<Longrightarrow> (case c of (d, b) \<Rightarrow> record_call d b) (stats_of cs) = stats_of (cs @ [c])"
    by (cases c) (simp add: record_call_stats)
qed (simp_all add: merge_stats, simp add: default_stats_def stats_of_def)

section \<open>Tables\<close>

text \<open>The table of a batch of events, and of the batches merged one after the other.\<close>

definition record_events :: "((u32 \<times> u32) \<times> u64 \<times> u64) list \<Rightarrow> stats_table \<Rightarrow> stats_table" where
  "record_events es m = fold (\<lambda>(key, d, b). upd_stats key (record_call d b)) es m"

definition merge_batches :: "((u32 \<times> u32) \<times> u64 \<times> u64) list list \<Rightarrow> stats_table" where
  "merge_batches batches =
     fold (\<lambda>es shared. merge_tables shared (record_events es Map.empty)) batches Map.empty"

definition calls_at :: "u32 \<times> u32 \<Rightarrow> ((u32 \<times> u32) \<times> u64 \<times> u64) list \<Rightarrow> (u64 \<times> u64) list" where
  "calls_at key es = map snd (filter (\<lambda>e. fst e = key) es)"

lemma stats_at_simps [simp]:
  "stats_at Map.empty key = default_stats"
  "stats_at (upd_stats key f m) key' = (if key' = key then f (stats_at m key) else stats_at m key')"
  "stats_at (merge_tables shared local) key = merge (stats_at shared key) (stats_at local key)"
  by (simp_all add: stats_at_def upd_stats_def merge_tables_def merge_def default_stats_def
      split: option.split)

lemma calls_at_simps [simp]:
  "calls_at key [] = []"
  "calls_at key (e # es) = (if fst e = key then snd e # calls_at key es else calls_at key es)"
  "calls_at key (es @ es') = calls_at key es @ calls_at key es'"
  by (simp_all add: calls_at_def)

lemma calls_at_concat: "calls_at key (concat bs) = concat (map (calls_at key) bs)"
  by (induction bs) simp_all

lemma stats_at_record_events:
  "stats_at (record_events es m) key = fold (\<lambda>(d, b). record_call d b) (calls_at key es) (stats_at m key)"
  by (induction es arbitrary: m) (auto simp: record_events_def)

lemma stats_at_merge_batches:
  "stats_at (merge_batches bs) key =
     fold (\<lambda>b s. merge s (fold (\<lambda>(d, b). record_call d b) b default_stats)) (map (calls_at key) bs) default_stats"
  unfolding merge_batches_def
  by (induction bs rule: rev_induct) (simp_all add: stats_at_record_events)



text \<open>
  Minimum and maximum of drained totals. For the operations the probes aggregate, which
  reach the report as totals and never as single calls, count, total and average are right
  but the row shows 0 as the shortest and as the longest duration, whatever the calls took.
\<close>

lemma aggregated_rows_lose_extremes:
  fixes ts :: "(u64 \<times> u64 \<times> u64) list"
  defines "s \<equiv> fold (\<lambda>(n, d, b). record_totals n d b) ts default_stats"
  shows "row_of key s = (row_label key, sum_list (map fst ts), sum_list (map (fst \<circ> snd) ts),
    sum_list (map (fst \<circ> snd) ts) div sum_list (map fst ts), 0, 0, sum_list (map (snd \<circ> snd) ts)) \<and>
    ts_min_ns (merge default_stats s) = 0 \<and> ts_max_ns (merge default_stats s) = 0"
proof -
  have "s = \<lparr>ts_count = sum_list (map fst ts), ts_total_ns = sum_list (map (fst \<circ> snd) ts),
      ts_total_bytes = sum_list (map (snd \<circ> snd) ts), ts_min_ns = 0, ts_max_ns = 0\<rparr>"
    unfolding s_def
    by (induction ts rule: rev_induct)
       (simp_all add: default_stats_def record_totals_def case_prod_beta)
  then show ?thesis by (simp add: row_of_def merge_def default_stats_def Let_def)
qed

end
