(* ===== verification/NcclWindow.thy ===== *)
theory NcclWindow
  imports Events "HOL-Library.Multiset"
begin

text \<open>
  The windows of collective durations of the main loop (\<^verbatim>\<open>src/src/main.rs\<close>) and the straggler
  ratios computed from them: per process and operation the last hundred durations, of which
  the 95th percentile is compared with the median over the processes. A window is specified
  by the list of everything pushed: it holds the last hundred of it.
\<close>

section \<open>The window\<close>

definition NCCL_WINDOW_SIZE :: nat where
  "NCCL_WINDOW_SIZE = 100"

definition push_window :: "u64 \<Rightarrow> u64 list \<Rightarrow> u64 list" where
  "push_window d window =
     (if length window \<ge> NCCL_WINDOW_SIZE then tl window else window) @ [d]"

text \<open>The middles of the histogram cells, in nanoseconds; one per non-empty cell is pushed.\<close>

definition NCCL_BUCKET_MIDPOINTS_NS :: "u64 list" where
  "NCCL_BUCKET_MIDPOINTS_NS = [5000, 30000, 75000, 300000, 750000, 3000000, 7500000, 30000000,
     75000000, 300000000, 750000000, 2000000000]"

definition midpoints :: "u64 list \<Rightarrow> u64 list" where
  "midpoints buckets = map fst (filter (\<lambda>(d, n). n \<noteq> 0) (zip NCCL_BUCKET_MIDPOINTS_NS buckets))"

lemma push_window_last:
  assumes "length w \<le> NCCL_WINDOW_SIZE"
  shows "push_window d w = drop (length (w @ [d]) - NCCL_WINDOW_SIZE) (w @ [d])"
  using assms by (cases w) (auto simp: push_window_def NCCL_WINDOW_SIZE_def)

lemma drop_last_snoc:
  "drop (length (drop (length xs - n) xs @ [x]) - n) (drop (length xs - n) xs @ [x]) =
   drop (length (xs @ [x]) - n) (xs @ [x])"
  by (cases "length xs < n") (auto simp: Suc_diff_le)

lemma window_last:
  "fold push_window ds [] = drop (length ds - NCCL_WINDOW_SIZE) ds"
proof (induction ds rule: rev_induct)
  case (snoc d ds)
  have "length (drop (length ds - NCCL_WINDOW_SIZE) ds) \<le> NCCL_WINDOW_SIZE" by simp
  from push_window_last [OF this, of d] show ?case
    by (simp add: snoc.IH drop_last_snoc [of _ NCCL_WINDOW_SIZE d, simplified])
qed simp

section \<open>The percentile\<close>

text \<open>
  The index is a product of floating-point numbers rounded towards zero, for lengths up to a
  hundred the integer below.
\<close>

definition p95_idx :: "nat \<Rightarrow> nat" where
  "p95_idx n = n * 95 div 100"

definition p95 :: "u64 list \<Rightarrow> u64" where
  "p95 window = (let sorted = sort window in sorted ! min (p95_idx (length sorted)) (length sorted - 1))"

lemma count_le_sorted:
  fixes xs :: "'a :: linorder list"
  assumes "sorted xs" and "i < length xs"
  shows "i < length (filter (\<lambda>x. x \<le> xs ! i) xs)" and "length (filter (\<lambda>x. x < xs ! i) xs) \<le> i"
proof -
  have "filter (\<lambda>x. x \<le> xs ! i) (take (Suc i) xs) = take (Suc i) xs"
    using assms by (auto simp: filter_id_conv in_set_conv_nth sorted_nth_mono)
  then have "length (filter (\<lambda>x. x \<le> xs ! i) (take (Suc i) xs @ drop (Suc i) xs)) \<ge> Suc i"
    using assms(2) by (simp only: filter_append length_append) simp
  then show "i < length (filter (\<lambda>x. x \<le> xs ! i) xs)" by simp
  have "filter (\<lambda>x. x < xs ! i) (drop i xs) = []"
    using assms by (auto simp: filter_empty_conv in_set_conv_nth not_less intro!: sorted_nth_mono)
  then have "length (filter (\<lambda>x. x < xs ! i) (take i xs @ drop i xs)) \<le> i"
    by (simp only: filter_append length_append) (metis add.right_neutral length_filter_le length_take
        list.size(3) min.bounded_iff)
  then show "length (filter (\<lambda>x. x < xs ! i) xs) \<le> i" by simp
qed

lemma length_filter_sort: "length (filter P (sort xs)) = length (filter P xs)"
  by (metis mset_filter mset_sort size_mset)

lemma p95_counts:
  assumes "w \<noteq> []"
  shows "p95 w \<in> set w" and "95 * length w < 100 * length (filter (\<lambda>d. d \<le> p95 w) w)"
    and "100 * length (filter (\<lambda>d. d < p95 w) w) \<le> 95 * length w"
proof -
  let ?i = "p95_idx (length w)"
  have i: "?i < length (sort w)" using assms by (simp add: p95_idx_def div_less_iff_less_mult)
  have at: "p95 w = sort w ! ?i" using i by (auto simp: p95_def min_def Let_def)
  show "p95 w \<in> set w" unfolding at using i nth_mem [OF i] by simp
  have "?i < length (filter (\<lambda>d. d \<le> p95 w) w)" and "length (filter (\<lambda>d. d < p95 w) w) \<le> ?i"
    using count_le_sorted [of "sort w" ?i] i by (simp_all add: at length_filter_sort)
  then show "95 * length w < 100 * length (filter (\<lambda>d. d \<le> p95 w) w)"
    and "100 * length (filter (\<lambda>d. d < p95 w) w) \<le> 95 * length w"
    unfolding p95_idx_def by linarith+
qed

section \<open>Straggler ratios\<close>

text \<open>
  \<open>windows\<close> lists the windows (process, operation, durations) in the order of the hash map and
  \<open>types\<close> the operations in the order of the second hash map. A ratio is returned as the pair
  of the percentile and the median.
\<close>

definition op_percentiles :: "(u32 \<times> u32 \<times> u64 list) list \<Rightarrow> u32 \<Rightarrow> (u32 \<times> u64) list" where
  "op_percentiles windows t =
     List.map_filter (\<lambda>(pid, t', w). if t' = t \<and> length w \<ge> 10 then Some (pid, p95 w) else None) windows"

definition op_ratios :: "(u32 \<times> u64) list \<Rightarrow> (u32 \<times> u64 \<times> u64) list" where
  "op_ratios pid_p95s =
     (if length pid_p95s < 2 then []
      else let sorted = sort_key snd pid_p95s; median = snd (sorted ! (length sorted div 2))
        in if median = 0 then [] else map (\<lambda>(pid, p). (pid, p, median)) sorted)"

definition straggler_ratios ::
    "(u32 \<times> u32 \<times> u64 list) list \<Rightarrow> u32 list \<Rightarrow> (u32 \<times> u32 \<times> u64 \<times> u64) list" where
  "straggler_ratios windows types =
     concat (map (\<lambda>t. map (\<lambda>(pid, p, m). (pid, t, p, m)) (op_ratios (op_percentiles windows t))) types)"

lemma op_ratios_majority:
  assumes "rs = op_ratios ps" and "rs \<noteq> []"
  shows "mset (map (\<lambda>(pid, p, m). (pid, p)) rs) = mset ps"
    and "\<exists>m. 0 < m \<and> list_all (\<lambda>(pid, p, m'). m' = m) rs \<and>
      length rs < 2 * length (filter (\<lambda>(pid, p, m'). p \<le> m) rs)"
proof -
  let ?s = "sort_key snd ps"
  let ?m = "snd (?s ! (length ?s div 2))"
  have rs: "rs = map (\<lambda>(pid, p). (pid, p, ?m)) ?s" and m: "?m \<noteq> 0" and n: "2 \<le> length ps"
    using assms(1,2) by (auto simp: op_ratios_def Let_def split: if_splits)
  have pairs: "map (\<lambda>(pid, p, m). (pid, p)) rs = ?s" unfolding rs by (simp add: comp_def case_prod_beta)
  show "mset (map (\<lambda>(pid, p, m). (pid, p)) rs) = mset ps" unfolding pairs by simp
  have "length ?s div 2 < length (filter (\<lambda>p. p \<le> map snd ?s ! (length ?s div 2)) (map snd ?s))"
    using n count_le_sorted(1) [of "map snd ?s" "length ?s div 2"] by simp
  moreover have "map snd ?s ! (length ?s div 2) = ?m" using n by (intro nth_map) simp
  ultimately have "length ?s div 2 < length (filter (\<lambda>x. snd x \<le> ?m) ?s)"
    by (simp add: filter_map comp_def)
  moreover have "filter (\<lambda>(pid, p, m'). p \<le> ?m) rs = map (\<lambda>(pid, p). (pid, p, ?m)) (filter (\<lambda>x. snd x \<le> ?m) ?s)"
    unfolding rs by (simp add: filter_map comp_def case_prod_beta)
  moreover have "length rs = length ?s" unfolding rs by simp
  ultimately have "length rs < 2 * length (filter (\<lambda>(pid, p, m'). p \<le> ?m) rs)" by simp
  moreover have "list_all (\<lambda>(pid, p, m'). m' = ?m) rs" unfolding rs by (simp add: list_all_iff case_prod_beta)
  ultimately show "\<exists>m. 0 < m \<and> list_all (\<lambda>(pid, p, m'). m' = m) rs \<and>
      length rs < 2 * length (filter (\<lambda>(pid, p, m'). p \<le> m) rs)"
    using m by (intro exI [of _ ?m]) (simp add: word_gt_0)
qed

text \<open>
  Stragglers are measured against the majority. Whatever durations were pushed for the
  processes and operations, every ratio of an operation is that of a process with at least
  ten durations: its numerator is one of the last hundred durations of the process, more
  than 95 of a hundred of them are at most that long and at most 95 of a hundred shorter;
  the denominator is the same for all, and more than half of the ratios are at most one.
\<close>

lemma stragglers_exceed_majority:
  assumes "rs = op_ratios (op_percentiles (map (\<lambda>(pid, t, ds). (pid, t, fold push_window ds [])) pushed) t)"
    and "rs \<noteq> []"
  shows "(\<forall>(pid, p, m) \<in> set rs. \<exists>ds w. (pid, t, ds) \<in> set pushed \<and> w = drop (length ds - 100) ds \<and>
      10 \<le> length w \<and> p \<in> set w \<and> 95 * length w < 100 * length (filter (\<lambda>d. d \<le> p) w) \<and>
      100 * length (filter (\<lambda>d. d < p) w) \<le> 95 * length w) \<and>
    (\<exists>m. 0 < m \<and> list_all (\<lambda>(pid, p, m'). m' = m) rs \<and>
       length rs < 2 * length (filter (\<lambda>(pid, p, m'). p \<le> m) rs))"
proof (intro conjI ballI)
  fix x assume "x \<in> set rs"
  obtain pid p m where x: "x = (pid, p, m)" by (cases x)
  let ?windows = "map (\<lambda>(pid, t, ds). (pid, t, fold push_window ds [])) pushed"
  have "(pid, p) \<in> set (map (\<lambda>(pid, p, m). (pid, p)) rs)" using \<open>x \<in> set rs\<close> x by force
  then have "(pid, p) \<in> set (op_percentiles ?windows t)"
    using op_ratios_majority(1) [OF assms] by (metis mset_eq_setD)
  then obtain ds where ds: "(pid, t, ds) \<in> set pushed" "p = p95 (fold push_window ds [])"
    "10 \<le> length (fold push_window ds [])"
    by (auto simp: op_percentiles_def List.map_filter_def split: if_splits)
  have w: "fold push_window ds [] = drop (length ds - 100) ds"
    by (simp add: window_last NCCL_WINDOW_SIZE_def)
  have "drop (length ds - 100) ds \<noteq> []" using ds(3) w by (metis list.size(3) not_numeral_le_zero)
  from p95_counts [OF this] ds w
  show "case x of (pid, p, m) \<Rightarrow> \<exists>ds w. (pid, t, ds) \<in> set pushed \<and> w = drop (length ds - 100) ds \<and>
      10 \<le> length w \<and> p \<in> set w \<and> 95 * length w < 100 * length (filter (\<lambda>d. d \<le> p) w) \<and>
      100 * length (filter (\<lambda>d. d < p) w) \<le> 95 * length w"
    unfolding x by auto
qed (rule op_ratios_majority(2) [OF assms])

lemma stragglers_exceed_majority_witness:
  "\<exists>m. 0 < m \<and> list_all (\<lambda>(pid, p, m'). m' = m)
     (op_ratios (op_percentiles [(1, 9, replicate 10 5), (2, 9, replicate 10 30)] 9))"
proof -
  let ?pushed = "[(1, 9, replicate 10 5), (2, 9, replicate 10 30)] :: (u32 \<times> u32 \<times> u64 list) list"
  have same: "map (\<lambda>(pid, t, ds). (pid, t, fold push_window ds [])) ?pushed = ?pushed"
    by (simp add: window_last NCCL_WINDOW_SIZE_def)
  have "op_percentiles ?pushed 9 = [(1, 5), (2, 30)]"
    by (simp add: op_percentiles_def List.map_filter_simps p95_def p95_idx_def sorted_sort_id)
  then have "op_ratios (op_percentiles (map (\<lambda>(pid, t, ds). (pid, t, fold push_window ds [])) ?pushed) 9) \<noteq> []"
    unfolding same by (simp add: op_ratios_def Let_def)
  from stragglers_exceed_majority [OF refl this] show ?thesis unfolding same by blast
qed

end
