(* ===== verification/Symbols.thy ===== *)
theory Symbols
  imports RustStrings
begin

text \<open>
  Kernel names from the traced process, \<^verbatim>\<open>src/src/symbols.rs\<close>: reading the string behind a
  registered name pointer, and resolving the address of a host function through the memory
  map of the process and the symbol tables of the mapped files, with the caches of the
  resolver thread. The files are outside the program and arguments of the definitions:
  \<open>open_mem\<close> and \<open>read_mem\<close> for \<^verbatim>\<open>/proc/<pid>/mem\<close>, \<open>read_maps\<close> for \<^verbatim>\<open>/proc/<pid>/maps\<close>, and
  \<open>elf_symbols\<close> for the symbols (address, size, name if readable) that the object library lists
  for a file, the dynamic ones last. Of the two LRU caches the code relies on what lookup,
  put and pop do to the key at hand; which other keys a put drops is an argument.
\<close>

section \<open>Reading a name\<close>

datatype KernelNameReadError = OpenFailed | ReadFailed | NotUtf8 | Empty

fun as_label :: "KernelNameReadError \<Rightarrow> string" where
  "as_label OpenFailed = ''open_failed''"
| "as_label ReadFailed = ''read_failed''"
| "as_label NotUtf8 = ''not_utf8''"
| "as_label Empty = ''empty''"

definition read_kernel_name ::
    "(u32 \<Rightarrow> bool) \<Rightarrow> (u32 \<Rightarrow> u64 \<Rightarrow> u8 list option) \<Rightarrow> u32 \<Rightarrow> u64 \<Rightarrow> KernelNameReadError + string" where
  "read_kernel_name open_mem read_mem pid name_ptr =
     (if name_ptr = 0 then Inl ReadFailed
      else if \<not> open_mem pid then Inl OpenFailed
      else case read_mem pid name_ptr of
        None \<Rightarrow> Inl ReadFailed
      | Some bytes \<Rightarrow>
          (let buf = take 1024 bytes; name = until_nul buf
           in if buf = [] then Inl ReadFailed
              else if name = [] then Inl Empty
              else case from_utf8 name of None \<Rightarrow> Inl NotUtf8 | Some s \<Rightarrow> Inr s))"

section \<open>The memory map of a process\<close>

record MapEntry =
  me_start :: u64
  me_end :: u64
  me_offset :: u64
  me_host_path :: string

definition hex_or_0 :: "string \<Rightarrow> u64" where
  "hex_or_0 s = (case from_str_radix 64 16 s of None \<Rightarrow> 0 | Some n \<Rightarrow> of_nat n)"

definition root_path :: "string \<Rightarrow> u32 \<Rightarrow> string" where
  "root_path proc_path pid = proc_path @ ''/'' @ fmt_dec (unat pid) @ ''/root''"

definition parse_map_line :: "string \<Rightarrow> u32 \<Rightarrow> string \<Rightarrow> MapEntry option" where
  "parse_map_line proc_path pid line =
     (let parts = split_whitespace line
      in if length parts < 6 then None
         else if CHR ''x'' \<notin> set (parts ! 1) then None
         else let addr_parts = split_at_char (CHR ''-'') (parts ! 0)
           in if length addr_parts \<noteq> 2 then None
              else Some \<lparr>me_start = hex_or_0 (addr_parts ! 0), me_end = hex_or_0 (addr_parts ! 1),
                     me_offset = hex_or_0 (parts ! 2), me_host_path = root_path proc_path pid @ parts ! 5\<rparr>)"

definition parse_maps :: "string \<Rightarrow> (u32 \<Rightarrow> string option) \<Rightarrow> u32 \<Rightarrow> MapEntry list" where
  "parse_maps proc_path read_maps pid =
     (case read_maps pid of
        None \<Rightarrow> []
      | Some content \<Rightarrow> List.map_filter (parse_map_line proc_path pid) (str_lines content))"

section \<open>Symbol tables\<close>

type_synonym LibSymbols = "(u64 \<times> u64 \<times> string) list"

fun add_symbol :: "u64 \<times> u64 \<times> string option \<Rightarrow> LibSymbols \<Rightarrow> LibSymbols" where
  "add_symbol (address, sz, name) symbols =
     (if sz = 0 \<and> address \<in> set (map fst symbols) then symbols
      else (case name of
          None \<Rightarrow> symbols
        | Some n \<Rightarrow> if n \<noteq> [] \<and> address > 0 then symbols @ [(address, sz, n)] else symbols))"

text \<open>\<^verbatim>\<open>dedup_by_key\<close>: of neighbours with the same key the first stays.\<close>

fun dedup_by :: "('a \<Rightarrow> 'k) \<Rightarrow> 'a list \<Rightarrow> 'a list" where
  "dedup_by key (x # y # xs) =
     (if key x = key y then dedup_by key (x # xs) else x # dedup_by key (y # xs))"
| "dedup_by key xs = xs"

definition parse_elf_symbols ::
    "(string \<Rightarrow> (u64 \<times> u64 \<times> string option) list option) \<Rightarrow> string \<Rightarrow> LibSymbols option" where
  "parse_elf_symbols elf_symbols path =
     (case elf_symbols path of
        None \<Rightarrow> None
      | Some syms \<Rightarrow>
          (let symbols = dedup_by fst (sort_key fst (fold add_symbol syms []))
           in if symbols = [] then None else Some symbols))"

text \<open>\<^verbatim>\<open>binary_search_by_key\<close>: \<open>Inr\<close> the place of the key, \<open>Inl\<close> where it would be inserted.\<close>

function bsearch :: "u64 list \<Rightarrow> u64 \<Rightarrow> nat \<Rightarrow> nat \<Rightarrow> nat + nat" where
  "bsearch keys x lo hi =
     (if lo < hi then
        let mid = (lo + hi) div 2
        in if keys ! mid = x then Inr mid
           else if keys ! mid < x then bsearch keys x (mid + 1) hi
           else bsearch keys x lo mid
      else Inl lo)"
  by pat_completeness auto

termination
  by (relation "measure (\<lambda>(keys, x, lo, hi). hi - lo)") auto

declare bsearch.simps [simp del]

definition find_symbol :: "LibSymbols \<Rightarrow> u64 \<Rightarrow> string option" where
  "find_symbol symbols file_offset =
     (case bsearch (map fst symbols) file_offset 0 (length symbols) of
        Inr i \<Rightarrow> Some (snd (snd (symbols ! i)))
      | Inl i \<Rightarrow>
          if i > 0 then
            (case symbols ! (i - 1) of (sym_addr, sym_size, name) \<Rightarrow>
               if sym_size = 0 \<or> file_offset < sym_addr + sym_size then Some name else None)
          else None)"

section \<open>The resolver\<close>

datatype SymRequest = Resolve u32 u64 | EvictPids "u32 list"

record SymbolResolver =
  addr_cache :: "u32 \<times> u64 \<rightharpoonup> string"
  lib_cache :: "(string \<times> LibSymbols option) list"
  maps_cache :: "u32 \<rightharpoonup> MapEntry list"

definition new_resolver :: SymbolResolver where
  "new_resolver = \<lparr>addr_cache = Map.empty, lib_cache = [], maps_cache = Map.empty\<rparr>"

text \<open>The files a resolution reads, and the keys its puts into the LRU caches drop.\<close>

record sym_world =
  proc_path :: string
  read_maps :: "u32 \<Rightarrow> string option"
  elf_symbols :: "string \<Rightarrow> (u64 \<times> u64 \<times> string option) list option"
  dropped_addrs :: "(u32 \<times> u64) set"
  dropped_maps :: "u32 set"

definition lru_put :: "'k set \<Rightarrow> 'k \<Rightarrow> 'v \<Rightarrow> ('k \<rightharpoonup> 'v) \<Rightarrow> 'k \<rightharpoonup> 'v" where
  "lru_put dropped k v m = (m |` (- dropped))(k \<mapsto> v)"

definition load_symbols :: "sym_world \<Rightarrow> string \<Rightarrow> SymbolResolver \<Rightarrow> LibSymbols option \<times> SymbolResolver" where
  "load_symbols W host_path r =
     (case map_of (lib_cache r) host_path of
        Some s \<Rightarrow> (s, r)
      | None \<Rightarrow>
          (let kept = (if length (lib_cache r) > 64 then [] else lib_cache r);
               symbols = parse_elf_symbols (elf_symbols W) host_path
           in (symbols, r\<lparr>lib_cache := (host_path, symbols) # kept\<rparr>)))"

definition unknown_name :: "u64 \<Rightarrow> string" where
  "unknown_name a = ''unknown_0x'' @ fmt_hex (unat a)"

definition maps_of :: "sym_world \<Rightarrow> u32 \<Rightarrow> SymbolResolver \<Rightarrow> MapEntry list \<times> SymbolResolver" where
  "maps_of W pid r =
     (case maps_cache r pid of
        Some maps \<Rightarrow> (maps, r)
      | None \<Rightarrow>
          (let maps = parse_maps (proc_path W) (read_maps W) pid
           in (maps, r\<lparr>maps_cache := lru_put (dropped_maps W) pid maps (maps_cache r)\<rparr>)))"

definition file_offset :: "MapEntry \<Rightarrow> u64 \<Rightarrow> u64" where
  "file_offset entry addr = addr - me_start entry + me_offset entry"

definition name_in :: "LibSymbols option \<Rightarrow> u64 \<Rightarrow> string" where
  "name_in symbols off =
     (case symbols of
        None \<Rightarrow> unknown_name off
      | Some syms \<Rightarrow> (case find_symbol syms off of Some n \<Rightarrow> n | None \<Rightarrow> unknown_name off))"

definition resolve_uncached :: "sym_world \<Rightarrow> u32 \<Rightarrow> u64 \<Rightarrow> SymbolResolver \<Rightarrow> string \<times> SymbolResolver" where
  "resolve_uncached W pid addr r =
     (let (maps, r1) = maps_of W pid r
      in case find (\<lambda>m. me_start m \<le> addr \<and> addr < me_end m) maps of
           None \<Rightarrow> (unknown_name addr, r1)
         | Some entry \<Rightarrow>
             (let (symbols, r2) = load_symbols W (me_host_path entry) r1
              in (name_in symbols (file_offset entry addr), r2)))"

definition resolve :: "sym_world \<Rightarrow> u32 \<Rightarrow> u64 \<Rightarrow> SymbolResolver \<Rightarrow> string \<times> SymbolResolver" where
  "resolve W pid addr r =
     (if addr = 0 then (''unknown'', r)
      else case addr_cache r (pid, addr) of
        Some name \<Rightarrow> (name, r)
      | None \<Rightarrow>
          (let (name, r1) = resolve_uncached W pid addr r
           in (name, r1\<lparr>addr_cache := lru_put (dropped_addrs W) (pid, addr) name (addr_cache r1)\<rparr>)))"

definition evict_pids :: "u32 list \<Rightarrow> SymbolResolver \<Rightarrow> SymbolResolver" where
  "evict_pids pids r =
     r\<lparr>maps_cache := maps_cache r |` (- set pids),
       addr_cache := (\<lambda>(p, a). if p \<in> set pids then None else addr_cache r (p, a))\<rparr>"

text \<open>The resolver thread: a request, and the answer it sends back.\<close>

fun serve :: "sym_world \<Rightarrow> SymRequest \<Rightarrow> SymbolResolver \<Rightarrow> (u32 \<times> u64 \<times> string) option \<times> SymbolResolver" where
  "serve W (Resolve pid addr) r = (let (name, r') = resolve W pid addr r in (Some (pid, addr, name), r'))"
| "serve W (EvictPids pids) r = (None, evict_pids pids r)"

section \<open>The search finds the covering symbol\<close>

lemma bsearch_contract:
  assumes "sorted_wrt (<) keys" and "hi \<le> length keys"
    and "\<forall>j < lo. keys ! j < x" and "\<forall>j < length keys. hi \<le> j \<longrightarrow> x < keys ! j" and "lo \<le> hi"
  shows "case bsearch keys x lo hi of
      Inr i \<Rightarrow> i < length keys \<and> keys ! i = x
    | Inl i \<Rightarrow> i \<le> length keys \<and> (\<forall>j < i. keys ! j < x) \<and> (\<forall>j < length keys. i \<le> j \<longrightarrow> x < keys ! j)"
  using assms
proof (induction keys x lo hi rule: bsearch.induct)
  case (1 keys x lo hi)
  let ?mid = "(lo + hi) div 2"
  show ?case
  proof (cases "lo < hi")
    case False
    then show ?thesis using "1.prems" by (subst bsearch.simps) simp
  next
    case True
    then have mid: "lo \<le> ?mid" "?mid < hi" "?mid < length keys" using "1.prems"(2) by auto
    have below: "keys ! j < x" if "keys ! ?mid < x" "j < ?mid + 1" for j
      using that mid "1.prems"(1) sorted_wrt_nth_less [of "(<)" keys j ?mid]
      by (cases "j = ?mid") (auto intro: less_trans)
    have above: "x < keys ! j" if "x < keys ! ?mid" "?mid \<le> j" "j < length keys" for j
      using that "1.prems"(1) sorted_wrt_nth_less [of "(<)" keys ?mid j]
      by (cases "j = ?mid") (auto intro: less_trans)
    consider "keys ! ?mid = x" | "keys ! ?mid < x" | "x < keys ! ?mid" by fastforce
    then show ?thesis
    proof cases
      case 1
      then show ?thesis using True mid by (subst bsearch.simps) (simp add: Let_def)
    next
      case 2
      then have "bsearch keys x lo hi = bsearch keys x (?mid + 1) hi"
        using True by (subst bsearch.simps) (auto simp: Let_def)
      then show ?thesis
        using "1.IH"(1) [OF True refl _ 2 "1.prems"(1,2) _ "1.prems"(4)] 2 below mid by auto
    next
      case 3
      then have "bsearch keys x lo hi = bsearch keys x lo ?mid"
        using True by (subst bsearch.simps) (auto simp: Let_def)
      then show ?thesis
        using "1.IH"(2) [OF True refl _ _ "1.prems"(1) _ "1.prems"(3)] less_not_sym [OF 3] above mid 3 by auto
    qed
  qed
qed

text \<open>
  A table the code searches: addresses increase strictly. The symbol that covers an offset
  is the last one that starts at or before it, when it starts there, has no size, or
  reaches past it.
\<close>

definition table_ok :: "LibSymbols \<Rightarrow> bool" where
  "table_ok symbols \<longleftrightarrow> sorted_wrt (<) (map fst symbols) \<and>
     list_all (\<lambda>(a, sz, n). 0 < a \<and> n \<noteq> []) symbols"

definition covers :: "LibSymbols \<Rightarrow> u64 \<Rightarrow> string \<Rightarrow> bool" where
  "covers symbols off name \<longleftrightarrow>
     (\<exists>a sz. (a, sz, name) \<in> set symbols \<and> a \<le> off \<and> (\<forall>b \<in> fst ` set symbols. b \<le> off \<longrightarrow> b \<le> a) \<and>
        (a = off \<or> sz = 0 \<or> off < a + sz))"

lemma covers_at:
  assumes "sorted_wrt (<) (map fst symbols)" and "i < length symbols"
    and "symbols ! i = (a, sz, n)" and "a \<le> off" and "\<forall>j < length symbols. i < j \<longrightarrow> off < fst (symbols ! j)"
  shows "covers symbols off name \<longleftrightarrow> name = n \<and> (a = off \<or> sz = 0 \<or> off < a + sz)"
proof -
  have starts: "b \<le> a" if b: "b \<in> fst ` set symbols" "b \<le> off" for b
  proof -
    from b(1) obtain j where j: "j < length symbols" "b = fst (symbols ! j)" by (auto simp: in_set_conv_nth)
    then have "j \<le> i" using b(2) assms(5) by (meson leD leI)
    then show ?thesis
      using j assms(2,3) sorted_wrt_nth_less [OF assms(1), of j i] by (cases "j = i") auto
  qed
  have mem: "(a, sz, n) \<in> set symbols" using assms(2,3) by (metis nth_mem)
  have unique: "(a, sz', n') \<in> set symbols \<Longrightarrow> sz' = sz \<and> n' = n" for sz' n'
    using mem assms(1) by (metis Pair_inject eq_key_imp_eq_value strict_sorted_iff)
  show ?thesis
  proof
    assume "covers symbols off name"
    then obtain a' sz' where c: "(a', sz', name) \<in> set symbols" "a' \<le> off"
      "\<forall>b \<in> fst ` set symbols. b \<le> off \<longrightarrow> b \<le> a'" "a' = off \<or> sz' = 0 \<or> off < a' + sz'"
      by (auto simp: covers_def)
    then have "a \<le> a'" "a' \<le> a" using mem assms(4) starts by force+
    then show "name = n \<and> (a = off \<or> sz = 0 \<or> off < a + sz)" using c unique by auto
  next
    assume "name = n \<and> (a = off \<or> sz = 0 \<or> off < a + sz)"
    then show "covers symbols off name" using mem assms(4) starts by (auto simp: covers_def)
  qed
qed

lemma find_symbol_iff:
  assumes "sorted_wrt (<) (map fst symbols)"
  shows "find_symbol symbols off = Some name \<longleftrightarrow> covers symbols off name"
proof -
  note contract = bsearch_contract [OF assms, where lo = 0 and hi = "length symbols" and x = off, simplified]
  show ?thesis
  proof (cases "bsearch (map fst symbols) off 0 (length symbols)")
    case (Inr i)
    with contract have i: "i < length symbols" "fst (symbols ! i) = off" by auto
    have "\<forall>j < length symbols. i < j \<longrightarrow> off < fst (symbols ! j)"
      using i sorted_wrt_nth_less [OF assms, of i] by force
    with i have "covers symbols off name \<longleftrightarrow> name = snd (snd (symbols ! i))"
      using covers_at [OF assms i(1), of off "fst (snd (symbols ! i))" "snd (snd (symbols ! i))"]
      by (metis order_refl prod.collapse)
    with Inr show ?thesis by (auto simp: find_symbol_def)
  next
    case (Inl i)
    with contract have i: "i \<le> length symbols" "\<And>j. j < i \<Longrightarrow> fst (symbols ! j) < off"
      "\<And>j. i \<le> j \<Longrightarrow> j < length symbols \<Longrightarrow> off < fst (symbols ! j)" by auto
    show ?thesis
    proof (cases "i = 0")
      case True
      then have "\<not> covers symbols off name"
        using i(3) by (fastforce simp: covers_def in_set_conv_nth)
      then show ?thesis using Inl True by (simp add: find_symbol_def)
    next
      case False
      obtain a sz n where last: "symbols ! (i - 1) = (a, sz, n)" by (cases "symbols ! (i - 1)")
      with i(2) [of "i - 1"] False have "a < off" by simp
      then have "covers symbols off name \<longleftrightarrow> name = n \<and> (a = off \<or> sz = 0 \<or> off < a + sz)"
        using covers_at [OF assms _ last] i(1,3) False by simp
      then show ?thesis using Inl False last \<open>a < off\<close> by (auto simp: find_symbol_def)
    qed
  qed
qed

section \<open>Tables are sorted and complete\<close>

lemma dedup_by_keys: "f ` set (dedup_by f xs) = f ` set xs"
  by (induction f xs rule: dedup_by.induct) auto

lemma dedup_by_subset: "set (dedup_by f xs) \<subseteq> set xs"
  by (induction f xs rule: dedup_by.induct) auto

lemma dedup_by_sorted:
  fixes f :: "'a \<Rightarrow> 'b :: linorder"
  assumes "sorted (map f xs)"
  shows "sorted_wrt (<) (map f (dedup_by f xs))"
  using assms
proof (induction f xs rule: dedup_by.induct)
  case (1 f x y xs)
  show ?case
  proof (cases "f x = f y")
    case True
    then have "sorted (map f (x # xs))" using "1.prems" by simp
    from "1.IH"(1) [OF True this] True show ?thesis by simp
  next
    case False
    have "f x < f z" if "z \<in> set (dedup_by f (y # xs))" for z
    proof -
      have "z \<in> set (y # xs)" using that dedup_by_subset [of f "y # xs"] by (rule subsetD [rotated])
      with "1.prems" have "f y \<le> f z" "f x \<le> f y" by auto
      with False show ?thesis by simp
    qed
    moreover have "sorted_wrt (<) (map f (dedup_by f (y # xs)))"
      using "1.IH"(2) [OF False] "1.prems" by simp
    ultimately show ?thesis using False by (simp del: dedup_by.simps add: dedup_by.simps(1))
  qed
qed simp_all

lemma add_symbol_keys:
  "fst ` set (add_symbol s symbols) =
     fst ` set symbols \<union> (case s of (a, sz, n) \<Rightarrow> if a > 0 \<and> n \<noteq> None \<and> n \<noteq> Some [] then {a} else {})"
  by (cases s) (auto split: option.splits if_splits simp: image_iff)

lemma fold_add_symbol:
  "fst ` set (fold add_symbol syms symbols) =
     fst ` set symbols \<union> {a. \<exists>sz n. (a, sz, Some n) \<in> set syms \<and> a > 0 \<and> n \<noteq> []}"
  "(a, sz, n) \<in> set (fold add_symbol syms symbols) \<Longrightarrow>
     (a, sz, n) \<in> set symbols \<or> (a, sz, Some n) \<in> set syms \<and> a > 0 \<and> n \<noteq> []"
proof (induction syms arbitrary: symbols)
  case (Cons s syms)
  {
    case 1
    show ?case
      unfolding fold_Cons comp_apply Cons.IH(1) add_symbol_keys
      by (cases s) (auto simp: image_iff)
  next
    case 2
    from Cons.IH(2) [OF this [unfolded fold_Cons comp_apply]] show ?case
      by (cases s) (auto split: if_splits option.splits)
  }
qed auto

text \<open>
  C27. Symbol tables. Parsing a file gives a table with strictly increasing positive addresses
  and non-empty names, in which every entry is a symbol of the file and every address of a
  named symbol occurs; and the lookup in it finds exactly the symbol that covers an offset.
\<close>

theorem symbol_lookup_exact:
  assumes "parse_elf_symbols elf path = Some symbols" and "elf path = Some syms"
  shows "table_ok symbols \<and>
    fst ` set symbols = {a. \<exists>sz n. (a, sz, Some n) \<in> set syms \<and> a > 0 \<and> n \<noteq> []} \<and>
    (\<forall>a sz n. (a, sz, n) \<in> set symbols \<longrightarrow> (a, sz, Some n) \<in> set syms) \<and>
    (\<forall>off name. find_symbol symbols off = Some name \<longleftrightarrow> covers symbols off name)"
proof -
  let ?all = "fold add_symbol syms []"
  have symbols: "symbols = dedup_by fst (sort_key fst ?all)"
    using assms by (auto simp: parse_elf_symbols_def Let_def split: if_splits)
  have sub: "set symbols \<subseteq> set ?all"
    unfolding symbols using dedup_by_subset [of fst "sort_key fst ?all"] by simp
  have entry: "(a, sz, Some n) \<in> set syms \<and> a > 0 \<and> n \<noteq> []" if "(a, sz, n) \<in> set symbols" for a sz n
    using fold_add_symbol(2) [of a sz n syms "[]"] sub that by auto
  have sorted: "sorted_wrt (<) (map fst symbols)"
    unfolding symbols by (intro dedup_by_sorted) simp
  have "fst ` set symbols = fst ` set ?all"
    unfolding symbols by (simp add: dedup_by_keys)
  then show ?thesis
    using sorted entry find_symbol_iff [OF sorted] fold_add_symbol(1) [of syms "[]"]
    by (auto simp: table_ok_def list_all_iff)
qed

theorem symbol_lookup_exact_witness:
  "find_symbol [(16, 8, ''f''), (32, 0, ''g'')] 20 = Some ''f'' \<and>
   find_symbol [(16, 8, ''f''), (32, 0, ''g'')] 24 = None"
proof -
  let ?syms = "[(32, 0, Some ''g''), (16, 8, Some ''f''), (0, 4, Some ''null''), (16, 0, Some ''alias'')]
      :: (u64 \<times> u64 \<times> string option) list"
  have "parse_elf_symbols (\<lambda>_. Some ?syms) ''lib'' = Some [(16, 8, ''f''), (32, 0, ''g'')]"
    by (simp add: parse_elf_symbols_def)
  note exact = symbol_lookup_exact [OF this refl]
  have "covers [(16, 8, ''f''), (32, 0, ''g'')] 20 ''f''" by (auto simp: covers_def)
  then have "find_symbol [(16, 8, ''f''), (32, 0, ''g'')] 20 = Some ''f''" using exact by blast
  moreover have "\<not> covers [(16, 8, ''f''), (32, 0, ''g'')] 24 name" for name by (auto simp: covers_def)
  then have "find_symbol [(16, 8, ''f''), (32, 0, ''g'')] 24 \<noteq> Some name" for name using exact by blast
  then have "find_symbol [(16, 8, ''f''), (32, 0, ''g'')] 24 = None" by (rule not_Some_eq [THEN iffD1, OF allI])
  ultimately show ?thesis by (rule conjI)
qed

section \<open>The caches are transparent\<close>

text \<open>The name without any cache.\<close>

definition true_name :: "sym_world \<Rightarrow> u32 \<Rightarrow> u64 \<Rightarrow> string" where
  "true_name W pid addr =
     (if addr = 0 then ''unknown''
      else case find (\<lambda>m. me_start m \<le> addr \<and> addr < me_end m) (parse_maps (proc_path W) (read_maps W) pid) of
        None \<Rightarrow> unknown_name addr
      | Some entry \<Rightarrow>
          name_in (parse_elf_symbols (elf_symbols W) (me_host_path entry)) (file_offset entry addr))"

definition same_files :: "sym_world \<Rightarrow> sym_world \<Rightarrow> bool" where
  "same_files W W' \<longleftrightarrow> proc_path W = proc_path W' \<and> read_maps W = read_maps W' \<and> elf_symbols W = elf_symbols W'"

definition resolver_ok :: "sym_world \<Rightarrow> SymbolResolver \<Rightarrow> bool" where
  "resolver_ok W r \<longleftrightarrow>
     (\<forall>pid maps. maps_cache r pid = Some maps \<longrightarrow> maps = parse_maps (proc_path W) (read_maps W) pid) \<and>
     (\<forall>path s. map_of (lib_cache r) path = Some s \<longrightarrow> s = parse_elf_symbols (elf_symbols W) path) \<and>
     (\<forall>pid addr n. addr_cache r (pid, addr) = Some n \<longrightarrow> n = true_name W pid addr) \<and>
     length (lib_cache r) \<le> 65"

lemma lru_put_Some:
  "lru_put dropped k v m k' = Some v' \<Longrightarrow> k' = k \<and> v' = v \<or> k' \<noteq> k \<and> m k' = Some v'"
  by (auto simp: lru_put_def restrict_map_def split: if_splits)

lemma maps_of_ok:
  assumes "resolver_ok W r" and "same_files W' W"
  shows "fst (maps_of W' pid r) = parse_maps (proc_path W) (read_maps W) pid"
    and "resolver_ok W (snd (maps_of W' pid r))"
  using assms
  by (auto simp: maps_of_def resolver_ok_def same_files_def Let_def dest: lru_put_Some split: option.splits)

lemma load_symbols_ok:
  assumes "resolver_ok W r" and "same_files W' W"
  shows "fst (load_symbols W' path r) = parse_elf_symbols (elf_symbols W) path"
    and "resolver_ok W (snd (load_symbols W' path r))"
  using assms
  by (auto simp: load_symbols_def resolver_ok_def same_files_def Let_def split: option.splits if_splits)

lemma resolve_ok:
  assumes "resolver_ok W r" and "same_files W' W"
  shows "fst (resolve W' pid addr r) = true_name W pid addr \<and> resolver_ok W (snd (resolve W' pid addr r))"
proof (cases "addr = 0 \<or> addr_cache r (pid, addr) \<noteq> None")
  case True
  moreover have "addr_cache r (pid, addr) = Some n \<Longrightarrow> n = true_name W pid addr" for n
    using assms(1) by (simp add: resolver_ok_def)
  moreover have "true_name W pid 0 = ''unknown''" by (simp add: true_name_def)
  ultimately show ?thesis using assms(1) by (auto simp: resolve_def)
next
  case False
  note m = maps_of_ok [OF assms, of pid]
  have "fst (resolve_uncached W' pid addr r) = true_name W pid addr \<and>
      resolver_ok W (snd (resolve_uncached W' pid addr r))"
  proof (cases "find (\<lambda>m. me_start m \<le> addr \<and> addr < me_end m) (parse_maps (proc_path W) (read_maps W) pid)")
    case None
    then show ?thesis
      using m False by (simp add: resolve_uncached_def case_prod_beta true_name_def)
  next
    case (Some entry)
    then show ?thesis
      using m False load_symbols_ok [OF m(2) assms(2), of "me_host_path entry"]
      by (simp add: resolve_uncached_def case_prod_beta Let_def true_name_def)
  qed
  then show ?thesis
    using False by (auto simp: resolve_def case_prod_beta Let_def resolver_ok_def dest: lru_put_Some)
qed

lemma evict_pids_ok: "resolver_ok W r \<Longrightarrow> resolver_ok W (evict_pids pids r)"
  by (auto simp: evict_pids_def resolver_ok_def restrict_map_def split: if_splits)

lemma serve_ok:
  assumes "resolver_ok W r" and "same_files W' W"
  shows "resolver_ok W (snd (serve W' req r)) \<and>
    (case req of Resolve pid addr \<Rightarrow> fst (serve W' req r) = Some (pid, addr, true_name W pid addr)
     | EvictPids pids \<Rightarrow> fst (serve W' req r) = None)"
  using resolve_ok [OF assms] evict_pids_ok [OF assms(1)]
  by (cases req) (auto simp: case_prod_beta)

text \<open>The answers to a sequence of requests; each may meet different evictions.\<close>

fun serve_all :: "(sym_world \<times> SymRequest) list \<Rightarrow> SymbolResolver \<Rightarrow> (u32 \<times> u64 \<times> string) list \<times> SymbolResolver" where
  "serve_all [] r = ([], r)"
| "serve_all ((W, req) # reqs) r =
     (let (answer, r1) = serve W req r; (answers, r2) = serve_all reqs r1
      in ((case answer of None \<Rightarrow> [] | Some a \<Rightarrow> [a]) @ answers, r2))"

text \<open>
  C28. The caches of the resolver are transparent. As long as the memory maps and the files do
  not change, the resolver thread answers every sequence of requests, whatever the LRU
  caches evict and however often processes are evicted, with the names it would compute
  without any cache, one answer per resolution in order; and it never keeps the tables of
  more than 65 files.
\<close>

theorem resolver_transparent:
  assumes "list_all (\<lambda>(W', req). same_files W' W) reqs"
  shows "fst (serve_all reqs new_resolver) =
      concat (map (\<lambda>(W', req). case req of Resolve pid addr \<Rightarrow> [(pid, addr, true_name W pid addr)]
                                | EvictPids pids \<Rightarrow> []) reqs) \<and>
    length (lib_cache (snd (serve_all reqs new_resolver))) \<le> 65"
proof -
  have "fst (serve_all reqs r) =
      concat (map (\<lambda>(W', req). case req of Resolve pid addr \<Rightarrow> [(pid, addr, true_name W pid addr)]
                                | EvictPids pids \<Rightarrow> []) reqs) \<and>
      resolver_ok W (snd (serve_all reqs r))" if "resolver_ok W r" for r
    using that assms
  proof (induction reqs arbitrary: r)
    case (Cons x reqs)
    obtain W' req where x: "x = (W', req)" by fastforce
    with Cons.prems(2) have "same_files W' W" by simp
    note served = serve_ok [OF Cons.prems(1) this, of req]
    then have "resolver_ok W (snd (serve W' req r))" by simp
    from Cons.IH [OF this] Cons.prems(2) served show ?case
      by (cases req) (simp_all add: x case_prod_beta Let_def del: serve.simps)
  qed simp
  moreover have "resolver_ok W new_resolver" by (simp add: resolver_ok_def new_resolver_def)
  moreover have "resolver_ok W r \<Longrightarrow> length (lib_cache r) \<le> 65" for r by (simp add: resolver_ok_def)
  ultimately show ?thesis by blast
qed

definition ex_world :: sym_world where
  "ex_world = \<lparr>proc_path = ''/proc'', read_maps = (\<lambda>_. Some ''1000-2000 r-xp 0 08:01 5 /lib/k.so''),
     elf_symbols = (\<lambda>_. Some [(16, 8, Some ''gemm'')]), dropped_addrs = {}, dropped_maps = {}\<rparr>"

theorem resolver_transparent_witness:
  "fst (serve_all [(ex_world, Resolve 7 4112), (ex_world\<lparr>dropped_maps := {7}\<rparr>, EvictPids [7]),
      (ex_world, Resolve 7 0)] new_resolver) =
   [(7, 4112, true_name ex_world 7 4112), (7, 0, ''unknown'')]"
proof -
  have "list_all (\<lambda>(W', req). same_files W' ex_world)
      [(ex_world, Resolve 7 4112), (ex_world\<lparr>dropped_maps := {7}\<rparr>, EvictPids [7]), (ex_world, Resolve 7 0)]"
    by (simp add: same_files_def)
  from resolver_transparent [OF this] show ?thesis by (simp add: true_name_def)
qed

text \<open>
  A memory map is read once per process. Once it is cached, later changes of the map are not
  seen: a kernel of a library that is loaded afterwards is answered with the name of its bare
  address until the process is evicted, and so is every later request for it.
\<close>

lemma stale_maps:
  assumes "maps_cache r pid = Some maps" and "\<not> (\<exists>m \<in> set maps. me_start m \<le> addr \<and> addr < me_end m)"
    and "addr \<noteq> 0" and "addr_cache r (pid, addr) = None"
  shows "fst (resolve W pid addr r) = unknown_name addr \<and>
    addr_cache (snd (resolve W pid addr r)) (pid, addr) = Some (unknown_name addr) \<and>
    maps_cache (snd (resolve W pid addr r)) pid = Some maps"
proof -
  have "find (\<lambda>m. me_start m \<le> addr \<and> addr < me_end m) maps = None"
    using assms(2) by (auto simp: find_None_iff)
  then show ?thesis
    using assms(1,3,4) by (simp add: resolve_def resolve_uncached_def maps_of_def lru_put_def)
qed

section \<open>Parsing a memory map\<close>

text \<open>A mapping as the kernel prints it, one line each.\<close>

record vma =
  vm_start :: u64
  vm_end :: u64
  vm_perms :: string
  vm_pgoff :: u64
  vm_dev :: string
  vm_inode :: string
  vm_pad :: nat
  vm_path :: string

definition print_vma :: "vma \<Rightarrow> string" where
  "print_vma v = fmt_hex (unat (vm_start v)) @ ''-'' @ fmt_hex (unat (vm_end v)) @ '' '' @ vm_perms v @ '' '' @
     fmt_hex (unat (vm_pgoff v)) @ '' '' @ vm_dev v @ '' '' @ vm_inode v @ '' '' @
     replicate (vm_pad v) (CHR '' '') @ vm_path v"

definition print_vmas :: "vma list \<Rightarrow> string" where
  "print_vmas vs = concat (map (\<lambda>v. print_vma v @ [CHR 0x0A]) vs)"

definition vma_ok :: "vma \<Rightarrow> bool" where
  "vma_ok v \<longleftrightarrow> plain_word (vm_perms v) \<and> vm_perms v \<noteq> [] \<and> plain_word (vm_dev v) \<and> vm_dev v \<noteq> [] \<and>
     plain_word (vm_inode v) \<and> vm_inode v \<noteq> [] \<and> plain_word (vm_path v)"

lemma hex_chars:
  assumes "c \<in> set (fmt_hex n)"
  shows "plain_char c \<and> c \<noteq> CHR ''-''"
proof -
  have "digit_value c < 16"
    using to_base_props [of 16 n] assms by (auto simp: fmt_hex_def list_all_iff)
  then show ?thesis by (auto simp: digit_value_def plain_char_def split: if_splits)
qed

lemma hex_word: "plain_word (fmt_hex n)" "fmt_hex n \<noteq> []" "CHR ''-'' \<notin> set (fmt_hex n)"
  using hex_chars to_base_props [of 16 n] by (auto simp: plain_word_def list_all_iff fmt_hex_def)

lemma hex_or_0_fmt: "hex_or_0 (fmt_hex (unat a)) = a"
proof -
  have "unat a < 2 ^ 64" using unsigned_less [of a] by simp
  then show ?thesis by (simp add: hex_or_0_def fmt_hex_def from_str_radix_to_base)
qed

lemma split_print_vma:
  assumes "vma_ok v"
  shows "split_whitespace (print_vma v) =
    [fmt_hex (unat (vm_start v)) @ ''-'' @ fmt_hex (unat (vm_end v)), vm_perms v, fmt_hex (unat (vm_pgoff v)),
     vm_dev v, vm_inode v] @ (if vm_path v = [] then [] else [vm_path v])"
proof -
  define r where "r = fmt_hex (unat (vm_start v)) @ ''-'' @ fmt_hex (unat (vm_end v))"
  have r: "plain_word r" "r \<noteq> []"
    using hex_word by (simp_all add: r_def plain_word_def plain_char_def)
  have "print_vma v = r @ CHR '' '' # (vm_perms v @ CHR '' '' # (fmt_hex (unat (vm_pgoff v)) @ CHR '' '' #
      (vm_dev v @ CHR '' '' # (vm_inode v @ CHR '' '' # (replicate (vm_pad v) (CHR '' '') @ vm_path v)))))"
    by (simp add: print_vma_def r_def)
  then have "split_whitespace (print_vma v) = r # vm_perms v # fmt_hex (unat (vm_pgoff v)) # vm_dev v #
      vm_inode v # (if vm_path v = [] then [] else [vm_path v])"
    using assms hex_word(1,2) r
    by (simp only: split_whitespace_def vma_ok_def split_ws_word split_ws_spaces split_ws_last simp_thms)
  then show ?thesis unfolding r_def by simp
qed

definition entry_of :: "string \<Rightarrow> u32 \<Rightarrow> vma \<Rightarrow> MapEntry" where
  "entry_of proc pid v = \<lparr>me_start = vm_start v, me_end = vm_end v, me_offset = vm_pgoff v,
     me_host_path = root_path proc pid @ vm_path v\<rparr>"

lemma parse_print_vma:
  assumes "vma_ok v"
  shows "parse_map_line proc pid (print_vma v) =
    (if CHR ''x'' \<in> set (vm_perms v) \<and> vm_path v \<noteq> [] then Some (entry_of proc pid v) else None)"
proof -
  have "split_at_char (CHR ''-'') (fmt_hex (unat (vm_start v)) @ ''-'' @ fmt_hex (unat (vm_end v))) =
      [fmt_hex (unat (vm_start v)), fmt_hex (unat (vm_end v))]"
    using hex_word by (simp add: split_append split_no_sep)
  then show ?thesis
    by (simp add: parse_map_line_def split_print_vma [OF assms] entry_of_def hex_or_0_fmt)
qed

text \<open>
  The memory map is read back. Printing the mappings of a process the way the kernel does,
  one line each, and parsing the text gives exactly the executable mappings of files, in
  order, with their ranges, offsets and host paths. (Paths without white space.)
\<close>

lemma maps_roundtrip:
  assumes "list_all vma_ok vs"
  shows "parse_maps proc (\<lambda>_. Some (print_vmas vs)) pid =
    map (entry_of proc pid) (filter (\<lambda>v. CHR ''x'' \<in> set (vm_perms v) \<and> vm_path v \<noteq> []) vs)"
proof -
  have "CHR 0x0A \<notin> set (print_vma v) \<and> (print_vma v = [] \<or> last (print_vma v) \<noteq> CHR 0x0D)" if "vma_ok v" for v
  proof -
    have "c \<in> set (print_vma v) \<Longrightarrow> plain_char c \<or> c = CHR '' ''" for c
      using that hex_chars by (auto simp: print_vma_def vma_ok_def plain_word_def list_all_iff plain_char_def)
    then have "c \<noteq> CHR 0x0A \<and> c \<noteq> CHR 0x0D" if "c \<in> set (print_vma v)" for c
      using that by (force simp: plain_char_def)
    then show ?thesis using last_in_set by blast
  qed
  with assms have "str_lines (print_vmas vs) = map print_vma vs"
    using str_lines_concat [of "map print_vma vs"]
    by (simp add: print_vmas_def list_all_iff comp_def)
  moreover have "List.map_filter (parse_map_line proc pid) (map print_vma vs) =
      map (entry_of proc pid) (filter (\<lambda>v. CHR ''x'' \<in> set (vm_perms v) \<and> vm_path v \<noteq> []) vs)"
    using assms by (induction vs) (simp_all add: List.map_filter_simps parse_print_vma)
  ultimately show ?thesis by (simp add: parse_maps_def)
qed

lemma maps_roundtrip_witness:
  "parse_maps ''/proc'' (\<lambda>_. Some (print_vmas
     [\<lparr>vm_start = 4096, vm_end = 8192, vm_perms = ''r-xp'', vm_pgoff = 256, vm_dev = ''08:01'', vm_inode = ''5'',
       vm_pad = 3, vm_path = ''/lib/k.so''\<rparr>,
      \<lparr>vm_start = 8192, vm_end = 12288, vm_perms = ''rw-p'', vm_pgoff = 0, vm_dev = ''00:00'', vm_inode = ''0'',
       vm_pad = 0, vm_path = []\<rparr>])) 7 =
   [\<lparr>me_start = 4096, me_end = 8192, me_offset = 256, me_host_path = root_path ''/proc'' 7 @ ''/lib/k.so''\<rparr>]"
  by (subst maps_roundtrip)
     (simp_all add: vma_ok_def plain_word_def plain_char_def entry_of_def)

end
