(* ===== verification/EventLoop.thy ===== *)
theory EventLoop
  imports HandleCache DrainFacts Ticks TermReport NcclWindow Symbols
begin

text \<open>
  The main loop of \<^verbatim>\<open>src/src/main.rs\<close> after the maps: what it does with the events of the
  ring buffer and with the totals of drained keys. Each of them gets a handle from the
  cache and is added to the series of that handle; collectives also feed a window of
  durations, allocations the active memory, launches the resolution of kernel names. The
  metrics library is outside the program: the state records the operations asked of it, in
  order, with the numbers before their conversion to floating point. Gauges of sizes and
  times are left out.
\<close>

section \<open>State\<close>

datatype metric_op =
    Inc_by family "string list" u64
  | Observe_ns family "string list" u64
  | Inc_by_ns family "string list" u64
  | Set_ratio family "string list" u64 u64
  | Remove family "string list"

text \<open>
  The settings of a run: full kernel mode, detailed launches, the terminal report and the
  limits; and what the handlers look up outside: the \<^verbatim>\<open>comm\<close> file of a process, its
  enrichment, and the order in which the hash map of handles lists its keys.
\<close>

record settings =
  full_mode :: bool
  detailed_launches :: bool
  with_report :: bool
  cardinality_limits :: CardinalityLimits
  read_comm :: "u32 \<Rightarrow> string option"
  enrich :: "u32 \<Rightarrow> string \<Rightarrow> Labels"
  key_order :: "(MetricKey \<rightharpoonup> CachedHandles) \<Rightarrow> MetricKey list"

record loop_state =
  cache :: MetricHandleCache
  kernel_names :: "u32 \<times> u64 \<rightharpoonup> string"
  pending_resolve :: "(u32 \<times> u64) set"
  sym_requests :: "SymRequest list"
  new_pids_batch :: "u32 list"
  known_pids :: "u32 set"
  active_mem_delta :: "u32 \<rightharpoonup> u64"
  active_memory :: "u32 \<rightharpoonup> u64"
  nccl_durations :: "u32 \<times> u32 \<rightharpoonup> u64 list"
  local_term_stats :: stats_table
  term_stats :: stats_table
  events_processed :: u64
  cardinality_drops :: nat
  metric_ops :: "metric_op list"

definition loop_init :: loop_state where
  "loop_init = \<lparr>cache = new_cache, kernel_names = Map.empty, pending_resolve = {}, sym_requests = [],
     new_pids_batch = [], known_pids = {}, active_mem_delta = Map.empty, active_memory = Map.empty,
     nccl_durations = Map.empty, local_term_stats = Map.empty, term_stats = Map.empty,
     events_processed = 0, cardinality_drops = 0, metric_ops = []\<rparr>"

section \<open>Parts of the handlers\<close>

text \<open>The handle of an event or a synthetic event, from the cache.\<close>

definition use_handle ::
    "settings \<Rightarrow> CudaEvent \<Rightarrow> MetricKey \<Rightarrow> loop_state \<Rightarrow> CachedHandles \<times> loop_state" where
  "use_handle cfg event key s =
     (let (h, drops, c) = get_or_create (full_mode cfg) (read_comm cfg) (enrich cfg) (key_order cfg)
            (cardinality_limits cfg) (kernel_names s) event key (cache s)
      in (h, s\<lparr>cache := c, cardinality_drops := cardinality_drops s + drops\<rparr>))"

text \<open>The families the counters and histograms of a handle belong to.\<close>

definition calls_family :: "CachedHandles \<Rightarrow> family" where
  "calls_family h = (if nccl_bytes_labels h = None then Cuda_calls else Nccl_calls)"

definition duration_family :: "CachedHandles \<Rightarrow> family" where
  "duration_family h = (if nccl_bytes_labels h = None then Cuda_duration else Nccl_duration)"

definition if_present :: "string list option \<Rightarrow> (string list \<Rightarrow> metric_op) \<Rightarrow> metric_op list" where
  "if_present labels f = (case labels of None \<Rightarrow> [] | Some l \<Rightarrow> [f l])"

definition bytes_ops :: "family \<Rightarrow> string list option \<Rightarrow> u64 \<Rightarrow> metric_op list" where
  "bytes_ops f labels n = (if n > 0 then if_present labels (\<lambda>l. Inc_by f l n) else [])"

definition emit :: "metric_op list \<Rightarrow> loop_state \<Rightarrow> loop_state" where
  "emit ops s = s\<lparr>metric_ops := metric_ops s @ ops\<rparr>"

text \<open>The window of the last durations of a process and operation.\<close>

definition push_durations :: "u32 \<times> u32 \<Rightarrow> u64 list \<Rightarrow> loop_state \<Rightarrow> loop_state" where
  "push_durations key ds s =
     s\<lparr>nccl_durations := (nccl_durations s)(key \<mapsto>
        fold push_window ds (case nccl_durations s key of None \<Rightarrow> [] | Some w \<Rightarrow> w))\<rparr>"

text \<open>A kernel without a name is asked for once.\<close>

definition request_name :: "settings \<Rightarrow> u32 \<Rightarrow> u64 \<Rightarrow> loop_state \<Rightarrow> loop_state" where
  "request_name cfg pid addr s =
     (if addr \<noteq> 0 \<and> kernel_names s (pid, addr) = None \<and> (pid, addr) \<notin> pending_resolve s
      then s\<lparr>pending_resolve := insert (pid, addr) (pending_resolve s),
             sym_requests := (if full_mode cfg then sym_requests s @ [Resolve pid addr] else sym_requests s)\<rparr>
      else s)"

text \<open>A process is announced when it is first seen, and its time of sight kept.\<close>

definition see_pid :: "nat \<Rightarrow> u32 \<Rightarrow> loop_state \<Rightarrow> loop_state" where
  "see_pid now pid s =
     s\<lparr>new_pids_batch := (if last_seen (cache s) pid = None then new_pids_batch s @ [pid]
                           else new_pids_batch s),
       cache := touch now pid (cache s)\<rparr>"

section \<open>An event of the ring buffer\<close>

definition event_key :: "CudaEvent \<Rightarrow> MetricKey" where
  "event_key event =
     (let launch = ce_event_type event = EVENT_CUDA_LAUNCH_KERNEL
      in (ce_event_type event, ce_pid event, ce_memcpy_kind event, ce_error_code event, ce_stream event,
          if launch then ce_addr event else 0, if launch then nvtx_hash (ce_nvtx_marker event) else 0))"

definition event_ops :: "CudaEvent \<Rightarrow> CachedHandles \<Rightarrow> metric_op list" where
  "event_ops event h =
     [Inc_by (calls_family h) (calls_labels h) 1,
      Observe_ns (duration_family h) (hist_labels h) (ce_duration_ns event)] @
     bytes_ops Cuda_memcpy_bytes (memcpy_labels h) (ce_size event) @
     bytes_ops Cuda_malloc_bytes (malloc_labels h) (ce_size event) @
     bytes_ops Nccl_bytes (nccl_bytes_labels h) (nccl_event_bytes event) @
     if_present (kernel_counter_labels h) (\<lambda>l. Inc_by Cuda_kernel_launches l 1) @
     if_present (kernel_hist_labels h) (\<lambda>l. Observe_ns Cuda_kernel_duration l (ce_duration_ns event)) @
     if_present (errors_labels h) (\<lambda>l. Inc_by Cuda_errors l 1)"

definition handle_event :: "settings \<Rightarrow> nat \<Rightarrow> CudaEvent \<Rightarrow> loop_state \<Rightarrow> loop_state" where
  "handle_event cfg now event s =
     (let (h, s1) = use_handle cfg event (event_key event) s;
          s2 = emit (event_ops event h) (s1\<lparr>events_processed := events_processed s1 + 1\<rparr>);
          s3 = (if EVENT_NCCL_ALL_REDUCE \<le> ce_event_type event \<and>
                   ce_event_type event \<le> EVENT_NCCL_RECV \<and> ce_duration_ns event > 0
                then push_durations (ce_pid event, ce_event_type event) [ce_duration_ns event] s2
                else s2);
          s4 = (if full_mode cfg \<and> ce_event_type event = EVENT_CUDA_LAUNCH_KERNEL
                then request_name cfg (ce_pid event) (ce_addr event) s3 else s3);
          s5 = see_pid now (ce_pid event) s4
      in if with_report cfg
         then s5\<lparr>local_term_stats := upd_stats (ce_event_type event, ce_memcpy_kind event)
                   (record_call (ce_duration_ns event) (ce_size event)) (local_term_stats s5)\<rparr>
         else s5)"

section \<open>The totals of a drained key\<close>

definition synthetic :: "u32 \<Rightarrow> u32 \<Rightarrow> u32 \<Rightarrow> u32 \<Rightarrow> u64 \<Rightarrow> u64 \<Rightarrow> CudaEvent" where
  "synthetic event_type pid memcpy_kind error_code stream addr =
     \<lparr>ce_event_type = event_type, ce_pid = pid, ce_tid = 0, ce_memcpy_kind = memcpy_kind,
      ce_timestamp_ns = 0, ce_duration_ns = 0, ce_size = 0, ce_addr = addr, ce_stream = stream,
      ce_nvtx_marker = replicate 16 0, ce_comm = replicate 16 0, ce_error_code = error_code,
      ce_pad2 = 0\<rparr>"

text \<open>The counters of a histogram, in the order of the increments.\<close>

definition bucket_ops :: "family \<Rightarrow> family \<Rightarrow> family \<Rightarrow> string list \<Rightarrow> string list \<Rightarrow> totals \<Rightarrow> metric_op list" where
  "bucket_ops bucket_total sum_total count_total labels le t =
     map (\<lambda>(l, n). Inc_by bucket_total (labels @ [l]) n) (inc_cumulative_bucket_counters le (t_buckets t)) @
     [Inc_by_ns sum_total labels (t_duration t), Inc_by count_total labels (t_count t)]"

definition agg_ops :: "totals \<Rightarrow> CachedHandles \<Rightarrow> metric_op list" where
  "agg_ops t h =
     [Inc_by (calls_family h) (calls_labels h) (t_count t)] @
     bucket_ops Cuda_duration_bucket_total Cuda_duration_sum_seconds_total Cuda_duration_count_total
       (hist_labels h) CUDA_DURATION_BUCKET_LE t @
     if_present (kernel_counter_labels h) (\<lambda>l. Inc_by Cuda_kernel_launches l (t_count t)) @
     bytes_ops Cuda_memcpy_bytes (memcpy_labels h) (t_size t) @
     bytes_ops Cuda_malloc_bytes (malloc_labels h) (t_size t) @
     if_present (errors_labels h) (\<lambda>l. Inc_by Cuda_errors l (t_count t))"

text \<open>The signed change of the memory a process holds, as a 64-bit word.\<close>

definition mem_change :: "u32 \<Rightarrow> u64 \<Rightarrow> u64" where
  "mem_change event_type n =
     (if event_type \<in> {EVENT_CUDA_MALLOC, EVENT_CUDA_MALLOC_ASYNC} then n
      else if event_type \<in> {EVENT_CUDA_FREE, EVENT_CUDA_FREE_ASYNC} then - n else 0)"

definition mem_type :: "u32 \<Rightarrow> bool" where
  "mem_type event_type \<longleftrightarrow> event_type \<in> {EVENT_CUDA_MALLOC, EVENT_CUDA_MALLOC_ASYNC,
     EVENT_CUDA_FREE, EVENT_CUDA_FREE_ASYNC}"

definition add_delta :: "u32 \<Rightarrow> u64 \<Rightarrow> (u32 \<rightharpoonup> u64) \<Rightarrow> u32 \<rightharpoonup> u64" where
  "add_delta pid d m = m(pid \<mapsto> (case m pid of None \<Rightarrow> 0 | Some x \<Rightarrow> x) + d)"

definition agg_cache_key :: "AggKey \<Rightarrow> MetricKey" where
  "agg_cache_key key = (ak_event_type key, ak_pid key, ak_memcpy_kind key, ak_error_code key, ak_stream key, 0, 0)"

definition agg_synthetic :: "AggKey \<Rightarrow> CudaEvent" where
  "agg_synthetic key = synthetic (ak_event_type key) (ak_pid key) (ak_memcpy_kind key) (ak_error_code key)
     (ak_stream key) 0"

definition handle_aggregated :: "settings \<Rightarrow> nat \<Rightarrow> AggKey \<Rightarrow> totals \<Rightarrow> loop_state \<Rightarrow> loop_state" where
  "handle_aggregated cfg now key t s =
     (let (h, s1) = use_handle cfg (agg_synthetic key) (agg_cache_key key) s;
          s2 = emit (agg_ops t h) s1;
          s3 = (if t_size t > 0 \<and> mem_type (ak_event_type key)
                then s2\<lparr>active_mem_delta :=
                       add_delta (ak_pid key) (mem_change (ak_event_type key) (t_size t)) (active_mem_delta s2)\<rparr>
                else s2);
          s4 = see_pid now (ak_pid key) s3
      in if with_report cfg
         then s4\<lparr>local_term_stats := upd_stats (ak_event_type key, ak_memcpy_kind key)
                   (record_totals (t_count t) (t_duration t) (t_size t)) (local_term_stats s4)\<rparr>
         else s4)"

definition launch_ops :: "totals \<Rightarrow> CachedHandles \<Rightarrow> metric_op list" where
  "launch_ops t h =
     [Inc_by (calls_family h) (calls_labels h) (t_count t)] @
     if_present (kernel_counter_labels h) (\<lambda>l. Inc_by Cuda_kernel_launches l (t_count t)) @
     (case kernel_hist_labels h of None \<Rightarrow> []
      | Some l \<Rightarrow> bucket_ops Cuda_kernel_duration_bucket_total Cuda_kernel_duration_sum_seconds_total
                   Cuda_kernel_duration_count_total l CUDA_KERNEL_DURATION_BUCKET_LE t)"

definition handle_launch :: "settings \<Rightarrow> nat \<Rightarrow> LaunchKey \<Rightarrow> totals \<Rightarrow> loop_state \<Rightarrow> loop_state" where
  "handle_launch cfg now key t s =
     (let (h, s1) = use_handle cfg
            (synthetic EVENT_CUDA_LAUNCH_KERNEL (lk_pid key) 0 0 (lk_stream key) (lk_host_fun key))
            (EVENT_CUDA_LAUNCH_KERNEL, lk_pid key, 0, 0, lk_stream key, lk_host_fun key, 0) s;
          s2 = emit (launch_ops t h) s1;
          s3 = request_name cfg (lk_pid key) (lk_host_fun key) s2
      in see_pid now (lk_pid key) s3)"

definition nccl_ops :: "totals \<Rightarrow> CachedHandles \<Rightarrow> metric_op list" where
  "nccl_ops t h =
     [Inc_by (calls_family h) (calls_labels h) (t_count t)] @
     bytes_ops Nccl_bytes (nccl_bytes_labels h) (t_size t) @
     if_present (errors_labels h) (\<lambda>l. Inc_by Cuda_errors l (t_count t)) @
     bucket_ops Nccl_duration_bucket_total Nccl_duration_sum_seconds_total Nccl_duration_count_total
       (hist_labels h) NCCL_DURATION_BUCKET_LE t"

definition handle_nccl :: "settings \<Rightarrow> nat \<Rightarrow> AggKey \<Rightarrow> totals \<Rightarrow> loop_state \<Rightarrow> loop_state" where
  "handle_nccl cfg now key t s =
     (let (h, s1) = use_handle cfg (agg_synthetic key) (agg_cache_key key) s;
          s2 = emit (nccl_ops t h) s1;
          s3 = push_durations (ak_pid key, ak_event_type key) (midpoints (t_buckets t)) s2
      in see_pid now (ak_pid key) s3)"

section \<open>The branches of the loop\<close>

text \<open>
  A registered kernel gets the normalised name behind its pointer, once. Normalising may
  panic, which ends the loop: \<open>None\<close>. \<open>uni\<close> is the Unicode table of alphanumerics and
  \<open>name_at\<close> the reading of the name, \<open>read_kernel_name\<close>.
\<close>

definition handle_reg ::
    "(nat \<Rightarrow> bool) \<Rightarrow> (u32 \<Rightarrow> u64 \<Rightarrow> KernelNameReadError + string) \<Rightarrow> KernelRegEvent \<Rightarrow> loop_state \<Rightarrow>
     loop_state option" where
  "handle_reg uni name_at reg s =
     (if kernel_names s (kr_pid reg, kr_host_fun reg) \<noteq> None then Some s
      else case name_at (kr_pid reg) (kr_name_ptr reg) of
        Inl e \<Rightarrow> Some (emit [Inc_by Kernel_name_resolve_failures [as_label e] 1] s)
      | Inr name \<Rightarrow>
          (case normalize_kernel_name uni name of
             None \<Rightarrow> None
           | Some n \<Rightarrow> Some (s\<lparr>kernel_names := (kernel_names s)((kr_pid reg, kr_host_fun reg) \<mapsto> n)\<rparr>)))"

fun handle_regs ::
    "(nat \<Rightarrow> bool) \<Rightarrow> (u32 \<Rightarrow> u64 \<Rightarrow> KernelNameReadError + string) \<Rightarrow> KernelRegEvent list \<Rightarrow> loop_state \<Rightarrow>
     loop_state option" where
  "handle_regs uni name_at [] s = Some s"
| "handle_regs uni name_at (reg # regs) s =
     (case handle_reg uni name_at reg s of None \<Rightarrow> None | Some s' \<Rightarrow> handle_regs uni name_at regs s')"

text \<open>
  The ring buffers are readable: processes whose enrichment changed lose their handles, then
  the events and, in full mode, the registrations are handled.
\<close>

definition invalidate :: "settings \<Rightarrow> u32 set \<Rightarrow> loop_state \<Rightarrow> loop_state" where
  "invalidate cfg pids s =
     (let (removed, c) = invalidate_pids (full_mode cfg) (key_order cfg) pids (cache s)
      in emit (map (\<lambda>(f, l). Remove f l) removed) (s\<lparr>cache := c\<rparr>))"

definition readable_branch ::
    "settings \<Rightarrow> (nat \<Rightarrow> bool) \<Rightarrow> (u32 \<Rightarrow> u64 \<Rightarrow> KernelNameReadError + string) \<Rightarrow> nat \<Rightarrow> u32 set \<Rightarrow>
     CudaEvent list \<Rightarrow> KernelRegEvent list \<Rightarrow> loop_state \<Rightarrow> loop_state option" where
  "readable_branch cfg uni name_at now changed events regs s =
     (let s1 = (if changed = {} then s else invalidate cfg changed s);
          s2 = fold (handle_event cfg now) events s1
      in if full_mode cfg then handle_regs uni name_at regs s2 else Some s2)"

text \<open>
  The aggregation tick, after the synchronisation and the drop counters of \<^verbatim>\<open>Ticks\<close>: the
  three maps are drained with these closures, then the changes of memory are added up.
  \<open>active_mem_delta\<close> lives only during the tick.
\<close>

definition aggregated_closure :: "settings \<Rightarrow> nat \<Rightarrow> AggKey \<Rightarrow> AggValue list \<Rightarrow> loop_state \<Rightarrow> loop_state" where
  "aggregated_closure cfg now key per_cpu s =
     (let t = fold add_agg per_cpu (no_totals 14)
      in if t_count t = 0 then s else handle_aggregated cfg now key t s)"

definition launch_closure :: "settings \<Rightarrow> nat \<Rightarrow> LaunchKey \<Rightarrow> LaunchAggValue list \<Rightarrow> loop_state \<Rightarrow> loop_state" where
  "launch_closure cfg now key per_cpu s =
     (let t = fold add_launch per_cpu (no_totals 9)
      in if t_count t = 0 then s else handle_launch cfg now key t s)"

definition nccl_closure :: "settings \<Rightarrow> nat \<Rightarrow> AggKey \<Rightarrow> NcclAggValue list \<Rightarrow> loop_state \<Rightarrow> loop_state" where
  "nccl_closure cfg now key per_cpu s =
     (let t = fold add_nccl per_cpu (no_totals 12)
      in if t_count t = 0 then s else handle_nccl cfg now key t s)"

definition flush_memory :: "loop_state \<Rightarrow> loop_state" where
  "flush_memory s =
     s\<lparr>active_memory := (\<lambda>pid. case active_mem_delta s pid of
          None \<Rightarrow> active_memory s pid
        | Some d \<Rightarrow> Some ((case active_memory s pid of None \<Rightarrow> 0 | Some x \<Rightarrow> x) + d)),
       active_mem_delta := Map.empty\<rparr>"

record map_listing =
  agg_keys :: "AggKey list"
  launch_keys :: "LaunchKey list"
  nccl_keys :: "AggKey list"

definition agg_branch :: "settings \<Rightarrow> nat \<Rightarrow> cpu list \<Rightarrow> map_listing \<Rightarrow> bpf_state \<Rightarrow> loop_state \<Rightarrow> bpf_state \<times> loop_state" where
  "agg_branch cfg now cpus ks st s =
     (let (n, A, s1) = drain_percpu_hash cpus (aggregated_closure cfg now) quiet (agg_keys ks) (AGGREGATED st)
                         (s\<lparr>active_mem_delta := Map.empty\<rparr>);
          (n, L, s2) = (if detailed_launches cfg then (0, LAUNCH_AGG st, s1)
                        else drain_percpu_hash cpus (launch_closure cfg now) quiet (launch_keys ks) (LAUNCH_AGG st) s1);
          (n, N, s3) = drain_percpu_hash cpus (nccl_closure cfg now) quiet (nccl_keys ks) (NCCL_AGG st) s2
      in (st\<lparr>AGGREGATED := A, LAUNCH_AGG := L, NCCL_AGG := N\<rparr>, flush_memory s3))"

text \<open>
  The collection tick. \<open>results\<close> are the answers of the resolver that have arrived, \<open>writable\<close>
  whether the table of known processes is free, \<open>hangs\<close> what the scan of the in-flight map
  found; the orders of the hash maps are arguments again.
\<close>

fun take_names :: "(nat \<Rightarrow> bool) \<Rightarrow> (u32 \<times> u64 \<times> string) list \<Rightarrow> loop_state \<Rightarrow> loop_state option" where
  "take_names uni [] s = Some s"
| "take_names uni ((pid, addr, name) # results) s =
     (let s1 = s\<lparr>pending_resolve := pending_resolve s - {(pid, addr)}\<rparr>
      in if prefix ''unknown_'' name then take_names uni results s1
         else case normalize_kernel_name uni name of
           None \<Rightarrow> None
         | Some n \<Rightarrow> take_names uni results (s1\<lparr>kernel_names := (kernel_names s1)((pid, addr) \<mapsto> n)\<rparr>))"

definition publish_pids :: "bool \<Rightarrow> loop_state \<Rightarrow> loop_state" where
  "publish_pids writable s =
     (if writable then s\<lparr>known_pids := known_pids s \<union> set (new_pids_batch s), new_pids_batch := []\<rparr> else s)"

definition collect :: "settings \<Rightarrow> nat \<Rightarrow> nat \<Rightarrow> u32 list \<Rightarrow> loop_state \<Rightarrow> loop_state" where
  "collect cfg now stale_after listed s =
     (let (stale, removed, c) = gc (full_mode cfg) (key_order cfg) now stale_after listed (cache s);
          s1 = emit (map (\<lambda>(f, l). Remove f l) removed) (s\<lparr>cache := c\<rparr>)
      in if stale = [] then s1
         else s1\<lparr>kernel_names := (\<lambda>(p, a). if p \<in> set stale then None else kernel_names s1 (p, a)),
                 pending_resolve := {(p, a) \<in> pending_resolve s1. p \<notin> set stale},
                 active_memory := (\<lambda>p. if p \<in> set stale then None else active_memory s1 p),
                 sym_requests := (if full_mode cfg then sym_requests s1 @ [EvictPids stale] else sym_requests s1)\<rparr>)"

definition ratio_ops :: "settings \<Rightarrow> (u32 \<times> u32) list \<Rightarrow> u32 list \<Rightarrow> loop_state \<Rightarrow> metric_op list" where
  "ratio_ops cfg window_keys types s =
     map (\<lambda>(pid, t, p, m). Set_ratio Nccl_straggler_ratio
           [fmt_dec (unat pid), l_gpu (enrich cfg pid []), l_gpu_uuid (enrich cfg pid []), operation_name t] p m)
       (straggler_ratios (map (\<lambda>(pid, t). (pid, t, case nccl_durations s (pid, t) of None \<Rightarrow> [] | Some w \<Rightarrow> w))
          window_keys) types)"

definition gc_branch ::
    "settings \<Rightarrow> (nat \<Rightarrow> bool) \<Rightarrow> nat \<Rightarrow> nat \<Rightarrow> u32 list \<Rightarrow> (u32 \<times> u64 \<times> string) list \<Rightarrow> bool \<Rightarrow>
     (u32 \<times> u32) list \<Rightarrow> (u32 \<times> u32) list \<Rightarrow> u32 list \<Rightarrow> loop_state \<Rightarrow> loop_state option" where
  "gc_branch cfg uni now stale_after listed results writable hangs window_keys types s =
     (case take_names uni (if full_mode cfg then results else []) s of
        None \<Rightarrow> None
      | Some s1 \<Rightarrow>
          (let s2 = collect cfg now stale_after listed (publish_pids writable s1);
               s3 = emit (map (\<lambda>(t, pid). Inc_by Nccl_hang_detected [operation_name t, fmt_dec (unat pid)] 1) hangs) s2;
               s4 = emit (ratio_ops cfg window_keys types s3) s3
           in Some (if with_report cfg
                    then s4\<lparr>term_stats := merge_tables (term_stats s4) (local_term_stats s4),
                            local_term_stats := Map.empty\<rparr>
                    else s4)))"

end
