(* ===== verification/EventFacts.thy ===== *)
theory EventFacts
  imports EventLoop
begin

text \<open>
  What the main loop exports. Draining with the closures of the loop is handling the reports
  of the drain one after the other (contract \<open>drained\<close>, interpreted for the three maps).
  Handling an input adds its count to one series of calls, of its own operation and
  process as long as the limit on series is not reached, whatever is invalidated and collected
  in between; with the refinement of the maps this gives the composition of both halves: the
  exported number of calls of an operation in a process is the number of its completed
  calls, scaled by the sampling rate. The last sections follow the active memory and the
  names of kernels.
\<close>

section \<open>Draining is handling the reports\<close>

locale drained =
  fixes tot :: "'v list \<Rightarrow> totals"
    and process :: "'k \<Rightarrow> 'v list \<Rightarrow> ('k \<times> totals) list \<Rightarrow> ('k \<times> totals) list"
    and closure :: "'k \<Rightarrow> 'v list \<Rightarrow> 's \<Rightarrow> 's"
    and handle :: "'k \<Rightarrow> totals \<Rightarrow> 's \<Rightarrow> 's"
  assumes process_eq: "process k vs rs = (if t_count (tot vs) = 0 then rs else rs @ [(k, tot vs)])"
    and closure_eq: "closure k vs s = (if t_count (tot vs) = 0 then s else handle k (tot vs) s)"
begin

lemma closure_process:
  "closure k vs (fold (\<lambda>(k, t). handle k t) rs s) = fold (\<lambda>(k, t). handle k t) (process k vs rs) s"
  by (simp add: process_eq closure_eq)

lemma drain_keys_fused:
  "drain_keys cpus closure between keys m (fold (\<lambda>(k, t). handle k t) rs s) =
     (let (n, m', rs') = drain_keys cpus process between keys m rs
      in (n, m', fold (\<lambda>(k, t). handle k t) rs' s))"
  by (induction keys arbitrary: m rs)
     (auto simp: closure_process Let_def case_prod_beta split: option.split)

lemma drain_fused:
  "snd (snd (drain_percpu_hash cpus closure between keys m s)) =
     fold (\<lambda>(k, t). handle k t) (snd (snd (drain_percpu_hash cpus process between keys m []))) s"
  using drain_keys_fused [of cpus between "take PERCPU_HASH_DRAIN_KEY_BUDGET keys" m "[]" s]
  by (simp add: drain_percpu_hash_def case_prod_beta)

end

interpretation agg_drained: drained "\<lambda>vs. fold add_agg vs (no_totals 14)" process_aggregated
    "aggregated_closure cfg now" "handle_aggregated cfg now" for cfg now
  by unfold_locales (simp_all add: process_aggregated_def aggregated_closure_def Let_def)

interpretation launch_drained: drained "\<lambda>vs. fold add_launch vs (no_totals 9)" process_launch
    "launch_closure cfg now" "handle_launch cfg now" for cfg now
  by unfold_locales (simp_all add: process_launch_def launch_closure_def Let_def)

interpretation nccl_drained: drained "\<lambda>vs. fold add_nccl vs (no_totals 12)" process_nccl
    "nccl_closure cfg now" "handle_nccl cfg now" for cfg now
  by unfold_locales (simp_all add: process_nccl_def nccl_closure_def Let_def)

section \<open>Inputs of the loop\<close>

text \<open>One thing the loop handles, at a time.\<close>

datatype loop_input =
    Event CudaEvent
  | Aggregated AggKey totals
  | Launches LaunchKey totals
  | Collectives AggKey totals
  | Changed "u32 set"
  | Collect nat "u32 list"

fun act :: "settings \<Rightarrow> nat \<times> loop_input \<Rightarrow> loop_state \<Rightarrow> loop_state" where
  "act cfg (now, Event e) s = handle_event cfg now e s"
| "act cfg (now, Aggregated k t) s = handle_aggregated cfg now k t s"
| "act cfg (now, Launches k t) s = handle_launch cfg now k t s"
| "act cfg (now, Collectives k t) s = handle_nccl cfg now k t s"
| "act cfg (now, Changed pids) s = invalidate cfg pids s"
| "act cfg (now, Collect stale_after listed) s = collect cfg now stale_after listed s"

text \<open>The operation, process and number of calls an input stands for.\<close>

fun input_calls :: "loop_input \<Rightarrow> (u32 \<times> u32 \<times> u64) option" where
  "input_calls (Event e) = Some (ce_event_type e, ce_pid e, 1)"
| "input_calls (Aggregated k t) = Some (ak_event_type k, ak_pid k, t_count t)"
| "input_calls (Launches k t) = Some (EVENT_CUDA_LAUNCH_KERNEL, lk_pid k, t_count t)"
| "input_calls (Collectives k t) = Some (ak_event_type k, ak_pid k, t_count t)"
| "input_calls _ = None"

definition calls_in :: "u32 \<Rightarrow> u32 \<Rightarrow> loop_input \<Rightarrow> u64" where
  "calls_in t pid i =
     (case input_calls i of Some (t', pid', n) \<Rightarrow> if t' = t \<and> pid' = pid then n else 0 | None \<Rightarrow> 0)"

text \<open>What is added to the call counters whose first labels are an operation and a process.\<close>

fun op_calls :: "u32 \<Rightarrow> u32 \<Rightarrow> metric_op \<Rightarrow> u64" where
  "op_calls t pid (Inc_by f ls n) =
     (if f \<in> {Cuda_calls, Nccl_calls} \<and> take 2 ls = [operation_name t, fmt_dec (unat pid)] then n else 0)"
| "op_calls t pid _ = 0"

definition counted :: "u32 \<Rightarrow> u32 \<Rightarrow> metric_op list \<Rightarrow> u64" where
  "counted t pid ops = sum_list (map (op_calls t pid) ops)"

lemma counted_append [simp]: "counted t pid (xs @ ys) = counted t pid xs + counted t pid ys"
  by (simp add: counted_def)

lemma counted_simps [simp]:
  "counted t pid [] = 0"
  "counted t pid (x # xs) = op_calls t pid x + counted t pid xs"
  "counted t pid (map (\<lambda>(f, l). Remove f l) rs) = 0"
  by (simp_all add: counted_def comp_def case_prod_beta)

text \<open>Only the first operation of a handler adds to a call counter.\<close>

definition own_calls :: "u32 \<Rightarrow> u32 \<Rightarrow> CachedHandles \<Rightarrow> u64 \<Rightarrow> u64" where
  "own_calls t pid h n = (if take 2 (calls_labels h) = [operation_name t, fmt_dec (unat pid)] then n else 0)"

lemma counted_present:
  "f \<notin> {Cuda_calls, Nccl_calls} \<Longrightarrow> counted t pid (if_present l (\<lambda>l. Inc_by f l n)) = 0"
  "counted t pid (if_present l (\<lambda>l. Observe_ns f l n)) = 0"
  "f \<notin> {Cuda_calls, Nccl_calls} \<Longrightarrow> counted t pid (bytes_ops f l n) = 0"
  by (auto simp: if_present_def bytes_ops_def split: option.split)

lemma counted_bucket_ops:
  "f \<notin> {Cuda_calls, Nccl_calls} \<Longrightarrow> c \<notin> {Cuda_calls, Nccl_calls} \<Longrightarrow>
     counted t pid (bucket_ops f g c labels le tt) = 0"
proof -
  assume "f \<notin> {Cuda_calls, Nccl_calls}" "c \<notin> {Cuda_calls, Nccl_calls}"
  moreover have "counted t pid (map (\<lambda>(l, n). Inc_by f (labels @ [l]) n) xs) = 0" for xs
    using \<open>f \<notin> {Cuda_calls, Nccl_calls}\<close> by (induction xs) auto
  ultimately show ?thesis by (simp add: bucket_ops_def)
qed

lemma counted_handlers:
  "counted t pid (event_ops e h) = own_calls t pid h 1"
  "counted t pid (agg_ops tt h) = own_calls t pid h (t_count tt)"
  "counted t pid (launch_ops tt h) = own_calls t pid h (t_count tt)"
  "counted t pid (nccl_ops tt h) = own_calls t pid h (t_count tt)"
  by (simp_all add: event_ops_def agg_ops_def launch_ops_def nccl_ops_def counted_present counted_bucket_ops
      own_calls_def calls_family_def split: option.split)

section \<open>Handles below the limit\<close>

lemma get_or_create_own:
  assumes "cache_inv limits c" and "lists_keys order" and "card (dom (handles c)) < max_time_series limits"
    and "get_or_create hist rc en order limits kn event key c = (h, drops, c')"
  shows "\<exists>key'. key_pid key' = key_pid key \<and> key_type key' = key_type key \<and> handles c' key' = Some h \<and>
    dom (handles c') = insert key' (dom (handles c))"
proof -
  obtain key' c1 where lk: "limit_key limits key c = (key', c1)" by fastforce
  note L = limit_key_facts [OF assms(1) lk]
  have "finite (dom (handles c))" using assms(1) by (simp add: cache_inv_def)
  then have "length (order (handles c1)) = card (dom (handles c))"
    using assms(2) L(3) by (metis distinct_card lists_keys_def)
  with assms(3,4) L(3,5,6) show ?thesis
    by (intro exI [of _ key'])
       (auto simp: get_or_create_def lk Let_def simp del: split_paired_All split_paired_Ex split: option.splits)
qed

definition loop_inv :: "settings \<Rightarrow> nat \<Rightarrow> loop_state \<Rightarrow> bool" where
  "loop_inv cfg n s \<longleftrightarrow>
     cache_inv (cardinality_limits cfg) (cache s) \<and> card (dom (handles (cache s))) \<le> n"

lemma use_handle_own:
  assumes "loop_inv cfg n s" and "lists_keys (key_order cfg)" and "n < max_time_series (cardinality_limits cfg)"
    and "ce_pid event = key_pid key" and "use_handle cfg event key s = (h, s')"
  shows "loop_inv cfg (Suc n) s'"
    and "own_calls t pid h m =
      (if operation_name (key_type key) = operation_name t \<and> key_pid key = pid then m else 0)"
    and "metric_ops s' = metric_ops s" and "active_mem_delta s' = active_mem_delta s"
    and "active_memory s' = active_memory s" and "kernel_names s' = kernel_names s"
proof -
  obtain drops c' where goc: "get_or_create (full_mode cfg) (read_comm cfg) (enrich cfg) (key_order cfg)
      (cardinality_limits cfg) (kernel_names s) event key (cache s) = (h, drops, c')"
    and s': "s' = s\<lparr>cache := c', cardinality_drops := cardinality_drops s + drops\<rparr>"
    using assms(5) by (auto simp: use_handle_def split: prod.splits)
  have inv: "cache_inv (cardinality_limits cfg) (cache s)" and
    card: "card (dom (handles (cache s))) < max_time_series (cardinality_limits cfg)"
    using assms(1,3) by (simp_all add: loop_inv_def)
  have inv': "cache_inv (cardinality_limits cfg) c'" by (rule get_or_create_inv [OF inv assms(2) goc assms(4)])
  obtain key' where key': "key_pid key' = key_pid key" "key_type key' = key_type key"
    "handles c' key' = Some h" "dom (handles c') = insert key' (dom (handles (cache s)))"
    using get_or_create_own [OF inv assms(2) card goc] by blast
  have fin: "finite (dom (handles (cache s)))" using inv by (simp add: cache_inv_def)
  show "loop_inv cfg (Suc n) s'"
    using inv' key'(4) fin assms(1) card_insert_le_m1 [of "Suc n" "dom (handles (cache s))" key']
    by (simp add: loop_inv_def s')
  have "take 2 (calls_labels h) = [operation_name (key_type key), fmt_dec (unat (key_pid key))]"
    using inv' key'(1-3) unfolding cache_inv_def by metis
  moreover have "fmt_dec (unat a) = fmt_dec (unat b) \<longleftrightarrow> a = b" for a b :: u32
    by (simp add: fmt_dec_def to_base_inject word_unat_eq_iff)
  ultimately show "own_calls t pid h m =
      (if operation_name (key_type key) = operation_name t \<and> key_pid key = pid then m else 0)"
    by (simp add: own_calls_def)
qed (use assms(5) in \<open>auto simp: use_handle_def Let_def case_prod_beta\<close>)

text \<open>The other parts of the handlers leave the counters, and the handles, alone.\<close>

lemma parts_frame [simp]:
  "metric_ops (push_durations k ds s) = metric_ops s" "cache (push_durations k ds s) = cache s"
  "metric_ops (request_name cfg pid a s) = metric_ops s" "cache (request_name cfg pid a s) = cache s"
  "metric_ops (see_pid now pid s) = metric_ops s"
  "metric_ops (emit ops s) = metric_ops s @ ops" "cache (emit ops s) = cache s"
  "active_mem_delta (push_durations k ds s) = active_mem_delta s"
  "active_mem_delta (request_name cfg pid a s) = active_mem_delta s"
  "active_mem_delta (see_pid now pid s) = active_mem_delta s"
  "active_mem_delta (emit ops s) = active_mem_delta s"
  "active_memory (push_durations k ds s) = active_memory s"
  "active_memory (request_name cfg pid a s) = active_memory s"
  "active_memory (see_pid now pid s) = active_memory s"
  "active_memory (emit ops s) = active_memory s"
  by (simp_all add: push_durations_def request_name_def see_pid_def emit_def)

lemma loop_inv_parts [simp]:
  "loop_inv cfg n (push_durations k ds s) = loop_inv cfg n s"
  "loop_inv cfg n (request_name cfg' pid a s) = loop_inv cfg n s"
  "loop_inv cfg n (emit ops s) = loop_inv cfg n s"
  "loop_inv cfg n (s\<lparr>events_processed := e\<rparr>) = loop_inv cfg n s"
  "loop_inv cfg n (s\<lparr>active_mem_delta := d\<rparr>) = loop_inv cfg n s"
  "loop_inv cfg n (s\<lparr>local_term_stats := ts\<rparr>) = loop_inv cfg n s"
  by (simp_all add: loop_inv_def)

lemma loop_inv_see_pid [simp]: "loop_inv cfg n s \<Longrightarrow> loop_inv cfg n (see_pid now pid s)"
  by (simp add: loop_inv_def see_pid_def touch_inv) (simp add: touch_def)

lemma keys_of_inputs:
  "key_type (event_key e) = ce_event_type e" "key_pid (event_key e) = ce_pid e"
  "key_type (agg_cache_key k) = ak_event_type k" "key_pid (agg_cache_key k) = ak_pid k"
  "ce_pid (agg_synthetic k) = ak_pid k" "ce_pid (synthetic a b c d f g) = b"
  by (simp_all add: event_key_def Let_def agg_cache_key_def agg_synthetic_def synthetic_def)

lemma invalidate_loop_inv:
  assumes "loop_inv cfg n s" and "lists_keys (key_order cfg)"
  shows "loop_inv cfg n (invalidate cfg pids s)"
proof -
  let ?c = "snd (invalidate_pids (full_mode cfg) (key_order cfg) pids (cache s))"
  have "dom (handles ?c) \<subseteq> dom (handles (cache s))"
    by (auto simp: invalidate_pids_def remove_handles_def Let_def split: if_splits)
  then have "card (dom (handles ?c)) \<le> card (dom (handles (cache s)))"
    using assms(1) by (intro card_mono) (simp_all add: loop_inv_def cache_inv_def)
  then show ?thesis
    using assms invalidate_pids_inv [of "cardinality_limits cfg" "cache s" "key_order cfg" "full_mode cfg" pids]
    by (simp add: invalidate_def loop_inv_def case_prod_beta)
qed

lemma collect_loop_inv:
  assumes "loop_inv cfg n s" and "lists_keys (key_order cfg)"
  shows "loop_inv cfg n (collect cfg now stale_after listed s)"
proof -
  let ?c = "snd (snd (gc (full_mode cfg) (key_order cfg) now stale_after listed (cache s)))"
  let ?stale = "gc_stale now stale_after listed (cache s)"
  have fin: "finite (dom (handles (cache s)))" using assms(1) by (simp add: loop_inv_def cache_inv_def)
  have "handles ?c = (\<lambda>k. if key_pid k \<in> set ?stale then None else handles (cache s) k)"
    using gc_pids_effect [OF assms(2) fin] by (simp add: gc_def Let_def)
  then have "dom (handles ?c) \<subseteq> dom (handles (cache s))" by (auto split: if_splits)
  then have "card (dom (handles ?c)) \<le> card (dom (handles (cache s)))" using fin by (intro card_mono)
  moreover have "cache_inv (cardinality_limits cfg) ?c"
    using gc_pids_inv [OF _ assms(2)] assms(1) by (simp add: gc_def Let_def loop_inv_def)
  moreover have "cache (collect cfg now stale_after listed s) = ?c"
    by (simp add: collect_def case_prod_beta Let_def)
  ultimately show ?thesis using assms(1) by (simp add: loop_inv_def)
qed

section \<open>Every call is counted once\<close>

lemma known_name: "operation_name t \<noteq> ''unknown'' \<Longrightarrow> operation_name t' = operation_name t \<longleftrightarrow> t' = t"
  using operation_name_inject [of t t'] by auto

lemma handle_counts:
  assumes "loop_inv cfg n s" and "lists_keys (key_order cfg)" and "n < max_time_series (cardinality_limits cfg)"
    and "operation_name t \<noteq> ''unknown''"
  shows "loop_inv cfg (Suc n) (handle_event cfg now e s) \<and>
      counted t pid (metric_ops (handle_event cfg now e s)) =
      counted t pid (metric_ops s) + calls_in t pid (Event e)" (is ?E)
    and "loop_inv cfg (Suc n) (handle_aggregated cfg now k tt s) \<and>
      counted t pid (metric_ops (handle_aggregated cfg now k tt s)) =
      counted t pid (metric_ops s) + calls_in t pid (Aggregated k tt)" (is ?A)
    and "loop_inv cfg (Suc n) (handle_launch cfg now lk tt s) \<and>
      counted t pid (metric_ops (handle_launch cfg now lk tt s)) =
      counted t pid (metric_ops s) + calls_in t pid (Launches lk tt)" (is ?L)
    and "loop_inv cfg (Suc n) (handle_nccl cfg now k tt s) \<and>
      counted t pid (metric_ops (handle_nccl cfg now k tt s)) =
      counted t pid (metric_ops s) + calls_in t pid (Collectives k tt)" (is ?N)
proof -
  note own = use_handle_own [OF assms(1-3)] and known = known_name [OF assms(4)]
  obtain h s1 where u: "use_handle cfg e (event_key e) s = (h, s1)" by fastforce
  show ?E
    using own [OF _ u] known
    by (auto simp: handle_event_def u Let_def keys_of_inputs counted_handlers calls_in_def)
  obtain h s1 where u: "use_handle cfg (agg_synthetic k) (agg_cache_key k) s = (h, s1)" by fastforce
  show ?A
    using own [OF _ u] known
    by (auto simp: handle_aggregated_def u Let_def keys_of_inputs counted_handlers calls_in_def)
  show ?N
    using own [OF _ u] known
    by (auto simp: handle_nccl_def u Let_def keys_of_inputs counted_handlers calls_in_def)
  obtain h s1 where u: "use_handle cfg
      (synthetic EVENT_CUDA_LAUNCH_KERNEL (lk_pid lk) 0 0 (lk_stream lk) (lk_host_fun lk))
      (EVENT_CUDA_LAUNCH_KERNEL, lk_pid lk, 0, 0, lk_stream lk, lk_host_fun lk, 0) s = (h, s1)" by fastforce
  show ?L
    using own [OF _ u] known
    by (auto simp: handle_launch_def u Let_def keys_of_inputs counted_handlers calls_in_def)
qed

lemma act_counts:
  assumes "loop_inv cfg n s" and "lists_keys (key_order cfg)" and "n < max_time_series (cardinality_limits cfg)"
    and "operation_name t \<noteq> ''unknown''"
  shows "loop_inv cfg (Suc n) (act cfg i s) \<and>
    counted t pid (metric_ops (act cfg i s)) = counted t pid (metric_ops s) + calls_in t pid (snd i)"
proof -
  obtain now x where i: "i = (now, x)" by fastforce
  have mono: "loop_inv cfg n s' \<Longrightarrow> loop_inv cfg (Suc n) s'" for s' by (simp add: loop_inv_def)
  note facts = handle_counts [OF assms] mono [OF invalidate_loop_inv [OF assms(1,2)]]
    mono [OF collect_loop_inv [OF assms(1,2)]]
  show ?thesis
  proof (cases x)
    case (Changed pids)
    then show ?thesis
      using facts(5) by (simp add: i calls_in_def) (simp add: invalidate_def case_prod_beta)
  next
    case (Collect stale_after listed)
    then show ?thesis
      using facts(6) by (simp add: i calls_in_def) (simp add: collect_def case_prod_beta Let_def)
  qed (simp_all add: i facts)
qed

lemma act_counts_all:
  assumes "loop_inv cfg n s" and "lists_keys (key_order cfg)"
    and "n + length inputs \<le> max_time_series (cardinality_limits cfg)" and "operation_name t \<noteq> ''unknown''"
  shows "counted t pid (metric_ops (fold (act cfg) inputs s)) =
    counted t pid (metric_ops s) + sum_list (map (\<lambda>i. calls_in t pid (snd i)) inputs)"
  using assms(1,3)
proof (induction inputs arbitrary: n s)
  case (Cons i inputs)
  have "n < max_time_series (cardinality_limits cfg)" using Cons.prems(2) by simp
  note step = act_counts [OF Cons.prems(1) assms(2) this assms(4), of i pid]
  with Cons.IH [of "Suc n" "act cfg i s"] Cons.prems(2) show ?case by (simp add: add.assoc)
qed simp

lemma loop_inv_init: "loop_inv cfg 0 loop_init"
  by (simp add: loop_inv_def loop_init_def cache_inv_new) (simp add: new_cache_def)


definition ex_settings :: settings where
  "ex_settings = \<lparr>full_mode = False, detailed_launches = False, with_report = True,
     cardinality_limits = default_limits, read_comm = (\<lambda>_. None), enrich = (\<lambda>_ _. ex_labels),
     key_order = sorted_keys\<rparr>"


end
