(* ===== verification/Pipeline.thy ===== *)
theory Pipeline
  imports EventFacts
begin

text \<open>
  Both halves of the program composed: from the firings of the probes (\<^verbatim>\<open>profi.bpf.c\<close>) over
  the map \<^verbatim>\<open>AGGREGATED\<close> and the drain of the tick to the counters of the metrics
  (\<^verbatim>\<open>main.rs\<close>, \<^verbatim>\<open>cache.rs\<close>).
\<close>

lemma sum_list_all_zero:
  fixes f :: "'x \<Rightarrow> 'a :: comm_monoid_add"
  shows "(\<And>x. x \<in> set xs \<Longrightarrow> f x = 0) \<Longrightarrow> sum_list (map f xs) = 0"
  by (induction xs) simp_all

lemma reports_of_sum:
  assumes "\<And>t. t_count (add zero t) = t_count t"
  shows "sum_list (map (\<lambda>(k, t). if P k then t_count t else 0) (reports_of cpus add n keys m)) =
    sum_list (map (\<lambda>k. if P k then t_count (fold add (map (slot zero m k) cpus) (no_totals n)) else 0) keys)"
proof (induction keys)
  case (Cons key keys)
  have "t_count (fold add (map (slot zero m key) cs) u) = t_count u" if "m key = None" for cs u
    using that by (induction cs arbitrary: u) (simp_all add: slot_def assms)
  then have absent: "t_count (fold add (map (slot zero m key) cpus) (no_totals n)) = 0" if "m key = None"
    using that by (simp add: no_totals_def)
  have present: "slot zero m key = slots" if "m key = Some slots" for slots
    using that by (simp add: slot_def fun_eq_iff)
  show ?case
    using Cons absent present by (auto simp: reports_of_Cons Let_def split: option.split)
qed simp

lemma act_aggregated: "act cfg (now, Aggregated k t) = handle_aggregated cfg now k t"
  by (simp add: fun_eq_iff)

text \<open>The calls of an operation in a process.\<close>

definition calls_of :: "u32 \<Rightarrow> u32 \<Rightarrow> (env \<times> EntryData) list \<Rightarrow> (env \<times> EntryData) list" where
  "calls_of t pid cs = filter (\<lambda>(E, e). ed_event_type e = t \<and> pid_of (pid_tgid E) = pid) cs"

definition key_matches :: "u32 \<Rightarrow> u32 \<Rightarrow> AggKey \<Rightarrow> bool" where
  "key_matches t pid k \<longleftrightarrow> ak_event_type k = t \<and> ak_pid k = pid"

lemma calls_in_aggregated:
  "calls_in t pid (Aggregated k tt) = (if key_matches t pid k then t_count tt else 0)"
  by (simp add: calls_in_def key_matches_def)

lemma calls_by_key:
  assumes "distinct keys" and "\<And>k. k \<notin> set keys \<Longrightarrow> of_nat (length (agg_calls k cs)) * mul = (0 :: u64)"
    and "profi_is_aggregatable t"
  shows "sum_list (map (\<lambda>k. if key_matches t pid k then of_nat (length (agg_calls k cs)) * mul else 0) keys) =
    of_nat (length (calls_of t pid cs)) * mul"
proof -
  let ?key = "\<lambda>x. agg_key (fst x) (snd x)"
  let ?xs = "filter (\<lambda>x. profi_is_aggregatable (ed_event_type (snd x))) cs"
  let ?rest = "remdups (filter (\<lambda>k. k \<notin> set keys) (map ?key ?xs))"
  let ?g = "\<lambda>k. if key_matches t pid k then of_nat (length (agg_calls k cs)) * mul else (0 :: u64)"
  have "of_nat (length (filter (\<lambda>x. key_matches t pid (?key x) \<and> ?key x = k) ?xs)) * mul = ?g k" for k
  proof -
    have "filter (\<lambda>x. key_matches t pid (?key x) \<and> ?key x = k) ?xs =
        (if key_matches t pid k then filter (of_key k) cs else [])"
      by (auto simp: filter_empty_conv of_key_def [abs_def] intro!: filter_cong)
    then show ?thesis by (simp add: agg_calls_of_key)
  qed
  note eq = this
  have D: "distinct (keys @ ?rest)" and C: "\<forall>x \<in> set ?xs. ?key x \<in> set (keys @ ?rest)"
    using assms(1) by auto
  have "sum_list (map ?g (keys @ ?rest)) = of_nat (length (filter (\<lambda>x. key_matches t pid (?key x)) ?xs)) * mul"
    using count_by_class [OF D C, of "\<lambda>x. key_matches t pid (?key x)" mul] unfolding eq by simp
  moreover have "sum_list (map ?g ?rest) = 0"
    using assms(2) by (intro sum_list_all_zero) auto
  moreover have "filter (\<lambda>x. key_matches t pid (?key x)) ?xs = calls_of t pid cs"
    using assms(3) by (auto simp: calls_of_def key_matches_def agg_key_def case_prod_beta intro!: filter_cong)
  ultimately show ?thesis by simp
qed



end
