(* ===== verification/LoopFacts.thy ===== *)
theory LoopFacts
  imports EventFacts
begin

text \<open>
  The main loop as a transition system: its three branches, with everything they read from
  outside quantified, and the invariant of its state. Then the active memory over any number
  of ticks.
\<close>

section \<open>The branches as transitions\<close>

inductive loop_reachable :: "settings \<Rightarrow> loop_state \<Rightarrow> bool" for cfg where
  start: "loop_reachable cfg loop_init"
| readable: "loop_reachable cfg s \<Longrightarrow> readable_branch cfg uni name_at now changed events regs s = Some s' \<Longrightarrow>
    loop_reachable cfg s'"
| agg_tick: "loop_reachable cfg s \<Longrightarrow> loop_reachable cfg (snd (agg_branch cfg now cpus ks st s))"
| gc_tick: "loop_reachable cfg s \<Longrightarrow>
    gc_branch cfg uni now stale_after listed results writable hangs window_keys types s = Some s' \<Longrightarrow>
    loop_reachable cfg s'"

definition state_ok :: "settings \<Rightarrow> loop_state \<Rightarrow> bool" where
  "state_ok cfg s \<longleftrightarrow>
     cache_inv (cardinality_limits cfg) (cache s) \<and>
     (\<forall>k w. nccl_durations s k = Some w \<longrightarrow> length w \<le> NCCL_WINDOW_SIZE) \<and>
     (\<forall>k n. kernel_names s k = Some n \<longrightarrow> length n \<le> 64) \<and>
     (\<not> full_mode cfg \<longrightarrow> kernel_names s = Map.empty \<and> sym_requests s = []) \<and>
     (\<not> with_report cfg \<longrightarrow> local_term_stats s = Map.empty \<and> term_stats s = Map.empty)"

lemma state_okI:
  assumes "state_ok cfg s" and "cache_inv (cardinality_limits cfg) (cache s')"
    and "nccl_durations s' = nccl_durations s" and "kernel_names s' = kernel_names s"
    and "full_mode cfg \<or> sym_requests s' = sym_requests s"
    and "with_report cfg \<or> local_term_stats s' = local_term_stats s \<and> term_stats s' = term_stats s"
  shows "state_ok cfg s'"
  using assms by (auto simp: state_ok_def)

lemma state_ok_parts [simp]:
  "state_ok cfg (emit ops s) = state_ok cfg s"
  "state_ok cfg (s\<lparr>events_processed := e\<rparr>) = state_ok cfg s"
  "state_ok cfg (s\<lparr>active_mem_delta := d\<rparr>) = state_ok cfg s"
  "state_ok cfg (flush_memory s) = state_ok cfg s"
  "state_ok cfg (publish_pids writable s) = state_ok cfg s"
  "state_ok cfg (s\<lparr>pending_resolve := ps\<rparr>) = state_ok cfg s"
  by (simp_all add: state_ok_def emit_def flush_memory_def publish_pids_def)

lemma state_ok_report [simp]:
  "state_ok cfg s \<Longrightarrow> with_report cfg \<Longrightarrow> state_ok cfg (s\<lparr>local_term_stats := m\<rparr>)"
  "state_ok cfg s \<Longrightarrow> with_report cfg \<Longrightarrow> state_ok cfg (s\<lparr>term_stats := m, local_term_stats := m'\<rparr>)"
  by (simp_all add: state_ok_def)

lemma state_ok_request [simp]: "state_ok cfg s \<Longrightarrow> state_ok cfg (request_name cfg pid a s)"
  by (simp add: state_ok_def request_name_def)

lemma state_ok_see_pid [simp]: "state_ok cfg s \<Longrightarrow> state_ok cfg (see_pid now pid s)"
  by (rule state_okI [where s = s]) (simp_all add: see_pid_def touch_inv state_ok_def)

lemma fold_push_bound: "length w \<le> NCCL_WINDOW_SIZE \<Longrightarrow> length (fold push_window ds w) \<le> NCCL_WINDOW_SIZE"
  by (induction ds arbitrary: w) (auto simp: push_window_def NCCL_WINDOW_SIZE_def)

lemma state_ok_push [simp]: "state_ok cfg s \<Longrightarrow> state_ok cfg (push_durations k ds s)"
  by (auto simp: state_ok_def push_durations_def fold_push_bound split: option.splits)

lemma state_ok_use_handle:
  assumes "state_ok cfg s" and "lists_keys (key_order cfg)" and "ce_pid event = key_pid key"
    and "use_handle cfg event key s = (h, s')"
  shows "state_ok cfg s'"
proof (rule state_okI [OF assms(1)])
  obtain drops c' where goc: "get_or_create (full_mode cfg) (read_comm cfg) (enrich cfg) (key_order cfg)
      (cardinality_limits cfg) (kernel_names s) event key (cache s) = (h, drops, c')"
    and s': "s' = s\<lparr>cache := c', cardinality_drops := cardinality_drops s + drops\<rparr>"
    using assms(4) by (auto simp: use_handle_def split: prod.splits)
  show "cache_inv (cardinality_limits cfg) (cache s')"
    using get_or_create_inv [OF _ assms(2) goc assms(3)] assms(1) by (simp add: s' state_ok_def)
qed (use assms(4) in \<open>auto simp: use_handle_def split: prod.splits\<close>)

lemma state_ok_handlers:
  assumes "state_ok cfg s" and "lists_keys (key_order cfg)"
  shows "state_ok cfg (handle_event cfg now e s)" and "state_ok cfg (handle_aggregated cfg now k t s)"
    and "state_ok cfg (handle_launch cfg now lk t s)" and "state_ok cfg (handle_nccl cfg now k t s)"
proof -
  note use = state_ok_use_handle [OF assms]
  show "state_ok cfg (handle_event cfg now e s)"
    by (cases "use_handle cfg e (event_key e) s")
       (auto simp: handle_event_def Let_def keys_of_inputs dest!: use [rotated])
  show "state_ok cfg (handle_aggregated cfg now k t s)"
    by (cases "use_handle cfg (agg_synthetic k) (agg_cache_key k) s")
       (auto simp: handle_aggregated_def Let_def keys_of_inputs dest!: use [rotated])
  show "state_ok cfg (handle_nccl cfg now k t s)"
    by (cases "use_handle cfg (agg_synthetic k) (agg_cache_key k) s")
       (auto simp: handle_nccl_def Let_def keys_of_inputs dest!: use [rotated])
  show "state_ok cfg (handle_launch cfg now lk t s)"
    by (cases "use_handle cfg
          (synthetic EVENT_CUDA_LAUNCH_KERNEL (lk_pid lk) 0 0 (lk_stream lk) (lk_host_fun lk))
          (EVENT_CUDA_LAUNCH_KERNEL, lk_pid lk, 0, 0, lk_stream lk, lk_host_fun lk, 0) s")
       (auto simp: handle_launch_def Let_def keys_of_inputs dest!: use [rotated])
qed

lemma drain_keys_inv:
  assumes "\<And>k vs a. P a \<Longrightarrow> P (process k vs a)" and "P a"
  shows "P (snd (snd (drain_keys cpus process between keys m a)))"
  using assms(2)
  by (induction keys arbitrary: m a) (auto simp: Let_def case_prod_beta assms(1) split: option.split)

lemma state_ok_closures:
  assumes "lists_keys (key_order cfg)" and "state_ok cfg s"
  shows "state_ok cfg (aggregated_closure cfg now k vs s)" and "state_ok cfg (launch_closure cfg now lk ls s)"
    and "state_ok cfg (nccl_closure cfg now k ns s)"
  using assms
  by (simp_all add: aggregated_closure_def launch_closure_def nccl_closure_def Let_def state_ok_handlers)

lemma state_ok_agg_branch:
  assumes "lists_keys (key_order cfg)" and "state_ok cfg s"
  shows "state_ok cfg (snd (agg_branch cfg now cpus ks st s))"
proof -
  note drain = drain_keys_inv [of "state_ok cfg"] and closures = state_ok_closures [OF assms(1)]
  show ?thesis
    using assms(2) unfolding agg_branch_def drain_percpu_hash_def Let_def case_prod_beta snd_conv state_ok_parts
    by (auto intro!: drain closures)
qed

lemma state_ok_regs:
  "state_ok cfg s \<Longrightarrow> full_mode cfg \<Longrightarrow> handle_regs uni name_at regs s = Some s' \<Longrightarrow> state_ok cfg s'"
proof (induction regs arbitrary: s)
  case (Cons reg regs)
  then obtain s1 where s1: "handle_reg uni name_at reg s = Some s1" "handle_regs uni name_at regs s1 = Some s'"
    by (auto split: option.splits)
  have "state_ok cfg s1"
    using s1(1) Cons.prems(1,2)
    by (auto simp: handle_reg_def split: option.splits sum.splits if_splits)
       (auto simp: state_ok_def normalize_bounded)
  then show ?case using Cons.IH s1(2) Cons.prems(2) by blast
qed simp

lemma state_ok_names:
  "state_ok cfg s \<Longrightarrow> full_mode cfg \<Longrightarrow> take_names uni results s = Some s' \<Longrightarrow> state_ok cfg s'"
proof (induction uni results s rule: take_names.induct)
  case (2 uni pid addr name results s)
  show ?case
  proof (cases "prefix ''unknown_'' name")
    case True
    then show ?thesis using 2 by simp
  next
    case False
    with "2.prems"(3) obtain n where n: "normalize_kernel_name uni name = Some n"
      by (auto simp: Let_def split: option.splits)
    let ?s1 = "s\<lparr>pending_resolve := pending_resolve s - {(pid, addr)}\<rparr>"
    have "state_ok cfg (?s1\<lparr>kernel_names := (kernel_names ?s1)((pid, addr) \<mapsto> n)\<rparr>)"
      using "2.prems"(1,2) normalize_bounded [OF n] by (auto simp: state_ok_def)
    then show ?thesis using "2.IH"(2) [OF refl False n] "2.prems"(2,3) False n by (simp add: Let_def)
  qed
qed simp

lemma state_ok_invalidate:
  assumes "lists_keys (key_order cfg)" and "state_ok cfg s"
  shows "state_ok cfg (invalidate cfg pids s)"
  using assms by (auto simp: invalidate_def case_prod_beta intro!: state_okI [where s = s] invalidate_pids_inv)
    (simp add: state_ok_def)

lemma state_ok_collect:
  assumes "lists_keys (key_order cfg)" and "state_ok cfg s"
  shows "state_ok cfg (collect cfg now stale_after listed s)"
proof -
  have "cache_inv (cardinality_limits cfg) (snd (snd (gc (full_mode cfg) (key_order cfg) now stale_after listed (cache s))))"
    using gc_pids_inv [OF _ assms(1)] assms(2) by (simp add: gc_def Let_def state_ok_def)
  then show ?thesis
    using assms(2) by (auto simp: collect_def case_prod_beta Let_def state_ok_def emit_def split: if_splits)
qed

lemma loop_reachable_ok:
  assumes "loop_reachable cfg s" and "lists_keys (key_order cfg)"
  shows "state_ok cfg s"
  using assms(1)
proof induction
  case start
  show ?case by (simp add: state_ok_def loop_init_def cache_inv_new)
next
  case (readable s uni name_at now changed events regs s')
  have "state_ok cfg (fold (handle_event cfg now) events s0)" if "state_ok cfg s0" for s0
    using that by (induction events arbitrary: s0) (simp_all add: state_ok_handlers assms(2))
  then have "state_ok cfg (fold (handle_event cfg now) events
      (if changed = {} then s else invalidate cfg changed s))"
    using state_ok_invalidate [OF assms(2) readable.IH] readable.IH by simp
  then show ?case
    using readable.hyps(2) by (auto simp: readable_branch_def Let_def split: if_splits intro: state_ok_regs)
next
  case (agg_tick s now cpus ks st)
  then show ?case by (intro state_ok_agg_branch assms(2))
next
  case (gc_tick s uni now stale_after listed results writable hangs window_keys types s')
  from gc_tick.hyps(2) obtain s1 where s1: "take_names uni (if full_mode cfg then results else []) s = Some s1"
    by (auto simp: gc_branch_def split: option.splits)
  have "state_ok cfg s1"
    using s1 gc_tick.IH state_ok_names by (cases "full_mode cfg") auto
  then have "state_ok cfg (collect cfg now stale_after listed (publish_pids writable s1))"
    by (intro state_ok_collect assms(2)) simp
  then show ?case using gc_tick.hyps(2) s1 by (auto simp: gc_branch_def Let_def)
qed



section \<open>Active memory\<close>

definition mem_at :: "(u32 \<rightharpoonup> u64) \<Rightarrow> u32 \<Rightarrow> u64" where
  "mem_at m pid = (case m pid of None \<Rightarrow> 0 | Some x \<Rightarrow> x)"

definition drained_bytes :: "u32 set \<Rightarrow> u32 \<Rightarrow> (AggKey \<times> totals) list \<Rightarrow> u64" where
  "drained_bytes types pid rs =
     sum_list (map (t_size \<circ> snd) (filter (\<lambda>(k, t). ak_pid k = pid \<and> ak_event_type k \<in> types) rs))"

definition mem_balance :: "u32 \<Rightarrow> (AggKey \<times> totals) list \<Rightarrow> u64" where
  "mem_balance pid rs =
     drained_bytes {EVENT_CUDA_MALLOC, EVENT_CUDA_MALLOC_ASYNC} pid rs -
     drained_bytes {EVENT_CUDA_FREE, EVENT_CUDA_FREE_ASYNC} pid rs"

lemma alloc_not_free:
  "t \<in> {EVENT_CUDA_MALLOC, EVENT_CUDA_MALLOC_ASYNC} \<Longrightarrow> t \<notin> {EVENT_CUDA_FREE, EVENT_CUDA_FREE_ASYNC}"
proof -
  have "{EVENT_CUDA_MALLOC, EVENT_CUDA_MALLOC_ASYNC} \<inter> {EVENT_CUDA_FREE, EVENT_CUDA_FREE_ASYNC} = {}"
    by code_simp
  then show "t \<in> {EVENT_CUDA_MALLOC, EVENT_CUDA_MALLOC_ASYNC} \<Longrightarrow> t \<notin> {EVENT_CUDA_FREE, EVENT_CUDA_FREE_ASYNC}"
    by blast
qed

lemma mem_balance_changes:
  "mem_balance pid rs =
     sum_list (map (\<lambda>(k, t). if ak_pid k = pid then mem_change (ak_event_type k) (t_size t) else 0) rs)"
proof (induction rs)
  case (Cons x rs)
  obtain k t where x: "x = (k, t)" by fastforce
  have "mem_balance pid (x # rs) =
      (if ak_pid k = pid then mem_change (ak_event_type k) (t_size t) else 0) + mem_balance pid rs"
    using alloc_not_free [of "ak_event_type k"]
    by (auto simp: x mem_balance_def drained_bytes_def mem_change_def simp del: insert_iff)
  with Cons show ?case by (simp add: x)
qed (simp add: mem_balance_def drained_bytes_def)

lemma mem_at_simps [simp]:
  "mem_at Map.empty pid = 0"
  "mem_at (add_delta p d m) pid = (if p = pid then mem_at m pid + d else mem_at m pid)"
  by (simp_all add: mem_at_def add_delta_def)

lemma mem_change_zero: "\<not> (n > 0 \<and> mem_type t) \<Longrightarrow> mem_change t n = 0"
  by (auto simp: mem_change_def mem_type_def word_gt_0)

lemma use_handle_mem:
  assumes "use_handle cfg event key s = (h, s')"
  shows "active_mem_delta s' = active_mem_delta s" "active_memory s' = active_memory s"
  using assms by (auto simp: use_handle_def split: prod.splits)

lemma handle_aggregated_mem:
  "mem_at (active_mem_delta (handle_aggregated cfg now k t s)) pid =
     mem_at (active_mem_delta s) pid + mem_balance pid [(k, t)]"
  "active_memory (handle_aggregated cfg now k t s) = active_memory s"
proof -
  obtain h s1 where u: "use_handle cfg (agg_synthetic k) (agg_cache_key k) s = (h, s1)" by fastforce
  show "mem_at (active_mem_delta (handle_aggregated cfg now k t s)) pid =
      mem_at (active_mem_delta s) pid + mem_balance pid [(k, t)]"
    using mem_change_zero [of "t_size t" "ak_event_type k"]
    by (cases "t_size t > 0 \<and> mem_type (ak_event_type k)")
       (simp_all add: handle_aggregated_def u use_handle_mem [OF u] Let_def mem_balance_changes)
  show "active_memory (handle_aggregated cfg now k t s) = active_memory s"
    by (simp add: handle_aggregated_def u use_handle_mem [OF u] Let_def)
qed

lemma fold_aggregated_mem:
  "mem_at (active_mem_delta (fold (\<lambda>(k, t). handle_aggregated cfg now k t) rs s)) pid =
     mem_at (active_mem_delta s) pid + mem_balance pid rs"
  "active_memory (fold (\<lambda>(k, t). handle_aggregated cfg now k t) rs s) = active_memory s"
  by (induction rs arbitrary: s) (auto simp: handle_aggregated_mem mem_balance_changes add.assoc)

lemma other_closures_mem:
  "active_mem_delta (launch_closure cfg now lk ls s) = active_mem_delta s \<and>
     active_memory (launch_closure cfg now lk ls s) = active_memory s"
  "active_mem_delta (nccl_closure cfg now k ns s) = active_mem_delta s \<and>
     active_memory (nccl_closure cfg now k ns s) = active_memory s"
  by (auto simp: launch_closure_def handle_launch_def nccl_closure_def handle_nccl_def Let_def case_prod_beta
      use_handle_mem [OF prod.collapse [symmetric]])

lemma flush_memory_mem:
  "mem_at (active_memory (flush_memory s)) pid = mem_at (active_memory s) pid + mem_at (active_mem_delta s) pid"
  by (simp add: flush_memory_def mem_at_def split: option.split)

text \<open>The reports of a tick about \<^verbatim>\<open>AGGREGATED\<close>.\<close>

definition tick_reports :: "cpu list \<Rightarrow> map_listing \<Rightarrow> bpf_state \<Rightarrow> (AggKey \<times> totals) list" where
  "tick_reports cpus ks st =
     snd (snd (drain_percpu_hash cpus process_aggregated quiet (agg_keys ks) (AGGREGATED st) []))"

lemma agg_branch_mem:
  "mem_at (active_memory (snd (agg_branch cfg now cpus ks st s))) pid =
     mem_at (active_memory s) pid + mem_balance pid (tick_reports cpus ks st)"
proof -
  let ?s1 = "snd (snd (drain_percpu_hash cpus (aggregated_closure cfg now) quiet (agg_keys ks) (AGGREGATED st)
    (s\<lparr>active_mem_delta := Map.empty\<rparr>)))"
  have s1: "mem_at (active_mem_delta ?s1) pid = mem_balance pid (tick_reports cpus ks st)"
    "active_memory ?s1 = active_memory s"
    by (simp_all add: agg_drained.drain_fused fold_aggregated_mem tick_reports_def)
  let ?same = "\<lambda>s'. active_mem_delta s' = active_mem_delta ?s1 \<and> active_memory s' = active_memory ?s1"
  let ?s2 = "if detailed_launches cfg then ?s1 else snd (snd (drain_percpu_hash cpus (launch_closure cfg now) quiet
    (launch_keys ks) (LAUNCH_AGG st) ?s1))"
  let ?s3 = "snd (snd (drain_percpu_hash cpus (nccl_closure cfg now) quiet (nccl_keys ks) (NCCL_AGG st) ?s2))"
  have "snd (agg_branch cfg now cpus ks st s) = flush_memory ?s3"
    by (simp add: agg_branch_def Let_def case_prod_beta)
  moreover have "?same (snd (snd (drain_percpu_hash cpus (launch_closure cfg now) quiet (launch_keys ks) (LAUNCH_AGG st) ?s1)))"
    unfolding drain_percpu_hash_def [of _ "launch_closure cfg now"]
    by (rule drain_keys_inv [of ?same]) (simp_all add: other_closures_mem)
  then have "?same ?s2" by simp
  then have "?same ?s3"
    unfolding drain_percpu_hash_def [of _ "nccl_closure cfg now"]
    by (intro drain_keys_inv [of ?same]) (simp_all add: other_closures_mem)
  ultimately show ?thesis using s1 by (simp add: flush_memory_mem)
qed

text \<open>
  C9. The balance of the active memory. Over any number of ticks the memory shown for a process
  is the sum of the sizes drained for its allocations minus the sum of the sizes drained for
  its frees, as a signed 64-bit number; launches and collectives do not touch it. The error
  code of an allocation plays no part: a failed one counts like any other.
\<close>

theorem active_memory_balance:
  "mem_at (active_memory (fold (\<lambda>(now, cpus, ks, st) s. snd (agg_branch cfg now cpus ks st s)) ticks loop_init)) pid =
     sum_list (map (\<lambda>(now, cpus, ks, st). mem_balance pid (tick_reports cpus ks st)) ticks)"
proof (induction ticks rule: rev_induct)
  case Nil
  then show ?case by (simp add: loop_init_def)
next
  case (snoc x ticks)
  then show ?case by (simp add: case_prod_beta agg_branch_mem)
qed

end
