(* ===== verification/Auth.thy ===== *)
theory Auth
  imports RustStrings
begin

text \<open>
  Access to the metrics endpoint, \<^verbatim>\<open>src/src/http_security.rs\<close> and \<^verbatim>\<open>src/src/server.rs\<close>: the
  settings and their validation, the TLS configuration, token reviews with their cache, the
  middleware in front of the routes, and the health and readiness probes. The TLS library,
  the cluster API, the hash function and the cache library are outside the program and
  arguments of the definitions: \<open>handshake\<close> says which connections get through, \<open>review\<close> what
  the API answers at a time, \<open>digest\<close> is the hash of a token, and a cache lookup may miss at
  any time (\<open>forgets\<close>) and misses once an entry is older than its time to live.
\<close>

section \<open>Settings\<close>

datatype TlsMode = Tls_Off | Server | Mtls

datatype AuthMode = Auth_Off | Bearer | MtlsOrBearer

record MetricsSecurityArgs =
  metrics_tls_mode :: TlsMode
  metrics_tls_cert :: "string option"
  metrics_tls_key :: "string option"
  metrics_tls_client_ca :: "string option"
  metrics_auth_mode :: AuthMode
  metrics_auth_audience :: "string option"
  metrics_auth_cache_ttl :: nat

definition tls_enabled :: "MetricsSecurityArgs \<Rightarrow> bool" where
  "tls_enabled args \<longleftrightarrow> metrics_tls_mode args \<noteq> Tls_Off"

definition needs_k8s_client :: "MetricsSecurityArgs \<Rightarrow> bool" where
  "needs_k8s_client args \<longleftrightarrow> metrics_auth_mode args \<in> {Bearer, MtlsOrBearer}"

datatype settings_error = Missing_cert_or_key | Missing_client_ca | Mtls_required

definition validate :: "MetricsSecurityArgs \<Rightarrow> settings_error + unit" where
  "validate args =
     (if tls_enabled args \<and> (metrics_tls_cert args = None \<or> metrics_tls_key args = None)
      then Inl Missing_cert_or_key
      else if metrics_tls_mode args = Mtls \<and> metrics_tls_client_ca args = None
      then Inl Missing_client_ca
      else if metrics_auth_mode args = MtlsOrBearer \<and> metrics_tls_mode args \<noteq> Mtls
      then Inl Mtls_required
      else Inr ())"

text \<open>
  The PEM files: what the file system holds and what the PEM library finds in it, each item a
  certificate or an error, the first private key if there is one, or an error.
\<close>

record pem_world =
  open_file :: "string \<Rightarrow> string option"
  pem_certs :: "string \<Rightarrow> string option list"
  pem_private_key :: "string \<Rightarrow> string option option"

definition load_cert_chain :: "pem_world \<Rightarrow> string \<Rightarrow> string list option" where
  "load_cert_chain F path =
     (case open_file F path of
        None \<Rightarrow> None
      | Some text \<Rightarrow>
          (if None \<in> set (pem_certs F text) then None
           else let certs = List.map_filter id (pem_certs F text)
                in if certs = [] then None else Some certs))"

definition load_private_key :: "pem_world \<Rightarrow> string \<Rightarrow> string option" where
  "load_private_key F path =
     (case open_file F path of
        None \<Rightarrow> None
      | Some text \<Rightarrow> (case pem_private_key F text of Some (Some key) \<Rightarrow> Some key | _ \<Rightarrow> None))"

text \<open>
  The TLS configuration: which client certificates it asks for. \<open>accepts\<close> says whether the TLS
  library takes it. A missing path is a panic.
\<close>

datatype tls_config = No_client_auth "string list" string | Client_cert_required "string list" string "string list"

datatype tls_error = Panic | Load_failed | Rejected

definition accepted :: "(tls_config \<Rightarrow> bool) \<Rightarrow> tls_config \<Rightarrow> tls_error + tls_config option" where
  "accepted accepts cfg = (if accepts cfg then Inr (Some cfg) else Inl Rejected)"

definition build_rustls_config ::
    "pem_world \<Rightarrow> (tls_config \<Rightarrow> bool) \<Rightarrow> MetricsSecurityArgs \<Rightarrow> tls_error + tls_config option" where
  "build_rustls_config F accepts args =
     (if \<not> tls_enabled args then Inr None
      else case (metrics_tls_cert args, metrics_tls_key args) of
        (Some cert_path, Some key_path) \<Rightarrow>
          (case (load_cert_chain F cert_path, load_private_key F key_path) of
             (Some certs, Some key) \<Rightarrow>
               (if metrics_tls_mode args = Server then accepted accepts (No_client_auth certs key)
                else case metrics_tls_client_ca args of
                  None \<Rightarrow> Inl Panic
                | Some ca_path \<Rightarrow>
                    (case load_cert_chain F ca_path of
                       None \<Rightarrow> Inl Load_failed
                     | Some roots \<Rightarrow> accepted accepts (Client_cert_required certs key roots)))
           | _ \<Rightarrow> Inl Load_failed)
      | _ \<Rightarrow> Inl Panic)"

section \<open>Token reviews\<close>

record TokenReviewStatus =
  authenticated :: "bool option"
  audiences :: "string list option"
  user :: "string option option"

text \<open>An answer of the API: an error, or a review whose status may be missing.\<close>

type_synonym review_result = "TokenReviewStatus option option"

datatype AuthFailure = NoAuth | TokenReviewDeny | TokenReviewError | AudienceMismatch

fun reason :: "AuthFailure \<Rightarrow> string" where
  "reason NoAuth = ''no_auth''"
| "reason TokenReviewDeny = ''tokenreview_deny''"
| "reason TokenReviewError = ''tokenreview_error''"
| "reason AudienceMismatch = ''audience_mismatch''"

text \<open>The cache holds a user name and the time it was put there, by the hash of the token.\<close>

type_synonym token_cache = "string \<rightharpoonup> string \<times> nat"

record auth_world =
  handshake :: "TlsMode \<Rightarrow> bool \<Rightarrow> bool"
  review :: "nat \<Rightarrow> string \<Rightarrow> string option \<Rightarrow> review_result"
  digest :: "string \<Rightarrow> string"
  forgets :: "nat \<Rightarrow> string \<Rightarrow> bool"

definition cache_get :: "auth_world \<Rightarrow> nat \<Rightarrow> nat \<Rightarrow> string \<Rightarrow> token_cache \<Rightarrow> string option" where
  "cache_get W now ttl key c =
     (case c key of
        None \<Rightarrow> None
      | Some (name, t) \<Rightarrow> if forgets W now key \<or> t + ttl \<le> now then None else Some name)"

text \<open>What a review amounts to for a required audience.\<close>

definition judge :: "string option \<Rightarrow> review_result \<Rightarrow> AuthFailure + string" where
  "judge audience result =
     (case result of
        None \<Rightarrow> Inl TokenReviewError
      | Some None \<Rightarrow> Inl TokenReviewError
      | Some (Some status) \<Rightarrow>
          if authenticated status \<noteq> Some True then Inl TokenReviewDeny
          else if \<not> (case audience of
                       None \<Rightarrow> True
                     | Some required \<Rightarrow>
                         (case audiences status of None \<Rightarrow> False | Some a \<Rightarrow> required \<in> set a))
          then Inl AudienceMismatch
          else Inr (case user status of Some (Some name) \<Rightarrow> name | _ \<Rightarrow> ''unknown''))"

text \<open>The reviewer's cache and the counters, by label, that it and the middleware increment.\<close>

record auth_state =
  cache :: token_cache
  http_tokenreview_cache :: "string \<Rightarrow> nat"
  http_tokenreview_latency :: nat
  http_auth_success :: "string \<Rightarrow> nat"
  http_auth_failures :: "string \<Rightarrow> nat"

definition auth_init :: auth_state where
  "auth_init = \<lparr> cache = Map.empty, http_tokenreview_cache = (\<lambda>_. 0), http_tokenreview_latency = 0,
     http_auth_success = (\<lambda>_. 0), http_auth_failures = (\<lambda>_. 0) \<rparr>"

definition inc :: "string \<Rightarrow> (string \<Rightarrow> nat) \<Rightarrow> string \<Rightarrow> nat" where
  "inc l f = f(l := f l + 1)"

definition authenticate ::
    "auth_world \<Rightarrow> MetricsSecurityArgs \<Rightarrow> nat \<Rightarrow> string \<Rightarrow> auth_state \<Rightarrow> (AuthFailure + string) \<times> auth_state" where
  "authenticate W args now token s =
     (let key = digest W token
      in case cache_get W now (metrics_auth_cache_ttl args) key (cache s) of
           Some name \<Rightarrow> (Inr name, http_tokenreview_cache_update (inc ''hit'') s)
         | None \<Rightarrow>
             (let s1 = http_tokenreview_latency_update Suc (http_tokenreview_cache_update (inc ''miss'') s)
              in case judge (metrics_auth_audience args) (review W now token (metrics_auth_audience args)) of
                   Inl f \<Rightarrow> (Inl f, s1)
                 | Inr name \<Rightarrow> (Inr name, cache_update (\<lambda>c. c(key \<mapsto> (name, now))) s1)))"

section \<open>The middleware and the server\<close>

text \<open>A request: its path, its \<^verbatim>\<open>Authorization\<close> header, and whether the client proved a certificate.\<close>

record request =
  req_path :: string
  req_authorization :: "string option"
  req_cert_ok :: bool

definition is_unauthenticated_path :: "string \<Rightarrow> bool" where
  "is_unauthenticated_path path \<longleftrightarrow> path \<in> {''/health'', ''/ready''}"

text \<open>\<^verbatim>\<open>to_str\<close> of a header value: visible ASCII, blanks and tabs only.\<close>

definition header_str :: "string \<Rightarrow> string option" where
  "header_str v = (if list_all (\<lambda>c. 32 \<le> byte c \<and> byte c < 127 \<or> byte c = 9) v then Some v else None)"

definition bearer_token :: "request \<Rightarrow> string option" where
  "bearer_token req =
     (case req_authorization req of
        None \<Rightarrow> None
      | Some v \<Rightarrow>
          (case header_str v of
             None \<Rightarrow> None
           | Some s \<Rightarrow> map_option trim (strip_prefix ''Bearer '' s)))"

text \<open>The outcome: passed on to the route, or answered with status 401.\<close>

datatype outcome = Pass | Unauthorized

definition fail :: "AuthFailure \<Rightarrow> auth_state \<Rightarrow> outcome \<times> auth_state" where
  "fail f s = (Unauthorized, http_auth_failures_update (inc (reason f)) s)"

definition auth_middleware ::
    "auth_world \<Rightarrow> MetricsSecurityArgs \<Rightarrow> bool \<Rightarrow> nat \<Rightarrow> request \<Rightarrow> auth_state \<Rightarrow> outcome \<times> auth_state" where
  "auth_middleware W args has_reviewer now req s =
     (if metrics_auth_mode args = Auth_Off then (Pass, s)
      else if is_unauthenticated_path (req_path req) then (Pass, s)
      else if metrics_auth_mode args = MtlsOrBearer \<and> metrics_tls_mode args = Mtls
      then (Pass, http_auth_success_update (inc ''mtls'') s)
      else case bearer_token req of
        None \<Rightarrow> fail NoAuth s
      | Some token \<Rightarrow>
          if token = [] then fail NoAuth s
          else if \<not> has_reviewer then fail TokenReviewError s
          else (case authenticate W args now token s of
                  (Inr name, s') \<Rightarrow> (Pass, http_auth_success_update (inc ''bearer'') s')
                | (Inl f, s') \<Rightarrow> fail f s'))"

text \<open>
  A request to the server: the TLS handshake, then the middleware when authentication is on.
  \<open>None\<close>: the connection is refused. The reviewer is there when the settings need it.
\<close>

definition serve_request ::
    "auth_world \<Rightarrow> MetricsSecurityArgs \<Rightarrow> nat \<Rightarrow> request \<Rightarrow> auth_state \<Rightarrow> outcome option \<times> auth_state" where
  "serve_request W args now req s =
     (if \<not> handshake W (metrics_tls_mode args) (req_cert_ok req) then (None, s)
      else if metrics_auth_mode args = Auth_Off then (Some Pass, s)
      else let (out, s') = auth_middleware W args (needs_k8s_client args) now req s in (Some out, s'))"

fun serve_requests ::
    "auth_world \<Rightarrow> MetricsSecurityArgs \<Rightarrow> (nat \<times> request) list \<Rightarrow> auth_state \<Rightarrow> auth_state" where
  "serve_requests W args [] s = s"
| "serve_requests W args ((now, req) # reqs) s =
     serve_requests W args reqs (snd (serve_request W args now req s))"

section \<open>Health and readiness\<close>

definition HEARTBEAT_STALE_NS :: u64 where
  "HEARTBEAT_STALE_NS = 30000000000"

definition handle_health :: "u64 \<Rightarrow> u64 \<Rightarrow> nat \<times> string" where
  "handle_health heartbeat now =
     (if heartbeat = 0 \<or> (if now < heartbeat then 0 else now - heartbeat) < HEARTBEAT_STALE_NS
      then (200, ''ok'' @ [CHR 0x0A]) else (503, ''event loop stale'' @ [CHR 0x0A]))"

definition handle_ready :: "nat \<Rightarrow> bool \<Rightarrow> bool \<Rightarrow> nat \<times> string" where
  "handle_ready libs rb_open k8s =
     (if libs \<ge> 1 \<and> rb_open \<and> k8s then (200, ''ready'' @ [CHR 0x0A]) else (503, ''not ready'' @ [CHR 0x0A]))"

section \<open>The cache holds earlier answers\<close>

text \<open>Every cached name is the verdict on a token that an earlier request carried, at its time.\<close>

definition cache_sound :: "auth_world \<Rightarrow> MetricsSecurityArgs \<Rightarrow> (nat \<times> request) set \<Rightarrow> auth_state \<Rightarrow> bool" where
  "cache_sound W args past s \<longleftrightarrow>
     (\<forall>key name t. cache s key = Some (name, t) \<longrightarrow>
        (\<exists>token r. (t, r) \<in> past \<and> bearer_token r = Some token \<and> digest W token = key
           \<and> judge (metrics_auth_audience args) (review W t token (metrics_auth_audience args)) = Inr name))"

lemma cache_soundI:
  assumes "\<And>key name t. cache s key = Some (name, t) \<Longrightarrow>
     \<exists>token r. (t, r) \<in> past \<and> bearer_token r = Some token \<and> digest W token = key
       \<and> judge (metrics_auth_audience args) (review W t token (metrics_auth_audience args)) = Inr name"
  shows "cache_sound W args past s"
  using assms unfolding cache_sound_def by blast

lemma cache_sound_init [simp]: "cache_sound W args past auth_init"
  by (simp add: cache_sound_def auth_init_def)

lemma cache_sound_mono: "cache_sound W args past s \<Longrightarrow> past \<subseteq> past' \<Longrightarrow> cache_sound W args past' s"
  unfolding cache_sound_def by blast

lemma cache_sound_cong: "cache s' = cache s \<Longrightarrow> cache_sound W args past s' = cache_sound W args past s"
  by (simp add: cache_sound_def)

lemma cache_authenticate:
  "cache (snd (authenticate W args now token s)) =
     (case cache_get W now (metrics_auth_cache_ttl args) (digest W token) (cache s) of
        Some _ \<Rightarrow> cache s
      | None \<Rightarrow>
          (case judge (metrics_auth_audience args) (review W now token (metrics_auth_audience args)) of
             Inl _ \<Rightarrow> cache s
           | Inr name \<Rightarrow> (cache s)(digest W token \<mapsto> (name, now))))"
  by (simp add: authenticate_def Let_def split: option.split sum.split)

lemma cache_sound_authenticate:
  assumes "cache_sound W args past s" "(now, r) \<in> past" "bearer_token r = Some token"
  shows "cache_sound W args past (snd (authenticate W args now token s))"
  using assms by (fastforce simp: cache_sound_def cache_authenticate split: option.splits sum.splits)

lemma cache_fail [simp]: "cache (snd (fail f s)) = cache s" "fst (fail f s) = Unauthorized"
  by (simp_all add: fail_def)

lemma cache_middleware:
  "cache (snd (auth_middleware W args b now req s)) = cache s
   \<or> (\<exists>token. bearer_token req = Some token
        \<and> cache (snd (auth_middleware W args b now req s)) = cache (snd (authenticate W args now token s)))"
  by (auto simp: auth_middleware_def split: option.split prod.split sum.split)

lemma cache_sound_serve:
  assumes "cache_sound W args past s"
  shows "cache_sound W args (insert (now, req) past) (snd (serve_request W args now req s))"
proof -
  have ins: "cache_sound W args (insert (now, req) past) s"
    by (rule cache_sound_mono [OF assms]) blast
  have "cache_sound W args (insert (now, req) past) (snd (auth_middleware W args b now req s))" for b
    using cache_middleware [of W args b now req s] cache_sound_authenticate [OF ins, of now req]
      ins cache_sound_cong by (metis insertI1)
  then show ?thesis
    using ins by (simp add: serve_request_def case_prod_beta Let_def)
qed

lemma cache_sound_requests:
  "cache_sound W args past s \<Longrightarrow> cache_sound W args (past \<union> set reqs) (serve_requests W args reqs s)"
proof (induction W args reqs s arbitrary: past rule: serve_requests.induct)
  case (2 W args now req reqs s)
  show ?case using "2.IH" [OF cache_sound_serve [OF "2.prems"]] by (simp add: Un_commute)
qed simp

lemma cache_get_Some:
  "cache_get W now ttl key c = Some name \<longleftrightarrow> (\<exists>t. c key = Some (name, t) \<and> \<not> forgets W now key \<and> now < t + ttl)"
  by (auto simp: cache_get_def split: option.split prod.split)

lemma authenticate_Inr:
  assumes "authenticate W args now token s = (Inr name, s')"
  shows "cache_get W now (metrics_auth_cache_ttl args) (digest W token) (cache s) = Some name
    \<or> judge (metrics_auth_audience args) (review W now token (metrics_auth_audience args)) = Inr name"
  using assms by (auto simp: authenticate_def Let_def split: option.splits sum.splits)

lemma validate_mtls: "validate args = Inr () \<Longrightarrow> metrics_auth_mode args = MtlsOrBearer \<Longrightarrow> metrics_tls_mode args = Mtls"
  by (auto simp: validate_def split: if_splits)

text \<open>A protected request that passes the middleware with a token.\<close>

lemma middleware_bearer_pass:
  assumes "fst (auth_middleware W args b now req s) = Pass" "metrics_auth_mode args = Bearer"
    "\<not> is_unauthenticated_path (req_path req)"
  obtains token name s' where "bearer_token req = Some token" "token \<noteq> []"
    "authenticate W args now token s = (Inr name, s')"
  using assms by (auto simp: auth_middleware_def split: option.splits prod.splits sum.splits if_splits)

text \<open>The tokens some requests carry.\<close>

definition tokens_of :: "(nat \<times> request) list \<Rightarrow> string set" where
  "tokens_of reqs = {token. \<exists>(t, r) \<in> set reqs. bearer_token r = Some token}"

lemma tokens_ofI: "(t, r) \<in> set reqs \<Longrightarrow> bearer_token r = Some token \<Longrightarrow> token \<in> tokens_of reqs"
  by (auto simp: tokens_of_def)

text \<open>An answer of the API that accepts a token for an audience.\<close>

definition api_accepts :: "string option \<Rightarrow> review_result \<Rightarrow> bool" where
  "api_accepts audience result \<longleftrightarrow>
     (\<exists>status. result = Some (Some status) \<and> authenticated status = Some True
        \<and> (\<forall>required. audience = Some required \<longrightarrow> (\<exists>a. audiences status = Some a \<and> required \<in> set a)))"

lemma judge_accepts: "judge audience result = Inr name \<Longrightarrow> api_accepts audience result"
  by (auto simp: judge_def api_accepts_def split: option.splits if_splits)

section \<open>What the server guarantees\<close>

text \<open>
  C15. Nothing but the probes is served without authentication. With settings that validate,
  a TLS library that lets a client through in mutual mode only with a certificate, and a
  hash without collisions among the tokens seen: when authentication is on and a request for any other path
  reaches its route after any earlier requests, then either the mode accepts certificates and
  the client proved one, or the request carries a non-empty token that the API accepted for
  the required audience, now or for an earlier request with the same token less than the
  cache's time to live ago; and in mutual TLS the client proved a certificate either way.
\<close>

theorem metrics_guarded:
  assumes valid: "validate args = Inr ()"
    and tls: "\<And>ok. handshake W Mtls ok \<Longrightarrow> ok"
    and hash: "inj_on (digest W) (tokens_of ((now, req) # reqs))"
    and on: "metrics_auth_mode args \<noteq> Auth_Off"
    and path: "\<not> is_unauthenticated_path (req_path req)"
    and served: "fst (serve_request W args now req (serve_requests W args reqs auth_init)) = Some Pass"
  shows "(metrics_tls_mode args = Mtls \<longrightarrow> req_cert_ok req)
    \<and> (metrics_auth_mode args = MtlsOrBearer \<and> req_cert_ok req
       \<or> (\<exists>token t. bearer_token req = Some token \<and> token \<noteq> []
            \<and> api_accepts (metrics_auth_audience args) (review W t token (metrics_auth_audience args))
            \<and> (t = now \<or> now < t + metrics_auth_cache_ttl args
                 \<and> (\<exists>r. (t, r) \<in> set reqs \<and> bearer_token r = Some token))))"
proof -
  define s where "s = serve_requests W args reqs auth_init"
  have shake: "handshake W (metrics_tls_mode args) (req_cert_ok req)"
    and pass: "fst (auth_middleware W args (needs_k8s_client args) now req s) = Pass"
    using served on by (auto simp: serve_request_def s_def Let_def split: if_splits prod.splits)
  have cert: "metrics_tls_mode args = Mtls \<longrightarrow> req_cert_ok req"
    using shake tls by metis
  have sound: "cache_sound W args (set reqs) s"
    using cache_sound_requests [of W args "{}" auth_init reqs] by (simp add: s_def)
  show ?thesis
  proof (cases "metrics_auth_mode args = MtlsOrBearer")
    case True
    then show ?thesis using cert validate_mtls [OF valid] by simp
  next
    case False
    then have "metrics_auth_mode args = Bearer" using on by (cases "metrics_auth_mode args") simp_all
    then obtain token name s' where tok: "bearer_token req = Some token" "token \<noteq> []"
      and auth: "authenticate W args now token s = (Inr name, s')"
      using middleware_bearer_pass [OF pass _ path] by metis
    from authenticate_Inr [OF auth] consider
      (hit) t where "cache s (digest W token) = Some (name, t)" "now < t + metrics_auth_cache_ttl args"
      | (asked) "judge (metrics_auth_audience args) (review W now token (metrics_auth_audience args)) = Inr name"
      unfolding cache_get_Some by blast
    then show ?thesis
    proof cases
      case hit
      then obtain token' r where "(t, r) \<in> set reqs" "bearer_token r = Some token'" "digest W token' = digest W token"
        and "judge (metrics_auth_audience args) (review W t token' (metrics_auth_audience args)) = Inr name"
        using sound unfolding cache_sound_def by metis
      moreover from this have "token' = token"
        using inj_onD [OF hash] tok(1) by (metis tokens_ofI list.set_intros)
      ultimately show ?thesis using cert tok hit judge_accepts by blast
    next
      case asked
      then show ?thesis using cert tok judge_accepts by blast
    qed
  qed
qed

definition ex_api :: auth_world where
  "ex_api = \<lparr> handshake = (\<lambda>m ok. m = Mtls \<longrightarrow> ok),
     review = (\<lambda>now token aud. if token = ''good'' \<and> now \<le> 10
       then Some (Some \<lparr> authenticated = Some True, audiences = Some [''profi''], user = Some (Some ''prom'') \<rparr>)
       else Some (Some \<lparr> authenticated = Some False, audiences = None, user = None \<rparr>)),
     digest = (\<lambda>token. token), forgets = (\<lambda>_ _. False) \<rparr>"

definition ex_security :: MetricsSecurityArgs where
  "ex_security = \<lparr> metrics_tls_mode = Tls_Off, metrics_tls_cert = None, metrics_tls_key = None,
     metrics_tls_client_ca = None, metrics_auth_mode = Bearer, metrics_auth_audience = Some ''profi'',
     metrics_auth_cache_ttl = 60 \<rparr>"

definition ex_mtls :: MetricsSecurityArgs where
  "ex_mtls = ex_security\<lparr> metrics_tls_mode := Mtls, metrics_tls_cert := Some ''c'', metrics_tls_key := Some ''k'',
     metrics_tls_client_ca := Some ''ca'', metrics_auth_mode := MtlsOrBearer \<rparr>"

definition ex_scrape :: request where
  "ex_scrape = \<lparr> req_path = ''/metrics'', req_authorization = Some ''Bearer good'', req_cert_ok = False \<rparr>"

lemma ex_token: "bearer_token ex_scrape = Some ''good''"
  by code_simp

theorem metrics_guarded_witness:
  "fst (serve_request ex_api ex_security 40 ex_scrape (serve_requests ex_api ex_security [(5, ex_scrape)] auth_init))
     = Some Pass
   \<and> (\<exists>token t. bearer_token ex_scrape = Some token \<and> token \<noteq> []
        \<and> api_accepts (Some ''profi'') (review ex_api t token (Some ''profi''))
        \<and> (t = 40 \<or> 40 < t + 60 \<and> (\<exists>r. (t, r) \<in> set [(5, ex_scrape)] \<and> bearer_token r = Some token)))"
proof -
  have served: "fst (serve_request ex_api ex_security 40 ex_scrape
      (serve_requests ex_api ex_security [(5, ex_scrape)] auth_init)) = Some Pass"
    by code_simp
  have args: "metrics_auth_mode ex_security = Bearer" "metrics_auth_audience ex_security = Some ''profi''"
    "metrics_auth_cache_ttl ex_security = 60" "validate ex_security = Inr ()"
    by code_simp+
  have world: "handshake ex_api Mtls ok \<Longrightarrow> ok" "inj_on (digest ex_api) A" for ok A
    by (simp_all add: ex_api_def)
  have path: "\<not> is_unauthenticated_path (req_path ex_scrape)"
    by code_simp
  show ?thesis
    using metrics_guarded [OF args(4) world(1) world(2) _ path served] served by (simp add: args)
qed



text \<open>
  In the mode that accepts a certificate or a token, the token never counts: with settings
  that validate, a client without a certificate is refused at the connection even with a
  valid token, a client with one passes with any header, and no token is ever reviewed or
  looked up, so the mode is the same as mutual TLS alone.
\<close>

lemma mtls_or_bearer_ignores_tokens:
  assumes "validate args = Inr ()" "metrics_auth_mode args = MtlsOrBearer"
    and tls: "\<And>ok. handshake W Mtls ok = ok"
  shows "fst (serve_request W args now req s) = (if req_cert_ok req then Some Pass else None)
    \<and> cache (serve_requests W args reqs s) = cache s
    \<and> http_tokenreview_cache (serve_requests W args reqs s) = http_tokenreview_cache s
    \<and> http_tokenreview_latency (serve_requests W args reqs s) = http_tokenreview_latency s"
proof -
  have mtls: "metrics_tls_mode args = Mtls"
    by (rule validate_mtls [OF assms(1,2)])
  have one: "cache (snd (serve_request W args t r s)) = cache s"
    "http_tokenreview_cache (snd (serve_request W args t r s)) = http_tokenreview_cache s"
    "http_tokenreview_latency (snd (serve_request W args t r s)) = http_tokenreview_latency s" for t r s
    by (simp_all add: serve_request_def auth_middleware_def assms(2) mtls)
  have "cache (serve_requests W args reqs s) = cache s
    \<and> http_tokenreview_cache (serve_requests W args reqs s) = http_tokenreview_cache s
    \<and> http_tokenreview_latency (serve_requests W args reqs s) = http_tokenreview_latency s"
    by (induction reqs arbitrary: s) (auto simp: one)
  then show ?thesis
    by (simp add: serve_request_def auth_middleware_def assms(2) mtls tls)
qed

lemma mtls_or_bearer_ignores_tokens_witness:
  "fst (serve_request ex_api ex_mtls 5 ex_scrape auth_init) = None
   \<and> http_tokenreview_latency (serve_requests ex_api ex_mtls [(5, ex_scrape)] auth_init) = 0"
  using mtls_or_bearer_ignores_tokens [of ex_mtls ex_api 5 ex_scrape auth_init "[(5, ex_scrape)]"]
  by (simp add: ex_mtls_def ex_security_def validate_def tls_enabled_def ex_api_def ex_scrape_def auth_init_def)

lemma load_cert_chain_nonempty: "load_cert_chain F path = Some certs \<Longrightarrow> certs \<noteq> []"
  by (auto simp: load_cert_chain_def Let_def split: option.splits if_splits)

text \<open>
  Settings that validate never panic the server: the TLS configuration is built from the
  files, or fails to load, or is rejected by the library. When it is built, it has at least one
  server certificate, and it asks for client certificates exactly in mutual mode and then
  trusts at least one root. Without validation it can panic.
\<close>

lemma validated_config_safe:
  assumes "validate args = Inr ()"
  shows "build_rustls_config F accepts args \<noteq> Inl Panic
    \<and> (build_rustls_config F accepts args = Inr None \<longleftrightarrow> metrics_tls_mode args = Tls_Off)
    \<and> (build_rustls_config F accepts args = Inr (Some cfg) \<longrightarrow>
        (case cfg of
           No_client_auth certs key \<Rightarrow> metrics_tls_mode args = Server \<and> certs \<noteq> []
         | Client_cert_required certs key roots \<Rightarrow>
             metrics_tls_mode args = Mtls \<and> certs \<noteq> [] \<and> roots \<noteq> []))"
  using assms
  by (cases "metrics_tls_mode args")
     (auto simp: validate_def build_rustls_config_def tls_enabled_def accepted_def
       dest: load_cert_chain_nonempty split: option.splits if_splits)

definition ex_files :: pem_world where
  "ex_files = \<lparr> open_file = Some, pem_certs = (\<lambda>text. [Some text]), pem_private_key = (\<lambda>text. Some (Some text)) \<rparr>"

lemma validated_config_safe_witness:
  "validate ex_mtls = Inr ()
   \<and> build_rustls_config ex_files (\<lambda>_. True) ex_mtls \<noteq> Inl Panic
   \<and> build_rustls_config ex_files (\<lambda>_. True) (ex_mtls\<lparr> metrics_tls_client_ca := None \<rparr>) = Inl Panic"
proof -
  have v: "validate ex_mtls = Inr ()"
    by code_simp
  have "build_rustls_config ex_files (\<lambda>_. True) (ex_mtls\<lparr> metrics_tls_client_ca := None \<rparr>) = Inl Panic"
    by code_simp
  then show ?thesis
    using validated_config_safe [OF v, of ex_files "\<lambda>_. True"] v by simp
qed

text \<open>
  The liveness probe answers 200 exactly until the first iteration of the loop and while less
  than thirty seconds have passed since the last one, a clock behind the heartbeat included.
\<close>

lemma health_exact:
  "fst (handle_health heartbeat now) = 200 \<longleftrightarrow> heartbeat = 0 \<or> unat now < unat heartbeat + 30 * 10 ^ 9"
proof (cases "now < heartbeat")
  case True
  then show ?thesis
    by (simp add: handle_health_def HEARTBEAT_STALE_NS_def word_less_nat_alt)
next
  case False
  then have le: "heartbeat \<le> now" by simp
  then have "unat (now - heartbeat) = unat now - unat heartbeat" by (rule unat_sub)
  then show ?thesis
    using le by (auto simp: handle_health_def HEARTBEAT_STALE_NS_def word_less_nat_alt word_le_nat_alt)
qed

end
