(* ===== verification/Enrichment.thy ===== *)
theory Enrichment
  imports HandleCache Ticks "HOL-Library.Mapping" "HOL-Library.AList_Mapping"
begin

text \<open>
  Which pod, container and GPU a process belongs to, \<^verbatim>\<open>src/src/enrichment.rs\<close>: container
  names from cgroup files and pod status, the watch of the cluster's pods, the caches in
  front of both, and the processes promoted to full detail by an annotation of their pod. What
  the process file system holds is the record \<open>host\<close>, and what the cluster reports are the
  events of the watch. A lookup and the handling of an event are one step each. A slice that
  does not fall on a character boundary is a panic, \<open>None\<close>.
\<close>

section \<open>Container names\<close>

text \<open>\<^verbatim>\<open>str::find\<close> and \<^verbatim>\<open>str::rfind\<close> of a string: the offset of the first and the last occurrence.\<close>

fun str_find :: "string \<Rightarrow> string \<Rightarrow> nat option" where
  "str_find pat [] = (if pat = [] then Some 0 else None)"
| "str_find pat (c # s) = (if prefix pat (c # s) then Some 0 else map_option Suc (str_find pat s))"

fun str_rfind :: "string \<Rightarrow> string \<Rightarrow> nat option" where
  "str_rfind pat [] = (if pat = [] then Some 0 else None)"
| "str_rfind pat (c # s) =
     (case str_rfind pat s of
        Some i \<Rightarrow> Some (Suc i)
      | None \<Rightarrow> if prefix pat (c # s) then Some 0 else None)"

definition before_dot :: "string \<Rightarrow> string" where
  "before_dot s = takeWhile (\<lambda>c. c \<noteq> CHR ''.'') s"

definition marked_id :: "string \<Rightarrow> string \<Rightarrow> string option" where
  "marked_id marker line =
     (case str_find marker line of
        None \<Rightarrow> None
      | Some idx \<Rightarrow>
          (let name = before_dot (drop (idx + length marker) line)
           in if length name \<ge> 12 then Some name else None))"

definition is_ascii_hexdigit :: "char \<Rightarrow> bool" where
  "is_ascii_hexdigit c \<longleftrightarrow>
     48 \<le> byte c \<and> byte c \<le> 57 \<or> 65 \<le> byte c \<and> byte c \<le> 70 \<or> 97 \<le> byte c \<and> byte c \<le> 102"

definition last_segment_id :: "string \<Rightarrow> string option" where
  "last_segment_id line =
     (if CHR ''/'' \<notin> set line then None
      else let segment = rev (takeWhile (\<lambda>c. c \<noteq> CHR ''/'') (rev line)); name = before_dot segment
           in if length name \<ge> 64 \<and> list_all is_ascii_hexdigit name then Some name else None)"

definition line_id :: "string \<Rightarrow> string option" where
  "line_id line =
     (case marked_id ''cri-containerd-'' line of
        Some name \<Rightarrow> Some name
      | None \<Rightarrow> (case marked_id ''crio-'' line of Some name \<Rightarrow> Some name | None \<Rightarrow> last_segment_id line))"

definition extract_container_id :: "string \<Rightarrow> string option option" where
  "extract_container_id cgroup =
     (case List.map_filter line_id (str_lines cgroup) of
        [] \<Rightarrow> Some None
      | name # _ \<Rightarrow> map_option Some (str_slice name 0 12))"

definition short_container_id :: "string \<Rightarrow> string option option" where
  "short_container_id full_id =
     (let raw = (case str_rfind ''://'' full_id of None \<Rightarrow> full_id | Some i \<Rightarrow> drop (i + 3) full_id)
      in if length raw \<ge> 12 then map_option Some (str_slice raw 0 12) else Some None)"

section \<open>Pods\<close>

record PodInfo =
  pi_namespace :: string
  pi_pod :: string
  pi_container :: string
  pi_upgrade :: bool

record ContainerStatus =
  cs_name :: string
  cs_container_id :: "string option"

record Pod =
  pod_namespace :: "string option"
  pod_name :: "string option"
  annotations :: "(string, string) mapping option"
  status :: "(ContainerStatus list option \<times> ContainerStatus list option) option"

definition MODE_ANNOTATION :: string where
  "MODE_ANNOTATION = ''profi/mode''"

definition unwrap_or_default :: "string option \<Rightarrow> string" where
  "unwrap_or_default s = (case s of None \<Rightarrow> [] | Some x \<Rightarrow> x)"

definition wants_full :: "Pod \<Rightarrow> bool" where
  "wants_full pod \<longleftrightarrow> Option.bind (annotations pod) (\<lambda>a. Mapping.lookup a MODE_ANNOTATION) = Some ''full''"

definition info_of :: "Pod \<Rightarrow> ContainerStatus \<Rightarrow> PodInfo" where
  "info_of pod cs = \<lparr> pi_namespace = unwrap_or_default (pod_namespace pod),
     pi_pod = unwrap_or_default (pod_name pod), pi_container = cs_name cs, pi_upgrade = wants_full pod \<rparr>"

definition flatten :: "'a list option \<Rightarrow> 'a list" where
  "flatten xs = (case xs of None \<Rightarrow> [] | Some ys \<Rightarrow> ys)"

fun add_containers ::
    "Pod \<Rightarrow> ContainerStatus list \<Rightarrow> (string, PodInfo) mapping \<Rightarrow> (string, PodInfo) mapping option" where
  "add_containers pod [] m = Some m"
| "add_containers pod (cs # css) m =
     (case cs_container_id cs of
        None \<Rightarrow> add_containers pod css m
      | Some name \<Rightarrow>
          (case short_container_id name of
             None \<Rightarrow> None
           | Some None \<Rightarrow> add_containers pod css m
           | Some (Some short) \<Rightarrow> add_containers pod css (Mapping.update short (info_of pod cs) m)))"

definition extract_containers_from_pod :: "Pod \<Rightarrow> (string, PodInfo) mapping option" where
  "extract_containers_from_pod pod =
     (case status pod of
        None \<Rightarrow> Some Mapping.empty
      | Some (container_statuses, init_container_statuses) \<Rightarrow>
          add_containers pod (flatten container_statuses @ flatten init_container_statuses) Mapping.empty)"

section \<open>GPUs\<close>

record GpuDevice =
  g_index :: u32
  g_uuid :: string
  g_name :: string

definition parse_u32 :: "string \<Rightarrow> u32 option" where
  "parse_u32 s = map_option of_nat (from_str_radix 32 10 s)"

fun gpu_line :: "string \<Rightarrow> u32 option \<times> string \<times> string \<Rightarrow> u32 option \<times> string \<times> string" where
  "gpu_line line (index, uuid, name) =
     (case strip_prefix ''Device Minor:'' line of
        Some val \<Rightarrow> (parse_u32 (trim val), uuid, name)
      | None \<Rightarrow>
          (case strip_prefix ''GPU UUID:'' line of
             Some val \<Rightarrow> (index, trim val, name)
           | None \<Rightarrow>
               (case strip_prefix ''Model:'' line of
                  Some val \<Rightarrow> (index, uuid, trim val)
                | None \<Rightarrow> (index, uuid, name))))"

definition gpu_of :: "string \<Rightarrow> GpuDevice option" where
  "gpu_of info =
     (case fold gpu_line (str_lines info) (None, [], []) of
        (None, _, _) \<Rightarrow> None
      | (Some idx, uuid, name) \<Rightarrow> Some \<lparr> g_index = idx, g_uuid = uuid, g_name = name \<rparr>)"

text \<open>The files of the driver, one per GPU, \<open>None\<close> where one cannot be read or the directory is missing.\<close>

definition discover_gpu_devices :: "string option list option \<Rightarrow> GpuDevice list" where
  "discover_gpu_devices files =
     (case files of
        None \<Rightarrow> []
      | Some infos \<Rightarrow> sort_key g_index (List.map_filter gpu_of (List.map_filter id infos)))"

text \<open>
  A process uses the GPU whose device file it has open most often. \<open>order\<close> is the order in which
  the hash map of the counts lists its keys.
\<close>

definition link_minor :: "(u32, GpuDevice) mapping \<Rightarrow> string \<Rightarrow> u32 option" where
  "link_minor minor_to_gpu link =
     (case strip_prefix ''/dev/nvidia'' link of
        None \<Rightarrow> None
      | Some rest \<Rightarrow>
          (case parse_u32 rest of
             None \<Rightarrow> None
           | Some minor \<Rightarrow> if minor \<in> Mapping.keys minor_to_gpu then Some minor else None))"

definition max_by_count :: "(u32 \<Rightarrow> u32) \<Rightarrow> u32 list \<Rightarrow> u32 option" where
  "max_by_count count ms =
     fold (\<lambda>m best. case best of
             None \<Rightarrow> Some m
           | Some b \<Rightarrow> if (count b, b) \<le> (count m, m) then Some m else Some b) ms None"

definition resolve_pid_gpu ::
    "(u32 list \<Rightarrow> u32 list) \<Rightarrow> string option list option \<Rightarrow> (u32, GpuDevice) mapping \<Rightarrow> GpuDevice option" where
  "resolve_pid_gpu order fds minor_to_gpu =
     (case fds of
        None \<Rightarrow> None
      | Some links \<Rightarrow>
          (let minors = List.map_filter (link_minor minor_to_gpu) (List.map_filter id links);
               count = (\<lambda>m. of_nat (count_list minors m))
           in Option.bind (max_by_count count (order (remdups minors))) (Mapping.lookup minor_to_gpu)))"

section \<open>The enricher\<close>

record host =
  cgroup_file :: "u32 \<Rightarrow> string option"
  fd_links :: "u32 \<Rightarrow> string option list option"
  hash_order :: "u32 list \<Rightarrow> u32 list"

record Enricher =
  k8s_pid_cache :: "(u32, PodInfo option) mapping"
  gpu_pid_cache :: "(u32, GpuDevice option) mapping"
  container_map :: "(string, PodInfo) mapping"
  gpu_devices :: "GpuDevice list"
  minor_to_gpu :: "(u32, GpuDevice) mapping"
  changed_pids :: "u32 set"
  has_changes :: bool
  container_to_pids :: "(string, u32 set) mapping"
  upgraded_pids :: "u32 set"
  upgrade_dirty :: bool
  pending_map :: "(string, PodInfo) mapping"

definition new_enricher :: "string option list option \<Rightarrow> Enricher" where
  "new_enricher files =
     (let devices = discover_gpu_devices files
      in \<lparr> k8s_pid_cache = Mapping.empty, gpu_pid_cache = Mapping.empty, container_map = Mapping.empty,
           gpu_devices = devices,
           minor_to_gpu = fold (\<lambda>d. Mapping.update (g_index d) d) devices Mapping.empty,
           changed_pids = {}, has_changes = False, container_to_pids = Mapping.empty,
           upgraded_pids = {}, upgrade_dirty = False, pending_map = Mapping.empty \<rparr>)"

definition evict_pid :: "u32 \<Rightarrow> Enricher \<Rightarrow> Enricher" where
  "evict_pid pid e =
     (let e1 = e\<lparr> k8s_pid_cache := Mapping.delete pid (k8s_pid_cache e),
                  gpu_pid_cache := Mapping.delete pid (gpu_pid_cache e) \<rparr>
      in if pid \<in> upgraded_pids e1
         then e1\<lparr> upgraded_pids := upgraded_pids e1 - {pid}, upgrade_dirty := True \<rparr>
         else e1)"

definition pids_of :: "Enricher \<Rightarrow> string \<Rightarrow> u32 set" where
  "pids_of e cid = (case Mapping.lookup (container_to_pids e) cid of None \<Rightarrow> {} | Some pids \<Rightarrow> pids)"

definition remember :: "u32 \<Rightarrow> string option \<Rightarrow> Enricher \<Rightarrow> Enricher" where
  "remember pid container_id e =
     (case container_id of
        None \<Rightarrow> e
      | Some cid \<Rightarrow>
          e\<lparr> container_to_pids := Mapping.update cid (insert pid (pids_of e cid)) (container_to_pids e) \<rparr>)"

definition promote :: "u32 \<Rightarrow> PodInfo option \<Rightarrow> Enricher \<Rightarrow> Enricher" where
  "promote pid result e =
     (case result of
        None \<Rightarrow> e
      | Some info \<Rightarrow>
          if pi_upgrade info \<and> pid \<notin> upgraded_pids e
          then e\<lparr> upgraded_pids := insert pid (upgraded_pids e), upgrade_dirty := True \<rparr> else e)"

definition resolve_k8s :: "host \<Rightarrow> u32 \<Rightarrow> Enricher \<Rightarrow> (PodInfo option \<times> Enricher) option" where
  "resolve_k8s H pid e =
     (case Mapping.lookup (k8s_pid_cache e) pid of
        Some cached \<Rightarrow> Some (cached, e)
      | None \<Rightarrow>
          (case cgroup_file H pid of
             None \<Rightarrow> Some (None, e)
           | Some cgroup \<Rightarrow>
               (case extract_container_id cgroup of
                  None \<Rightarrow> None
                | Some container_id \<Rightarrow>
                    (let result = Option.bind container_id (Mapping.lookup (container_map e));
                         e1 = promote pid result (remember pid container_id e)
                     in Some (result, e1\<lparr> k8s_pid_cache := Mapping.update pid result (k8s_pid_cache e1) \<rparr>)))))"

definition resolve_gpu :: "host \<Rightarrow> u32 \<Rightarrow> Enricher \<Rightarrow> GpuDevice option \<times> Enricher" where
  "resolve_gpu H pid e =
     (case Mapping.lookup (gpu_pid_cache e) pid of
        Some cached \<Rightarrow> (cached, e)
      | None \<Rightarrow>
          if gpu_devices e = []
          then (None, e\<lparr> gpu_pid_cache := Mapping.update pid None (gpu_pid_cache e) \<rparr>)
          else let result = resolve_pid_gpu (hash_order H) (fd_links H pid) (minor_to_gpu e)
               in (result, e\<lparr> gpu_pid_cache := Mapping.update pid result (gpu_pid_cache e) \<rparr>))"

definition labels_of :: "string \<Rightarrow> PodInfo option \<Rightarrow> GpuDevice option \<Rightarrow> Labels" where
  "labels_of comm k8s gpu =
     \<lparr> l_comm = comm,
       l_namespace = (case k8s of None \<Rightarrow> [] | Some k \<Rightarrow> pi_namespace k),
       l_pod = (case k8s of None \<Rightarrow> [] | Some k \<Rightarrow> pi_pod k),
       l_container = (case k8s of None \<Rightarrow> [] | Some k \<Rightarrow> pi_container k),
       l_gpu = (case gpu of None \<Rightarrow> [] | Some g \<Rightarrow> fmt_dec (unat (g_index g))),
       l_gpu_uuid = (case gpu of None \<Rightarrow> [] | Some g \<Rightarrow> g_uuid g) \<rparr>"

definition lookup :: "host \<Rightarrow> u32 \<Rightarrow> string \<Rightarrow> Enricher \<Rightarrow> (Labels \<times> Enricher) option" where
  "lookup H pid comm e =
     (case resolve_k8s H pid e of
        None \<Rightarrow> None
      | Some (k8s, e1) \<Rightarrow>
          (let (gpu, e2) = resolve_gpu H pid e1 in Some (labels_of comm k8s gpu, e2)))"

section \<open>The watch\<close>

definition invalidate_containers :: "string set \<Rightarrow> Enricher \<Rightarrow> Enricher" where
  "invalidate_containers container_ids e =
     (let affected = \<Union> (pids_of e ` container_ids)
      in if affected = {} then e
         else e\<lparr> k8s_pid_cache := Mapping.filter (\<lambda>pid _. pid \<notin> affected) (k8s_pid_cache e),
                 upgraded_pids := upgraded_pids e - affected,
                 upgrade_dirty := (upgrade_dirty e \<or> upgraded_pids e \<inter> affected \<noteq> {}),
                 changed_pids := changed_pids e \<union> affected,
                 has_changes := True \<rparr>)"

datatype watch_event = Init | InitApply Pod | InitDone | Apply Pod | Delete Pod

definition extend_map :: "('k, 'v) mapping \<Rightarrow> ('k, 'v) mapping \<Rightarrow> ('k, 'v) mapping" where
  "extend_map m new = Mapping.combine (\<lambda>_ v. v) m new"

definition is_pod :: "Pod \<Rightarrow> PodInfo \<Rightarrow> bool" where
  "is_pod pod info \<longleftrightarrow> pi_pod info = unwrap_or_default (pod_name pod)
     \<and> pi_namespace info = unwrap_or_default (pod_namespace pod)"

definition pod_cids :: "Pod \<Rightarrow> (string, PodInfo) mapping \<Rightarrow> string set" where
  "pod_cids pod m = Mapping.keys (Mapping.filter (\<lambda>_ info. is_pod pod info) m)"

fun on_watch :: "watch_event \<Rightarrow> Enricher \<Rightarrow> Enricher option" where
  "on_watch Init e = Some (e\<lparr> pending_map := Mapping.empty \<rparr>)"
| "on_watch (InitApply pod) e =
     map_option (\<lambda>containers. e\<lparr> pending_map := extend_map (pending_map e) containers \<rparr>)
       (extract_containers_from_pod pod)"
| "on_watch InitDone e =
     (let removed = Mapping.keys (container_map e) - Mapping.keys (pending_map e);
          e1 = invalidate_containers removed (e\<lparr> container_map := pending_map e \<rparr>)
      in Some (e1\<lparr> k8s_pid_cache := Mapping.filter (\<lambda>_ v. v \<noteq> None) (k8s_pid_cache e1),
                   pending_map := Mapping.empty \<rparr>))"
| "on_watch (Apply pod) e =
     (case extract_containers_from_pod pod of
        None \<Rightarrow> None
      | Some new_containers \<Rightarrow>
          (let old_cids = pod_cids pod (container_map e);
               kept = Mapping.filter (\<lambda>cid _. cid \<notin> old_cids) (container_map e)
           in Some (invalidate_containers old_cids (e\<lparr> container_map := extend_map kept new_containers \<rparr>))))"
| "on_watch (Delete pod) e =
     (let removed_cids = pod_cids pod (container_map e);
          kept = Mapping.filter (\<lambda>cid _. cid \<notin> removed_cids) (container_map e)
      in Some (invalidate_containers removed_cids (e\<lparr> container_map := kept \<rparr>)))"

end
