(* ===== verification/EnrichFacts.thy ===== *)
theory EnrichFacts
  imports Enrichment
begin

text \<open>
  What the enricher of \<^verbatim>\<open>Enrichment\<close> promises: the map of containers is the view of the
  cluster that the watch has reported; labels and promotions to full detail follow it; the
  names of a container from its cgroup and from the cluster agree; and the GPU of a process
  is the one it has open most often.
\<close>

section \<open>The cluster as the watch reports it\<close>

type_synonym pod_id = "string \<times> string"

definition pod_key :: "Pod \<Rightarrow> pod_id" where
  "pod_key pod = (unwrap_or_default (pod_namespace pod), unwrap_or_default (pod_name pod))"

text \<open>The pods there are, and those of a listing under way.\<close>

record cluster =
  pods :: "pod_id \<rightharpoonup> Pod"
  listing :: "pod_id \<rightharpoonup> Pod"

fun observe :: "watch_event \<Rightarrow> cluster \<Rightarrow> cluster" where
  "observe Init c = c\<lparr> listing := Map.empty \<rparr>"
| "observe (InitApply pod) c = c\<lparr> listing := (listing c)(pod_key pod \<mapsto> pod) \<rparr>"
| "observe InitDone c = c\<lparr> pods := listing c, listing := Map.empty \<rparr>"
| "observe (Apply pod) c = c\<lparr> pods := (pods c)(pod_key pod \<mapsto> pod) \<rparr>"
| "observe (Delete pod) c = c\<lparr> pods := (pods c)(pod_key pod := None) \<rparr>"

definition containers :: "Pod \<Rightarrow> (string, PodInfo) mapping" where
  "containers pod = (case extract_containers_from_pod pod of None \<Rightarrow> Mapping.empty | Some m \<Rightarrow> m)"

definition in_cluster :: "(pod_id \<rightharpoonup> Pod) \<Rightarrow> string \<Rightarrow> PodInfo \<Rightarrow> bool" where
  "in_cluster ps cid info \<longleftrightarrow> (\<exists>pod \<in> ran ps. Mapping.lookup (containers pod) cid = Some info)"

text \<open>
  What the cluster guarantees: a listing has every pod once, and different pods have different
  containers.
\<close>

definition disjoint_from :: "(pod_id \<rightharpoonup> Pod) \<Rightarrow> Pod \<Rightarrow> bool" where
  "disjoint_from ps pod \<longleftrightarrow> (\<forall>other \<in> ran ps. pod_key other \<noteq> pod_key pod \<longrightarrow>
     Mapping.keys (containers other) \<inter> Mapping.keys (containers pod) = {})"

fun legal :: "watch_event \<Rightarrow> cluster \<Rightarrow> bool" where
  "legal (InitApply pod) c \<longleftrightarrow> listing c (pod_key pod) = None \<and> disjoint_from (listing c) pod"
| "legal (Apply pod) c \<longleftrightarrow> disjoint_from (pods c) pod"
| "legal _ c \<longleftrightarrow> True"

section \<open>The map of containers refines the cluster\<close>

definition keyed :: "(pod_id \<rightharpoonup> Pod) \<Rightarrow> bool" where
  "keyed ps \<longleftrightarrow> (\<forall>k pod. ps k = Some pod \<longrightarrow> pod_key pod = k)"

definition reflects :: "(pod_id \<rightharpoonup> Pod) \<Rightarrow> (string, PodInfo) mapping \<Rightarrow> bool" where
  "reflects ps m \<longleftrightarrow> keyed ps \<and> (\<forall>cid info. Mapping.lookup m cid = Some info \<longleftrightarrow> in_cluster ps cid info)"

lemma lookup_extend_map [simp]:
  "Mapping.lookup (extend_map m new) k = (case Mapping.lookup new k of None \<Rightarrow> Mapping.lookup m k | Some v \<Rightarrow> Some v)"
  by (cases "Mapping.lookup m k") (auto simp: extend_map_def lookup_combine split: option.split)

lemma keys_lookup: "k \<in> Mapping.keys m \<longleftrightarrow> (\<exists>v. Mapping.lookup m k = Some v)"
  by (simp add: keys_is_none_rep Option.is_none_def)

lemma lookup_filter_Some:
  "Mapping.lookup (Mapping.filter P m) k = Some v \<longleftrightarrow> Mapping.lookup m k = Some v \<and> P k v"
  by (auto simp: Mapping.lookup_filter split: option.split)

lemma pod_cids_iff: "cid \<in> pod_cids pod m \<longleftrightarrow> (\<exists>info. Mapping.lookup m cid = Some info \<and> is_pod pod info)"
  by (simp add: pod_cids_def keys_lookup lookup_filter_Some)

lemma is_pod_key: "is_pod pod info \<longleftrightarrow> (pi_namespace info, pi_pod info) = pod_key pod"
  by (auto simp: is_pod_def pod_key_def)

definition all_from :: "Pod \<Rightarrow> (string, PodInfo) mapping \<Rightarrow> bool" where
  "all_from pod m \<longleftrightarrow> (\<forall>cid info. Mapping.lookup m cid = Some info \<longrightarrow>
     is_pod pod info \<and> pi_upgrade info = wants_full pod)"

lemma all_from_update: "all_from pod m \<Longrightarrow> all_from pod (Mapping.update cid (info_of pod cs) m)"
  by (auto simp: all_from_def lookup_update' info_of_def is_pod_def)

lemma add_containers_from: "add_containers pod css m = Some m' \<Longrightarrow> all_from pod m \<Longrightarrow> all_from pod m'"
  by (induction pod css m rule: add_containers.induct)
     (auto simp: all_from_update split: option.splits)

lemma containers_infos:
  assumes "Mapping.lookup (containers pod) cid = Some info"
  shows "is_pod pod info" "pi_upgrade info = wants_full pod"
proof -
  have "all_from pod (containers pod)"
    by (auto simp: containers_def extract_containers_from_pod_def all_from_def [of _ Mapping.empty]
        intro: add_containers_from split: option.split)
  with assms show "is_pod pod info" "pi_upgrade info = wants_full pod"
    unfolding all_from_def by blast+
qed

lemma ran_keyed:
  assumes "\<And>k v. m k = Some v \<Longrightarrow> f v = k"
  shows "ran (m(f p \<mapsto> p)) = insert p {q \<in> ran m. f q \<noteq> f p}" "ran (m(f p := None)) = {q \<in> ran m. f q \<noteq> f p}"
  using assms by (auto simp: ran_def)

lemma ran_pods:
  assumes "keyed ps"
  shows "ran (ps(pod_key pod \<mapsto> pod)) = insert pod {other \<in> ran ps. pod_key other \<noteq> pod_key pod}"
    "ran (ps(pod_key pod := None)) = {other \<in> ran ps. pod_key other \<noteq> pod_key pod}"
  using assms unfolding keyed_def by (intro ran_keyed; blast)+

lemma in_cluster_upd:
  assumes "keyed ps"
  shows "in_cluster (ps(pod_key pod \<mapsto> pod)) cid info \<longleftrightarrow>
    Mapping.lookup (containers pod) cid = Some info \<or> in_cluster ps cid info \<and> \<not> is_pod pod info"
  unfolding in_cluster_def ran_pods(1) [OF assms] using containers_infos(1) is_pod_key by fastforce

lemma in_cluster_del:
  assumes "keyed ps"
  shows "in_cluster (ps(pod_key pod := None)) cid info \<longleftrightarrow> in_cluster ps cid info \<and> \<not> is_pod pod info"
  unfolding in_cluster_def ran_pods(2) [OF assms] using containers_infos(1) is_pod_key by fastforce

lemma reflectsI:
  assumes "keyed ps" "\<And>cid info. Mapping.lookup m cid = Some info \<longleftrightarrow> in_cluster ps cid info"
  shows "reflects ps m"
  using assms unfolding reflects_def by blast

lemma reflectsD:
  assumes "reflects ps m"
  shows "keyed ps" "Mapping.lookup m cid = Some info \<longleftrightarrow> in_cluster ps cid info"
  using assms unfolding reflects_def by blast+

lemma reflects_empty [simp]: "reflects Map.empty Mapping.empty"
  by (auto simp: reflects_def keyed_def in_cluster_def)

lemma keyed_upd: "keyed ps \<Longrightarrow> keyed (ps(pod_key pod \<mapsto> pod))" "keyed ps \<Longrightarrow> keyed (ps(k := None))"
  by (auto simp: keyed_def)

text \<open>A container of a pod that replaces another version of itself is in no other pod.\<close>

lemma disjoint_new:
  assumes "disjoint_from ps pod" "Mapping.lookup (containers pod) cid = Some new" "in_cluster ps cid info"
  shows "is_pod pod info"
proof -
  obtain other where "other \<in> ran ps" and info: "Mapping.lookup (containers other) cid = Some info"
    using assms(3) unfolding in_cluster_def by blast
  then have "pod_key other = pod_key pod"
    using assms(1,2) unfolding disjoint_from_def by (meson disjoint_iff keys_lookup)
  then show ?thesis using containers_infos(1) [OF info] by (simp add: is_pod_key)
qed

lemma reflects_apply:
  assumes "reflects ps m" "disjoint_from ps pod" "extract_containers_from_pod pod = Some new"
  shows "reflects (ps(pod_key pod \<mapsto> pod)) (extend_map (Mapping.filter (\<lambda>cid _. cid \<notin> pod_cids pod m) m) new)"
proof (rule reflectsI)
  fix cid info
  have new: "containers pod = new" by (simp add: containers_def assms(3))
  show "Mapping.lookup (extend_map (Mapping.filter (\<lambda>cid _. cid \<notin> pod_cids pod m) m) new) cid = Some info \<longleftrightarrow>
      in_cluster (ps(pod_key pod \<mapsto> pod)) cid info"
    unfolding in_cluster_upd [OF reflectsD(1) [OF assms(1)]]
    using disjoint_new [OF assms(2), of cid]
    by (cases "Mapping.lookup new cid")
       (auto simp: new lookup_filter_Some pod_cids_iff reflectsD(2) [OF assms(1), symmetric])
qed (rule keyed_upd(1) [OF reflectsD(1) [OF assms(1)]])

lemma reflects_delete:
  assumes "reflects ps m"
  shows "reflects (ps(pod_key pod := None)) (Mapping.filter (\<lambda>cid _. cid \<notin> pod_cids pod m) m)"
  by (intro reflectsI keyed_upd(2) reflectsD(1) [OF assms])
     (auto simp: in_cluster_del [OF reflectsD(1) [OF assms]] lookup_filter_Some pod_cids_iff
       reflectsD(2) [OF assms, symmetric])

lemma reflects_list:
  assumes "reflects ps m" "ps (pod_key pod) = None" "disjoint_from ps pod" "extract_containers_from_pod pod = Some new"
  shows "reflects (ps(pod_key pod \<mapsto> pod)) (extend_map m new)"
proof -
  have "pod_cids pod m = {}"
    using reflectsD [OF assms(1)] assms(2)
    by (auto simp: pod_cids_iff in_cluster_def ran_def keyed_def is_pod_key dest!: containers_infos(1))
  moreover have "Mapping.filter (\<lambda>cid _. True) m = m"
    by (rule mapping_eqI) (simp add: Mapping.lookup_filter split: option.split)
  ultimately show ?thesis using reflects_apply [OF assms(1,3,4)] by simp
qed

lemma invalidate_map [simp]:
  "container_map (invalidate_containers cids e) = container_map e"
  "pending_map (invalidate_containers cids e) = pending_map e"
  "container_to_pids (invalidate_containers cids e) = container_to_pids e"
  by (simp_all add: invalidate_containers_def Let_def)

definition synced_view :: "cluster \<Rightarrow> Enricher \<Rightarrow> bool" where
  "synced_view c e \<longleftrightarrow> reflects (pods c) (container_map e) \<and> reflects (listing c) (pending_map e)"

lemma watch_view:
  assumes "synced_view c e" "legal ev c" "on_watch ev e = Some e'"
  shows "synced_view (observe ev c) e'"
  using assms
  by (cases ev)
     (auto simp: synced_view_def Let_def reflects_list reflects_apply reflects_delete split: option.splits)

section \<open>The caches follow the map of containers\<close>

text \<open>The container of a process, by its cgroup.\<close>

definition container_of :: "host \<Rightarrow> u32 \<Rightarrow> string option" where
  "container_of H pid = Option.bind (cgroup_file H pid) (\<lambda>cgroup. Option.bind (extract_container_id cgroup) id)"

text \<open>
  A cached pod is the one the map has for the container of the process, and the process is
  known to be in that container; the promoted processes are those whose cached pod asks for it.
\<close>

definition cached_pod :: "Enricher \<Rightarrow> u32 \<Rightarrow> PodInfo option" where
  "cached_pod e pid = Option.bind (Mapping.lookup (k8s_pid_cache e) pid) id"

definition cache_ok :: "host \<Rightarrow> Enricher \<Rightarrow> bool" where
  "cache_ok H e \<longleftrightarrow>
     (\<forall>pid info. cached_pod e pid = Some info \<longrightarrow>
        (\<exists>cid. container_of H pid = Some cid \<and> pid \<in> pids_of e cid
           \<and> Mapping.lookup (container_map e) cid = Some info)) \<and>
     (\<forall>pid. pid \<in> upgraded_pids e \<longleftrightarrow> (\<exists>info. cached_pod e pid = Some info \<and> pi_upgrade info))"

lemma cache_okI:
  assumes "\<And>pid info. cached_pod e pid = Some info \<Longrightarrow>
      \<exists>cid. container_of H pid = Some cid \<and> pid \<in> pids_of e cid \<and> Mapping.lookup (container_map e) cid = Some info"
    and "\<And>pid. pid \<in> upgraded_pids e \<longleftrightarrow> (\<exists>info. cached_pod e pid = Some info \<and> pi_upgrade info)"
  shows "cache_ok H e"
  using assms unfolding cache_ok_def by blast

lemma cache_okD:
  assumes "cache_ok H e"
  shows "cached_pod e pid = Some info \<Longrightarrow>
      \<exists>cid. container_of H pid = Some cid \<and> pid \<in> pids_of e cid \<and> Mapping.lookup (container_map e) cid = Some info"
    and "pid \<in> upgraded_pids e \<longleftrightarrow> (\<exists>info. cached_pod e pid = Some info \<and> pi_upgrade info)"
  using assms unfolding cache_ok_def by blast+

text \<open>Invalidation is safe when the containers whose entry changed are among the invalidated ones.\<close>

lemma cached_pod_invalidate:
  "cached_pod (invalidate_containers cids e) pid =
     (if pid \<in> \<Union> (pids_of e ` cids) then None else cached_pod e pid)"
  by (auto simp: invalidate_containers_def Let_def cached_pod_def Mapping.lookup_filter split: option.split)

lemma upgraded_invalidate:
  "upgraded_pids (invalidate_containers cids e) = upgraded_pids e - \<Union> (pids_of e ` cids)"
  by (auto simp: invalidate_containers_def Let_def)

lemma pids_of_cong [simp]:
  "pids_of (e\<lparr> container_map := m \<rparr>) cid = pids_of e cid"
  "pids_of (e\<lparr> k8s_pid_cache := k \<rparr>) cid = pids_of e cid"
  "pids_of (e\<lparr> pending_map := m \<rparr>) cid = pids_of e cid"
  "pids_of (invalidate_containers cids e) cid = pids_of e cid"
  by (simp_all add: pids_of_def)

lemma cached_pod_cong [simp]:
  "cached_pod (e\<lparr> container_map := m \<rparr>) pid = cached_pod e pid"
  "cached_pod (e\<lparr> pending_map := m \<rparr>) pid = cached_pod e pid"
  by (simp_all add: cached_pod_def)

lemma cache_ok_invalidate:
  assumes "cache_ok H e"
    and "\<And>cid info. Mapping.lookup (container_map e) cid = Some info \<Longrightarrow> cid \<notin> cids \<Longrightarrow> Mapping.lookup m cid = Some info"
  shows "cache_ok H (invalidate_containers cids (e\<lparr> container_map := m \<rparr>))"
proof (rule cache_okI)
  fix pid info
  assume "cached_pod (invalidate_containers cids (e\<lparr> container_map := m \<rparr>)) pid = Some info"
  then have c: "cached_pod e pid = Some info" and free: "\<And>cid. cid \<in> cids \<Longrightarrow> pid \<notin> pids_of e cid"
    by (auto simp: cached_pod_invalidate split: if_splits)
  from cache_okD(1) [OF assms(1) c] free
  show "\<exists>cid. container_of H pid = Some cid \<and> pid \<in> pids_of (invalidate_containers cids (e\<lparr> container_map := m \<rparr>)) cid
      \<and> Mapping.lookup (container_map (invalidate_containers cids (e\<lparr> container_map := m \<rparr>))) cid = Some info"
    using assms(2) by fastforce
next
  fix pid
  show "pid \<in> upgraded_pids (invalidate_containers cids (e\<lparr> container_map := m \<rparr>)) \<longleftrightarrow>
      (\<exists>info. cached_pod (invalidate_containers cids (e\<lparr> container_map := m \<rparr>)) pid = Some info \<and> pi_upgrade info)"
    using cache_okD(2) [OF assms(1), of pid] by (auto simp: upgraded_invalidate cached_pod_invalidate)
qed

text \<open>A listing that changes what is known of a container it keeps leaves the caches behind.\<close>

definition steady :: "watch_event \<Rightarrow> Enricher \<Rightarrow> bool" where
  "steady ev e \<longleftrightarrow> (ev = InitDone \<longrightarrow> (\<forall>cid info info'. Mapping.lookup (container_map e) cid = Some info \<longrightarrow>
     Mapping.lookup (pending_map e) cid = Some info' \<longrightarrow> info' = info))"

lemma cache_ok_cong:
  assumes "cache_ok H e" "\<And>pid. cached_pod e' pid = cached_pod e pid" "upgraded_pids e' = upgraded_pids e"
    "container_map e' = container_map e" "container_to_pids e' = container_to_pids e"
  shows "cache_ok H e'"
  using assms unfolding cache_ok_def pids_of_def by simp

lemma cached_pod_retain:
  "cached_pod (e\<lparr> k8s_pid_cache := Mapping.filter (\<lambda>_ v. v \<noteq> None) (k8s_pid_cache e) \<rparr>) pid = cached_pod e pid"
  by (cases "Mapping.lookup (k8s_pid_cache e) pid") (auto simp: cached_pod_def Mapping.lookup_filter)

lemma cache_ok_watch:
  assumes "cache_ok H e" "synced_view c e" "legal ev c" "steady ev e" "on_watch ev e = Some e'"
  shows "cache_ok H e'"
proof (cases ev)
  case InitDone
  let ?e1 = "invalidate_containers (Mapping.keys (container_map e) - Mapping.keys (pending_map e))
      (e\<lparr> container_map := pending_map e \<rparr>)"
  have "cache_ok H ?e1"
    using assms(4) InitDone by (intro cache_ok_invalidate [OF assms(1)]) (auto simp: steady_def keys_lookup)
  moreover have "e' = ?e1\<lparr> k8s_pid_cache := Mapping.filter (\<lambda>_ v. v \<noteq> None) (k8s_pid_cache ?e1), pending_map := Mapping.empty \<rparr>"
    using assms(5) InitDone by (simp add: Let_def)
  ultimately show ?thesis
    by (auto elim!: cache_ok_cong simp: cached_pod_retain simp del: not_None_eq)
next
  case (Apply pod)
  then obtain new where new: "extract_containers_from_pod pod = Some new"
    and e': "e' = invalidate_containers (pod_cids pod (container_map e))
      (e\<lparr> container_map := extend_map (Mapping.filter (\<lambda>cid _. cid \<notin> pod_cids pod (container_map e)) (container_map e)) new \<rparr>)"
    using assms(5) by (auto simp: Let_def split: option.splits)
  have "Mapping.lookup new cid = None"
    if "Mapping.lookup (container_map e) cid = Some info" "cid \<notin> pod_cids pod (container_map e)" for cid info
    using that disjoint_new [of "pods c" pod cid _ info] assms(2,3) Apply new reflectsD(2) [of "pods c" "container_map e"]
    by (cases "Mapping.lookup new cid") (auto simp: synced_view_def containers_def pod_cids_iff)
  then show ?thesis
    unfolding e' by (intro cache_ok_invalidate [OF assms(1)]) (simp add: Mapping.lookup_filter)
next
  case (Delete pod)
  then have e': "e' = invalidate_containers (pod_cids pod (container_map e))
      (e\<lparr> container_map := Mapping.filter (\<lambda>cid _. cid \<notin> pod_cids pod (container_map e)) (container_map e) \<rparr>)"
    using assms(5) by (simp add: Let_def)
  show ?thesis
    unfolding e' by (intro cache_ok_invalidate [OF assms(1)]) (simp add: Mapping.lookup_filter)
qed (use assms in \<open>auto elim!: cache_ok_cong simp: cached_pod_def\<close>)

section \<open>Lookups\<close>

text \<open>Cgroup files do not change while a process lives; a read may fail.\<close>

definition same_host :: "host \<Rightarrow> host \<Rightarrow> bool" where
  "same_host H' H \<longleftrightarrow> (\<forall>pid. cgroup_file H' pid = None \<or> cgroup_file H' pid = cgroup_file H pid)"

lemma pids_of_remember:
  "pids_of (remember pid container_id e) cid =
     (if container_id = Some cid then insert pid (pids_of e cid) else pids_of e cid)"
  by (auto simp: remember_def pids_of_def lookup_update' split: option.split)

lemma remember_same [simp]:
  "k8s_pid_cache (remember pid cid e) = k8s_pid_cache e" "container_map (remember pid cid e) = container_map e"
  "upgraded_pids (remember pid cid e) = upgraded_pids e" "pending_map (remember pid cid e) = pending_map e"
  by (simp_all add: remember_def split: option.split)

lemma promote_same [simp]:
  "k8s_pid_cache (promote pid r e) = k8s_pid_cache e" "container_map (promote pid r e) = container_map e"
  "container_to_pids (promote pid r e) = container_to_pids e" "pending_map (promote pid r e) = pending_map e"
  by (simp_all add: promote_def split: option.split)

lemma pids_of_promote [simp]: "pids_of (promote pid r e) cid = pids_of e cid"
  by (simp add: pids_of_def)

lemma upgraded_promote:
  "upgraded_pids (promote pid r e) =
     (if \<exists>info. r = Some info \<and> pi_upgrade info then insert pid (upgraded_pids e) else upgraded_pids e)"
  by (auto simp: promote_def split: option.split)

lemma resolve_k8s_cases:
  assumes "resolve_k8s H pid e = Some (r, e')"
  obtains (cached) "Mapping.lookup (k8s_pid_cache e) pid = Some r" "e' = e"
  | (unread) "Mapping.lookup (k8s_pid_cache e) pid = None" "cgroup_file H pid = None" "r = None" "e' = e"
  | (asked) cgroup container_id where "Mapping.lookup (k8s_pid_cache e) pid = None" "cgroup_file H pid = Some cgroup"
      "extract_container_id cgroup = Some container_id"
      "r = Option.bind container_id (Mapping.lookup (container_map e))"
      "e' = (promote pid r (remember pid container_id e))\<lparr> k8s_pid_cache := Mapping.update pid r (k8s_pid_cache e) \<rparr>"
  using assms by (auto simp: resolve_k8s_def Let_def split: option.splits)

lemma resolve_k8s_ok:
  assumes ok: "cache_ok H e" and same: "same_host H' H" and res: "resolve_k8s H' pid e = Some (r, e')"
  shows "cache_ok H e'" "container_map e' = container_map e" "pending_map e' = pending_map e"
proof -
  have "cache_ok H e' \<and> container_map e' = container_map e \<and> pending_map e' = pending_map e"
    using res
  proof (cases rule: resolve_k8s_cases)
    case (asked cgroup container_id)
    have host: "container_of H pid = container_id"
      using same asked(2,3) unfolding same_host_def container_of_def by (metis bind.bind_lunit id_apply option.distinct(1))
    have new: "cached_pod e' p = (if p = pid then r else cached_pod e p)" for p
      by (simp add: asked(5) cached_pod_def lookup_update')
    have none: "cached_pod e pid = None" by (simp add: cached_pod_def asked(1))
    have pids: "pids_of e' cid = (if container_id = Some cid then insert pid (pids_of e cid) else pids_of e cid)" for cid
      by (simp add: asked(5) pids_of_remember)
    have same_maps: "container_map e' = container_map e" "pending_map e' = pending_map e"
      by (simp_all add: asked(5))
    have upg: "upgraded_pids e' = (if \<exists>info. r = Some info \<and> pi_upgrade info
        then insert pid (upgraded_pids e) else upgraded_pids e)"
      by (cases r) (auto simp: asked(5) promote_def)
    have "cache_ok H e'"
    proof (rule cache_okI)
      fix p info
      assume "cached_pod e' p = Some info"
      then show "\<exists>cid. container_of H p = Some cid \<and> p \<in> pids_of e' cid \<and> Mapping.lookup (container_map e') cid = Some info"
        using cache_okD(1) [OF ok, of p info] host
        by (cases "p = pid") (auto simp: new pids same_maps asked(4) bind_eq_Some_conv)
    next
      fix p
      show "p \<in> upgraded_pids e' \<longleftrightarrow> (\<exists>info. cached_pod e' p = Some info \<and> pi_upgrade info)"
        using cache_okD(2) [OF ok, of p] none by (auto simp: new upg)
    qed
    then show ?thesis by (simp add: same_maps)
  qed (use ok in auto)
  then show "cache_ok H e'" "container_map e' = container_map e" "pending_map e' = pending_map e"
    by simp_all
qed

lemma resolve_gpu_same:
  assumes "resolve_gpu H pid e = (g, e')"
  shows "k8s_pid_cache e' = k8s_pid_cache e" "container_map e' = container_map e"
    "container_to_pids e' = container_to_pids e" "upgraded_pids e' = upgraded_pids e" "pending_map e' = pending_map e"
  using assms by (auto simp: resolve_gpu_def Let_def split: option.splits if_splits)

lemma lookup_ok:
  assumes "cache_ok H e" "same_host H' H" "lookup H' pid comm e = Some (l, e')"
  shows "cache_ok H e'" "container_map e' = container_map e" "pending_map e' = pending_map e"
proof -
  obtain r e1 g where res: "resolve_k8s H' pid e = Some (r, e1)" and gpu: "resolve_gpu H' pid e1 = (g, e')"
    using assms(3) by (auto simp: lookup_def Let_def split: option.splits prod.splits)
  note k8s = resolve_k8s_ok [OF assms(1,2) res]
  show "cache_ok H e'"
    by (rule cache_ok_cong [OF k8s(1)]) (simp_all add: cached_pod_def resolve_gpu_same [OF gpu])
  show "container_map e' = container_map e" "pending_map e' = pending_map e"
    by (simp_all add: k8s resolve_gpu_same [OF gpu])
qed

lemma evict_pid_ok:
  assumes "cache_ok H e"
  shows "cache_ok H (evict_pid pid e)"
proof (rule cache_okI)
  have cached: "cached_pod (evict_pid pid e) p = (if p = pid then None else cached_pod e p)" for p
    by (cases "p = pid") (simp_all add: evict_pid_def Let_def cached_pod_def)
  have same: "pids_of (evict_pid pid e) = pids_of e" "container_map (evict_pid pid e) = container_map e"
    "upgraded_pids (evict_pid pid e) = upgraded_pids e - {pid}"
    by (auto simp: evict_pid_def Let_def pids_of_def)
  show "\<exists>cid. container_of H p = Some cid \<and> p \<in> pids_of (evict_pid pid e) cid
      \<and> Mapping.lookup (container_map (evict_pid pid e)) cid = Some info"
    if "cached_pod (evict_pid pid e) p = Some info" for p info
    using that cache_okD(1) [OF assms, of p info] by (simp add: cached same split: if_splits)
  show "p \<in> upgraded_pids (evict_pid pid e) \<longleftrightarrow>
      (\<exists>info. cached_pod (evict_pid pid e) p = Some info \<and> pi_upgrade info)" for p
    using cache_okD(2) [OF assms, of p] by (simp add: cached same)
qed

section \<open>The enricher in a running profiler\<close>

text \<open>
  The states of the cluster and the enricher: the loop looks processes up and evicts them, takes
  the changed ones and the mark for a sync, and the watch reports what happens to pods.
\<close>

inductive enriching :: "host \<Rightarrow> cluster \<Rightarrow> Enricher \<Rightarrow> bool" for H where
  start: "enriching H \<lparr> pods = Map.empty, listing = Map.empty \<rparr> (new_enricher files)"
| look: "enriching H c e \<Longrightarrow> same_host H' H \<Longrightarrow> lookup H' pid comm e = Some (l, e') \<Longrightarrow> enriching H c e'"
| evict: "enriching H c e \<Longrightarrow> enriching H c (evict_pid pid e)"
| taken: "enriching H c e \<Longrightarrow> enriching H c (e\<lparr> changed_pids := {}, has_changes := False \<rparr>)"
| sync: "enriching H c e \<Longrightarrow> enriching H c (e\<lparr> upgrade_dirty := False \<rparr>)"
| watch: "enriching H c e \<Longrightarrow> legal ev c \<Longrightarrow> steady ev e \<Longrightarrow> on_watch ev e = Some e' \<Longrightarrow>
    enriching H (observe ev c) e'"

lemma enriching_ok: "enriching H c e \<Longrightarrow> cache_ok H e \<and> synced_view c e"
proof (induction rule: enriching.induct)
  case (start files)
  then show ?case
    by (auto simp: new_enricher_def Let_def cache_ok_def cached_pod_def synced_view_def)
next
  case (look c e H' pid comm l e')
  then show ?case using lookup_ok [of H e H' pid comm l e'] by (simp add: synced_view_def)
next
  case (evict c e pid)
  then show ?case using evict_pid_ok [of H e pid] by (simp add: synced_view_def evict_pid_def Let_def)
next
  case (taken c e)
  then show ?case by (auto elim!: cache_ok_cong simp: cached_pod_def synced_view_def)
next
  case (sync c e)
  then show ?case by (auto elim!: cache_ok_cong simp: cached_pod_def synced_view_def)
next
  case (watch c e ev e')
  then show ?case using cache_ok_watch watch_view by blast
qed



section \<open>The names of a container agree\<close>

lemma str_find_append: "pat \<noteq> [] \<Longrightarrow> str_find pat (pat @ s) = Some 0"
  by (cases pat) auto

lemma str_find_contains: "str_find pat s = None \<longleftrightarrow> \<not> str_contains pat s"
  by (induction s) auto

lemma prefix_cut: "prefix pat (s @ c # t) \<Longrightarrow> c \<notin> set pat \<Longrightarrow> prefix pat s"
  by (induction s arbitrary: pat) (auto simp: prefix_Cons)

text \<open>A separator that is not in the pattern keeps occurrences on its two sides.\<close>

lemma str_find_separated:
  assumes "c \<notin> set pat" "pat \<noteq> []" "\<not> str_contains pat s"
  shows "str_find pat (s @ c # t) = map_option (\<lambda>i. length s + 1 + i) (str_find pat t)"
  using assms(3)
proof (induction s)
  case Nil
  have "\<not> prefix pat (c # t)" using assms(1,2) by (cases pat) auto
  then show ?case by simp
next
  case (Cons x s)
  then have "\<not> prefix pat ((x # s) @ c # t)" using prefix_cut [of pat "x # s" c t] assms(1) by auto
  then show ?case using Cons by (simp add: option.map_comp comp_def)
qed

lemma str_contains_chars: "str_contains pat s \<Longrightarrow> set pat \<subseteq> set s"
proof (induction s)
  case (Cons c s)
  then show ?case using set_mono_prefix [of pat "c # s"] by auto
qed simp

lemma str_find_missing: "x \<in> set pat \<Longrightarrow> x \<notin> set s \<Longrightarrow> str_find pat s = None"
  unfolding str_find_contains using str_contains_chars by blast

lemma str_rfind_missing: "x \<in> set pat \<Longrightarrow> x \<notin> set s \<Longrightarrow> str_rfind pat s = None"
proof (induction s)
  case (Cons c s)
  then show ?case using set_mono_prefix [of pat "c # s"] by auto
qed auto

lemma str_rfind_last:
  assumes "x \<notin> set pat" "x \<notin> set t"
  shows "str_rfind (x # pat) (s @ x # pat @ t) = Some (length s)"
proof (induction s)
  case Nil
  have "str_rfind (x # pat) (pat @ t) = None"
    using assms by (intro str_rfind_missing [of x]) auto
  then show ?case by simp
qed simp

definition container_name :: "string \<Rightarrow> bool" where
  "container_name name \<longleftrightarrow> length name = 64 \<and> list_all is_ascii_hexdigit name"

lemma hexdigit_chars:
  assumes "container_name name" "x \<in> set name"
  shows "x \<notin> set ''.:/-nip\<newline>''" "byte x < 128" "byte x \<noteq> 13"
  using assms by (auto simp: container_name_def list_all_iff is_ascii_hexdigit_def)

lemma name_slice:
  assumes "container_name name"
  shows "str_slice name 0 12 = Some (take 12 name)"
proof -
  have "ascii name" using hexdigit_chars(2) [OF assms] by (simp add: ascii_def list_all_iff)
  then show ?thesis using assms by (simp add: ascii_slice container_name_def)
qed

lemma before_dot_name:
  assumes "container_name name"
  shows "before_dot (name @ ''.'' @ s) = name" "before_dot name = name"
proof -
  have "\<forall>x \<in> set name. x \<noteq> CHR ''.''" using hexdigit_chars(1) [OF assms] by auto
  then show "before_dot (name @ ''.'' @ s) = name" "before_dot name = name"
    by (auto simp: before_dot_def takeWhile_append takeWhile_eq_all_conv)
qed

lemma marked_id_name:
  assumes "container_name name" "CHR ''/'' \<notin> set marker" "marker \<noteq> []" "\<not> str_contains marker p"
  shows "marked_id marker (p @ ''/'' @ marker @ name @ ''.'' @ s) = Some name"
  using assms(1) str_find_separated [OF assms(2-4)] before_dot_name(1) [OF assms(1), of s]
  by (simp add: marked_id_def Let_def str_find_append assms(3) container_name_def)

lemma marked_id_none:
  assumes "CHR ''/'' \<notin> set marker" "marker \<noteq> []" "\<not> str_contains marker p" "x \<in> set marker" "x \<notin> set t"
  shows "marked_id marker (p @ ''/'' @ t) = None"
  using str_find_separated [OF assms(1-3)] str_find_missing [OF assms(4,5)] by (simp add: marked_id_def)

lemma last_segment_name:
  assumes "container_name name"
  shows "last_segment_id (p @ ''/'' @ name) = Some name"
proof -
  have "rev (takeWhile (\<lambda>c. c \<noteq> CHR ''/'') (rev (p @ ''/'' @ name))) = name"
    using hexdigit_chars(1) [OF assms] by (subst rev_append) (auto simp: takeWhile_append takeWhile_eq_all_conv)
  then show ?thesis
    using assms before_dot_name(2) [OF assms] by (simp add: last_segment_id_def Let_def container_name_def)
qed

text \<open>The cgroup of a container as containerd, CRI-O and plain runtimes name it below the path \<open>p\<close>.\<close>

fun cgroup_line :: "nat \<Rightarrow> string \<Rightarrow> string \<Rightarrow> string" where
  "cgroup_line 0 p name = p @ ''/'' @ ''cri-containerd-'' @ name @ ''.scope''"
| "cgroup_line (Suc 0) p name = p @ ''/'' @ ''crio-'' @ name @ ''.scope''"
| "cgroup_line _ p name = p @ ''/'' @ name"

lemma line_id_name:
  assumes name: "container_name name" and p: "\<not> str_contains ''cri-containerd-'' p" "\<not> str_contains ''crio-'' p"
  shows "line_id (cgroup_line runtime p name) = Some name"
proof -
  note chars = hexdigit_chars(1) [OF name]
  have n: "CHR ''n'' \<notin> set (''crio-'' @ name @ ''.scope'')" "CHR ''n'' \<notin> set name" "CHR ''i'' \<notin> set name"
    using chars by auto
  have "marked_id ''cri-containerd-'' (p @ ''/'' @ ''crio-'' @ name @ ''.scope'') = None"
    by (rule marked_id_none [OF _ _ p(1) _ n(1)]) simp_all
  moreover have "marked_id ''cri-containerd-'' (p @ ''/'' @ name) = None"
    by (rule marked_id_none [OF _ _ p(1) _ n(2)]) simp_all
  moreover have "marked_id ''crio-'' (p @ ''/'' @ name) = None"
    by (rule marked_id_none [OF _ _ p(2) _ n(3)]) simp_all
  moreover have "marked_id ''cri-containerd-'' (p @ ''/'' @ ''cri-containerd-'' @ name @ ''.'' @ ''scope'') = Some name"
    by (rule marked_id_name [OF name _ _ p(1)]) simp_all
  moreover have "marked_id ''crio-'' (p @ ''/'' @ ''crio-'' @ name @ ''.'' @ ''scope'') = Some name"
    by (rule marked_id_name [OF name _ _ p(2)]) simp_all
  ultimately show ?thesis
    using last_segment_name [OF name, of p]
    by (cases "(runtime, p, name)" rule: cgroup_line.cases) (simp_all add: line_id_def)
qed

text \<open>
  The two names of a container agree. For a container whose full name has 64 hexadecimal
  digits, the name taken from the cgroup file of its processes, as containerd, CRI-O or a plain
  runtime writes it, is the name taken from the identifier in the status of its pod, with any
  scheme in front: the first twelve digits. So the map of containers is asked for the key it
  was given.
\<close>

lemma container_names_agree:
  assumes "container_name name" "CHR 0x0A \<notin> set p"
    and "\<not> str_contains ''cri-containerd-'' p" "\<not> str_contains ''crio-'' p"
  shows "extract_container_id (cgroup_line runtime p name @ [CHR 0x0A]) = Some (Some (take 12 name)) \<and>
    short_container_id (scheme @ ''://'' @ name) = Some (Some (take 12 name))"
proof -
  have chars: "x \<notin> set ''.:/-nip\<newline>''" "byte x \<noteq> 13" if "x \<in> set name" for x
    using hexdigit_chars [OF assms(1) that] by auto
  have ne: "name \<noteq> []" using assms(1) by (auto simp: container_name_def)
  have "CHR 0x0A \<notin> set (cgroup_line runtime p name)"
    using chars(1) assms(2) by (cases "(runtime, p, name)" rule: cgroup_line.cases) auto
  moreover have "last (cgroup_line runtime p name) \<noteq> CHR 0x0D"
    using chars(2) [OF last_in_set [OF ne]] ne
    by (cases "(runtime, p, name)" rule: cgroup_line.cases) auto
  ultimately have "str_lines (cgroup_line runtime p name @ [CHR 0x0A]) = [cgroup_line runtime p name]"
    using str_lines_concat [of "[cgroup_line runtime p name]"] by simp
  moreover have "str_rfind ''://'' (scheme @ ''://'' @ name) = Some (length scheme)"
    using str_rfind_last [of "CHR '':''" "''//''" name scheme] chars(1) by auto
  ultimately show ?thesis
    using line_id_name [OF assms(1,3,4)] name_slice [OF assms(1)] assms(1)
    by (simp add: extract_container_id_def short_container_id_def map_filter_def container_name_def)
qed

section \<open>The GPU of a process\<close>

lemma fold_max:
  fixes rank :: "'a \<Rightarrow> 'r :: linorder"
  defines "pick \<equiv> \<lambda>m best. case best of None \<Rightarrow> Some m | Some b \<Rightarrow> if rank b \<le> rank m then Some m else Some b"
  shows "\<exists>m. fold pick ms (Some b) = Some m \<and> m \<in> insert b (set ms) \<and> (\<forall>m' \<in> insert b (set ms). rank m' \<le> rank m)"
proof (induction ms arbitrary: b)
  case (Cons x ms)
  obtain b' where b': "pick x (Some b) = Some b'" "b' \<in> {b, x}" "rank b \<le> rank b'" "rank x \<le> rank b'"
    by (cases "rank b \<le> rank x") (auto simp: pick_def)
  from Cons.IH [of b'] obtain m where "fold pick ms (Some b') = Some m" "m \<in> insert b' (set ms)"
    "\<forall>m' \<in> insert b' (set ms). rank m' \<le> rank m" by blast
  with b' show ?case by (intro exI [of _ m]) (auto intro: order.trans)
qed simp

lemma max_by_count_max:
  assumes "ms \<noteq> []"
  shows "\<exists>m \<in> set ms. max_by_count count ms = Some m \<and> (\<forall>m' \<in> set ms. (count m', m') \<le> (count m, m))"
proof (cases ms)
  case (Cons x xs)
  have eq: "max_by_count count ms = fold (\<lambda>m best. case best of None \<Rightarrow> Some m
      | Some b \<Rightarrow> if (count b, b) \<le> (count m, m) then Some m else Some b) xs (Some x)"
    by (simp add: max_by_count_def Cons)
  show ?thesis
    using fold_max [of "\<lambda>m. (count m, m)" xs x] unfolding eq unfolding Cons list.set by blast
qed (use assms in simp)

text \<open>How many of the open files of a process are the device file of a GPU.\<close>

definition times_open :: "(u32, GpuDevice) mapping \<Rightarrow> string option list \<Rightarrow> u32 \<Rightarrow> nat" where
  "times_open mg links m =
     length (filter (\<lambda>link. Option.bind link (link_minor mg) = Some m) links)"

lemma times_open_count:
  "times_open mg links m = count_list (List.map_filter (link_minor mg) (List.map_filter id links)) m"
  by (induction links) (auto simp: times_open_def List.map_filter_simps split: option.split)

lemma link_minor_known: "link_minor mg link = Some m \<Longrightarrow> \<exists>g. Mapping.lookup mg m = Some g"
  by (auto simp: link_minor_def keys_lookup split: option.splits if_splits)

lemma times_open_known: "0 < times_open mg links m \<Longrightarrow> \<exists>g. Mapping.lookup mg m = Some g"
  using link_minor_known by (auto simp: times_open_def filter_empty_conv bind_eq_Some_conv)

text \<open>
  A process belongs to the GPU it has open most often. Whatever the order in which the counts
  are listed: without an open device file of a known GPU the result is none, otherwise it is a
  GPU that is open, no GPU is open more often, and of those open as often it has the largest
  number.
\<close>

lemma gpu_most_open:
  assumes "length links < 2 ^ 32" and "\<And>ms. set (order ms) = set ms"
  shows "case resolve_pid_gpu order (Some links) mg of
      None \<Rightarrow> \<forall>m. times_open mg links m = 0
    | Some g \<Rightarrow> \<exists>m. Mapping.lookup mg m = Some g \<and> 0 < times_open mg links m \<and>
        (\<forall>m'. times_open mg links m' \<le> times_open mg links m \<and>
           (times_open mg links m' = times_open mg links m \<longrightarrow> m' \<le> m))"
proof -
  define minors where "minors = List.map_filter (link_minor mg) (List.map_filter id links)"
  define count where "count m = (of_nat (count_list minors m) :: u32)" for m
  have n: "count_list minors m = times_open mg links m" for m
    by (simp add: minors_def times_open_count)
  have "times_open mg links m < 2 ^ 32" for m
    using le_less_trans [OF length_filter_le assms(1)] by (simp add: times_open_def)
  then have u: "unat (count m) = times_open mg links m" for m
    by (simp add: count_def n unat_of_nat take_bit_nat_eq_self)
  have res: "resolve_pid_gpu order (Some links) mg =
      Option.bind (max_by_count count (order (remdups minors))) (Mapping.lookup mg)"
    by (simp add: resolve_pid_gpu_def Let_def minors_def count_def [abs_def])
  have pos: "m \<in> set minors \<longleftrightarrow> 0 < times_open mg links m" for m
    using count_list_0_iff [of minors m] by (auto simp: n)
  show ?thesis
  proof (cases "minors = []")
    case True
    then have "order (remdups minors) = []" using assms(2) [of "[]"] by simp
    with True pos show ?thesis by (simp add: res max_by_count_def)
  next
    case False
    have o: "set (order (remdups minors)) = set minors" using assms(2) by simp
    with False have "order (remdups minors) \<noteq> []" by auto
    from max_by_count_max [OF this, of count] obtain m where m: "m \<in> set minors"
      and max: "max_by_count count (order (remdups minors)) = Some m"
      and le: "\<forall>m' \<in> set minors. (count m', m') \<le> (count m, m)"
      unfolding o by blast
    have best: "times_open mg links m' \<le> times_open mg links m \<and>
        (times_open mg links m' = times_open mg links m \<longrightarrow> m' \<le> m)" for m'
    proof (cases "m' \<in> set minors")
      case True
      with le have "(count m', m') \<le> (count m, m)" by blast
      then show ?thesis unfolding u [symmetric] by (auto simp: word_le_nat_alt word_less_nat_alt)
    qed (use pos m in auto)
    from m pos obtain g where "Mapping.lookup mg m = Some g" using times_open_known by blast
    with best m pos show ?thesis by (auto simp: res max)
  qed
qed

section \<open>What the caches miss\<close>

text \<open>
  A process that was looked up before its pod's containers were reported stays without labels
  and without promotion when they are reported for the first time: the report invalidates only
  the containers the pod already had, the failed lookup stays cached, and the process is not
  among the changed ones. It is found again when the pod is reported once more.
\<close>

lemma first_report_misses:
  assumes "Mapping.lookup (k8s_pid_cache e) pid = Some None" and "pod_cids pod (container_map e) = {}"
    and "on_watch (Apply pod) e = Some e'" and "lookup H pid comm e' = Some (l, e'')"
  shows "(l_namespace l, l_pod l, l_container l) = ([], [], []) \<and>
    upgraded_pids e' = upgraded_pids e \<and> changed_pids e' = changed_pids e"
proof -
  obtain m where "e' = e\<lparr> container_map := m \<rparr>"
    using assms(2,3) by (auto simp: invalidate_containers_def Let_def split: option.splits)
  with assms(1,4) show ?thesis
    by (auto simp: lookup_def resolve_k8s_def Let_def labels_of_def split: prod.splits)
qed

section \<open>A run\<close>

definition ex_name :: string where
  "ex_name = concat (replicate 8 ''0123abcd'')"

definition ex_pod :: Pod where
  "ex_pod = \<lparr> pod_namespace = Some ''ml'', pod_name = Some ''train-0'',
     annotations = Some (Mapping.update ''profi/mode'' ''full'' Mapping.empty),
     status = Some (Some [\<lparr> cs_name = ''main'', cs_container_id = Some (''containerd://'' @ ex_name) \<rparr>], None) \<rparr>"

definition ex_host :: host where
  "ex_host = \<lparr> cgroup_file = (\<lambda>pid. if pid = 7 then Some (cgroup_line 0 ''0::/kubepods.slice'' ex_name @ [CHR 0x0A]) else None),
     fd_links = (\<lambda>_. Some [Some ''/dev/nvidia1'', Some ''/dev/nvidiactl'', None, Some ''/dev/nvidia0'', Some ''/dev/nvidia1'']),
     hash_order = id \<rparr>"

definition ex_gpus :: "string option list option" where
  "ex_gpus = Some [Some (''Device Minor: 1'' @ [CHR 0x0A]), Some (''Device Minor: 0'' @ [CHR 0x0A]), None]"

definition ex_cluster :: cluster where
  "ex_cluster = observe (Apply ex_pod) \<lparr> pods = Map.empty, listing = Map.empty \<rparr>"

definition ex_watched :: Enricher where
  "ex_watched = the (on_watch (Apply ex_pod) (new_enricher ex_gpus))"

definition ex_looked :: Enricher where
  "ex_looked = snd (the (lookup ex_host 7 ''python'' ex_watched))"

lemma ex_watched: "on_watch (Apply ex_pod) (new_enricher ex_gpus) = Some ex_watched"
proof -
  have "\<not> Option.is_none (extract_containers_from_pod ex_pod)" by code_simp
  then show ?thesis by (auto simp: ex_watched_def Option.is_none_def Let_def)
qed

lemma ex_enriching: "enriching ex_host ex_cluster ex_watched"
  unfolding ex_cluster_def
  by (rule enriching.watch [OF enriching.start _ _ ex_watched]) (simp_all add: disjoint_from_def steady_def)

lemma ex_looked:
  "lookup ex_host 7 ''python'' ex_watched =
     Some (\<lparr> l_comm = ''python'', l_namespace = ''ml'', l_pod = ''train-0'', l_container = ''main'',
       l_gpu = ''1'', l_gpu_uuid = [] \<rparr>, ex_looked)"
proof -
  have "map_option fst (lookup ex_host 7 ''python'' ex_watched) =
     Some \<lparr> l_comm = ''python'', l_namespace = ''ml'', l_pod = ''train-0'', l_container = ''main'',
       l_gpu = ''1'', l_gpu_uuid = [] \<rparr>"
    by code_simp
  then show ?thesis by (auto simp: ex_looked_def)
qed


lemma ex_same_host: "same_host ex_host ex_host"
  by (simp add: same_host_def)

lemma ex_fresh: "Mapping.lookup (k8s_pid_cache ex_watched) 7 = None"
  by code_simp

lemma ex_cgroup: "cgroup_file ex_host 7 \<noteq> None"
  by (simp add: ex_host_def)



lemma container_names_agree_witness:
  "extract_container_id (cgroup_line 1 ''0::/kubepods.slice'' ex_name @ [CHR 0x0A]) =
     short_container_id (''cri-o://'' @ ex_name)"
proof -
  have "container_name ex_name" "CHR 0x0A \<notin> set ''0::/kubepods.slice''"
    "\<not> str_contains ''cri-containerd-'' ''0::/kubepods.slice''" "\<not> str_contains ''crio-'' ''0::/kubepods.slice''"
    by code_simp+
  from container_names_agree [OF this, of 1 "''cri-o''"] show ?thesis by simp
qed

lemma gpu_most_open_witness:
  "\<exists>g m. resolve_pid_gpu rev (fd_links ex_host 7) (minor_to_gpu (new_enricher ex_gpus)) = Some g \<and>
     Mapping.lookup (minor_to_gpu (new_enricher ex_gpus)) m = Some g \<and>
     2 \<le> times_open (minor_to_gpu (new_enricher ex_gpus)) (the (fd_links ex_host 7)) m"
proof -
  let ?mg = "minor_to_gpu (new_enricher ex_gpus)" and ?links = "the (fd_links ex_host 7)"
  have two: "times_open ?mg ?links 1 = 2"
    by code_simp
  have links: "fd_links ex_host 7 = Some ?links" "length ?links < 2 ^ 32"
    by (simp_all add: ex_host_def)
  show ?thesis
  proof (cases "resolve_pid_gpu rev (Some ?links) ?mg")
    case None
    then show ?thesis using gpu_most_open [OF links(2), of rev ?mg] two by simp
  next
    case (Some g)
    with gpu_most_open [OF links(2), of rev ?mg] obtain m where "Mapping.lookup ?mg m = Some g"
      and "\<forall>m'. times_open ?mg ?links m' \<le> times_open ?mg ?links m"
      by auto
    moreover from this(2) have "2 \<le> times_open ?mg ?links m" unfolding two [symmetric] by blast
    ultimately show ?thesis using Some links(1) by auto
  qed
qed

definition ex_late :: Enricher where
  "ex_late = snd (the (lookup ex_host 7 ''python'' (new_enricher ex_gpus)))"

lemma first_report_misses_witness:
  "map_option (l_pod \<circ> fst) (Option.bind (on_watch (Apply ex_pod) ex_late) (lookup ex_host 7 ''python'')) = Some []"
proof -
  have late: "Mapping.lookup (k8s_pid_cache ex_late) 7 = Some None" "pod_cids ex_pod (container_map ex_late) = {}"
    "\<not> Option.is_none (on_watch (Apply ex_pod) ex_late)"
    "\<not> Option.is_none (Option.bind (on_watch (Apply ex_pod) ex_late) (lookup ex_host 7 ''python''))"
    by code_simp+
  then obtain e' l e'' where w: "on_watch (Apply ex_pod) ex_late = Some e'" and l: "lookup ex_host 7 ''python'' e' = Some (l, e'')"
    by (auto simp: Option.is_none_def bind_eq_Some_conv simp del: on_watch.simps)
  then show ?thesis using first_report_misses [OF late(1,2) w l] by simp
qed

text \<open>
  A listing that reports a kept container without the annotation it had leaves its processes
  promoted: only containers that disappear are invalidated.
\<close>

lemma relist_keeps_promotion:
  "map_option (\<lambda>e. 7 \<in> upgraded_pids e)
     (Option.bind (on_watch Init ex_looked) (\<lambda>e. Option.bind (on_watch (InitApply (ex_pod\<lparr> annotations := None \<rparr>)) e)
        (on_watch InitDone))) = Some True"
  by code_simp

end
