(* ===== verification/Discovery.thy ===== *)
theory Discovery
  imports RustStrings
begin

text \<open>
  Finding the libraries to trace, \<^verbatim>\<open>src/src/discovery.rs\<close> and the discovery thread of
  \<^verbatim>\<open>src/src/main.rs\<close>: the memory maps of the running processes are scanned for the CUDA, NCCL
  and NVTX libraries, a file is told apart by its device and inode, and one request to attach
  probes is sent per file. The process file system is the record \<open>proc_fs\<close>: what the directory
  lists, the lines of the maps (\<open>None\<close> when they cannot be opened), which paths exist, and the
  C library's encoding of a device number.
\<close>

section \<open>The scan\<close>

record DevInode =
  dev :: u64
  ino :: u64

record proc_fs =
  proc_path :: string
  proc_entries :: "string list option"
  maps_lines :: "string \<Rightarrow> string list option"
  path_exists :: "string \<Rightarrow> bool"
  makedev :: "u32 \<Rightarrow> u32 \<Rightarrow> u64"

definition split_once :: "char \<Rightarrow> string \<Rightarrow> (string \<times> string) option" where
  "split_once c s =
     (if c \<in> set s then Some (takeWhile (\<lambda>x. x \<noteq> c) s, tl (dropWhile (\<lambda>x. x \<noteq> c) s)) else None)"

definition hex32_or_0 :: "string \<Rightarrow> u32" where
  "hex32_or_0 s = (case from_str_radix 32 16 s of None \<Rightarrow> 0 | Some n \<Rightarrow> of_nat n)"

text \<open>The file a line of a memory map names: device and inode, and the path in its container.\<close>

definition mapped_file :: "proc_fs \<Rightarrow> string \<Rightarrow> (DevInode \<times> string) option" where
  "mapped_file W line =
     (case split_whitespace line of
        addr # perms # offset # dev_s # ino_s # container_path # _ \<Rightarrow>
          (case from_str_radix 64 10 ino_s of
             None \<Rightarrow> None
           | Some i \<Rightarrow>
               (case split_once (CHR '':'') dev_s of
                  None \<Rightarrow> None
                | Some (maj_s, min_s) \<Rightarrow>
                    Some (\<lparr> dev = makedev W (hex32_or_0 maj_s) (hex32_or_0 min_s), ino = of_nat i \<rparr>, container_path)))
      | _ \<Rightarrow> None)"

record scan =
  results :: "string \<Rightarrow> (string \<times> DevInode) list"
  seen :: "string \<Rightarrow> DevInode set"
  remaining_libs :: "string set"

definition visit_lib :: "proc_fs \<Rightarrow> string \<Rightarrow> string \<Rightarrow> string \<times> DevInode set \<Rightarrow> scan \<Rightarrow> scan" where
  "visit_lib W pid_str line = (\<lambda>(lib_name, attached) s.
     (if \<not> str_contains lib_name line then s
      else case mapped_file W line of
        None \<Rightarrow> s
      | Some (di, container_path) \<Rightarrow>
          (let s1 = s\<lparr> remaining_libs := remaining_libs s - {lib_name} \<rparr>
           in if di \<in> attached \<or> di \<in> seen s1 lib_name then s1
              else let s2 = s1\<lparr> seen := (seen s1)(lib_name := insert di (seen s1 lib_name)) \<rparr>;
                       host_path = proc_path W @ ''/'' @ pid_str @ ''/root'' @ container_path
                   in if path_exists W host_path
                      then s2\<lparr> results := (results s2)(lib_name := results s2 lib_name @ [(host_path, di)]) \<rparr>
                      else s2)))"

fun scan_lines ::
    "proc_fs \<Rightarrow> string \<Rightarrow> (string \<times> DevInode set) list \<Rightarrow> string list \<Rightarrow> scan \<Rightarrow> scan" where
  "scan_lines W pid_str libs [] s = s"
| "scan_lines W pid_str libs (line # lines) s =
     (let s' = fold (visit_lib W pid_str line) libs s
      in if remaining_libs s' = {} then s' else scan_lines W pid_str libs lines s')"

definition skipped :: "u32 set option \<Rightarrow> string \<Rightarrow> bool" where
  "skipped only_pids pid_str \<longleftrightarrow>
     (case only_pids of
        None \<Rightarrow> False
      | Some pids \<Rightarrow>
          (case from_str_radix 32 10 pid_str of None \<Rightarrow> False | Some n \<Rightarrow> of_nat n \<notin> pids))"

definition scan_entry ::
    "proc_fs \<Rightarrow> (string \<times> DevInode set) list \<Rightarrow> u32 set option \<Rightarrow> string \<Rightarrow> scan \<Rightarrow> scan" where
  "scan_entry W libs only_pids pid_str s =
     (if pid_str = [] \<or> \<not> is_ascii_digit (hd pid_str) \<or> skipped only_pids pid_str then s
      else case maps_lines W pid_str of
        None \<Rightarrow> s
      | Some lines \<Rightarrow> scan_lines W pid_str libs lines (s\<lparr> remaining_libs := fst ` set libs \<rparr>))"

definition scan_init :: scan where
  "scan_init = \<lparr> results = (\<lambda>_. []), seen = (\<lambda>_. {}), remaining_libs = {} \<rparr>"

definition scan_proc_for_libs ::
    "proc_fs \<Rightarrow> (string \<times> DevInode set) list \<Rightarrow> u32 set option \<Rightarrow> string \<Rightarrow> (string \<times> DevInode) list" where
  "scan_proc_for_libs W libs only_pids =
     (case proc_entries W of
        None \<Rightarrow> results scan_init
      | Some entries \<Rightarrow> results (fold (scan_entry W libs only_pids) entries scan_init))"

section \<open>The discovery thread\<close>

record AttachRequest =
  req_lib :: string
  req_host_path :: string
  req_devinode :: DevInode

record discovery =
  attached :: "string \<Rightarrow> DevInode set"
  iteration :: u64
  sent :: "AttachRequest list"

definition lib_names :: "bool \<Rightarrow> string list" where
  "lib_names enable_nvtx_tracing =
     [''libcudart.so'', ''libnccl.so'', ''libcuda.so''] @ (if enable_nvtx_tracing then [''libnvtx3interop.so''] else [])"

definition send_item :: "string \<Rightarrow> string \<times> DevInode \<Rightarrow> discovery \<Rightarrow> discovery" where
  "send_item lib_name = (\<lambda>(host_path, di) s.
     (if di \<in> attached s lib_name then s
      else s\<lparr> attached := (attached s)(lib_name := insert di (attached s lib_name)),
              sent := sent s @ [\<lparr> req_lib = lib_name, req_host_path = host_path, req_devinode = di \<rparr>] \<rparr>))"

text \<open>
  One iteration; \<open>order\<close> is the order in which the hash map of the results lists the libraries,
  \<open>known_pids\<close> the processes seen so far. Every sixth iteration looks at all processes.
\<close>

definition discover ::
    "proc_fs \<Rightarrow> bool \<Rightarrow> string list \<Rightarrow> u32 set \<Rightarrow> discovery \<Rightarrow> discovery" where
  "discover W enable_nvtx_tracing order known_pids s =
     (let only_pids = (if iteration s mod 6 = 0 then None else Some known_pids);
          libs = map (\<lambda>l. (l, attached s l)) (lib_names enable_nvtx_tracing);
          found = scan_proc_for_libs W libs only_pids;
          s1 = s\<lparr> iteration := iteration s + 1 \<rparr>
      in fold (\<lambda>lib_name. fold (send_item lib_name) (found lib_name)) order s1)"

section \<open>What a scan finds\<close>

text \<open>
  Every result of a library is a file that was not attached, has been seen under this library, and
  exists; no file is there twice.
\<close>

definition lib_ok ::
    "proc_fs \<Rightarrow> (string \<times> DevInode set) list \<Rightarrow> string \<Rightarrow> (string \<times> DevInode) list \<Rightarrow> DevInode set \<Rightarrow> bool" where
  "lib_ok W libs lib found dis \<longleftrightarrow>
     distinct (map snd found) \<and> set (map snd found) \<subseteq> dis \<and> list_all (path_exists W) (map fst found) \<and>
     (\<forall>att. (lib, att) \<in> set libs \<longrightarrow> dis \<inter> att = {})"

definition scan_ok :: "proc_fs \<Rightarrow> (string \<times> DevInode set) list \<Rightarrow> scan \<Rightarrow> bool" where
  "scan_ok W libs s \<longleftrightarrow> (\<forall>lib. lib_ok W libs lib (results s lib) (seen s lib))"

lemma lib_ok_add:
  assumes "lib_ok W libs lib found dis" "di \<notin> dis" "\<And>att. (lib, att) \<in> set libs \<Longrightarrow> di \<notin> att"
  shows "lib_ok W libs lib found (insert di dis)"
    "path_exists W host \<Longrightarrow> lib_ok W libs lib (found @ [(host, di)]) (insert di dis)"
  using assms unfolding lib_ok_def by (auto simp: subset_insertI2)

lemma scan_ok_init [simp]: "scan_ok W libs scan_init"
  by (simp add: scan_ok_def lib_ok_def scan_init_def)

lemma scan_ok_remaining [simp]: "scan_ok W libs (s\<lparr> remaining_libs := r \<rparr>) = scan_ok W libs s"
  by (simp add: scan_ok_def)

lemma visit_lib_cases:
  obtains (same) "visit_lib W pid line (lib, att) s = s" "\<not> str_contains lib line \<or> mapped_file W line = None"
  | (known) di path where "str_contains lib line" "mapped_file W line = Some (di, path)" "di \<in> att \<or> di \<in> seen s lib"
      "visit_lib W pid line (lib, att) s = s\<lparr> remaining_libs := remaining_libs s - {lib} \<rparr>"
  | (new) di path where "str_contains lib line" "mapped_file W line = Some (di, path)" "di \<notin> att" "di \<notin> seen s lib"
      "visit_lib W pid line (lib, att) s =
        (let host = proc_path W @ ''/'' @ pid @ ''/root'' @ path
         in s\<lparr> remaining_libs := remaining_libs s - {lib}, seen := (seen s)(lib := insert di (seen s lib)),
               results := (if path_exists W host then (results s)(lib := results s lib @ [(host, di)]) else results s) \<rparr>)"
proof (cases "str_contains lib line \<and> mapped_file W line \<noteq> None")
  case False
  then have none: "\<not> str_contains lib line \<or> mapped_file W line = None" by blast
  then have "visit_lib W pid line (lib, att) s = s" by (auto simp: visit_lib_def)
  then show ?thesis using none by (rule same)
next
  case True
  then obtain di path where m: "str_contains lib line" "mapped_file W line = Some (di, path)" by auto
  show ?thesis
  proof (cases "di \<in> att \<or> di \<in> seen s lib")
    case True
    with m show ?thesis by (intro known [of di path]) (auto simp: visit_lib_def Let_def)
  next
    case False
    with m show ?thesis by (intro new [of di path]) (auto simp: visit_lib_def Let_def)
  qed
qed

lemma visit_lib_ok:
  assumes ok: "scan_ok W libs s" and dist: "distinct (map fst libs)" and mem: "(lib, att) \<in> set libs"
  shows "scan_ok W libs (visit_lib W pid line (lib, att) s)"
proof (cases rule: visit_lib_cases [of W pid line lib att s])
  case (new di path)
  define host where "host = proc_path W @ ''/'' @ pid @ ''/root'' @ path"
  have same: "att' = att" if "(lib, att') \<in> set libs" for att'
    using map_of_is_SomeI [OF dist that] map_of_is_SomeI [OF dist mem] by simp
  have "scan_ok W libs (s\<lparr> seen := (seen s)(lib := insert di (seen s lib)),
      results := (if path_exists W host then (results s)(lib := results s lib @ [(host, di)]) else results s) \<rparr>)"
    using ok lib_ok_add(1) [of W libs lib "results s lib" "seen s lib" di]
      lib_ok_add(2) [of W libs lib "results s lib" "seen s lib" di host] new(3,4) same
    by (auto simp: scan_ok_def)
  then show ?thesis
    unfolding new(5) host_def [symmetric] Let_def by (simp add: scan_ok_def)
qed (use ok in simp_all)

lemma visit_libs_ok:
  "scan_ok W libs s \<Longrightarrow> distinct (map fst libs) \<Longrightarrow> set ls \<subseteq> set libs \<Longrightarrow>
     scan_ok W libs (fold (visit_lib W pid line) ls s)"
  by (induction ls arbitrary: s) (auto simp: visit_lib_ok)

lemma scan_lines_ok:
  "scan_ok W libs s \<Longrightarrow> distinct (map fst libs) \<Longrightarrow> scan_ok W libs (scan_lines W pid libs lines s)"
  by (induction lines arbitrary: s) (simp_all add: Let_def visit_libs_ok)

lemma scan_entries_ok:
  "scan_ok W libs s \<Longrightarrow> distinct (map fst libs) \<Longrightarrow> scan_ok W libs (fold (scan_entry W libs only) entries s)"
  by (induction entries arbitrary: s) (auto simp: scan_entry_def scan_lines_ok split: option.split)

lemma scan_sound:
  assumes "distinct (map fst libs)" and "(lib, att) \<in> set libs"
  shows "distinct (map snd (scan_proc_for_libs W libs only lib))"
    and "snd ` set (scan_proc_for_libs W libs only lib) \<inter> att = {}"
proof -
  define s where "s = (case proc_entries W of None \<Rightarrow> scan_init | Some entries \<Rightarrow> fold (scan_entry W libs only) entries scan_init)"
  have "scan_ok W libs s"
    using scan_entries_ok [OF scan_ok_init assms(1)] by (simp add: s_def split: option.split)
  moreover have "scan_proc_for_libs W libs only = results s"
    by (simp add: scan_proc_for_libs_def s_def split: option.split)
  ultimately have ok: "lib_ok W libs lib (scan_proc_for_libs W libs only lib) (seen s lib)"
    unfolding scan_ok_def by simp
  show "distinct (map snd (scan_proc_for_libs W libs only lib))"
    using ok unfolding lib_ok_def by blast
  have "set (map snd (scan_proc_for_libs W libs only lib)) \<subseteq> seen s lib" "seen s lib \<inter> att = {}"
    using ok assms(2) unfolding lib_ok_def by blast+
  then show "snd ` set (scan_proc_for_libs W libs only lib) \<inter> att = {}"
    by auto
qed

section \<open>The first copy of a library is found\<close>

text \<open>The lines of a map that show a library, up to the first.\<close>

definition shows_lib :: "proc_fs \<Rightarrow> string \<Rightarrow> string \<Rightarrow> bool" where
  "shows_lib W lib line \<longleftrightarrow> str_contains lib line \<and> mapped_file W line \<noteq> None"

definition first_copy :: "proc_fs \<Rightarrow> string \<Rightarrow> string list \<Rightarrow> DevInode option" where
  "first_copy W lib lines =
     Option.bind (List.find (shows_lib W lib) lines) (\<lambda>line. map_option fst (mapped_file W line))"

lemma fold_grows:
  assumes "\<And>x s. m s \<subseteq> m (f x s)"
  shows "m s \<subseteq> m (fold f xs s)"
proof (induction xs arbitrary: s)
  case (Cons x xs)
  have "m s \<subseteq> m (f x s)" by (rule assms)
  also have "\<dots> \<subseteq> m (fold f xs (f x s))" by (rule Cons.IH)
  finally show ?case by simp
qed simp

lemma seen_visit: "seen s lib' \<subseteq> seen (visit_lib W pid line la s) lib'"
  by (cases la; cases rule: visit_lib_cases [of W pid line "fst la" "snd la" s]) (auto simp: Let_def)

lemma seen_visits: "seen s lib' \<subseteq> seen (fold (visit_lib W pid line) ls s) lib'"
  by (rule fold_grows [where m = "\<lambda>s. seen s lib'", OF seen_visit])

lemma seen_lines: "seen s lib' \<subseteq> seen (scan_lines W pid libs lines s) lib'"
proof (induction lines arbitrary: s)
  case (Cons line lines)
  show ?case
    using subset_trans [OF seen_visits Cons.IH] seen_visits by (simp add: Let_def)
qed simp

lemma seen_entry: "seen s lib' \<subseteq> seen (scan_entry W libs only pid s) lib'"
  using seen_lines [of "s\<lparr> remaining_libs := fst ` set libs \<rparr>"]
  by (auto simp: scan_entry_def split: option.split)

lemma seen_entries: "seen s lib' \<subseteq> seen (fold (scan_entry W libs only) entries s) lib'"
  by (rule fold_grows [where m = "\<lambda>s. seen s lib'", OF seen_entry])

lemma visit_hit:
  assumes "str_contains lib line" "mapped_file W line = Some (di, path)"
  shows "di \<in> att \<or> di \<in> seen (visit_lib W pid line (lib, att) s) lib"
  using assms by (cases rule: visit_lib_cases [of W pid line lib att s]) (auto simp: Let_def)

lemma visits_hit:
  assumes "(lib, att) \<in> set ls" "str_contains lib line" "mapped_file W line = Some (di, path)"
  shows "di \<in> att \<or> di \<in> seen (fold (visit_lib W pid line) ls s) lib"
  using assms(1)
proof (induction ls arbitrary: s)
  case (Cons x ls)
  show ?case
  proof (cases "x = (lib, att)")
    case True
    with visit_hit [OF assms(2,3)] seen_visits show ?thesis by fastforce
  next
    case False
    with Cons show ?thesis by auto
  qed
qed simp

lemma remaining_visit:
  assumes "\<not> shows_lib W lib line" "lib \<in> remaining_libs s"
  shows "lib \<in> remaining_libs (visit_lib W pid line la s)"
  using assms by (cases la; cases rule: visit_lib_cases [of W pid line "fst la" "snd la" s])
    (auto simp: shows_lib_def Let_def)

lemma remaining_visits:
  "\<not> shows_lib W lib line \<Longrightarrow> lib \<in> remaining_libs s \<Longrightarrow> lib \<in> remaining_libs (fold (visit_lib W pid line) ls s)"
  by (induction ls arbitrary: s) (auto simp: remaining_visit)

lemma scan_lines_first:
  assumes "(lib, att) \<in> set libs" "first_copy W lib lines = Some di" "lib \<in> remaining_libs s"
  shows "di \<in> att \<or> di \<in> seen (scan_lines W pid libs lines s) lib"
  using assms(2,3)
proof (induction lines arbitrary: s)
  case (Cons line lines)
  let ?s = "fold (visit_lib W pid line) libs s"
  show ?case
  proof (cases "shows_lib W lib line")
    case True
    with Cons.prems obtain path where "str_contains lib line" "mapped_file W line = Some (di, path)"
      by (auto simp: first_copy_def shows_lib_def)
    from visits_hit [OF assms(1) this] have "di \<in> att \<or> di \<in> seen ?s lib" .
    with seen_lines [of ?s lib W pid libs lines] show ?thesis by (auto simp: Let_def)
  next
    case False
    then have rem: "lib \<in> remaining_libs ?s" using remaining_visits Cons.prems(2) by blast
    with Cons.IH [of ?s] Cons.prems(1) False show ?thesis by (auto simp: Let_def first_copy_def)
  qed
qed (simp add: first_copy_def)


lemma scan_entry_first:
  assumes "(lib, att) \<in> set libs" "pid \<noteq> []" "is_ascii_digit (hd pid)" "\<not> skipped only pid"
    "maps_lines W pid = Some lines" "first_copy W lib lines = Some di"
  shows "di \<in> att \<or> di \<in> seen (scan_entry W libs only pid s) lib"
proof -
  have "lib \<in> remaining_libs (s\<lparr> remaining_libs := fst ` set libs \<rparr>)" using assms(1) by force
  from scan_lines_first [OF assms(1,6) this] show ?thesis using assms(2-5) by (simp add: scan_entry_def)
qed

lemma scan_entries_first:
  assumes "pid \<in> set entries" "(lib, att) \<in> set libs" "pid \<noteq> []" "is_ascii_digit (hd pid)" "\<not> skipped only pid"
    "maps_lines W pid = Some lines" "first_copy W lib lines = Some di"
  shows "di \<in> att \<or> di \<in> seen (fold (scan_entry W libs only) entries s) lib"
proof -
  obtain before after where e: "entries = before @ pid # after" using split_list [OF assms(1)] by blast
  show ?thesis
    using scan_entry_first [OF assms(2-7), of "fold (scan_entry W libs only) before s"]
      seen_entries [of "scan_entry W libs only pid (fold (scan_entry W libs only) before s)" lib W libs only after]
    by (auto simp: e)
qed

text \<open>Where every path exists, everything seen is a result.\<close>

definition all_kept :: "scan \<Rightarrow> bool" where
  "all_kept s \<longleftrightarrow> (\<forall>lib. seen s lib \<subseteq> set (map snd (results s lib)))"

lemma all_kept_visit:
  assumes "all_kept s" "\<And>p. path_exists W p"
  shows "all_kept (visit_lib W pid line la s)"
proof (cases la)
  case (Pair lib att)
  show ?thesis
    unfolding Pair using assms
    by (cases rule: visit_lib_cases [of W pid line lib att s]) (auto simp: all_kept_def Let_def)
qed

lemma all_kept_visits:
  "all_kept s \<Longrightarrow> (\<And>p. path_exists W p) \<Longrightarrow> all_kept (fold (visit_lib W pid line) ls s)"
  by (induction ls arbitrary: s) (simp_all add: all_kept_visit)

lemma all_kept_lines:
  "all_kept s \<Longrightarrow> (\<And>p. path_exists W p) \<Longrightarrow> all_kept (scan_lines W pid libs lines s)"
  by (induction lines arbitrary: s) (simp_all add: Let_def all_kept_visits)

lemma all_kept_entries:
  "all_kept s \<Longrightarrow> (\<And>p. path_exists W p) \<Longrightarrow> all_kept (fold (scan_entry W libs only) entries s)"
proof (induction entries arbitrary: s)
  case (Cons pid entries)
  have "all_kept (s\<lparr> remaining_libs := r \<rparr>)" for r using Cons.prems(1) by (simp add: all_kept_def)
  then have "all_kept (scan_entry W libs only pid s)"
    using Cons.prems by (auto simp: scan_entry_def all_kept_lines split: option.split)
  with Cons show ?case by simp
qed simp

section \<open>The thread\<close>

text \<open>What a process shows: it is listed, its maps can be read, and a library is first seen as a file.\<close>

definition running_with :: "proc_fs \<Rightarrow> string \<Rightarrow> string \<Rightarrow> DevInode \<Rightarrow> bool" where
  "running_with W pid lib di \<longleftrightarrow>
     (\<exists>entries lines. proc_entries W = Some entries \<and> pid \<in> set entries \<and> pid \<noteq> [] \<and> is_ascii_digit (hd pid) \<and>
        maps_lines W pid = Some lines \<and> first_copy W lib lines = Some di)"

lemma scan_finds:
  assumes "running_with W pid lib di" "\<And>p. path_exists W p" "(lib, att) \<in> set libs" "\<not> skipped only pid"
  shows "di \<in> att \<or> di \<in> snd ` set (scan_proc_for_libs W libs only lib)"
proof -
  obtain entries lines where e: "proc_entries W = Some entries" "pid \<in> set entries" "pid \<noteq> []" "is_ascii_digit (hd pid)"
    "maps_lines W pid = Some lines" "first_copy W lib lines = Some di"
    using assms(1) unfolding running_with_def by blast
  let ?s = "fold (scan_entry W libs only) entries scan_init"
  have "di \<in> att \<or> di \<in> seen ?s lib"
    by (rule scan_entries_first [OF e(2) assms(3) e(3,4) assms(4) e(5,6)])
  moreover have "all_kept ?s"
    by (rule all_kept_entries) (simp_all add: assms(2) all_kept_def scan_init_def)
  ultimately show ?thesis by (auto simp: all_kept_def scan_proc_for_libs_def e(1))
qed

definition requested :: "discovery \<Rightarrow> (string \<times> DevInode) list" where
  "requested s = map (\<lambda>r. (req_lib r, req_devinode r)) (sent s)"

text \<open>From a start \<open>s0\<close>: requests are new and pairwise different, and attached is what was and what is requested.\<close>

definition sent_ok :: "discovery \<Rightarrow> discovery \<Rightarrow> bool" where
  "sent_ok s0 s \<longleftrightarrow> distinct (requested s) \<and>
     (\<forall>lib di. di \<in> attached s lib \<longleftrightarrow> di \<in> attached s0 lib \<or> (lib, di) \<in> set (requested s)) \<and>
     (\<forall>lib di. (lib, di) \<in> set (requested s) \<longrightarrow> di \<notin> attached s0 lib)"

lemma sent_ok_item: "sent_ok s0 s \<Longrightarrow> sent_ok s0 (send_item lib item s)"
  unfolding sent_ok_def send_item_def requested_def by (cases item) auto

lemma sent_ok_items: "sent_ok s0 s \<Longrightarrow> sent_ok s0 (fold (send_item lib) items s)"
  by (induction items arbitrary: s) (simp_all add: sent_ok_item)

lemma sent_ok_libs: "sent_ok s0 s \<Longrightarrow> sent_ok s0 (fold (\<lambda>lib. fold (send_item lib) (found lib)) order s)"
  by (induction order arbitrary: s) (simp_all add: sent_ok_items)

lemma sent_ok_discover: "sent_ok s0 s \<Longrightarrow> sent_ok s0 (discover W nvtx order known s)"
  unfolding discover_def Let_def by (intro sent_ok_libs) (simp add: sent_ok_def requested_def)

fun rounds :: "bool \<Rightarrow> (proc_fs \<times> string list \<times> u32 set) list \<Rightarrow> discovery \<Rightarrow> discovery" where
  "rounds nvtx [] s = s"
| "rounds nvtx ((W, order, known) # rs) s = rounds nvtx rs (discover W nvtx order known s)"

lemma sent_ok_rounds: "sent_ok s0 s \<Longrightarrow> sent_ok s0 (rounds nvtx rs s)"
  by (induction nvtx rs s rule: rounds.induct) (simp_all add: sent_ok_discover)

lemma attached_item: "attached s lib \<subseteq> attached (send_item l item s) lib"
  "snd item \<in> attached (send_item l item s) l"
  by (auto simp: send_item_def split: prod.split)

lemma attached_items: "attached s lib \<subseteq> attached (fold (send_item l) items s) lib"
  by (rule fold_grows [where m = "\<lambda>s. attached s lib", OF attached_item(1)])

lemma attached_items_all: "snd ` set items \<subseteq> attached (fold (send_item l) items s) l"
proof (induction items arbitrary: s)
  case (Cons item items)
  have "snd item \<in> attached (fold (send_item l) items (send_item l item s)) l"
    using attached_items attached_item(2) by blast
  with Cons show ?case by simp
qed simp

lemma attached_libs: "attached s lib \<subseteq> attached (fold (\<lambda>lib. fold (send_item lib) (found lib)) order s) lib"
  by (rule fold_grows [where m = "\<lambda>s. attached s lib", OF attached_items])

lemma attached_libs_all:
  "lib \<in> set order \<Longrightarrow> snd ` set (found lib) \<subseteq> attached (fold (\<lambda>lib. fold (send_item lib) (found lib)) order s) lib"
proof (induction order arbitrary: s)
  case (Cons l order)
  show ?case
  proof (cases "l = lib")
    case True
    with subset_trans [OF attached_items_all attached_libs] show ?thesis by simp
  next
    case False
    with Cons show ?thesis by simp
  qed
qed simp

lemma attached_discover: "attached s lib \<subseteq> attached (discover W nvtx order known s) lib"
  using attached_libs [of "s\<lparr> iteration := iteration s + 1 \<rparr>"] by (simp add: discover_def Let_def)

lemma attached_rounds: "attached s lib \<subseteq> attached (rounds nvtx rs s) lib"
proof (induction nvtx rs s rule: rounds.induct)
  case (2 nvtx W order known rs s)
  then show ?case using subset_trans [OF attached_discover 2] by simp
qed simp

lemma discover_finds:
  assumes "running_with W pid lib di" "\<And>p. path_exists W p" "lib \<in> set (lib_names nvtx)" "lib \<in> set order"
    "iteration s mod 6 = 0"
  shows "di \<in> attached (discover W nvtx order known s) lib"
proof -
  let ?libs = "map (\<lambda>l. (l, attached s l)) (lib_names nvtx)"
  have "di \<in> attached s lib \<or> di \<in> snd ` set (scan_proc_for_libs W ?libs None lib)"
    using assms(3) by (intro scan_finds [OF assms(1,2)]) (auto simp: skipped_def)
  then show ?thesis
    using attached_discover [of s lib W nvtx order known]
      attached_libs_all [OF assms(4), of "scan_proc_for_libs W ?libs None"] assms(5)
    by (auto simp: discover_def Let_def)
qed


lemma iteration_item [simp]: "iteration (send_item l item s) = iteration s"
  by (simp add: send_item_def split: prod.split)

lemma iteration_items [simp]: "iteration (fold (send_item l) items s) = iteration s"
  by (induction items arbitrary: s) simp_all

lemma iteration_discover [simp]: "iteration (discover W nvtx order known s) = iteration s + 1"
proof -
  have "iteration (fold (\<lambda>lib. fold (send_item lib) (found lib)) order s') = iteration s'" for found s'
    by (induction order arbitrary: s') simp_all
  then show ?thesis by (simp add: discover_def Let_def)
qed

lemma up_to_six: "(n + (6 - n mod 6) mod 6) mod 6 = (0 :: nat)"
proof -
  have "(n + (6 - n mod 6) mod 6) mod 6 = (n mod 6 + (6 - n mod 6)) mod 6"
    unfolding mod_add_right_eq by (rule mod_add_left_eq [symmetric])
  also have "n mod 6 + (6 - n mod 6) = 6"
    using less_imp_le [OF mod_less_divisor [of 6 n]] by simp
  finally show ?thesis by simp
qed

lemma rounds_find:
  assumes "list_all (\<lambda>(W, order, known). running_with W pid lib di \<and> (\<forall>p. path_exists W p) \<and> lib \<in> set order) rs"
    and "lib \<in> set (lib_names nvtx)" and "k < length rs" and "(unat (iteration s) + k) mod 6 = 0"
    and "unat (iteration s) + length rs < 2 ^ 64"
  shows "di \<in> attached (rounds nvtx rs s) lib"
  using assms(1,3-)
proof (induction rs arbitrary: s k)
  case (Cons r rs)
  obtain W order known where r: "r = (W, order, known)" by (cases r)
  show ?case
  proof (cases k)
    case 0
    then have it: "iteration s mod 6 = 0"
      using Cons.prems(3) by (simp add: word_unat_eq_iff unat_mod_distrib)
    have "di \<in> attached (discover W nvtx order known s) lib"
      using Cons.prems(1) by (intro discover_finds [OF _ _ assms(2) _ it]) (auto simp: r)
    then show ?thesis using subsetD [OF attached_rounds] by (simp add: r)
  next
    case (Suc j)
    have "unat (iteration s + 1) = unat (iteration s) + 1"
      using Cons.prems(4) by (simp add: unat_word_ariths)
    with Cons.IH [of j "discover W nvtx order known s"] Cons.prems Suc show ?thesis by (simp add: r)
  qed
qed simp



section \<open>A process\<close>

definition ex_maps :: "string list" where
  "ex_maps = [''7f00-7f10 r--p 00000000 08:02 11 /usr/lib/libcudart.so.12'', ''7f10-7f20 r--p 00000000 08:02 12 /usr/lib/libnccl.so.2'',
     ''7f20-7f30 r--p 00000000 08:02 13 /usr/lib/libcuda.so.1'', ''7f30-7f40 r--p 00000000 08:02 14 /opt/libcudart.so.11'']"

definition ex_proc :: proc_fs where
  "ex_proc = \<lparr> proc_path = ''/proc'', proc_entries = Some [''self'', ''42''],
     maps_lines = (\<lambda>pid. if pid = ''42'' then Some ex_maps else None), path_exists = (\<lambda>_. True),
     makedev = (\<lambda>a b. 256 * ucast a + ucast b) \<rparr>"

definition ex_start :: discovery where
  "ex_start = \<lparr> attached = (\<lambda>_. {}), iteration = 0, sent = [] \<rparr>"

definition ex_order :: "string list" where
  "ex_order = [''libnccl.so'', ''libcuda.so'', ''libcudart.so'']"

lemma ex_first: "first_copy ex_proc ''libcudart.so'' ex_maps = Some \<lparr> dev = 2050, ino = 11 \<rparr>"
  by code_simp

lemma ex_running: "running_with ex_proc ''42'' ''libcudart.so'' \<lparr> dev = 2050, ino = 11 \<rparr>"
  unfolding running_with_def
  by (intro exI [of _ "[''self'', ''42'']"] exI [of _ ex_maps]) (simp add: ex_first, simp add: ex_proc_def is_ascii_digit_def)



text \<open>
  A second copy of a library in the same process is missed once every library has been seen: the
  scan of a map stops there.
\<close>

lemma second_copy_missed:
  "map snd (scan_proc_for_libs ex_proc (map (\<lambda>l. (l, {})) (lib_names False)) None ''libcudart.so'') = [\<lparr> dev = 2050, ino = 11 \<rparr>]"
  by code_simp


end
