(* ===== verification/Attach.thy ===== *)
theory Attach
  imports Threads MetricNames Discovery
begin

text \<open>
  Where the probes go: the tables of programs and functions of \<^verbatim>\<open>src/src/main.rs\<close>, the
  configuration of the kernel half at startup, and the handling of attach requests. Whether the
  kernel accepts a probe is the argument \<open>accepts\<close>. A link attaches one program to functions of
  one file, at their entry or their return, with a number per function that the program can ask
  for. This connects the programs of \<^verbatim>\<open>Probes\<close> with the functions they are meant to trace.
\<close>

section \<open>Modes and configuration\<close>

datatype KernelMode = Full | Anonymous | Off

datatype ProbeProfile = Lean | Full_profile

definition mode_val :: "KernelMode \<Rightarrow> u32" where
  "mode_val kernel_mode = (case kernel_mode of Anonymous \<Rightarrow> 1 | _ \<Rightarrow> 0)"

text \<open>The maps as startup leaves them: freshly loaded ones are zero.\<close>

definition configured :: "KernelMode \<Rightarrow> u32 \<Rightarrow> bool \<Rightarrow> bpf_state" where
  "configured kernel_mode sample_rate detailed_launches =
     initial (mode_val kernel_mode) (if sample_rate > 1 then sample_rate else 0) (if detailed_launches then 1 else 0)"

section \<open>Tables\<close>

definition probes_base :: "(string \<times> string) list" where
  "probes_base =
     [(''cuda_malloc'', ''cudaMalloc''), (''cuda_malloc_ret'', ''cudaMalloc''),
      (''cuda_free'', ''cudaFree''), (''cuda_free_ret'', ''cudaFree''),
      (''cuda_memcpy'', ''cudaMemcpy''), (''cuda_memcpy_ret'', ''cudaMemcpy''),
      (''cuda_memcpy_async'', ''cudaMemcpyAsync''), (''cuda_memcpy_async_ret'', ''cudaMemcpyAsync''),
      (''cuda_launch_kernel'', ''cudaLaunchKernel''), (''cuda_launch_kernel_ret'', ''cudaLaunchKernel''),
      (''cuda_malloc_async'', ''cudaMallocAsync''), (''cuda_malloc_async_ret'', ''cudaMallocAsync''),
      (''cuda_free_async'', ''cudaFreeAsync''), (''cuda_free_async_ret'', ''cudaFreeAsync''),
      (''cuda_graph_launch'', ''cudaGraphLaunch''), (''cuda_graph_launch_ret'', ''cudaGraphLaunch''),
      (''cuda_graph_instantiate'', ''cudaGraphInstantiate''),
      (''cuda_graph_instantiate_ret'', ''cudaGraphInstantiate'')]"

definition DIAGNOSTIC_ONLY_FN_NAMES :: "string list" where
  "DIAGNOSTIC_ONLY_FN_NAMES =
     [''cudaStreamSynchronize'', ''cudaEventSynchronize'', ''cudaMemsetAsync'', ''cudaMemset'',
      ''cudaMallocHost'', ''cudaFreeHost'']"

definition diagnostic_programs :: "(string \<times> string \<times> string) list" where
  "diagnostic_programs =
     [(''cudaStreamSynchronize'', ''cuda_stream_sync'', ''cuda_stream_sync_ret''),
      (''cudaEventSynchronize'', ''cuda_event_sync'', ''cuda_event_sync_ret''),
      (''cudaMemsetAsync'', ''cuda_memset_async'', ''cuda_memset_async_ret''),
      (''cudaMemset'', ''cuda_memset'', ''cuda_memset_ret''),
      (''cudaMallocHost'', ''cuda_malloc_host'', ''cuda_malloc_host_ret''),
      (''cudaFreeHost'', ''cuda_free_host'', ''cuda_free_host_ret'')]"

definition runtime_probes :: "KernelMode \<Rightarrow> ProbeProfile \<Rightarrow> (string \<times> string) list" where
  "runtime_probes kernel_mode profile =
     probes_base @
     (if kernel_mode = Full then [(''cuda_register_function'', ''__cudaRegisterFunction'')] else []) @
     (if profile = Full_profile
      then concat (map (\<lambda>fn_name. case map_of diagnostic_programs fn_name of
             None \<Rightarrow> []
           | Some (entry, ret) \<Rightarrow> [(entry, fn_name), (ret, fn_name)]) DIAGNOSTIC_ONLY_FN_NAMES)
      else [])"

definition driver_probes :: "KernelMode \<Rightarrow> (string \<times> string) list" where
  "driver_probes kernel_mode =
     (case kernel_mode of
        Full \<Rightarrow>
     [(''cu_module_get_function'', ''cuModuleGetFunction''),
      (''cu_module_get_function_ret'', ''cuModuleGetFunction''),
      (''cu_launch_kernel'', ''cuLaunchKernel''), (''cu_launch_kernel_ret'', ''cuLaunchKernel''),
      (''cu_launch_kernel_ex'', ''cuLaunchKernelEx''),
      (''cu_launch_kernel_ex_ret'', ''cuLaunchKernelEx''),
      (''cu_launch_cooperative_kernel'', ''cuLaunchCooperativeKernel''),
      (''cu_launch_cooperative_kernel_ret'', ''cuLaunchCooperativeKernel''),
      (''cu_graph_launch'', ''cuGraphLaunch''), (''cu_graph_launch_ret'', ''cuGraphLaunch''),
      (''cu_module_load_data'', ''cuModuleLoadData''),
      (''cu_module_load_data_ret'', ''cuModuleLoadData'')]
      | Anonymous \<Rightarrow>
     [(''cu_launch_kernel'', ''cuLaunchKernel''), (''cu_launch_kernel_ret'', ''cuLaunchKernel''),
      (''cu_launch_kernel_ex'', ''cuLaunchKernelEx''),
      (''cu_launch_kernel_ex_ret'', ''cuLaunchKernelEx''),
      (''cu_launch_cooperative_kernel'', ''cuLaunchCooperativeKernel''),
      (''cu_launch_cooperative_kernel_ret'', ''cuLaunchCooperativeKernel''),
      (''cu_graph_launch'', ''cuGraphLaunch''), (''cu_graph_launch_ret'', ''cuGraphLaunch''),
      (''cu_module_load_data'', ''cuModuleLoadData''),
      (''cu_module_load_data_ret'', ''cuModuleLoadData'')]
      | Off \<Rightarrow> [])"

definition nvtx_probes :: "(string \<times> string) list" where
  "nvtx_probes = [(''nvtx_range_push'', ''nvtxRangePushA''), (''nvtx_range_pop'', ''nvtxRangePop'')]"

section \<open>Programs\<close>

text \<open>
  The programs of the skeleton by name, each with the arguments it reads from the call. \<open>progs\<close>
  are those attached one by one, \<open>multi_progs\<close> those attached to several functions at once.
\<close>

definition arg :: "u64 list \<Rightarrow> nat \<Rightarrow> u64" where
  "arg a i = (if i < length a then a ! i else 0)"

definition progs :: "(string \<times> (u64 list \<Rightarrow> probe)) list" where
  "progs =
     [(''cuda_malloc'', \<lambda>a. Memory (P_cuda_malloc (arg a 0) (arg a 1))),
      (''cuda_malloc_ret'', \<lambda>a. Memory P_cuda_malloc_ret),
      (''cuda_free'', \<lambda>a. Memory (P_cuda_free (arg a 0))),
      (''cuda_free_ret'', \<lambda>a. Memory P_cuda_free_ret),
      (''cuda_memcpy'', \<lambda>a. Memory (P_cuda_memcpy (arg a 0) (arg a 1) (arg a 2) (arg a 3))),
      (''cuda_memcpy_ret'', \<lambda>a. Memory P_cuda_memcpy_ret),
      (''cuda_memcpy_async'', \<lambda>a. Memory (P_cuda_memcpy_async (arg a 0) (arg a 1) (arg a 2) (arg a 3) (arg a 4))),
      (''cuda_memcpy_async_ret'', \<lambda>a. Memory P_cuda_memcpy_async_ret),
      (''cuda_launch_kernel'', \<lambda>a. Runtime (P_cuda_launch_kernel (arg a 0))),
      (''cuda_launch_kernel_ret'', \<lambda>a. Runtime P_cuda_launch_kernel_ret),
      (''cuda_malloc_async'', \<lambda>a. Memory (P_cuda_malloc_async (arg a 0) (arg a 1) (arg a 2))),
      (''cuda_malloc_async_ret'', \<lambda>a. Memory P_cuda_malloc_async_ret),
      (''cuda_free_async'', \<lambda>a. Memory (P_cuda_free_async (arg a 0) (arg a 1))),
      (''cuda_free_async_ret'', \<lambda>a. Memory P_cuda_free_async_ret),
      (''cuda_register_function'', \<lambda>a. Runtime (P_cuda_register_function (arg a 0) (arg a 1) (arg a 2) (arg a 3))),
      (''cu_module_get_function'', \<lambda>a. Driver (P_cu_module_get_function (arg a 0) (arg a 1) (arg a 2))),
      (''cu_module_get_function_ret'', \<lambda>a. Driver P_cu_module_get_function_ret),
      (''cu_launch_kernel'', \<lambda>a. Driver (P_cu_launch_kernel (arg a 0))),
      (''cu_launch_kernel_ret'', \<lambda>a. Driver P_cu_launch_kernel_ret),
      (''cu_launch_kernel_ex'', \<lambda>a. Driver (P_cu_launch_kernel_ex (arg a 0) (arg a 1))),
      (''cu_launch_kernel_ex_ret'', \<lambda>a. Driver P_cu_launch_kernel_ex_ret),
      (''cu_launch_cooperative_kernel'', \<lambda>a. Driver (P_cu_launch_cooperative_kernel (arg a 0))),
      (''cu_launch_cooperative_kernel_ret'', \<lambda>a. Driver P_cu_launch_cooperative_kernel_ret),
      (''cu_graph_launch'', \<lambda>a. Driver (P_cu_graph_launch (arg a 0) (arg a 1))),
      (''cu_graph_launch_ret'', \<lambda>a. Driver P_cu_graph_launch_ret),
      (''cuda_stream_sync'', \<lambda>a. Runtime (P_cuda_stream_sync (arg a 0))),
      (''cuda_stream_sync_ret'', \<lambda>a. Runtime P_cuda_stream_sync_ret),
      (''cuda_event_sync'', \<lambda>a. Runtime (P_cuda_event_sync (arg a 0))),
      (''cuda_event_sync_ret'', \<lambda>a. Runtime P_cuda_event_sync_ret),
      (''cuda_malloc_host'', \<lambda>a. Memory (P_cuda_malloc_host (arg a 0) (arg a 1))),
      (''cuda_malloc_host_ret'', \<lambda>a. Memory P_cuda_malloc_host_ret),
      (''cuda_free_host'', \<lambda>a. Memory (P_cuda_free_host (arg a 0))),
      (''cuda_free_host_ret'', \<lambda>a. Memory P_cuda_free_host_ret),
      (''cuda_memset'', \<lambda>a. Memory (P_cuda_memset (arg a 0) (arg a 1) (arg a 2))),
      (''cuda_memset_ret'', \<lambda>a. Memory P_cuda_memset_ret),
      (''cuda_memset_async'', \<lambda>a. Memory (P_cuda_memset_async (arg a 0) (arg a 1) (arg a 2) (arg a 3))),
      (''cuda_memset_async_ret'', \<lambda>a. Memory P_cuda_memset_async_ret),
      (''cuda_graph_launch'', \<lambda>a. Runtime (P_cuda_graph_launch (arg a 0) (arg a 1))),
      (''cuda_graph_launch_ret'', \<lambda>a. Runtime P_cuda_graph_launch_ret),
      (''cuda_graph_instantiate'', \<lambda>a. Runtime P_cuda_graph_instantiate),
      (''cuda_graph_instantiate_ret'', \<lambda>a. Runtime P_cuda_graph_instantiate_ret),
      (''cu_module_load_data'', \<lambda>a. Driver P_cu_module_load_data),
      (''cu_module_load_data_ret'', \<lambda>a. Driver P_cu_module_load_data_ret),
      (''nvtx_range_push'', \<lambda>a. Nvtx (P_nvtx_range_push (arg a 0))),
      (''nvtx_range_pop'', \<lambda>a. Nvtx P_nvtx_range_pop),
      (''nccl_all_reduce'', \<lambda>a. Nccl (P_nccl_all_reduce (arg a 0) (arg a 1) (arg a 2) (arg a 3))),
      (''nccl_all_reduce_ret'', \<lambda>a. Nccl P_nccl_all_reduce_ret),
      (''nccl_all_gather'', \<lambda>a. Nccl (P_nccl_all_gather (arg a 0) (arg a 1) (arg a 2) (arg a 3))),
      (''nccl_all_gather_ret'', \<lambda>a. Nccl P_nccl_all_gather_ret),
      (''nccl_reduce_scatter'', \<lambda>a. Nccl (P_nccl_reduce_scatter (arg a 0) (arg a 1) (arg a 2) (arg a 3))),
      (''nccl_reduce_scatter_ret'', \<lambda>a. Nccl P_nccl_reduce_scatter_ret),
      (''nccl_broadcast'', \<lambda>a. Nccl (P_nccl_broadcast (arg a 0) (arg a 1) (arg a 2) (arg a 3))),
      (''nccl_broadcast_ret'', \<lambda>a. Nccl P_nccl_broadcast_ret),
      (''nccl_send'', \<lambda>a. Nccl (P_nccl_send (arg a 0) (arg a 1) (arg a 2))),
      (''nccl_send_ret'', \<lambda>a. Nccl P_nccl_send_ret),
      (''nccl_recv'', \<lambda>a. Nccl (P_nccl_recv (arg a 0) (arg a 1) (arg a 2))),
      (''nccl_recv_ret'', \<lambda>a. Nccl P_nccl_recv_ret)]"

definition multi_progs :: "(string \<times> (u64 list \<Rightarrow> probe)) list" where
  "multi_progs =
     [
      (''nccl_count_dtype_3_4'', \<lambda>a. Nccl (P_nccl_count_dtype_3_4 (arg a 0) (arg a 1) (arg a 2) (arg a 3))),
      (''nccl_count_dtype_2_3'', \<lambda>a. Nccl (P_nccl_count_dtype_2_3 (arg a 0) (arg a 1) (arg a 2))),
      (''nccl_multi_ret'', \<lambda>a. Nccl P_nccl_multi_ret)]"

section \<open>Attaching\<close>

record link =
  link_prog :: string
  link_path :: string
  link_ret :: bool
  link_syms :: "(string \<times> u64) list"

datatype attach_error = Unknown_program | Attach_failed

definition attach_uprobe ::
    "(link \<Rightarrow> bool) \<Rightarrow> string \<Rightarrow> string \<Rightarrow> string \<Rightarrow> attach_error + link" where
  "attach_uprobe accepts prog_name fn_name binary_path =
     (let l = \<lparr> link_prog = prog_name, link_path = binary_path, link_ret = suffix ''_ret'' prog_name,
                link_syms = [(fn_name, 0)] \<rparr>
      in if prog_name \<notin> fst ` set progs then Inl Unknown_program
         else if accepts l then Inr l else Inl Attach_failed)"

text \<open>One after the other; the links before a failure stay.\<close>

fun attach_all ::
    "(link \<Rightarrow> bool) \<Rightarrow> string \<Rightarrow> (string \<times> string) list \<Rightarrow> link list \<Rightarrow> attach_error option \<times> link list" where
  "attach_all accepts path [] links = (None, links)"
| "attach_all accepts path ((prog, func) # probes) links =
     (case attach_uprobe accepts prog func path of
        Inl e \<Rightarrow> (Some e, links)
      | Inr l \<Rightarrow> attach_all accepts path probes (links @ [l]))"

definition attach_probes ::
    "(link \<Rightarrow> bool) \<Rightarrow> (string \<times> string) list \<Rightarrow> string \<Rightarrow> link list \<Rightarrow> (attach_error + nat) \<times> link list" where
  "attach_probes accepts probes binary_path links =
     (case attach_all accepts binary_path probes links of
        (Some e, links') \<Rightarrow> (Inl e, links')
      | (None, links') \<Rightarrow> (Inr (length links' - length links), links'))"

definition nccl_links :: "string \<Rightarrow> link list" where
  "nccl_links path =
     [\<lparr> link_prog = ''nccl_count_dtype_3_4'', link_path = path, link_ret = False,
        link_syms = [(''ncclAllReduce'', ucast EVENT_NCCL_ALL_REDUCE), (''ncclAllGather'', ucast EVENT_NCCL_ALL_GATHER),
          (''ncclReduceScatter'', ucast EVENT_NCCL_REDUCE_SCATTER), (''ncclBroadcast'', ucast EVENT_NCCL_BROADCAST)] \<rparr>,
      \<lparr> link_prog = ''nccl_count_dtype_2_3'', link_path = path, link_ret = False,
        link_syms = [(''ncclSend'', ucast EVENT_NCCL_SEND), (''ncclRecv'', ucast EVENT_NCCL_RECV)] \<rparr>,
      \<lparr> link_prog = ''nccl_multi_ret'', link_path = path, link_ret = True,
        link_syms = [(''ncclAllReduce'', 0), (''ncclAllGather'', 0), (''ncclReduceScatter'', 0),
          (''ncclBroadcast'', 0), (''ncclSend'', 0), (''ncclRecv'', 0)] \<rparr>]"

fun push_links :: "(link \<Rightarrow> bool) \<Rightarrow> link list \<Rightarrow> link list \<Rightarrow> bool \<times> link list" where
  "push_links accepts [] links = (True, links)"
| "push_links accepts (l # ls) links =
     (if accepts l then push_links accepts ls (links @ [l]) else (False, links))"

definition attach_nccl_probes_multi ::
    "(link \<Rightarrow> bool) \<Rightarrow> string \<Rightarrow> link list \<Rightarrow> (attach_error + nat) \<times> link list" where
  "attach_nccl_probes_multi accepts binary_path links =
     (case push_links accepts (nccl_links binary_path) links of
        (True, links') \<Rightarrow> (Inr (length links' - length links), links')
      | (False, links') \<Rightarrow> (Inl Attach_failed, links'))"

text \<open>The branch of the main loop for attach requests: the links, the count of libraries, and whether the loop goes on.\<close>

record attach_state =
  attached_links :: "link list"
  libs_attached :: nat
  running :: bool

definition probeset :: "KernelMode \<Rightarrow> ProbeProfile \<Rightarrow> bool \<Rightarrow> string \<Rightarrow> (string \<times> string) list" where
  "probeset kernel_mode profile enable_nvtx_tracing lib =
     (if lib = ''libcudart.so'' then runtime_probes kernel_mode profile
      else if lib = ''libcuda.so'' then driver_probes kernel_mode
      else if lib = ''libnvtx3interop.so'' \<and> enable_nvtx_tracing then nvtx_probes else [])"

definition on_attach_request ::
    "(link \<Rightarrow> bool) \<Rightarrow> KernelMode \<Rightarrow> ProbeProfile \<Rightarrow> bool \<Rightarrow> AttachRequest \<Rightarrow> attach_state \<Rightarrow> attach_state" where
  "on_attach_request accepts kernel_mode profile enable_nvtx_tracing req s =
     (if req_lib req = ''libnccl.so''
      then case attach_nccl_probes_multi accepts (req_host_path req) (attached_links s) of
             (Inr count, links) \<Rightarrow> s\<lparr> attached_links := links, libs_attached := libs_attached s + 1 \<rparr>
           | (Inl e, links) \<Rightarrow> s\<lparr> attached_links := links, running := False \<rparr>
      else case attach_all accepts (req_host_path req)
                  (probeset kernel_mode profile enable_nvtx_tracing (req_lib req)) (attached_links s) of
             (None, links) \<Rightarrow> s\<lparr> attached_links := links, libs_attached := libs_attached s + 1 \<rparr>
           | (Some e, links) \<Rightarrow> s\<lparr> attached_links := links \<rparr>)"

text \<open>
  Startup attaches the runtime library named on the command line, if the file is there; the second
  component is what the discovery thread starts with.
\<close>

definition initial_attach ::
    "(link \<Rightarrow> bool) \<Rightarrow> (string \<Rightarrow> bool) \<Rightarrow> (string \<Rightarrow> DevInode option) \<Rightarrow> KernelMode \<Rightarrow> ProbeProfile \<Rightarrow> string \<Rightarrow>
     attach_state \<times> DevInode set" where
  "initial_attach accepts exists metadata kernel_mode profile cudart =
     (let (links, initial_attached_cuda) =
        (if exists cudart
         then case attach_probes accepts (runtime_probes kernel_mode profile) cudart [] of
                (Inr count, links) \<Rightarrow> (links, case metadata cudart of Some di \<Rightarrow> {di} | None \<Rightarrow> {})
              | (Inl e, links) \<Rightarrow> (links, {})
         else ([], {}))
      in (\<lparr> attached_links = links, libs_attached = (if exists cudart then 1 else 0), running = True \<rparr>,
          initial_attached_cuda))"

section \<open>Which programs run when a function is called\<close>

definition fired :: "link list \<Rightarrow> string \<Rightarrow> bool \<Rightarrow> string \<Rightarrow> (string \<times> u64) list" where
  "fired links path ret func =
     concat (map (\<lambda>l. if link_path l = path \<and> link_ret l = ret
       then map (\<lambda>(sym, cookie). (link_prog l, cookie)) (filter (\<lambda>(sym, cookie). sym = func) (link_syms l))
       else []) links)"

definition program :: "string \<Rightarrow> u64 list \<Rightarrow> probe" where
  "program name = the (map_of (progs @ multi_progs) name)"

text \<open>The functions of each library that are to be traced, and the operation they are recorded as.\<close>

definition traced_functions :: "KernelMode \<Rightarrow> ProbeProfile \<Rightarrow> string \<Rightarrow> (string \<times> u32) list" where
  "traced_functions kernel_mode profile lib =
     (if lib = ''libcudart.so'' then
        [(''cudaMalloc'', EVENT_CUDA_MALLOC), (''cudaFree'', EVENT_CUDA_FREE), (''cudaMemcpy'', EVENT_CUDA_MEMCPY),
         (''cudaMemcpyAsync'', EVENT_CUDA_MEMCPY_ASYNC), (''cudaLaunchKernel'', EVENT_CUDA_LAUNCH_KERNEL),
         (''cudaMallocAsync'', EVENT_CUDA_MALLOC_ASYNC), (''cudaFreeAsync'', EVENT_CUDA_FREE_ASYNC),
         (''cudaGraphLaunch'', EVENT_CUDA_GRAPH_LAUNCH), (''cudaGraphInstantiate'', EVENT_CUDA_GRAPH_INSTANTIATE)] @
        (if profile = Full_profile then
           [(''cudaStreamSynchronize'', EVENT_CUDA_STREAM_SYNC), (''cudaEventSynchronize'', EVENT_CUDA_EVENT_SYNC),
            (''cudaMemsetAsync'', EVENT_CUDA_MEMSET_ASYNC), (''cudaMemset'', EVENT_CUDA_MEMSET),
            (''cudaMallocHost'', EVENT_CUDA_MALLOC_HOST), (''cudaFreeHost'', EVENT_CUDA_FREE_HOST)] else [])
      else if lib = ''libcuda.so'' \<and> kernel_mode \<noteq> Off then
        [(''cuLaunchKernel'', EVENT_CUDA_LAUNCH_KERNEL), (''cuLaunchKernelEx'', EVENT_CUDA_LAUNCH_KERNEL),
         (''cuLaunchCooperativeKernel'', EVENT_CUDA_LAUNCH_KERNEL), (''cuGraphLaunch'', EVENT_CUDA_LAUNCH_KERNEL),
         (''cuModuleLoadData'', EVENT_CUDA_MODULE_LOAD)]
      else if lib = ''libnccl.so'' then
        [(''ncclAllReduce'', EVENT_NCCL_ALL_REDUCE), (''ncclAllGather'', EVENT_NCCL_ALL_GATHER),
         (''ncclReduceScatter'', EVENT_NCCL_REDUCE_SCATTER), (''ncclBroadcast'', EVENT_NCCL_BROADCAST),
         (''ncclSend'', EVENT_NCCL_SEND), (''ncclRecv'', EVENT_NCCL_RECV)]
      else [])"

text \<open>What a program saves does not depend on the state, and whether it ends a call not on the arguments.\<close>

definition event_of :: "string \<Rightarrow> u32 option" where
  "event_of prog = Option.bind (map_of progs prog)
     (\<lambda>mk. map_option fst (traced (sample_env 0 0 0) (initial 0 0 0) (mk [])))"

definition ends_call :: "string \<Rightarrow> bool" where
  "ends_call prog \<longleftrightarrow> (case map_of progs prog of Some mk \<Rightarrow> is_exit (mk []) | None \<Rightarrow> False)"

lemma progs_uniform:
  "list_all (\<lambda>(n, mk). (\<forall>E st a. map_option fst (traced E st (mk a)) =
       map_option fst (traced (sample_env 0 0 0) (initial 0 0 0) (mk []))) \<and> (\<forall>a. is_exit (mk a) = is_exit (mk []))) progs"
  by (simp add: progs_def traced_defs is_exit_def)

lemma program_progs: "map_of progs prog = Some mk \<Longrightarrow> program prog = mk"
  by (simp add: program_def map_of_append map_add_Some_iff)

lemma event_of_traced:
  assumes "event_of prog = Some t"
  shows "\<exists>a0 a1 a2. traced E st (program prog a) = Some (t, a0, a1, a2)"
proof -
  obtain mk where mk: "map_of progs prog = Some mk"
    and t: "map_option fst (traced (sample_env 0 0 0) (initial 0 0 0) (mk [])) = Some t"
    using assms by (auto simp: event_of_def bind_eq_Some_conv)
  have "map_option fst (traced E st (mk a)) = Some t"
    using progs_uniform map_of_SomeD [OF mk] t by (fastforce simp: list_all_iff)
  then show ?thesis by (auto simp: program_progs [OF mk])
qed

lemma ends_call_exit:
  assumes "ends_call prog"
  shows "is_exit (program prog a)"
proof -
  obtain mk where mk: "map_of progs prog = Some mk" and "is_exit (mk [])"
    using assms by (auto simp: ends_call_def split: option.splits)
  then show ?thesis
    using progs_uniform map_of_SomeD [OF mk] by (fastforce simp: list_all_iff program_progs [OF mk])
qed

text \<open>A table traces a function: one program at its entry that saves the operation, one at its return that ends it.\<close>

definition table_entry :: "(string \<times> string) list \<Rightarrow> bool \<Rightarrow> string \<Rightarrow> string list" where
  "table_entry table ret func = map fst (filter (\<lambda>(prog, g). g = func \<and> suffix ''_ret'' prog = ret) table)"

definition table_ok :: "(string \<times> string) list \<Rightarrow> (string \<times> u32) list \<Rightarrow> bool" where
  "table_ok table fns \<longleftrightarrow>
     list_all (\<lambda>(f, t). case (table_entry table False f, table_entry table True f) of
         ([e], [r]) \<Rightarrow> event_of e = Some t \<and> ends_call r
       | _ \<Rightarrow> False) fns"

lemma runtime_table: "table_ok (runtime_probes m pr) (traced_functions m pr ''libcudart.so'')"
proof -
  have "table_ok (runtime_probes Full Lean) (traced_functions Full Lean ''libcudart.so'')"
    "table_ok (runtime_probes Full Full_profile) (traced_functions Full Full_profile ''libcudart.so'')"
    "table_ok (runtime_probes Off Lean) (traced_functions Off Lean ''libcudart.so'')"
    "table_ok (runtime_probes Off Full_profile) (traced_functions Off Full_profile ''libcudart.so'')"
    by code_simp+
  moreover have "runtime_probes Anonymous pr = runtime_probes Off pr"
    "traced_functions Anonymous pr ''libcudart.so'' = traced_functions Off pr ''libcudart.so''"
    by (simp_all add: runtime_probes_def traced_functions_def)
  ultimately show ?thesis by (cases m; cases pr) simp_all
qed

lemma driver_table: "table_ok (driver_probes m) (traced_functions m pr ''libcuda.so'')"
proof -
  have "table_ok (driver_probes Full) (traced_functions Full Lean ''libcuda.so'')"
    "table_ok (driver_probes Anonymous) (traced_functions Anonymous Lean ''libcuda.so'')"
    "table_ok (driver_probes Off) (traced_functions Off Lean ''libcuda.so'')"
    by code_simp+
  then have "table_ok (driver_probes m) (traced_functions m Lean ''libcuda.so'')"
    by (cases m) simp_all
  then show ?thesis by (simp add: traced_functions_def)
qed


lemma attach_all_success:
  assumes "attach_all accepts path table links = (None, links')"
  shows "links' = links @ map (\<lambda>(prog, func). \<lparr> link_prog = prog, link_path = path,
    link_ret = suffix ''_ret'' prog, link_syms = [(func, 0)] \<rparr>) table"
  using assms
proof (induction accepts path table links rule: attach_all.induct)
  case (2 accepts path prog func probes links)
  then show ?case by (auto simp: attach_uprobe_def Let_def split: sum.splits if_splits)
qed simp

lemma push_links_success: "push_links accepts ls links = (True, links') \<Longrightarrow> links' = links @ ls"
  by (induction accepts ls links rule: push_links.induct) (auto split: if_splits)

lemma fired_append: "fired (links @ links') path ret f = fired links path ret f @ fired links' path ret f"
  by (simp add: fired_def)

lemma fired_other: "list_all (\<lambda>l. link_path l \<noteq> path) links \<Longrightarrow> fired links path ret f = []"
  by (induction links) (auto simp: fired_def)

lemma fired_table:
  "fired (map (\<lambda>(prog, func). \<lparr> link_prog = prog, link_path = path, link_ret = suffix ''_ret'' prog,
     link_syms = [(func, 0)] \<rparr>) table) path ret f = map (\<lambda>prog. (prog, 0)) (table_entry table ret f)"
  by (induction table) (auto simp: fired_def table_entry_def split: if_splits)

lemma nccl_programs:
  "program ''nccl_count_dtype_3_4'' a = Nccl (P_nccl_count_dtype_3_4 (arg a 0) (arg a 1) (arg a 2) (arg a 3))"
  "program ''nccl_count_dtype_2_3'' a = Nccl (P_nccl_count_dtype_2_3 (arg a 0) (arg a 1) (arg a 2))"
  "program ''nccl_multi_ret'' a = Nccl P_nccl_multi_ret"
proof -
  have "map_of progs ''nccl_count_dtype_3_4'' = None" "map_of progs ''nccl_count_dtype_2_3'' = None"
    "map_of progs ''nccl_multi_ret'' = None"
    by (simp_all add: progs_def)
  then show "program ''nccl_count_dtype_3_4'' a = Nccl (P_nccl_count_dtype_3_4 (arg a 0) (arg a 1) (arg a 2) (arg a 3))"
    "program ''nccl_count_dtype_2_3'' a = Nccl (P_nccl_count_dtype_2_3 (arg a 0) (arg a 1) (arg a 2))"
    "program ''nccl_multi_ret'' a = Nccl P_nccl_multi_ret"
    by (simp_all add: program_def map_of_append map_add_def multi_progs_def)
qed

text \<open>A pair of programs, with the number of the link, that records the calls of a function as an operation.\<close>

definition records :: "string \<times> u64 \<Rightarrow> string \<Rightarrow> u32 \<Rightarrow> bool" where
  "records p q t \<longleftrightarrow> (\<forall>E1 E2 st fs a b. attach_cookie E1 = snd p \<and> INFLIGHT st (pid_tgid E1) = None
     \<and> fst (sample_entry E1 t st) \<and> undisturbed (pid_tgid E1) fs \<and> pid_tgid E2 = pid_tgid E1 \<longrightarrow>
     (\<exists>e. completed E2 (program q b) (run fs (fire E1 (program (fst p) a) st)) = Some e \<and> ed_event_type e = t))"

lemma recordsI:
  assumes "\<And>E st a. attach_cookie E = snd p \<Longrightarrow> \<exists>a0 a1 a2. traced E st (program (fst p) a) = Some (t, a0, a1, a2)"
    and "\<And>b. is_exit (program q b)"
  shows "records p q t"
  unfolding records_def
proof (intro allI impI, elim conjE)
  fix E1 E2 :: env and st fs a b
  assume c: "attach_cookie E1 = snd p" and idle: "INFLIGHT st (pid_tgid E1) = None"
    and keep: "fst (sample_entry E1 t st)" and other: "undisturbed (pid_tgid E1) fs" and same: "pid_tgid E2 = pid_tgid E1"
  obtain a0 a1 a2 where tr: "traced E1 st (program (fst p) a) = Some (t, a0, a1, a2)"
    using assms(1) [OF c] by blast
  have "INFLIGHT (run fs (fire E1 (program (fst p) a) st)) (pid_tgid E1) = Some (new_entry E1 t a0 a1 a2)"
    using run_INFLIGHT_undisturbed [OF other] fire_saved [OF tr idle keep] by simp
  then show "\<exists>e. completed E2 (program q b) (run fs (fire E1 (program (fst p) a) st)) = Some e \<and> ed_event_type e = t"
    using assms(2) same by (simp add: completed_def)
qed

lemma table_records:
  assumes "table_ok table fns" "(f, t) \<in> set fns"
  shows "\<exists>e r. table_entry table False f = [e] \<and> table_entry table True f = [r] \<and> records (e, 0) r t"
proof -
  have "case (table_entry table False f, table_entry table True f) of
      ([e], [r]) \<Rightarrow> event_of e = Some t \<and> ends_call r | _ \<Rightarrow> False"
    using assms unfolding table_ok_def list_all_iff by blast
  then obtain e r where "table_entry table False f = [e]" "table_entry table True f = [r]" "event_of e = Some t" "ends_call r"
    by (auto split: list.splits)
  then show ?thesis using event_of_traced ends_call_exit by (auto intro!: recordsI)
qed

lemma cookie_event: "ucast (ucast t :: u64) = (t :: u32)"
  by (rule bit_word_eqI) (simp add: bit_simps)

lemma nccl_fired:
  "fired (nccl_links path) path False ''ncclAllReduce'' = [(''nccl_count_dtype_3_4'', ucast EVENT_NCCL_ALL_REDUCE)]"
  "fired (nccl_links path) path False ''ncclAllGather'' = [(''nccl_count_dtype_3_4'', ucast EVENT_NCCL_ALL_GATHER)]"
  "fired (nccl_links path) path False ''ncclReduceScatter'' = [(''nccl_count_dtype_3_4'', ucast EVENT_NCCL_REDUCE_SCATTER)]"
  "fired (nccl_links path) path False ''ncclBroadcast'' = [(''nccl_count_dtype_3_4'', ucast EVENT_NCCL_BROADCAST)]"
  "fired (nccl_links path) path False ''ncclSend'' = [(''nccl_count_dtype_2_3'', ucast EVENT_NCCL_SEND)]"
  "fired (nccl_links path) path False ''ncclRecv'' = [(''nccl_count_dtype_2_3'', ucast EVENT_NCCL_RECV)]"
  "fired (nccl_links path) path True ''ncclAllReduce'' = [(''nccl_multi_ret'', 0)]"
  "fired (nccl_links path) path True ''ncclAllGather'' = [(''nccl_multi_ret'', 0)]"
  "fired (nccl_links path) path True ''ncclReduceScatter'' = [(''nccl_multi_ret'', 0)]"
  "fired (nccl_links path) path True ''ncclBroadcast'' = [(''nccl_multi_ret'', 0)]"
  "fired (nccl_links path) path True ''ncclSend'' = [(''nccl_multi_ret'', 0)]"
  "fired (nccl_links path) path True ''ncclRecv'' = [(''nccl_multi_ret'', 0)]"
  by (simp_all add: fired_def nccl_links_def)

lemma nccl_pair:
  "records (''nccl_count_dtype_3_4'', ucast t) ''nccl_multi_ret'' t"
  "records (''nccl_count_dtype_2_3'', ucast t) ''nccl_multi_ret'' t"
  by (auto intro!: recordsI simp: nccl_programs traced_defs is_exit_def cookie_event)

lemma nccl_records:
  assumes "(f, t) \<in> set (traced_functions m pr ''libnccl.so'')"
  shows "\<exists>p r. fired (nccl_links path) path False f = [p] \<and> fired (nccl_links path) path True f = [(r, 0)] \<and> records p r t"
proof -
  have "(f, t) \<in> {(''ncclAllReduce'', EVENT_NCCL_ALL_REDUCE), (''ncclAllGather'', EVENT_NCCL_ALL_GATHER),
      (''ncclReduceScatter'', EVENT_NCCL_REDUCE_SCATTER), (''ncclBroadcast'', EVENT_NCCL_BROADCAST),
      (''ncclSend'', EVENT_NCCL_SEND), (''ncclRecv'', EVENT_NCCL_RECV)}"
    using assms by (simp add: traced_functions_def)
  then show ?thesis
    by (elim insertE emptyE) (simp_all add: nccl_fired nccl_pair)
qed

lemma table_traced:
  assumes "attach_all accepts path table links = (None, links')"
    and "table_ok table fns" "(f, t) \<in> set fns" "list_all (\<lambda>l. link_path l \<noteq> path) links"
  shows "\<exists>p r. fired links' path False f = [p] \<and> fired links' path True f = [(r, 0)] \<and> records p r t"
proof -
  obtain e r where "table_entry table False f = [e]" "table_entry table True f = [r]" "records (e, 0) r t"
    using table_records [OF assms(2,3)] by blast
  then show ?thesis
    by (auto simp: attach_all_success [OF assms(1)] fired_append fired_other [OF assms(4)] fired_table)
qed



text \<open>
  Mode \<open>Off\<close> still traces the launches of the runtime library, and with the address of the
  kernel: the table of \<open>libcudart.so\<close> keeps \<open>cudaLaunchKernel\<close>, and the mode written to the
  kernel half is the one of \<open>Full\<close>.
\<close>

lemma off_mode_traces_launches:
  "(''cudaLaunchKernel'', EVENT_CUDA_LAUNCH_KERNEL) \<in> set (traced_functions Off pr ''libcudart.so'')"
  "set (traced_functions Off pr ''libcuda.so'') = {}"
  "lk_host_fun (launch_key E e (configured Off sample_rate detailed)) = ed_arg0 e"
  by (simp_all add: traced_functions_def configured_def mode_val_def launch_key_def launch_mode_def
      initial_def cfg_u32_def map_defs Let_def)

text \<open>
  The number of attached libraries starts at one when the file is there, whether a probe could be
  attached to it or not.
\<close>

lemma startup_counts_unattached:
  assumes "exists cudart" "\<And>l. \<not> accepts l"
  shows "attached_links (fst (initial_attach accepts exists metadata m pr cudart)) = [] \<and>
    libs_attached (fst (initial_attach accepts exists metadata m pr cudart)) = 1"
proof -
  obtain prog func rest where t: "runtime_probes m pr = (prog, func) # rest"
    by (simp add: runtime_probes_def probes_base_def)
  have "\<exists>e. attach_all accepts cudart (runtime_probes m pr) [] = (Some e, [])"
    using assms(2) by (simp add: t attach_uprobe_def Let_def)
  then show ?thesis using assms(1) by (auto simp: initial_attach_def attach_probes_def)
qed

text \<open>
  The failure of one NCCL link ends the loop, and the links made before it stay.
\<close>

lemma nccl_failure_stops_loop:
  assumes "\<not> accepts (nccl_links path ! 0)"
  shows "\<not> running (on_attach_request accepts m pr nvtx
    \<lparr> req_lib = ''libnccl.so'', req_host_path = path, req_devinode = di \<rparr> s)"
  using assms by (simp add: on_attach_request_def attach_nccl_probes_multi_def nccl_links_def)

end
