(* ===== verification/Otlp.thy ===== *)
theory Otlp
  imports RustStrings
begin

text \<open>
  The OTLP bridge of \<^verbatim>\<open>src/src/otlp.rs\<close>: its configuration, the conversion of the metric
  families that the Prometheus registry gathers, and what one tick of the export task sends.
  The two metrics libraries are outside the program; their messages are records with the
  fields the code reads and writes. Of floating-point numbers the code only asks whether they are
  finite and copies them.
\<close>

section \<open>Numbers and messages\<close>

text \<open>A finite number is a mantissa and a binary exponent.\<close>

datatype f64 = Finite int int | Infinite bool | NaN

definition is_finite :: "f64 \<Rightarrow> bool" where
  "is_finite x = (case x of Finite _ _ \<Rightarrow> True | _ \<Rightarrow> False)"

record LabelPair =
  lp_name :: string
  lp_value :: string

record Bucket =
  upper_bound :: f64
  cumulative_count :: u64

record prom_histogram =
  sample_count :: u64
  sample_sum :: f64
  bucket :: "Bucket list"

record prom_metric =
  pm_label :: "LabelPair list"
  pm_counter :: f64
  pm_gauge :: f64
  pm_histogram :: prom_histogram

datatype MetricType = COUNTER | GAUGE | SUMMARY | UNTYPED | HISTOGRAM

record MetricFamily =
  mf_name :: string
  mf_help :: string
  mf_type :: MetricType
  mf_metric :: "prom_metric list"

type_synonym key_value = "string \<times> string"

record DataPoint =
  dp_attributes :: "key_value list"
  dp_start_time :: nat
  dp_time :: nat
  dp_value :: f64

record HistogramDataPoint =
  hp_attributes :: "key_value list"
  hp_start_time :: nat
  hp_time :: nat
  hp_count :: u64
  hp_sum :: f64
  hp_bounds :: "f64 list"
  hp_bucket_counts :: "u64 list"

datatype Temporality = Cumulative | Delta

datatype otlp_data =
    Sum "DataPoint list" Temporality bool
  | Gauge "DataPoint list"
  | Histogram "HistogramDataPoint list" Temporality

record otlp_metric =
  om_name :: string
  om_description :: string
  om_unit :: string
  om_data :: otlp_data

section \<open>Configuration\<close>

datatype OtlpProtocol = Grpc | HttpProtobuf

text \<open>Durations are in milliseconds.\<close>

record OtlpConfig =
  endpoint :: string
  protocol :: OtlpProtocol
  interval :: nat
  timeout :: nat
  service_name :: string
  headers :: "key_value list"
  ca_cert_path :: "string option"
  client_cert_path :: "string option"
  client_key_path :: "string option"
  insecure :: bool
  resource_attrs :: "key_value list"

record OtlpArgs =
  otlp_endpoint :: "string option"
  otlp_protocol :: string
  otlp_interval_secs :: u64
  otlp_timeout_secs :: u64
  otlp_service_name :: string
  otlp_headers :: "string option"
  otlp_ca_cert :: "string option"
  otlp_client_cert :: "string option"
  otlp_client_key :: "string option"
  otlp_insecure :: bool
  otlp_resource_attrs :: "string option"

definition SELF_OBS_PREFIX :: string where
  "SELF_OBS_PREFIX = ''profi_system_''"

definition LABEL_MAP :: "(string \<times> string) list" where
  "LABEL_MAP =
     [(''pod'', ''k8s.pod.name''),
      (''namespace'', ''k8s.namespace.name''),
      (''container'', ''k8s.container.name''),
      (''gpu'', ''gpu.id''),
      (''gpu_uuid'', ''gpu.uuid''),
      (''gpu_model'', ''gpu.model''),
      (''pid'', ''process.pid''),
      (''comm'', ''process.command''),
      (''operation'', ''profi.operation''),
      (''kernel'', ''profi.kernel''),
      (''kernel_class'', ''profi.kernel.class''),
      (''phase'', ''profi.phase''),
      (''direction'', ''profi.memcpy.direction''),
      (''stream'', ''profi.cuda.stream''),
      (''error_code'', ''profi.error.code'')]"

text \<open>The two parts of \<^verbatim>\<open>splitn(2, sep)\<close>, the second one if there is a separator.\<close>

definition splitn2 :: "char \<Rightarrow> string \<Rightarrow> string \<times> string option" where
  "splitn2 sep s =
     (takeWhile (\<lambda>c. c \<noteq> sep) s, if sep \<in> set s then Some (tl (dropWhile (\<lambda>c. c \<noteq> sep) s)) else None)"

definition parse_kv :: "string \<Rightarrow> key_value option" where
  "parse_kv kv =
     (case splitn2 (CHR ''='') kv of
        (_, None) \<Rightarrow> None
      | (k, Some v) \<Rightarrow> if trim k = [] then None else Some (trim k, trim v))"

definition parse_kv_list :: "string \<Rightarrow> key_value list" where
  "parse_kv_list raw = List.map_filter parse_kv (split_at_char (CHR '','') raw)"

datatype resolve_error = Invalid_protocol string | Invalid_interval string

definition protocol_of :: "string \<Rightarrow> OtlpProtocol option" where
  "protocol_of s =
     (if s = ''grpc'' \<or> s = ''grpc/protobuf'' then Some Grpc
      else if s = ''http/protobuf'' \<or> s = ''http'' then Some HttpProtobuf else None)"

text \<open>\<open>var\<close> is the environment of the process.\<close>

definition interval_of :: "(string \<Rightarrow> string option) \<Rightarrow> OtlpArgs \<Rightarrow> resolve_error + nat" where
  "interval_of var args =
     (case var ''OTEL_METRIC_EXPORT_INTERVAL'' of
        Some ms_str \<Rightarrow>
          (case from_str_radix 64 10 ms_str of Some ms \<Rightarrow> Inr ms | None \<Rightarrow> Inl (Invalid_interval ms_str))
      | None \<Rightarrow> Inr (1000 * unat (otlp_interval_secs args)))"

definition resolve_config :: "(string \<Rightarrow> string option) \<Rightarrow> OtlpArgs \<Rightarrow> resolve_error + OtlpConfig option" where
  "resolve_config var args =
     (case Option.bind (otlp_endpoint args) (\<lambda>s. if trim s = [] then None else Some (trim s)) of
        None \<Rightarrow> Inr None
      | Some e \<Rightarrow>
          (case protocol_of (otlp_protocol args) of
             None \<Rightarrow> Inl (Invalid_protocol (otlp_protocol args))
           | Some p \<Rightarrow>
               (case interval_of var args of
                  Inl err \<Rightarrow> Inl err
                | Inr i \<Rightarrow> Inr (Some
                    \<lparr> endpoint = e, protocol = p, interval = i,
                      timeout = 1000 * unat (otlp_timeout_secs args),
                      service_name = otlp_service_name args,
                      headers = (case otlp_headers args of None \<Rightarrow> [] | Some h \<Rightarrow> parse_kv_list h),
                      ca_cert_path = otlp_ca_cert args, client_cert_path = otlp_client_cert args,
                      client_key_path = otlp_client_key args, insecure = otlp_insecure args,
                      resource_attrs = (case otlp_resource_attrs args of None \<Rightarrow> [] | Some a \<Rightarrow> parse_kv_list a) \<rparr>))))"

text \<open>The pairs handed to the constructor of the resource, where a later pair wins.\<close>

definition build_resource :: "(string \<Rightarrow> string option) \<Rightarrow> string \<Rightarrow> OtlpConfig \<Rightarrow> key_value list" where
  "build_resource var version cfg =
     [(''service.name'', service_name cfg), (''service.version'', version)] @
     (case var ''HOSTNAME'' of
        Some hostname \<Rightarrow> if hostname = [] then [] else [(''service.instance.id'', hostname), (''host.name'', hostname)]
      | None \<Rightarrow> []) @
     (case var ''NODE_NAME'' of
        Some node \<Rightarrow> if node = [] then [] else [(''k8s.node.name'', node)]
      | None \<Rightarrow> []) @
     resource_attrs cfg"

section \<open>The exporter\<close>

text \<open>
  What is handed to the client library: the protocol, the headers, and for TLS the root
  certificate and the identity. \<open>pem\<close> reads a certificate file, \<open>ok_header\<close> tells whether the library
  accepts a header.
\<close>

record tls_config =
  tls_ca :: "string option"
  tls_identity :: "(string \<times> string) option"

record exporter =
  ex_protocol :: OtlpProtocol
  ex_endpoint :: string
  ex_timeout :: nat
  ex_headers :: "key_value list"
  ex_tls :: "tls_config option"

datatype exporter_error = Invalid_header | Unreadable string

definition read_pem :: "(string \<Rightarrow> string option) \<Rightarrow> string \<Rightarrow> exporter_error + string" where
  "read_pem pem path = (case pem path of None \<Rightarrow> Inl (Unreadable path) | Some s \<Rightarrow> Inr s)"

definition build_tls_config :: "(string \<Rightarrow> string option) \<Rightarrow> OtlpConfig \<Rightarrow> exporter_error + tls_config" where
  "build_tls_config pem cfg =
     (let identity =
            (case (client_cert_path cfg, client_key_path cfg) of
               (Some cert, Some key) \<Rightarrow>
                 (case read_pem pem cert of
                    Inl err \<Rightarrow> Inl err
                  | Inr cert_pem \<Rightarrow>
                      (case read_pem pem key of Inl err \<Rightarrow> Inl err | Inr key_pem \<Rightarrow> Inr (Some (cert_pem, key_pem))))
             | _ \<Rightarrow> Inr None)
      in case (case ca_cert_path cfg of
                 None \<Rightarrow> Inr None
               | Some ca \<Rightarrow> (case read_pem pem ca of Inl err \<Rightarrow> Inl err | Inr p \<Rightarrow> Inr (Some p))) of
           Inl err \<Rightarrow> Inl err
         | Inr ca \<Rightarrow> (case identity of Inl err \<Rightarrow> Inl err | Inr i \<Rightarrow> Inr \<lparr> tls_ca = ca, tls_identity = i \<rparr>))"

definition need_tls :: "OtlpConfig \<Rightarrow> bool" where
  "need_tls cfg \<longleftrightarrow> \<not> insecure cfg
     \<and> (prefix ''https://'' (endpoint cfg) \<or> ca_cert_path cfg \<noteq> None \<or> client_cert_path cfg \<noteq> None)"

definition build_exporter ::
    "(key_value \<Rightarrow> bool) \<Rightarrow> (string \<Rightarrow> string option) \<Rightarrow> OtlpConfig \<Rightarrow> exporter_error + exporter" where
  "build_exporter ok_header pem cfg =
     (let ex = \<lparr> ex_protocol = protocol cfg, ex_endpoint = endpoint cfg, ex_timeout = timeout cfg,
                 ex_headers = headers cfg, ex_tls = None \<rparr>
      in case protocol cfg of
           Grpc \<Rightarrow>
             if \<not> list_all ok_header (headers cfg) then Inl Invalid_header
             else if need_tls cfg
             then (case build_tls_config pem cfg of
                     Inl err \<Rightarrow> Inl err
                   | Inr tls \<Rightarrow> Inr (ex\<lparr> ex_tls := Some tls \<rparr>))
             else Inr ex
         | HttpProtobuf \<Rightarrow> Inr ex)"

section \<open>Conversion\<close>

definition should_skip_metric :: "string \<Rightarrow> bool" where
  "should_skip_metric name = prefix SELF_OBS_PREFIX name"

definition otel_key :: "string \<Rightarrow> string" where
  "otel_key name = (case map_of LABEL_MAP name of Some otel \<Rightarrow> otel | None \<Rightarrow> ''profi.'' @ name)"

definition translate_labels :: "LabelPair list \<Rightarrow> key_value list" where
  "translate_labels labels = map (\<lambda>lp. (otel_key (lp_name lp), lp_value lp)) labels"

definition points :: "(prom_metric \<Rightarrow> f64) \<Rightarrow> nat \<Rightarrow> nat \<Rightarrow> MetricFamily \<Rightarrow> DataPoint list" where
  "points value start_time now family =
     map (\<lambda>m. \<lparr> dp_attributes = translate_labels (pm_label m), dp_start_time = start_time, dp_time = now,
                dp_value = value m \<rparr>) (mf_metric family)"

definition metric_of :: "MetricFamily \<Rightarrow> otlp_data \<Rightarrow> otlp_metric" where
  "metric_of family data = \<lparr> om_name = mf_name family, om_description = mf_help family, om_unit = [], om_data = data \<rparr>"

definition counter_family_to_otlp :: "MetricFamily \<Rightarrow> nat \<Rightarrow> nat \<Rightarrow> otlp_metric option" where
  "counter_family_to_otlp family start_time now =
     (if mf_type family \<noteq> COUNTER then None
      else let data_points = points pm_counter start_time now family
           in if data_points = [] then None
              else Some (metric_of family (Sum data_points Cumulative True)))"

definition gauge_family_to_otlp :: "MetricFamily \<Rightarrow> nat \<Rightarrow> nat \<Rightarrow> otlp_metric option" where
  "gauge_family_to_otlp family start_time now =
     (if mf_type family \<noteq> GAUGE then None
      else let data_points = points pm_gauge start_time now family
           in if data_points = [] then None else Some (metric_of family (Gauge data_points)))"

definition saturating_sub :: "u64 \<Rightarrow> u64 \<Rightarrow> u64" where
  "saturating_sub a b = (if b \<le> a then a - b else 0)"

text \<open>The loop over the finite buckets, and the last push after it.\<close>

fun bucket_counts :: "u64 \<Rightarrow> u64 list \<Rightarrow> u64 \<Rightarrow> u64 list" where
  "bucket_counts prev [] samples = [saturating_sub samples prev]"
| "bucket_counts prev (cum # cums) samples = saturating_sub cum prev # bucket_counts cum cums samples"

definition histogram_to_otlp :: "prom_histogram \<Rightarrow> key_value list \<Rightarrow> nat \<Rightarrow> nat \<Rightarrow> HistogramDataPoint" where
  "histogram_to_otlp h attributes start_time now =
     (let finite_buckets = filter (\<lambda>b. is_finite (upper_bound b)) (bucket h)
      in \<lparr> hp_attributes = attributes, hp_start_time = start_time, hp_time = now,
           hp_count = sample_count h, hp_sum = sample_sum h,
           hp_bounds = map upper_bound finite_buckets,
           hp_bucket_counts = bucket_counts 0 (map cumulative_count finite_buckets) (sample_count h) \<rparr>)"

definition histogram_family_to_otlp :: "MetricFamily \<Rightarrow> nat \<Rightarrow> nat \<Rightarrow> otlp_metric option" where
  "histogram_family_to_otlp family start_time now =
     (if mf_type family \<noteq> HISTOGRAM then None
      else let data_points = map (\<lambda>m. histogram_to_otlp (pm_histogram m) (translate_labels (pm_label m)) start_time now)
                 (mf_metric family)
           in if data_points = [] then None
              else Some (metric_of family (Histogram data_points Cumulative)))"

definition convert_metric_family :: "MetricFamily \<Rightarrow> nat \<Rightarrow> nat \<Rightarrow> otlp_metric option" where
  "convert_metric_family family start_time now =
     (case mf_type family of
        COUNTER \<Rightarrow> counter_family_to_otlp family start_time now
      | GAUGE \<Rightarrow> gauge_family_to_otlp family start_time now
      | HISTOGRAM \<Rightarrow> histogram_family_to_otlp family start_time now
      | _ \<Rightarrow> None)"

text \<open>A tick of the task: the metrics of the message it exports, if it exports one.\<close>

definition export_tick :: "nat \<Rightarrow> nat \<Rightarrow> MetricFamily list \<Rightarrow> otlp_metric list option" where
  "export_tick start_wallclock now families =
     (let otlp_metrics = List.map_filter (\<lambda>f. convert_metric_family f start_wallclock now)
            (filter (\<lambda>f. \<not> should_skip_metric (mf_name f)) families)
      in if otlp_metrics = [] then None else Some otlp_metrics)"

section \<open>Histograms\<close>

text \<open>
  The histogram Prometheus keeps for some observations: \<open>below x b\<close> says that an observation is at most
  a bound. An observation is in the cell of the first bound that it does not exceed, or in the last
  one.
\<close>

definition prom_of :: "('o \<Rightarrow> f64 \<Rightarrow> bool) \<Rightarrow> f64 \<Rightarrow> f64 list \<Rightarrow> 'o list \<Rightarrow> prom_histogram" where
  "prom_of below s bounds obs =
     \<lparr> sample_count = of_nat (length obs), sample_sum = s,
       bucket = map (\<lambda>b. \<lparr> upper_bound = b, cumulative_count = of_nat (length (filter (\<lambda>x. below x b) obs)) \<rparr>) bounds \<rparr>"

definition in_cell :: "('o \<Rightarrow> f64 \<Rightarrow> bool) \<Rightarrow> f64 list \<Rightarrow> nat \<Rightarrow> 'o \<Rightarrow> bool" where
  "in_cell below bounds i x \<longleftrightarrow>
     (\<forall>j < i. \<not> below x (bounds ! j)) \<and> (i < length bounds \<longrightarrow> below x (bounds ! i))"

lemma in_cell_0: "in_cell below (b # bs) 0 x = below x b"
  by (simp add: in_cell_def)

lemma in_cell_Nil: "in_cell below [] 0 x"
  by (simp add: in_cell_def)

lemma in_cell_Suc: "in_cell below (b # bs) (Suc i) x = (\<not> below x b \<and> in_cell below bs i x)"
  by (auto simp: in_cell_def All_less_Suc2)

lemma unat_length_filter:
  "length obs < 2 ^ 64 \<Longrightarrow> unat (of_nat (length (filter P obs)) :: u64) = length (filter P obs)"
  by (simp add: unat_of_nat take_bit_eq_mod le_less_trans [OF length_filter_le])

lemma saturating_sub_filter:
  assumes "length obs < 2 ^ 64" "\<And>x. P x \<Longrightarrow> Q x"
  shows "unat (saturating_sub (of_nat (length (filter Q obs))) (of_nat (length (filter P obs)))) =
    length (filter (\<lambda>x. \<not> P x \<and> Q x) obs)"
proof -
  have "length (filter P obs) + length (filter (\<lambda>x. \<not> P x \<and> Q x) obs) = length (filter Q obs)"
    using assms(2) by (induction obs) auto
  then show ?thesis
    using unat_length_filter [OF assms(1)]
    by (simp add: saturating_sub_def word_le_nat_alt unat_sub_if')
qed

lemma bucket_counts_observed:
  assumes "length obs < 2 ^ 64" "sorted_wrt (\<lambda>a b. \<forall>x. below x a \<longrightarrow> below x b) bs"
    and "\<And>x b. before x \<Longrightarrow> b \<in> set bs \<Longrightarrow> below x b"
  shows "map unat (bucket_counts (of_nat (length (filter before obs)))
      (map (\<lambda>b. of_nat (length (filter (\<lambda>x. below x b) obs))) bs) (of_nat (length obs))) =
    map (\<lambda>i. length (filter (\<lambda>x. \<not> before x \<and> in_cell below bs i x) obs)) [0..<Suc (length bs)]"
  using assms(2,3)
proof (induction bs arbitrary: before)
  case Nil
  then show ?case
    using saturating_sub_filter [OF assms(1), of before "\<lambda>_. True"] by (simp add: in_cell_def)
next
  case (Cons b bs)
  have "map unat (bucket_counts (of_nat (length (filter (\<lambda>x. below x b) obs)))
      (map (\<lambda>b. of_nat (length (filter (\<lambda>x. below x b) obs))) bs) (of_nat (length obs))) =
    map (\<lambda>i. length (filter (\<lambda>x. \<not> below x b \<and> in_cell below bs i x) obs)) [0..<Suc (length bs)]"
    using Cons by simp
  moreover have "(\<lambda>x. \<not> before x \<and> in_cell below (b # bs) (Suc i) x) = (\<lambda>x. \<not> below x b \<and> in_cell below bs i x)" for i
    using Cons.prems(2) by (auto simp: in_cell_Suc fun_eq_iff)
  moreover have "unat (saturating_sub (of_nat (length (filter (\<lambda>x. below x b) obs))) (of_nat (length (filter before obs)))) =
    length (filter (\<lambda>x. \<not> before x \<and> in_cell below (b # bs) 0 x) obs)"
    using saturating_sub_filter [OF assms(1), of before "\<lambda>x. below x b"] Cons.prems(2) by (simp add: in_cell_0)
  ultimately show ?case
    by (simp only: bucket_counts.simps list.map list.size map_upt_Suc add_0_right add_Suc_right)
qed

text \<open>
  C31. Exported histograms hold the observations cell by cell. For any observations and any ascending
  bounds, infinite ones included, the counts exported for the cumulative histogram of the
  observations are, for each finite bound, the number of observations that exceed all smaller
  finite bounds and not this one, and at the end the number of those that exceed them all.
\<close>

theorem otlp_histogram_exact:
  assumes "length obs < 2 ^ 64" and "sorted_wrt (\<lambda>a b. \<forall>x. below x a \<longrightarrow> below x b) bounds"
  shows "map unat (hp_bucket_counts (histogram_to_otlp (prom_of below s bounds obs) attributes start now)) =
    map (\<lambda>i. length (filter (in_cell below (filter is_finite bounds) i) obs)) [0..<Suc (length (filter is_finite bounds))]"
  using bucket_counts_observed [OF assms(1) sorted_wrt_filter [OF assms(2)], of "\<lambda>_. False" is_finite]
  by (simp add: histogram_to_otlp_def prom_of_def filter_map comp_def)

text \<open>Non-vacuity: three observations, one beyond the finite bounds, and an explicit infinite bound.\<close>

fun ex_below :: "int \<Rightarrow> f64 \<Rightarrow> bool" where
  "ex_below x (Finite m e) = (x \<le> m)"
| "ex_below x (Infinite positive) = positive"
| "ex_below x NaN = False"

theorem otlp_histogram_exact_witness:
  "map unat (hp_bucket_counts (histogram_to_otlp
     (prom_of ex_below (Finite 16 0) [Finite 5 0, Finite 8 0, Infinite True] [3, 4, 9]) [] 0 0)) = [2, 0, 1]"
proof -
  have "sorted_wrt (\<lambda>a b. \<forall>x. ex_below x a \<longrightarrow> ex_below x b) [Finite 5 0, Finite 8 0, Infinite True]"
    by simp
  from otlp_histogram_exact [OF _ this, of "[3, 4, 9]" "Finite 16 0" "[]" 0 0]
  show ?thesis by (simp add: is_finite_def in_cell_0 in_cell_Suc in_cell_Nil upt_rec)
qed

section \<open>What a collector can reconstruct\<close>

text \<open>
  The view of a family that Prometheus exposes, and its reconstruction from an exported metric: the
  names of the labels are restored and the counts added up again.
\<close>

datatype sample = Number f64 | Distribution u64 f64 "(f64 \<times> u64) list"

record exposed_family =
  xf_name :: string
  xf_help :: string
  xf_type :: MetricType
  xf_series :: "(key_value list \<times> sample) list"

definition sample_of :: "MetricType \<Rightarrow> prom_metric \<Rightarrow> sample" where
  "sample_of t m =
     (case t of
        COUNTER \<Rightarrow> Number (pm_counter m)
      | GAUGE \<Rightarrow> Number (pm_gauge m)
      | _ \<Rightarrow> Distribution (sample_count (pm_histogram m)) (sample_sum (pm_histogram m))
               (map (\<lambda>b. (upper_bound b, cumulative_count b))
                 (filter (\<lambda>b. is_finite (upper_bound b)) (bucket (pm_histogram m)))))"

definition exposed :: "MetricFamily \<Rightarrow> exposed_family" where
  "exposed f = \<lparr> xf_name = mf_name f, xf_help = mf_help f, xf_type = mf_type f,
     xf_series = map (\<lambda>m. (map (\<lambda>lp. (lp_name lp, lp_value lp)) (pm_label m), sample_of (mf_type f) m)) (mf_metric f) \<rparr>"

definition restore_key :: "string \<Rightarrow> string" where
  "restore_key key = (case map_of (map prod.swap LABEL_MAP) key of Some name \<Rightarrow> name | None \<Rightarrow> drop 6 key)"

definition restore :: "key_value list \<Rightarrow> key_value list" where
  "restore attributes = map (\<lambda>(k, v). (restore_key k, v)) attributes"

fun running_sums :: "u64 \<Rightarrow> u64 list \<Rightarrow> u64 list" where
  "running_sums acc [] = []"
| "running_sums acc (c # cs) = (acc + c) # running_sums (acc + c) cs"

definition decode :: "otlp_metric \<Rightarrow> exposed_family" where
  "decode m = \<lparr> xf_name = om_name m, xf_help = om_description m,
     xf_type = (case om_data m of Sum _ _ _ \<Rightarrow> COUNTER | Gauge _ \<Rightarrow> GAUGE | Histogram _ _ \<Rightarrow> HISTOGRAM),
     xf_series = (case om_data m of
         Sum ps _ _ \<Rightarrow> map (\<lambda>p. (restore (dp_attributes p), Number (dp_value p))) ps
       | Gauge ps \<Rightarrow> map (\<lambda>p. (restore (dp_attributes p), Number (dp_value p))) ps
       | Histogram ps _ \<Rightarrow> map (\<lambda>p. (restore (hp_attributes p), Distribution (hp_count p) (hp_sum p)
           (zip (hp_bounds p) (running_sums 0 (hp_bucket_counts p))))) ps) \<rparr>"

text \<open>Names of Prometheus labels have no dot; cumulative counts ascend up to the number of samples.\<close>

definition well_formed :: "MetricFamily \<Rightarrow> bool" where
  "well_formed f \<longleftrightarrow> list_all (\<lambda>m. list_all (\<lambda>lp. CHR ''.'' \<notin> set (lp_name lp)) (pm_label m) \<and>
     sorted (map cumulative_count (filter (\<lambda>b. is_finite (upper_bound b)) (bucket (pm_histogram m))) @
       [sample_count (pm_histogram m)])) (mf_metric f)"

definition exported :: "MetricFamily \<Rightarrow> bool" where
  "exported f \<longleftrightarrow> \<not> prefix ''profi_system_'' (mf_name f) \<and> mf_type f \<in> {COUNTER, GAUGE, HISTOGRAM} \<and> mf_metric f \<noteq> []"

lemma label_map_checked:
  "list_all (\<lambda>(name, key). restore_key key = name) LABEL_MAP"
  "list_all (\<lambda>(name, key). \<not> prefix ''profi.'' key \<or> CHR ''.'' \<in> set (drop 6 key) \<or>
     \<not> Option.is_none (map_of LABEL_MAP (drop 6 key))) LABEL_MAP"
  by code_simp+

lemma restore_key_known: "map_of LABEL_MAP name = Some key \<Longrightarrow> restore_key key = name"
  using label_map_checked(1) map_of_SomeD [of LABEL_MAP name key] by (auto simp: list_all_iff)

lemma restore_key_unknown:
  assumes "map_of LABEL_MAP name = None" "CHR ''.'' \<notin> set name"
  shows "restore_key (''profi.'' @ name) = name"
proof -
  have "map_of (map prod.swap LABEL_MAP) (''profi.'' @ name) = None"
  proof (rule ccontr)
    assume "map_of (map prod.swap LABEL_MAP) (''profi.'' @ name) \<noteq> None"
    then obtain n where "(''profi.'' @ name, n) \<in> set (map prod.swap LABEL_MAP)"
      using map_of_SomeD by fastforce
    then have "(n, ''profi.'' @ name) \<in> set LABEL_MAP" by auto
    then show False
      using label_map_checked(2) assms unfolding list_all_iff by fastforce
  qed
  then show ?thesis by (simp add: restore_key_def)
qed

lemma restore_key_otel: "CHR ''.'' \<notin> set name \<Longrightarrow> restore_key (otel_key name) = name"
  by (cases "map_of LABEL_MAP name") (simp_all add: otel_key_def restore_key_known restore_key_unknown del: append_Cons)

lemma restore_translate:
  "list_all (\<lambda>lp. CHR ''.'' \<notin> set (lp_name lp)) labels \<Longrightarrow>
   restore (translate_labels labels) = map (\<lambda>lp. (lp_name lp, lp_value lp)) labels"
  by (induction labels) (simp_all add: restore_def translate_labels_def restore_key_otel)

lemma running_sums_counts:
  "sorted (prev # cums @ [samples]) \<Longrightarrow> running_sums prev (bucket_counts prev cums samples) = cums @ [samples]"
  by (induction cums arbitrary: prev) (simp_all add: saturating_sub_def)

lemma zip_running_sums:
  assumes "sorted (map cumulative_count bs @ [samples])"
  shows "zip (map upper_bound bs) (running_sums 0 (bucket_counts 0 (map cumulative_count bs) samples)) =
    map (\<lambda>b. (upper_bound b, cumulative_count b)) bs"
proof -
  have "zip (map upper_bound bs) (map cumulative_count bs @ [samples]) = map (\<lambda>b. (upper_bound b, cumulative_count b)) bs"
    by (induction bs) simp_all
  then show ?thesis using running_sums_counts [of 0 "map cumulative_count bs" samples] assms by simp
qed

lemma decode_convert:
  assumes "well_formed f" "exported f"
  shows "\<exists>m. convert_metric_family f start now = Some m \<and> decode m = exposed f"
proof -
  have "list_all (\<lambda>m. restore (translate_labels (pm_label m)) = map (\<lambda>lp. (lp_name lp, lp_value lp)) (pm_label m)) (mf_metric f)"
    using assms(1) by (auto simp: well_formed_def list_all_iff intro!: restore_translate)
  moreover have "list_all (\<lambda>m. zip (map upper_bound (filter (\<lambda>b. is_finite (upper_bound b)) (bucket (pm_histogram m))))
       (running_sums 0 (bucket_counts 0 (map cumulative_count (filter (\<lambda>b. is_finite (upper_bound b)) (bucket (pm_histogram m))))
         (sample_count (pm_histogram m)))) =
     map (\<lambda>b. (upper_bound b, cumulative_count b)) (filter (\<lambda>b. is_finite (upper_bound b)) (bucket (pm_histogram m)))) (mf_metric f)"
    using assms(1) by (auto simp: well_formed_def list_all_iff intro!: zip_running_sums)
  moreover have "mf_metric f \<noteq> []" "mf_type f \<in> {COUNTER, GAUGE, HISTOGRAM}"
    using assms(2) by (auto simp: exported_def)
  ultimately show ?thesis
    by (cases "mf_type f")
       (simp_all add: convert_metric_family_def counter_family_to_otlp_def gauge_family_to_otlp_def
         histogram_family_to_otlp_def points_def metric_of_def decode_def exposed_def sample_of_def
         histogram_to_otlp_def Let_def list_all_iff)
qed

lemma convert_not_exported:
  "\<not> prefix ''profi_system_'' (mf_name f) \<Longrightarrow> \<not> exported f \<Longrightarrow> convert_metric_family f start now = None"
  by (cases "mf_type f")
     (auto simp: exported_def convert_metric_family_def counter_family_to_otlp_def gauge_family_to_otlp_def
       histogram_family_to_otlp_def points_def)

lemma decode_batch:
  "list_all well_formed families \<Longrightarrow>
   map decode (List.map_filter (\<lambda>f. convert_metric_family f start now)
     (filter (\<lambda>f. \<not> should_skip_metric (mf_name f)) families)) = map exposed (filter exported families)"
proof (induction families)
  case (Cons f families)
  consider (self) "prefix ''profi_system_'' (mf_name f)" | (other) "\<not> prefix ''profi_system_'' (mf_name f)" "\<not> exported f"
    | (out) "exported f"
    by blast
  then show ?case
  proof cases
    case out
    then obtain m where "convert_metric_family f start now = Some m" "decode m = exposed f"
      using decode_convert Cons.prems by fastforce
    moreover have "\<not> should_skip_metric (mf_name f)"
      using out by (simp add: exported_def should_skip_metric_def SELF_OBS_PREFIX_def)
    ultimately show ?thesis using Cons out by (simp add: map_filter_simps)
  qed (use Cons in \<open>simp_all add: exported_def should_skip_metric_def SELF_OBS_PREFIX_def map_filter_simps convert_not_exported [unfolded exported_def]\<close>)
qed (simp add: map_filter_simps)

text \<open>
  C30. Export loses and adds nothing. For gathered families whose labels have no dot in their names
  and whose cumulative counts ascend, what a collector reconstructs from the message of a tick
  is, family by family and in the same order, what Prometheus exposes: names, help texts,
  types, labels, values, and bucket counts of the finite bounds; except for the families under the
  prefix of the profiler's own metrics and the empty ones, which are not sent. Without any
  other family nothing is sent.
\<close>

theorem export_roundtrip:
  assumes "list_all well_formed families"
  shows "map_option (map decode) (export_tick start now families) =
    (if filter exported families = [] then None else Some (map exposed (filter exported families)))"
proof -
  let ?batch = "List.map_filter (\<lambda>f. convert_metric_family f start now)
     (filter (\<lambda>f. \<not> should_skip_metric (mf_name f)) families)"
  have "map decode ?batch = map exposed (filter exported families)" by (rule decode_batch [OF assms])
  moreover from this have "?batch = [] \<longleftrightarrow> filter exported families = []" by (metis Nil_is_map_conv)
  ultimately show ?thesis by (simp add: export_tick_def Let_def)
qed

text \<open>Non-vacuity: a counter, a histogram with an infinite bound, one of the profiler's own metrics and an empty gauge.\<close>

definition ex_histogram :: prom_histogram where
  "ex_histogram = \<lparr> sample_count = 3, sample_sum = Finite 16 0,
     bucket = [\<lparr> upper_bound = Finite 5 0, cumulative_count = 2 \<rparr>, \<lparr> upper_bound = Finite 8 0, cumulative_count = 2 \<rparr>,
       \<lparr> upper_bound = Infinite True, cumulative_count = 3 \<rparr>] \<rparr>"

definition ex_metric :: prom_metric where
  "ex_metric = \<lparr> pm_label = [\<lparr> lp_name = ''pod'', lp_value = ''train-0'' \<rparr>, \<lparr> lp_name = ''rank'', lp_value = ''3'' \<rparr>],
     pm_counter = Finite 7 0, pm_gauge = Finite 0 0, pm_histogram = ex_histogram \<rparr>"

definition ex_families :: "MetricFamily list" where
  "ex_families =
     [\<lparr> mf_name = ''profi_cuda_calls_total'', mf_help = ''Calls'', mf_type = COUNTER, mf_metric = [ex_metric] \<rparr>,
      \<lparr> mf_name = ''profi_system_cache_size'', mf_help = ''Size'', mf_type = COUNTER, mf_metric = [ex_metric] \<rparr>,
      \<lparr> mf_name = ''profi_gpu_power_watts'', mf_help = ''Power'', mf_type = GAUGE, mf_metric = [] \<rparr>,
      \<lparr> mf_name = ''profi_cuda_duration_seconds'', mf_help = ''Durations'', mf_type = HISTOGRAM, mf_metric = [ex_metric] \<rparr>]"

theorem export_roundtrip_witness:
  "map_option (map (\<lambda>m. xf_name (decode m))) (export_tick 0 1 ex_families) =
     Some [''profi_cuda_calls_total'', ''profi_cuda_duration_seconds''] \<and>
   map_option (\<lambda>b. xf_series (decode (last b))) (export_tick 0 1 ex_families) =
     Some [([(''pod'', ''train-0''), (''rank'', ''3'')],
       Distribution 3 (Finite 16 0) [(Finite 5 0, 2), (Finite 8 0, 2)])]"
proof -
  have "list_all well_formed ex_families" by code_simp
  from export_roundtrip [OF this, of 0 1]
  have e: "map_option (map decode) (export_tick 0 1 ex_families) = Some (map exposed (filter exported ex_families))"
    by (simp add: ex_families_def ex_metric_def exported_def)
  then obtain b where b: "export_tick 0 1 ex_families = Some b" "map decode b = map exposed (filter exported ex_families)"
    by auto
  have n: "map xf_name (map exposed (filter exported ex_families)) = [''profi_cuda_calls_total'', ''profi_cuda_duration_seconds'']"
    "xf_series (last (map exposed (filter exported ex_families))) = [([(''pod'', ''train-0''), (''rank'', ''3'')],
       Distribution 3 (Finite 16 0) [(Finite 5 0, 2), (Finite 8 0, 2)])]"
    by code_simp+
  have "b \<noteq> []" using arg_cong [OF b(2), of "map xf_name"] n(1) by auto
  then have "decode (last b) = last (map decode b)" by (simp add: last_map)
  with b n show ?thesis by (simp add: comp_def flip: b(2))
qed

section \<open>Configuration\<close>

text \<open>
  Lists of pairs are read back: keys and values without white space around them, without commas,
  and keys that are not empty and have no equals sign.
\<close>

definition print_kv_list :: "key_value list \<Rightarrow> string" where
  "print_kv_list kvs = join_with (CHR '','') (map (\<lambda>(k, v). k @ ''='' @ v) kvs)"

lemma splitn2_pair: "sep \<notin> set k \<Longrightarrow> splitn2 sep (k @ sep # v) = (k, Some v)"
  by (simp add: splitn2_def takeWhile_append1 dropWhile_append)

lemma parse_kv_pair:
  assumes "CHR ''='' \<notin> set k" "k \<noteq> []" "trim k = k" "trim v = v"
  shows "parse_kv (k @ ''='' @ v) = Some (k, v)"
  using assms splitn2_pair [of "CHR ''=''" k v] by (simp add: parse_kv_def)

lemma kv_list_roundtrip:
  assumes "list_all (\<lambda>(k, v). CHR ''='' \<notin> set k \<and> k \<noteq> [] \<and> trim k = k \<and> trim v = v \<and>
      CHR '','' \<notin> set k \<and> CHR '','' \<notin> set v) kvs"
  shows "parse_kv_list (print_kv_list kvs) = kvs"
proof (cases "kvs = []")
  case True
  then show ?thesis by (simp add: parse_kv_list_def print_kv_list_def parse_kv_def splitn2_def map_filter_simps)
next
  case False
  have "list_all (\<lambda>w. CHR '','' \<notin> set w) (map (\<lambda>(k, v). k @ ''='' @ v) kvs)"
    using assms by (auto simp: list_all_iff)
  then have "parse_kv_list (print_kv_list kvs) = List.map_filter parse_kv (map (\<lambda>(k, v). k @ ''='' @ v) kvs)"
    using False by (simp add: parse_kv_list_def print_kv_list_def split_join del: append_Cons)
  also have "\<dots> = kvs"
    using assms by (induction kvs) (auto simp: map_filter_simps parse_kv_pair simp del: append_Cons)
  finally show ?thesis .
qed

text \<open>
  Export is off exactly without an endpoint; with one, the settings are refused exactly for an
  unknown protocol or an interval in the environment that is no number.
\<close>

lemma resolve_config_cases:
  "resolve_config var args = Inr None \<longleftrightarrow> (case otlp_endpoint args of None \<Rightarrow> True | Some s \<Rightarrow> trim s = [])"
  "(\<exists>e. resolve_config var args = Inl e) \<longleftrightarrow>
     (\<exists>s. otlp_endpoint args = Some s \<and> trim s \<noteq> []) \<and>
     (protocol_of (otlp_protocol args) = None \<or> (\<exists>e. interval_of var args = Inl e))"
  by (auto simp: resolve_config_def bind_eq_Some_conv split: option.splits sum.splits)

text \<open>
  A gRPC exporter that can be built uses TLS exactly when it is needed, and presents an identity
  exactly when both files are configured: with only one of them it silently presents none. The HTTP
  exporter takes none of the certificate settings.
\<close>

lemma exporter_tls:
  assumes "build_exporter ok_header pem cfg = Inr ex"
  shows "ex_tls ex = None \<longleftrightarrow> protocol cfg = HttpProtobuf \<or> \<not> need_tls cfg"
    and "ex_tls ex = Some tls \<Longrightarrow> tls_identity tls = None \<longleftrightarrow> client_cert_path cfg = None \<or> client_key_path cfg = None"
    and "ex_tls ex = Some tls \<Longrightarrow> tls_ca tls = None \<longleftrightarrow> ca_cert_path cfg = None"
proof -
  show "ex_tls ex = None \<longleftrightarrow> protocol cfg = HttpProtobuf \<or> \<not> need_tls cfg"
    using assms by (auto simp: build_exporter_def Let_def split: OtlpProtocol.splits if_splits sum.splits)
  assume "ex_tls ex = Some tls"
  then have tls: "build_tls_config pem cfg = Inr tls"
    using assms by (auto simp: build_exporter_def Let_def split: OtlpProtocol.splits if_splits sum.splits)
  show "tls_identity tls = None \<longleftrightarrow> client_cert_path cfg = None \<or> client_key_path cfg = None"
    using tls by (auto simp: build_tls_config_def Let_def split: option.splits sum.splits)
  show "tls_ca tls = None \<longleftrightarrow> ca_cert_path cfg = None"
    using tls by (auto simp: build_tls_config_def Let_def split: option.splits sum.splits)
qed

text \<open>User attributes come last, and so win over the defaults.\<close>

lemma resource_attrs_win:
  "(k, v) \<in> set (resource_attrs cfg) \<Longrightarrow>
   map_of (rev (build_resource var version cfg)) k = map_of (rev (resource_attrs cfg)) k"
  by (cases "map_of (rev (resource_attrs cfg)) k")
     (auto simp: build_resource_def map_add_def map_of_eq_None_iff rev_image_eqI split: option.splits)

end
