(* ===== verification/Nvml.thy ===== *)
theory Nvml
  imports RustStrings
begin

text \<open>
  The sampling of GPU hardware (\<^verbatim>\<open>src/src/nvml.rs\<close>). The vendor library is the argument \<open>W\<close>: what
  each of its calls returns at the time of a poll, \<open>None\<close> for an error. The result of a poll is the
  list of updates of the metrics; a value is a quotient of integers. An index out of range panics,
  which is \<open>None\<close>.
\<close>

section \<open>The library\<close>

datatype ThrottleReason =
  GPU_IDLE | SW_POWER_CAP | SW_THERMAL_SLOWDOWN | HW_THERMAL_SLOWDOWN | HW_POWER_BRAKE_SLOWDOWN | SYNC_BOOST | Other_reason nat

record device =
  uuid_reading :: "string option"
  temperature :: "u32 option"
  power_usage :: "u32 option"
  clock_sm :: "u32 option"
  clock_memory :: "u32 option"
  utilization_rates :: "(u32 \<times> u32) option"
  memory_info :: "(u64 \<times> u64 \<times> u64) option"
  ecc_corrected :: "u64 option"
  ecc_uncorrected :: "u64 option"
  throttle_reasons :: "ThrottleReason list option"

record nvml =
  nvml_init :: bool
  nvml_device_count :: "u32 option"
  device_by_index :: "u32 \<Rightarrow> device option"

section \<open>The poller\<close>

record DeviceInfo =
  dev_index :: u32
  dev_uuid :: string
  index_str :: string

text \<open>\<open>prev_ecc\<close> has four counts per device, of which the code uses two.\<close>

record NvmlPoller =
  devices :: "DeviceInfo list"
  prev_ecc :: "u64 list list"

datatype gpu_gauge = Gpu_temperature | Gpu_power | Gpu_clock | Gpu_utilization | Gpu_memory | Gpu_throttle

datatype gpu_op = Set_gauge gpu_gauge "string list" nat nat | Inc_ecc_errors "string list" u64

definition device_info :: "nvml \<Rightarrow> nat \<Rightarrow> DeviceInfo option" where
  "device_info W i =
     (case device_by_index W (of_nat i) of
        None \<Rightarrow> None
      | Some dev \<Rightarrow> Some \<lparr> dev_index = of_nat i,
          dev_uuid = (case uuid_reading dev of Some u \<Rightarrow> u | None \<Rightarrow> ''unknown-'' @ fmt_dec i),
          index_str = fmt_dec i \<rparr>)"

definition new_poller :: "nvml \<Rightarrow> NvmlPoller option" where
  "new_poller W =
     (if \<not> nvml_init W then None
      else case nvml_device_count W of
        None \<Rightarrow> None
      | Some count \<Rightarrow>
          (let ds = List.map_filter (device_info W) [0..<unat count]
           in Some \<lparr> devices = ds, prev_ecc = replicate (length ds) [0, 0, 0, 0] \<rparr>))"

definition on_reading :: "'a option \<Rightarrow> ('a \<Rightarrow> gpu_op list) \<Rightarrow> gpu_op list" where
  "on_reading r f = (case r of None \<Rightarrow> [] | Some x \<Rightarrow> f x)"

definition gauge_ops :: "string \<Rightarrow> string \<Rightarrow> device \<Rightarrow> gpu_op list" where
  "gauge_ops gpu uuid dev =
     on_reading (temperature dev) (\<lambda>temp. [Set_gauge Gpu_temperature [gpu, uuid] (unat temp) 1]) @
     on_reading (power_usage dev) (\<lambda>power_mw. [Set_gauge Gpu_power [gpu, uuid] (unat power_mw) 1000]) @
     on_reading (clock_sm dev) (\<lambda>sm. [Set_gauge Gpu_clock [gpu, uuid, ''sm''] (unat sm) 1]) @
     on_reading (clock_memory dev) (\<lambda>mem. [Set_gauge Gpu_clock [gpu, uuid, ''mem''] (unat mem) 1]) @
     on_reading (utilization_rates dev) (\<lambda>(util_gpu, util_memory).
       [Set_gauge Gpu_utilization [gpu, uuid, ''gpu''] (unat util_gpu) 100,
        Set_gauge Gpu_utilization [gpu, uuid, ''memory''] (unat util_memory) 100]) @
     on_reading (memory_info dev) (\<lambda>(used, free, total_memory).
       [Set_gauge Gpu_memory [gpu, uuid, ''used''] (unat used) 1,
        Set_gauge Gpu_memory [gpu, uuid, ''free''] (unat free) 1,
        Set_gauge Gpu_memory [gpu, uuid, ''total''] (unat total_memory) 1])"

definition throttle_ops :: "string \<Rightarrow> string \<Rightarrow> device \<Rightarrow> gpu_op list" where
  "throttle_ops gpu uuid dev =
     on_reading (throttle_reasons dev) (\<lambda>reasons.
       map (\<lambda>(label, flag). Set_gauge Gpu_throttle [gpu, uuid, label] (if flag \<in> set reasons then 1 else 0) 1)
         [(''idle'', GPU_IDLE), (''power'', SW_POWER_CAP), (''thermal'', SW_THERMAL_SLOWDOWN),
          (''hw_thermal'', HW_THERMAL_SLOWDOWN), (''hw_power'', HW_POWER_BRAKE_SLOWDOWN),
          (''sync_boost'', SYNC_BOOST)])"

definition ecc_update ::
    "string \<Rightarrow> string \<Rightarrow> nat \<Rightarrow> u64 option \<times> string \<times> nat \<Rightarrow> u64 list list \<Rightarrow> (gpu_op list \<times> u64 list list) option" where
  "ecc_update gpu uuid dev_idx = (\<lambda>(reading, type_label, ecc_idx) prevs.
     (case reading of
        None \<Rightarrow> Some ([], prevs)
      | Some count \<Rightarrow>
          if dev_idx < length prevs \<and> ecc_idx < length (prevs ! dev_idx)
          then (let prev = prevs ! dev_idx ! ecc_idx
                in Some (if count > prev then [Inc_ecc_errors [gpu, uuid, type_label, ''all''] (count - prev)] else [],
                         prevs[dev_idx := (prevs ! dev_idx)[ecc_idx := count]]))
          else None))"

definition poll_device :: "nvml \<Rightarrow> nat \<Rightarrow> NvmlPoller \<Rightarrow> (gpu_op list \<times> NvmlPoller) option" where
  "poll_device W dev_idx p =
     (let info = devices p ! dev_idx; gpu = index_str info; uuid = dev_uuid info
      in case device_by_index W (dev_index info) of
           None \<Rightarrow> Some ([], p)
         | Some dev \<Rightarrow>
             (case ecc_update gpu uuid dev_idx (ecc_corrected dev, ''corrected'', 0) (prev_ecc p) of
                None \<Rightarrow> None
              | Some (ops1, prevs1) \<Rightarrow>
                  (case ecc_update gpu uuid dev_idx (ecc_uncorrected dev, ''uncorrected'', 1) prevs1 of
                     None \<Rightarrow> None
                   | Some (ops2, prevs2) \<Rightarrow>
                       Some (gauge_ops gpu uuid dev @ ops1 @ ops2 @ throttle_ops gpu uuid dev,
                             p\<lparr> prev_ecc := prevs2 \<rparr>))))"

fun poll_from :: "nvml \<Rightarrow> nat list \<Rightarrow> NvmlPoller \<Rightarrow> (gpu_op list \<times> NvmlPoller) option" where
  "poll_from W [] p = Some ([], p)"
| "poll_from W (dev_idx # idxs) p =
     (case poll_device W dev_idx p of
        None \<Rightarrow> None
      | Some (ops, p1) \<Rightarrow> map_option (\<lambda>(ops', p2). (ops @ ops', p2)) (poll_from W idxs p1))"

definition poll :: "nvml \<Rightarrow> NvmlPoller \<Rightarrow> (gpu_op list \<times> NvmlPoller) option" where
  "poll W p = poll_from W [0..<length (devices p)] p"

text \<open>The task that polls, through any sequence of states of the library.\<close>

fun polls :: "nvml list \<Rightarrow> NvmlPoller \<Rightarrow> (gpu_op list \<times> NvmlPoller) option" where
  "polls [] p = Some ([], p)"
| "polls (W # Ws) p =
     (case poll W p of
        None \<Rightarrow> None
      | Some (ops, p1) \<Rightarrow> map_option (\<lambda>(ops', p2). (ops @ ops', p2)) (polls Ws p1))"

section \<open>Error counters\<close>

text \<open>The value that a sequence of updates gives the counter of some labels.\<close>

definition ecc_counter :: "gpu_op list \<Rightarrow> string list \<Rightarrow> u64" where
  "ecc_counter ops labels =
     sum_list (map (\<lambda>op. case op of Inc_ecc_errors l n \<Rightarrow> if l = labels then n else 0 | _ \<Rightarrow> 0) ops)"

definition ecc_labels :: "DeviceInfo \<Rightarrow> bool \<Rightarrow> string list" where
  "ecc_labels info uncorrected =
     [index_str info, dev_uuid info, if uncorrected then ''uncorrected'' else ''corrected'', ''all'']"

definition ecc_reading :: "DeviceInfo \<Rightarrow> bool \<Rightarrow> nvml \<Rightarrow> u64 option" where
  "ecc_reading info uncorrected W =
     Option.bind (device_by_index W (dev_index info)) (if uncorrected then ecc_uncorrected else ecc_corrected)"

definition gain :: "u64 \<Rightarrow> u64 option \<Rightarrow> u64" where
  "gain old r = (case r of None \<Rightarrow> 0 | Some n \<Rightarrow> if n > old then n - old else 0)"

definition latest :: "u64 \<Rightarrow> u64 option \<Rightarrow> u64" where
  "latest old r = (case r of None \<Rightarrow> old | Some n \<Rightarrow> n)"

definition prev_at :: "NvmlPoller \<Rightarrow> nat \<Rightarrow> bool \<Rightarrow> u64" where
  "prev_at p d uncorrected = prev_ecc p ! d ! (if uncorrected then 1 else 0)"

text \<open>Devices have different names, and every device has its four counts.\<close>

definition poller_ok :: "NvmlPoller \<Rightarrow> bool" where
  "poller_ok p \<longleftrightarrow> distinct (map index_str (devices p)) \<and> length (prev_ecc p) = length (devices p) \<and>
     list_all (\<lambda>row. length row = 4) (prev_ecc p)"

lemma ecc_counter_append: "ecc_counter (ops @ ops') labels = ecc_counter ops labels + ecc_counter ops' labels"
  by (simp add: ecc_counter_def)

lemma ecc_counter_no_inc: "list_all (\<lambda>op. \<exists>g l n d. op = Set_gauge g l n d) ops \<Longrightarrow> ecc_counter ops labels = 0"
  by (induction ops) (auto simp: ecc_counter_def)

lemma gauge_ops_no_inc: "ecc_counter (gauge_ops gpu uuid dev) labels = 0"
  by (rule ecc_counter_no_inc) (auto simp: gauge_ops_def on_reading_def split: option.splits)

lemma throttle_ops_no_inc: "ecc_counter (throttle_ops gpu uuid dev) labels = 0"
  by (rule ecc_counter_no_inc) (auto simp: throttle_ops_def on_reading_def split: option.splits)

lemma ecc_update_ok:
  assumes "d < length prevs" "j < length (prevs ! d)"
  shows "\<exists>ops. ecc_update gpu uuid d (r, label, j) prevs = Some (ops, prevs[d := (prevs ! d)[j := latest (prevs ! d ! j) r]]) \<and>
    (\<forall>labels. ecc_counter ops labels = (if labels = [gpu, uuid, label, ''all''] then gain (prevs ! d ! j) r else 0))"
  using assms by (cases r) (auto simp: ecc_update_def Let_def gain_def latest_def ecc_counter_def)

text \<open>One device: its counters gain what its readings exceed the last ones by, all others nothing.\<close>

definition poll_effect :: "nvml \<Rightarrow> nat set \<Rightarrow> NvmlPoller \<Rightarrow> gpu_op list \<Rightarrow> NvmlPoller \<Rightarrow> bool" where
  "poll_effect W ds p ops p' \<longleftrightarrow> devices p' = devices p \<and> poller_ok p' \<and>
     (\<forall>d u. d < length (devices p) \<longrightarrow>
        prev_at p' d u = (if d \<in> ds then latest (prev_at p d u) (ecc_reading (devices p ! d) u W) else prev_at p d u) \<and>
        ecc_counter ops (ecc_labels (devices p ! d) u) =
          (if d \<in> ds then gain (prev_at p d u) (ecc_reading (devices p ! d) u W) else 0))"

lemma poll_device_effect:
  assumes "poller_ok p" "d < length (devices p)"
  shows "\<exists>ops p'. poll_device W d p = Some (ops, p') \<and> poll_effect W {d} p ops p'"
proof (cases "device_by_index W (dev_index (devices p ! d))")
  case None
  then show ?thesis
    using assms by (auto simp: poll_device_def poll_effect_def ecc_reading_def latest_def gain_def ecc_counter_def Let_def)
next
  case (Some dev)
  let ?gpu = "index_str (devices p ! d)" and ?uuid = "dev_uuid (devices p ! d)" and ?prevs = "prev_ecc p"
  have d: "d < length ?prevs" and row: "length (?prevs ! d) = 4"
    using assms by (auto simp: poller_ok_def list_all_length)
  define prevs1 where "prevs1 = ?prevs[d := (?prevs ! d)[0 := latest (?prevs ! d ! 0) (ecc_corrected dev)]]"
  define prevs2 where "prevs2 = prevs1[d := (prevs1 ! d)[1 := latest (prevs1 ! d ! 1) (ecc_uncorrected dev)]]"
  obtain ops1 where u1: "ecc_update ?gpu ?uuid d (ecc_corrected dev, ''corrected'', 0) ?prevs = Some (ops1, prevs1)"
    and c1: "\<And>labels. ecc_counter ops1 labels =
      (if labels = [?gpu, ?uuid, ''corrected'', ''all''] then gain (?prevs ! d ! 0) (ecc_corrected dev) else 0)"
    using ecc_update_ok [of d ?prevs 0] d row unfolding prevs1_def by fastforce
  have d1: "d < length prevs1" and row1: "length (prevs1 ! d) = 4" "prevs1 ! d ! 1 = ?prevs ! d ! 1"
    using d row by (simp_all add: prevs1_def)
  obtain ops2 where u2: "ecc_update ?gpu ?uuid d (ecc_uncorrected dev, ''uncorrected'', 1) prevs1 = Some (ops2, prevs2)"
    and c2: "\<And>labels. ecc_counter ops2 labels =
      (if labels = [?gpu, ?uuid, ''uncorrected'', ''all''] then gain (?prevs ! d ! 1) (ecc_uncorrected dev) else 0)"
    using ecc_update_ok [of d prevs1 1] d1 row1 unfolding prevs2_def by fastforce
  let ?ops = "gauge_ops ?gpu ?uuid dev @ ops1 @ ops2 @ throttle_ops ?gpu ?uuid dev"
  have "poll_device W d p = Some (?ops, p\<lparr> prev_ecc := prevs2 \<rparr>)"
    using Some u1 u2 by (simp add: poll_device_def Let_def)
  moreover have "poller_ok (p\<lparr> prev_ecc := prevs2 \<rparr>)"
    using assms row1(1) row d by (auto simp: poller_ok_def prevs1_def prevs2_def list_all_length nth_list_update)
  moreover have "prev_at (p\<lparr> prev_ecc := prevs2 \<rparr>) e u =
      (if e = d then latest (prev_at p e u) (ecc_reading (devices p ! e) u W) else prev_at p e u)" for e u
    using d row Some by (simp add: prev_at_def prevs1_def prevs2_def ecc_reading_def nth_list_update)
  moreover have "ecc_counter ?ops (ecc_labels (devices p ! e) u) =
      (if e = d then gain (prev_at p e u) (ecc_reading (devices p ! e) u W) else 0)"
    if "e < length (devices p)" for e u
  proof -
    have "index_str (devices p ! e) = ?gpu \<longleftrightarrow> e = d"
      using assms that by (auto simp: poller_ok_def distinct_conv_nth)
    then show ?thesis
      using Some by (auto simp: ecc_counter_append gauge_ops_no_inc throttle_ops_no_inc c1 c2 ecc_labels_def
          prev_at_def ecc_reading_def)
  qed
  ultimately show ?thesis unfolding poll_effect_def by simp
qed

lemma poll_from_effect:
  assumes "poller_ok p" "distinct idxs" "set idxs \<subseteq> {0..<length (devices p)}"
  shows "\<exists>ops p'. poll_from W idxs p = Some (ops, p') \<and> poll_effect W (set idxs) p ops p'"
  using assms
proof (induction idxs arbitrary: p)
  case Nil
  then show ?case by (simp add: poll_effect_def ecc_counter_def)
next
  case (Cons d idxs)
  obtain ops p1 where p1: "poll_device W d p = Some (ops, p1)" "poll_effect W {d} p ops p1"
    using poll_device_effect Cons.prems by fastforce
  then have same: "devices p1 = devices p" "poller_ok p1" by (simp_all add: poll_effect_def)
  then obtain ops' p2 where p2: "poll_from W idxs p1 = Some (ops', p2)" "poll_effect W (set idxs) p1 ops' p2"
    using Cons by fastforce
  have "poll_effect W (set (d # idxs)) p (ops @ ops') p2"
    using p1(2) p2(2) same Cons.prems(2) unfolding poll_effect_def by (simp add: ecc_counter_append)
  then show ?case using p1(1) p2(1) by simp
qed

lemma poll_all_effect:
  "poller_ok p \<Longrightarrow> \<exists>ops p'. poll W p = Some (ops, p') \<and> poll_effect W {0..<length (devices p)} p ops p'"
  using poll_from_effect [of p "[0..<length (devices p)]" W] by (simp add: poll_def)

definition readings :: "DeviceInfo \<Rightarrow> bool \<Rightarrow> nvml list \<Rightarrow> u64 list" where
  "readings info u Ws = List.map_filter (ecc_reading info u) Ws"

lemma polls_counter:
  assumes "poller_ok p" "d < length (devices p)" "sorted (prev_at p d u # readings (devices p ! d) u Ws)"
  shows "\<exists>ops p'. polls Ws p = Some (ops, p') \<and>
    ecc_counter ops (ecc_labels (devices p ! d) u) =
      last (prev_at p d u # readings (devices p ! d) u Ws) - prev_at p d u"
  using assms
proof (induction Ws arbitrary: p)
  case Nil
  then show ?case by (simp add: ecc_counter_def readings_def map_filter_simps)
next
  case (Cons W Ws)
  obtain ops p1 where p1: "poll W p = Some (ops, p1)" "poll_effect W {0..<length (devices p)} p ops p1"
    using poll_all_effect Cons.prems(1) by blast
  let ?r = "ecc_reading (devices p ! d) u W"
  have same: "devices p1 = devices p" "poller_ok p1" and prev: "prev_at p1 d u = latest (prev_at p d u) ?r"
    and c: "ecc_counter ops (ecc_labels (devices p ! d) u) = gain (prev_at p d u) ?r"
    using p1(2) Cons.prems(2) by (simp_all add: poll_effect_def)
  have "sorted (prev_at p1 d u # readings (devices p1 ! d) u Ws)"
    using Cons.prems(3) by (cases ?r) (simp_all add: prev same readings_def map_filter_simps latest_def)
  then obtain ops' p2 where p2: "polls Ws p1 = Some (ops', p2)"
    "ecc_counter ops' (ecc_labels (devices p ! d) u) = last (prev_at p1 d u # readings (devices p ! d) u Ws) - prev_at p1 d u"
    using Cons.IH [of p1] same Cons.prems(2) by auto
  have "gain (prev_at p d u) ?r + (last (prev_at p1 d u # readings (devices p ! d) u Ws) - prev_at p1 d u) =
    last (prev_at p d u # readings (devices p ! d) u (W # Ws)) - prev_at p d u"
    using Cons.prems(3) by (cases ?r) (auto simp: prev readings_def map_filter_simps latest_def gain_def)
  then show ?case using p1(1) p2 c by (simp add: ecc_counter_append)
qed

lemma map_filter_index_str:
  "map index_str (List.map_filter (device_info W) is) = map fmt_dec (filter (\<lambda>i. device_info W i \<noteq> None) is)"
  by (induction "is") (auto simp: map_filter_simps device_info_def split: option.splits)

lemma new_poller_ok:
  assumes "new_poller W = Some p"
  shows "poller_ok p" and "d < length (devices p) \<Longrightarrow> prev_at p d u = 0"
proof -
  obtain n where p: "p = \<lparr> devices = List.map_filter (device_info W) [0..<n],
      prev_ecc = replicate (length (List.map_filter (device_info W) [0..<n])) [0, 0, 0, 0] \<rparr>"
    using assms by (auto simp: new_poller_def Let_def split: if_splits option.splits)
  have "inj fmt_dec" by (auto simp: inj_def fmt_dec_def to_base_inject)
  then have "distinct (map fmt_dec is) = distinct is" for "is"
    by (simp add: distinct_map inj_on_subset [of fmt_dec UNIV])
  then show "poller_ok p" by (simp add: p poller_ok_def map_filter_index_str list_all_length)
  show "prev_at p d u = 0" if "d < length (devices p)"
    using that by (simp add: p prev_at_def)
qed

text \<open>
  C32. Memory errors are counted once. From the start of the poller and through any sequence of polls
  polling does not panic, and as long as the counts the driver reports for a device and kind of
  error do not decrease, the exported counter of the device and kind is the last count that
  could be read: failed readings of this device and errors of other devices do not matter.
\<close>

theorem ecc_errors_exact:
  assumes "new_poller W = Some p" and "d < length (devices p)" and "sorted (readings (devices p ! d) u Ws)"
  shows "\<exists>ops p'. polls Ws p = Some (ops, p') \<and>
    ecc_counter ops (ecc_labels (devices p ! d) u) = last (0 # readings (devices p ! d) u Ws)"
proof -
  have "sorted (prev_at p d u # readings (devices p ! d) u Ws)"
    using assms(3) new_poller_ok(2) [OF assms(1,2)] by simp
  from polls_counter [OF new_poller_ok(1) [OF assms(1)] assms(2) this]
  show ?thesis using new_poller_ok(2) [OF assms(1,2)] by simp
qed

text \<open>Non-vacuity: two devices, of which one cannot be read at the second poll.\<close>

definition ex_device :: "u64 \<Rightarrow> device" where
  "ex_device n = \<lparr> uuid_reading = Some ''GPU-a'', temperature = Some 60, power_usage = None, clock_sm = None,
     clock_memory = None, utilization_rates = Some (90, 10), memory_info = None, ecc_corrected = Some n,
     ecc_uncorrected = Some 0, throttle_reasons = Some [SW_POWER_CAP] \<rparr>"

definition ex_nvml :: "u64 option \<Rightarrow> u64 \<Rightarrow> nvml" where
  "ex_nvml a b = \<lparr> nvml_init = True, nvml_device_count = Some 2,
     device_by_index = (\<lambda>i. if i = 0 then map_option ex_device a else Some (ex_device b)) \<rparr>"

definition ex_poller :: NvmlPoller where
  "ex_poller = \<lparr> devices = [\<lparr> dev_index = 0, dev_uuid = ''GPU-a'', index_str = ''0'' \<rparr>,
     \<lparr> dev_index = 1, dev_uuid = ''GPU-a'', index_str = ''1'' \<rparr>], prev_ecc = [[0, 0, 0, 0], [0, 0, 0, 0]] \<rparr>"

lemma ex_poller_new: "new_poller (ex_nvml (Some 0) 0) = Some ex_poller"
  by code_simp

theorem ecc_errors_exact_witness:
  "map_option (\<lambda>(ops, p'). ecc_counter ops [''0'', ''GPU-a'', ''corrected'', ''all''])
     (polls [ex_nvml (Some 2) 5, ex_nvml None 6, ex_nvml (Some 4) 6] ex_poller) = Some 4"
proof -
  have "0 < length (devices ex_poller)" "sorted (readings (devices ex_poller ! 0) False
      [ex_nvml (Some 2) 5, ex_nvml None 6, ex_nvml (Some 4) 6])"
    by code_simp+
  from ecc_errors_exact [OF ex_poller_new this]
  obtain ops p' where ops: "polls [ex_nvml (Some 2) 5, ex_nvml None 6, ex_nvml (Some 4) 6] ex_poller = Some (ops, p')"
    "ecc_counter ops (ecc_labels (devices ex_poller ! 0) False) =
      last (0 # readings (devices ex_poller ! 0) False [ex_nvml (Some 2) 5, ex_nvml None 6, ex_nvml (Some 4) 6])"
    by blast
  moreover have "ecc_labels (devices ex_poller ! 0) False = [''0'', ''GPU-a'', ''corrected'', ''all'']"
    "last (0 # readings (devices ex_poller ! 0) False [ex_nvml (Some 2) 5, ex_nvml None 6, ex_nvml (Some 4) 6]) = 4"
    by code_simp+
  ultimately show ?thesis by simp
qed

text \<open>
  When the driver starts counting anew, the errors between its start and the next poll are not counted:
  five errors, and three more after a reload, are exported as five.
\<close>

lemma reload_loses_errors:
  "map_option (\<lambda>(ops, p'). ecc_counter ops [''0'', ''GPU-a'', ''corrected'', ''all''])
     (polls [ex_nvml (Some 5) 0, ex_nvml (Some 3) 0] ex_poller) = Some 5"
  by code_simp

end
