(* ===== verification/Registry.thy ===== *)
theory Registry
  imports LoopFacts Nvml Otlp Enrichment
begin

text \<open>
  The registry of \<^verbatim>\<open>src/src/metrics.rs\<close>: the families that \<^verbatim>\<open>Metrics::new\<close> creates and registers,
  with their label names. The metrics library refuses a second family of the same name, and
  panics when a series is asked for with another number of label values than the family
  has label names.
\<close>

section \<open>Families\<close>

datatype metric_kind = Counter_metric | Gauge_metric | Histogram_metric

definition COUNTER_LABELS :: "string list" where
  "COUNTER_LABELS = [''operation'', ''pid'', ''comm'', ''namespace'', ''pod'', ''container'', ''gpu'',
     ''gpu_uuid'', ''stream'']"

definition HIST_LABELS :: "string list" where
  "HIST_LABELS = [''operation'', ''namespace'', ''pod'', ''gpu'']"

definition HIST_BUCKET_LABELS :: "string list" where
  "HIST_BUCKET_LABELS = [''operation'', ''namespace'', ''pod'', ''gpu'', ''le'']"

definition MEMCPY_COUNTER_LABELS :: "string list" where
  "MEMCPY_COUNTER_LABELS = [''direction'', ''pid'', ''comm'', ''namespace'', ''pod'', ''container'',
     ''gpu'', ''gpu_uuid'', ''stream'']"

definition MALLOC_LABELS :: "string list" where
  "MALLOC_LABELS = [''pid'', ''comm'', ''namespace'', ''pod'', ''container'', ''gpu'', ''gpu_uuid'']"

definition NCCL_COUNTER_LABELS :: "string list" where
  "NCCL_COUNTER_LABELS = [''operation'', ''pid'', ''comm'', ''namespace'', ''pod'', ''container'',
     ''gpu'', ''gpu_uuid'']"

definition NCCL_HIST_LABELS :: "string list" where
  "NCCL_HIST_LABELS = [''operation'', ''namespace'', ''pod'', ''gpu'']"

definition NCCL_HIST_BUCKET_LABELS :: "string list" where
  "NCCL_HIST_BUCKET_LABELS = [''operation'', ''namespace'', ''pod'', ''gpu'', ''le'']"

definition NCCL_BYTES_LABELS :: "string list" where
  "NCCL_BYTES_LABELS = [''operation'', ''pid'', ''comm'', ''namespace'', ''pod'', ''container'',
     ''gpu'', ''gpu_uuid'']"

definition KERNEL_COUNTER_LABELS :: "string list" where
  "KERNEL_COUNTER_LABELS = [''kernel'', ''pid'', ''comm'', ''namespace'', ''pod'', ''container'',
     ''gpu'', ''gpu_uuid'', ''kernel_class'', ''phase'']"

definition KERNEL_HIST_LABELS :: "string list" where
  "KERNEL_HIST_LABELS = [''kernel'', ''namespace'', ''pod'', ''gpu'', ''kernel_class'', ''phase'']"

definition KERNEL_HIST_BUCKET_LABELS :: "string list" where
  "KERNEL_HIST_BUCKET_LABELS = [''kernel'', ''namespace'', ''pod'', ''gpu'', ''kernel_class'',
     ''phase'', ''le'']"

definition ERROR_LABELS :: "string list" where
  "ERROR_LABELS = [''operation'', ''pid'', ''comm'', ''namespace'', ''pod'', ''container'', ''gpu'',
     ''gpu_uuid'', ''error_code'']"

definition ACTIVE_MEM_LABELS :: "string list" where
  "ACTIVE_MEM_LABELS = [''pid'', ''comm'', ''namespace'', ''pod'', ''container'', ''gpu'',
     ''gpu_uuid'']"

text \<open>
  The fields of the struct: those of the main loop, the hardware gauges, and the rest. \<open>declared\<close> is
  the family a field is created with.
\<close>

datatype metric = Of_loop family | Of_gpu gpu_gauge | Cuda_active_memory | Gpu_info | Tracked_pids
  | Dropped_events | Discovery_scan_duration | Discovery_attached_libs | Event_loop_duration
  | Agg_drain_duration | Handle_cache_size | Encode_duration | Uptime | Cardinality_drops
  | Ring_buffer_drops_rate | Launch_agg_drops | Gpu_ecc_errors | Nccl_stale_entries
  | Http_auth_success | Http_auth_failures | Http_tokenreview_cache | Http_tokenreview_latency
  | Http_tls_handshakes

primrec declared_loop :: "family \<Rightarrow> string \<times> metric_kind \<times> string list" where
  "declared_loop Cuda_calls =
     (''profi_cuda_calls_total'', Counter_metric, COUNTER_LABELS)"
| "declared_loop Cuda_duration =
     (''profi_cuda_duration_seconds'', Histogram_metric, HIST_LABELS)"
| "declared_loop Cuda_duration_bucket_total =
     (''profi_cuda_duration_bucket_total'', Counter_metric, HIST_BUCKET_LABELS)"
| "declared_loop Cuda_duration_sum_seconds_total =
     (''profi_cuda_duration_sum_seconds_total'', Counter_metric, HIST_LABELS)"
| "declared_loop Cuda_duration_count_total =
     (''profi_cuda_duration_count_total'', Counter_metric, HIST_LABELS)"
| "declared_loop Cuda_memcpy_bytes =
     (''profi_cuda_memcpy_bytes_total'', Counter_metric, MEMCPY_COUNTER_LABELS)"
| "declared_loop Cuda_malloc_bytes =
     (''profi_cuda_malloc_bytes_total'', Counter_metric, MALLOC_LABELS)"
| "declared_loop Cuda_errors =
     (''profi_cuda_errors_total'', Counter_metric, ERROR_LABELS)"
| "declared_loop Nccl_calls =
     (''profi_nccl_calls_total'', Counter_metric, NCCL_COUNTER_LABELS)"
| "declared_loop Nccl_duration =
     (''profi_nccl_duration_seconds'', Histogram_metric, NCCL_HIST_LABELS)"
| "declared_loop Nccl_duration_bucket_total =
     (''profi_nccl_duration_bucket_total'', Counter_metric, NCCL_HIST_BUCKET_LABELS)"
| "declared_loop Nccl_duration_sum_seconds_total =
     (''profi_nccl_duration_sum_seconds_total'', Counter_metric, NCCL_HIST_LABELS)"
| "declared_loop Nccl_duration_count_total =
     (''profi_nccl_duration_count_total'', Counter_metric, NCCL_HIST_LABELS)"
| "declared_loop Nccl_bytes =
     (''profi_nccl_bytes_total'', Counter_metric, NCCL_BYTES_LABELS)"
| "declared_loop Cuda_kernel_launches =
     (''profi_cuda_kernel_launches_total'', Counter_metric, KERNEL_COUNTER_LABELS)"
| "declared_loop Cuda_kernel_duration =
     (''profi_cuda_kernel_duration_seconds'', Histogram_metric, KERNEL_HIST_LABELS)"
| "declared_loop Cuda_kernel_duration_bucket_total =
     (''profi_cuda_kernel_duration_bucket_total'', Counter_metric, KERNEL_HIST_BUCKET_LABELS)"
| "declared_loop Cuda_kernel_duration_sum_seconds_total =
     (''profi_cuda_kernel_duration_sum_seconds_total'', Counter_metric, KERNEL_HIST_LABELS)"
| "declared_loop Cuda_kernel_duration_count_total =
     (''profi_cuda_kernel_duration_count_total'', Counter_metric, KERNEL_HIST_LABELS)"
| "declared_loop Kernel_name_resolve_failures =
     (''profi_system_kernel_name_resolve_failures_total'', Counter_metric, [''reason''])"
| "declared_loop Nccl_hang_detected =
     (''profi_nccl_hang_detected_total'', Counter_metric, [''operation'', ''pid''])"
| "declared_loop Nccl_straggler_ratio =
     (''profi_nccl_straggler_ratio'', Gauge_metric, [''pid'', ''gpu'', ''gpu_uuid'', ''operation''])"

primrec declared_gpu :: "gpu_gauge \<Rightarrow> string \<times> metric_kind \<times> string list" where
  "declared_gpu Gpu_temperature =
     (''profi_gpu_temperature_celsius'', Gauge_metric, [''gpu'', ''gpu_uuid''])"
| "declared_gpu Gpu_power =
     (''profi_gpu_power_watts'', Gauge_metric, [''gpu'', ''gpu_uuid''])"
| "declared_gpu Gpu_clock =
     (''profi_gpu_clock_mhz'', Gauge_metric, [''gpu'', ''gpu_uuid'', ''clock_type''])"
| "declared_gpu Gpu_utilization =
     (''profi_gpu_utilization_ratio'', Gauge_metric, [''gpu'', ''gpu_uuid'', ''type''])"
| "declared_gpu Gpu_memory =
     (''profi_gpu_memory_bytes'', Gauge_metric, [''gpu'', ''gpu_uuid'', ''state''])"
| "declared_gpu Gpu_throttle =
     (''profi_gpu_throttle_active'', Gauge_metric, [''gpu'', ''gpu_uuid'', ''reason''])"

primrec declared :: "metric \<Rightarrow> string \<times> metric_kind \<times> string list" where
  "declared (Of_loop f) =
     declared_loop f"
| "declared (Of_gpu g) =
     declared_gpu g"
| "declared Cuda_active_memory =
     (''profi_cuda_active_memory_bytes'', Gauge_metric, ACTIVE_MEM_LABELS)"
| "declared Gpu_info =
     (''profi_gpu_info'', Gauge_metric, [''gpu'', ''gpu_uuid'', ''gpu_model''])"
| "declared Tracked_pids =
     (''profi_tracked_pids'', Gauge_metric, [])"
| "declared Dropped_events =
     (''profi_dropped_events_total'', Counter_metric, [])"
| "declared Discovery_scan_duration =
     (''profi_system_discovery_scan_duration_seconds'', Histogram_metric, [])"
| "declared Discovery_attached_libs =
     (''profi_system_discovery_attached_libraries'', Gauge_metric, [''library''])"
| "declared Event_loop_duration =
     (''profi_system_event_loop_process_duration_seconds'', Histogram_metric, [])"
| "declared Agg_drain_duration =
     (''profi_system_aggregated_map_drain_duration_seconds'', Histogram_metric, [])"
| "declared Handle_cache_size =
     (''profi_system_metric_handle_cache_size'', Gauge_metric, [])"
| "declared Encode_duration =
     (''profi_system_prometheus_encode_duration_seconds'', Histogram_metric, [])"
| "declared Uptime =
     (''profi_system_uptime_seconds'', Gauge_metric, [])"
| "declared Cardinality_drops =
     (''profi_cardinality_limit_drops_total'', Counter_metric, [])"
| "declared Ring_buffer_drops_rate =
     (''profi_system_ring_buffer_drops_rate'', Gauge_metric, [])"
| "declared Launch_agg_drops =
     (''profi_system_launch_agg_drops_total'', Counter_metric, [])"
| "declared Gpu_ecc_errors =
     (''profi_gpu_ecc_errors_total'', Counter_metric, [''gpu'', ''gpu_uuid'', ''error_type'', ''location''])"
| "declared Nccl_stale_entries =
     (''profi_nccl_stale_entries'', Gauge_metric, [])"
| "declared Http_auth_success =
     (''profi_system_http_auth_success_total'', Counter_metric, [''method''])"
| "declared Http_auth_failures =
     (''profi_system_http_auth_failures_total'', Counter_metric, [''reason''])"
| "declared Http_tokenreview_cache =
     (''profi_system_http_tokenreview_cache_total'', Counter_metric, [''result''])"
| "declared Http_tokenreview_latency =
     (''profi_system_http_tokenreview_latency_seconds'', Histogram_metric, [])"
| "declared Http_tls_handshakes =
     (''profi_system_http_tls_handshakes_total'', Counter_metric, [''result''])"

text \<open>In the order of their registration; the families of kernel durations exist in full mode only.\<close>

definition registered :: "bool \<Rightarrow> metric list" where
  "registered full =
     [Of_loop Cuda_calls, Of_loop Cuda_duration, Of_loop Cuda_duration_bucket_total,
      Of_loop Cuda_duration_sum_seconds_total, Of_loop Cuda_duration_count_total,
      Of_loop Cuda_memcpy_bytes, Of_loop Cuda_malloc_bytes, Of_loop Cuda_errors, Cuda_active_memory,
      Of_loop Nccl_calls, Of_loop Nccl_duration, Of_loop Nccl_duration_bucket_total,
      Of_loop Nccl_duration_sum_seconds_total, Of_loop Nccl_duration_count_total, Of_loop Nccl_bytes,
      Of_loop Cuda_kernel_launches] @
     (if full then [Of_loop Cuda_kernel_duration, Of_loop Cuda_kernel_duration_bucket_total,
        Of_loop Cuda_kernel_duration_sum_seconds_total, Of_loop Cuda_kernel_duration_count_total]
      else []) @
     [Gpu_info, Tracked_pids, Dropped_events, Discovery_scan_duration, Discovery_attached_libs,
      Event_loop_duration, Agg_drain_duration, Handle_cache_size, Encode_duration, Uptime,
      Cardinality_drops, Ring_buffer_drops_rate, Of_loop Kernel_name_resolve_failures,
      Launch_agg_drops, Of_gpu Gpu_temperature, Of_gpu Gpu_power, Of_gpu Gpu_clock,
      Of_gpu Gpu_utilization, Of_gpu Gpu_memory, Gpu_ecc_errors, Of_gpu Gpu_throttle,
      Of_loop Nccl_hang_detected, Nccl_stale_entries, Of_loop Nccl_straggler_ratio, Http_auth_success,
      Http_auth_failures, Http_tokenreview_cache, Http_tokenreview_latency, Http_tls_handshakes]"

text \<open>The series of \<^verbatim>\<open>publish_gpu_info\<close>, each set to 1.\<close>

definition publish_gpu_info :: "GpuDevice list \<Rightarrow> (metric \<times> string list) list" where
  "publish_gpu_info devs =
     map (\<lambda>dev. (Gpu_info, [fmt_dec (unat (g_index dev)), g_uuid dev, g_name dev])) devs"

section \<open>Series\<close>

definition label_names :: "metric \<Rightarrow> string list" where
  "label_names m = snd (snd (declared m))"

text \<open>A series can be asked for: its family is registered and takes so many values.\<close>

definition series_ok :: "bool \<Rightarrow> metric \<times> string list \<Rightarrow> bool" where
  "series_ok full = (\<lambda>(m, values). m \<in> set (registered full) \<and> length values = length (label_names m))"

fun op_series :: "metric_op \<Rightarrow> metric \<times> string list" where
  "op_series (Inc_by f l n) = (Of_loop f, l)"
| "op_series (Observe_ns f l n) = (Of_loop f, l)"
| "op_series (Inc_by_ns f l n) = (Of_loop f, l)"
| "op_series (Set_ratio f l n d) = (Of_loop f, l)"
| "op_series (Remove f l) = (Of_loop f, l)"

fun gpu_series :: "gpu_op \<Rightarrow> metric \<times> string list" where
  "gpu_series (Set_gauge g l n d) = (Of_gpu g, l)"
| "gpu_series (Inc_ecc_errors l n) = (Gpu_ecc_errors, l)"

lemmas label_defs = COUNTER_LABELS_def HIST_LABELS_def HIST_BUCKET_LABELS_def MEMCPY_COUNTER_LABELS_def MALLOC_LABELS_def
  NCCL_COUNTER_LABELS_def NCCL_HIST_LABELS_def NCCL_HIST_BUCKET_LABELS_def NCCL_BYTES_LABELS_def
  KERNEL_COUNTER_LABELS_def KERNEL_HIST_LABELS_def KERNEL_HIST_BUCKET_LABELS_def ERROR_LABELS_def ACTIVE_MEM_LABELS_def

lemma series_ok_loop [simp]:
  "series_ok full (Of_loop Cuda_calls, l) \<longleftrightarrow> length l = 9"
  "series_ok full (Of_loop Cuda_duration, l) \<longleftrightarrow> length l = 4"
  "series_ok full (Of_loop Cuda_duration_bucket_total, l) \<longleftrightarrow> length l = 5"
  "series_ok full (Of_loop Cuda_duration_sum_seconds_total, l) \<longleftrightarrow> length l = 4"
  "series_ok full (Of_loop Cuda_duration_count_total, l) \<longleftrightarrow> length l = 4"
  "series_ok full (Of_loop Cuda_memcpy_bytes, l) \<longleftrightarrow> length l = 9"
  "series_ok full (Of_loop Cuda_malloc_bytes, l) \<longleftrightarrow> length l = 7"
  "series_ok full (Of_loop Cuda_errors, l) \<longleftrightarrow> length l = 9"
  "series_ok full (Of_loop Nccl_calls, l) \<longleftrightarrow> length l = 8"
  "series_ok full (Of_loop Nccl_duration, l) \<longleftrightarrow> length l = 4"
  "series_ok full (Of_loop Nccl_duration_bucket_total, l) \<longleftrightarrow> length l = 5"
  "series_ok full (Of_loop Nccl_duration_sum_seconds_total, l) \<longleftrightarrow> length l = 4"
  "series_ok full (Of_loop Nccl_duration_count_total, l) \<longleftrightarrow> length l = 4"
  "series_ok full (Of_loop Nccl_bytes, l) \<longleftrightarrow> length l = 8"
  "series_ok full (Of_loop Cuda_kernel_launches, l) \<longleftrightarrow> length l = 10"
  "series_ok full (Of_loop Cuda_kernel_duration, l) \<longleftrightarrow> full \<and> length l = 6"
  "series_ok full (Of_loop Cuda_kernel_duration_bucket_total, l) \<longleftrightarrow> full \<and> length l = 7"
  "series_ok full (Of_loop Cuda_kernel_duration_sum_seconds_total, l) \<longleftrightarrow> full \<and> length l = 6"
  "series_ok full (Of_loop Cuda_kernel_duration_count_total, l) \<longleftrightarrow> full \<and> length l = 6"
  "series_ok full (Of_loop Kernel_name_resolve_failures, l) \<longleftrightarrow> length l = 1"
  "series_ok full (Of_loop Nccl_hang_detected, l) \<longleftrightarrow> length l = 2"
  "series_ok full (Of_loop Nccl_straggler_ratio, l) \<longleftrightarrow> length l = 4"
  by (simp_all add: series_ok_def registered_def label_names_def label_defs eval_nat_numeral)

lemma series_ok_gpu [simp]:
  "series_ok full (Of_gpu Gpu_temperature, l) \<longleftrightarrow> length l = 2"
  "series_ok full (Of_gpu Gpu_power, l) \<longleftrightarrow> length l = 2"
  "series_ok full (Of_gpu Gpu_clock, l) \<longleftrightarrow> length l = 3"
  "series_ok full (Of_gpu Gpu_utilization, l) \<longleftrightarrow> length l = 3"
  "series_ok full (Of_gpu Gpu_memory, l) \<longleftrightarrow> length l = 3"
  "series_ok full (Of_gpu Gpu_throttle, l) \<longleftrightarrow> length l = 3"
  "series_ok full (Gpu_ecc_errors, l) \<longleftrightarrow> length l = 4"
  "series_ok full (Gpu_info, l) \<longleftrightarrow> length l = 3"
  by (simp_all add: series_ok_def registered_def label_names_def eval_nat_numeral)

section \<open>Label values of the main loop\<close>

text \<open>The label vectors of a handle have the lengths of their families.\<close>

definition handle_ok :: "bool \<Rightarrow> bool \<Rightarrow> CachedHandles \<Rightarrow> bool" where
  "handle_ok full nccl h \<longleftrightarrow>
     (nccl_bytes_labels h \<noteq> None \<longleftrightarrow> nccl) \<and>
     length (calls_labels h) = (if nccl then 8 else 9) \<and> length (hist_labels h) = 4 \<and>
     (\<forall>l. memcpy_labels h = Some l \<longrightarrow> length l = 9) \<and> (\<forall>l. malloc_labels h = Some l \<longrightarrow> length l = 7) \<and>
     (\<forall>l. nccl_bytes_labels h = Some l \<longrightarrow> length l = 8) \<and>
     (\<forall>l. kernel_counter_labels h = Some l \<longrightarrow> length l = 10) \<and>
     (\<forall>l. kernel_hist_labels h = Some l \<longrightarrow> full \<and> length l = 6) \<and>
     (\<forall>l. errors_labels h = Some l \<longrightarrow> length l = 9)"

lemma length_process_labels [simp]: "length (process_labels event labels) = 7"
  by (simp add: process_labels_def)

lemma create_handle_ok:
  "handle_ok full (profi_is_nccl_event (key_type key)) (create_handle full kn labels event key)"
proof -
  obtain t pid mk ec stream addr nk where key: "key = (t, pid, mk, ec, stream, addr, nk)" by (cases key)
  note create = create_handle_def [of full kn labels event key, unfolded key Let_def prod.case]
  show ?thesis
  proof (cases "profi_is_nccl_event t")
    case True
    then show ?thesis by (simp only: handle_ok_def key key_type.simps create if_True CachedHandles.simps) simp
  next
    case False
    have optional: "(if c then Some x else None) = Some l \<longleftrightarrow> c \<and> l = x" for c and x l :: "string list"
      by auto
    show ?thesis
      using False by (simp only: handle_ok_def key key_type.simps create if_False CachedHandles.simps optional) simp
  qed
qed

definition ops_ok :: "bool \<Rightarrow> metric_op list \<Rightarrow> bool" where
  "ops_ok full ops \<longleftrightarrow> list_all (\<lambda>op. series_ok full (op_series op)) ops"

lemma ops_ok_simps [simp]:
  "ops_ok full []"
  "ops_ok full (op # ops) \<longleftrightarrow> series_ok full (op_series op) \<and> ops_ok full ops"
  "ops_ok full (ops @ ops') \<longleftrightarrow> ops_ok full ops \<and> ops_ok full ops'"
  by (simp_all add: ops_ok_def)

lemma ops_ok_optional:
  "(\<And>l. labels = Some l \<Longrightarrow> series_ok full (op_series (f l))) \<Longrightarrow> ops_ok full (if_present labels f)"
  "(\<And>l. labels = Some l \<Longrightarrow> series_ok full (Of_loop g, l)) \<Longrightarrow> ops_ok full (bytes_ops g labels n)"
  by (auto simp: if_present_def bytes_ops_def split: option.splits)

lemma bucket_ops_ok:
  assumes "\<And>x. series_ok full (Of_loop b, labels @ [x])"
    and "series_ok full (Of_loop s, labels)" "series_ok full (Of_loop c, labels)"
  shows "ops_ok full (bucket_ops b s c labels le t)"
  using assms by (auto simp: bucket_ops_def ops_ok_def list_all_iff)

lemma handle_ops_ok:
  assumes "handle_ok full nccl h"
  shows "ops_ok full (event_ops event h)" "ops_ok full (agg_ops t h)" "ops_ok full (launch_ops t h)"
    "ops_ok full (nccl_ops t h)"
proof -
  have calls: "series_ok full (Of_loop (calls_family h), calls_labels h)"
    "series_ok full (Of_loop (duration_family h), hist_labels h)"
    using assms by (auto simp: handle_ok_def calls_family_def duration_family_def)
  have full if "kernel_hist_labels h \<noteq> None" using assms that by (auto simp: handle_ok_def)
  then have kernel: "ops_ok full (case kernel_hist_labels h of None \<Rightarrow> []
      | Some l \<Rightarrow> bucket_ops Cuda_kernel_duration_bucket_total Cuda_kernel_duration_sum_seconds_total
          Cuda_kernel_duration_count_total l CUDA_KERNEL_DURATION_BUCKET_LE t)"
    "kernel_hist_labels h = Some l \<Longrightarrow> series_ok full (Of_loop Cuda_kernel_duration, l)" for l
    using assms by (auto simp: handle_ok_def split: option.splits intro!: bucket_ops_ok)
  note parts = assms [unfolded handle_ok_def]
  show "ops_ok full (event_ops event h)"
    using calls kernel parts by (auto simp: event_ops_def intro!: ops_ok_optional)
  show "ops_ok full (agg_ops t h)"
    using calls parts by (auto simp: agg_ops_def intro!: ops_ok_optional bucket_ops_ok)
  show "ops_ok full (launch_ops t h)"
    using calls kernel parts by (auto simp: launch_ops_def intro!: ops_ok_optional)
  show "ops_ok full (nccl_ops t h)"
    using calls parts by (auto simp: nccl_ops_def intro!: ops_ok_optional bucket_ops_ok)
qed

lemma remove_handle_ok:
  assumes "handle_ok full (profi_is_nccl_event t) h"
  shows "ops_ok full (map (\<lambda>(f, l). Remove f l) (remove_handle_metrics full t h))"
  using assms
  by (auto simp: remove_handle_metrics_def remove_bucket_counter_values_def handle_ok_def ops_ok_def list_all_iff
      split: option.splits if_splits)

text \<open>The invariant: every cached handle and every operation asked for so far fits the registry.\<close>

definition handles_ok :: "bool \<Rightarrow> MetricHandleCache \<Rightarrow> bool" where
  "handles_ok full c \<longleftrightarrow>
     (\<forall>k \<in> dom (handles c). handle_ok full (profi_is_nccl_event (key_type k)) (the (handles c k)))"

lemma handles_okD: "handles_ok full c \<Longrightarrow> handles c k = Some h \<Longrightarrow> handle_ok full (profi_is_nccl_event (key_type k)) h"
  unfolding handles_ok_def by (metis domI option.sel)

lemma handles_okI: "(\<And>k h. handles c k = Some h \<Longrightarrow> handle_ok full (profi_is_nccl_event (key_type k)) h) \<Longrightarrow> handles_ok full c"
  unfolding handles_ok_def by (metis domD option.sel)

definition labels_ok :: "settings \<Rightarrow> loop_state \<Rightarrow> bool" where
  "labels_ok cfg s \<longleftrightarrow> state_ok cfg s \<and> ops_ok (full_mode cfg) (metric_ops s) \<and>
     handles_ok (full_mode cfg) (cache s)"

lemma labels_okI:
  assumes "labels_ok cfg s" and "state_ok cfg s'" and "metric_ops s' = metric_ops s @ ops" "ops_ok (full_mode cfg) ops"
    and "\<And>k h. handles (cache s') k = Some h \<Longrightarrow> handles (cache s) k = Some h"
  shows "labels_ok cfg s'"
proof -
  have "handles_ok (full_mode cfg) (cache s')"
    using assms(1,5) handles_okD unfolding labels_ok_def by (intro handles_okI) blast
  then show ?thesis using assms by (simp add: labels_ok_def)
qed

lemma state_ok_finite: "state_ok cfg s \<Longrightarrow> finite (dom (handles (cache s)))"
  by (simp add: state_ok_def cache_inv_def)

text \<open>A handle that is used fits, also the one of another key that stands in at the limit.\<close>

lemma use_handle_labels:
  assumes "labels_ok cfg s" and "lists_keys (key_order cfg)" and "ce_pid event = key_pid key"
    and "use_handle cfg event key s = (h, s')"
  shows "labels_ok cfg s'" and "\<exists>nccl. handle_ok (full_mode cfg) nccl h"
proof -
  obtain key' c1 where lk: "limit_key (cardinality_limits cfg) key (cache s) = (key', c1)" by fastforce
  have inv: "cache_inv (cardinality_limits cfg) (cache s)" using assms(1) by (simp add: labels_ok_def state_ok_def)
  note L = limit_key_facts [OF inv lk]
  have listed: "set (key_order cfg (handles c1)) = dom (handles c1)"
    using assms(2) inv L(3) by (simp add: lists_keys_def cache_inv_def)
  let ?new = "create_handle (full_mode cfg) (kernel_names s) (enrich cfg (ce_pid event) (comm_str (read_comm cfg) event)) event key'"
  have old: "handles c1 k = Some h' \<Longrightarrow> handle_ok (full_mode cfg) (profi_is_nccl_event (key_type k)) h'" for k h'
    using assms(1) L(3) handles_okD [of _ "cache s"] by (simp add: labels_ok_def)
  have new: "handle_ok (full_mode cfg) (profi_is_nccl_event (key_type key')) ?new" by (rule create_handle_ok)
  have "metric_ops s' = metric_ops s" using assms(4) by (auto simp: use_handle_def split: prod.splits)
  moreover have "state_ok cfg s'" using state_ok_use_handle [OF _ assms(2-4)] assms(1) by (simp add: labels_ok_def)
  moreover have both: "(\<exists>nccl. handle_ok (full_mode cfg) nccl h) \<and>
      (handles (cache s') = handles c1 \<or> handles (cache s') = (handles c1)(key' \<mapsto> ?new))"
  proof (cases "handles c1 key'")
    case (Some h')
    then show ?thesis
      using assms(4) old [OF Some] lk by (auto simp: use_handle_def get_or_create_def Let_def)
  next
    case None
    show ?thesis
    proof (cases "length (key_order cfg (handles c1)) \<ge> max_time_series (cardinality_limits cfg)")
      case True
      show ?thesis
      proof (cases "find (\<lambda>k. key_pid k = key_pid key') (key_order cfg (handles c1))")
        case None
        then show ?thesis
          using assms(4) new lk True \<open>handles c1 key' = None\<close> by (auto simp: use_handle_def get_or_create_def Let_def)
      next
        case (Some fallback)
        then have "fallback \<in> dom (handles c1)" using listed by (auto simp: find_Some_iff)
        then obtain h' where h': "handles c1 fallback = Some h'" by blast
        then show ?thesis
          using assms(4) old [OF h'] lk True Some \<open>handles c1 key' = None\<close>
          by (auto simp: use_handle_def get_or_create_def Let_def)
      qed
    next
      case False
      then show ?thesis
        using assms(4) new lk None by (auto simp: use_handle_def get_or_create_def Let_def)
    qed
  qed
  moreover have "handles_ok (full_mode cfg) (cache s')"
  proof (rule handles_okI)
    fix k h' assume "handles (cache s') k = Some h'"
    then consider "handles c1 k = Some h'" | "k = key'" "h' = ?new"
      using both by (metis fun_upd_apply option.sel)
    then show "handle_ok (full_mode cfg) (profi_is_nccl_event (key_type k)) h'"
      using old new by cases simp_all
  qed
  ultimately show "labels_ok cfg s'"
    using assms(1) by (simp add: labels_ok_def)
  show "\<exists>nccl. handle_ok (full_mode cfg) nccl h" using both by blast
qed

lemma parts_ops [simp]:
  "metric_ops (emit ops s) = metric_ops s @ ops" "cache (emit ops s) = cache s"
  "metric_ops (request_name cfg pid a s) = metric_ops s" "cache (request_name cfg pid a s) = cache s"
  "metric_ops (see_pid now pid s) = metric_ops s" "handles (cache (see_pid now pid s)) = handles (cache s)"
  "metric_ops (push_durations k ds s) = metric_ops s" "cache (push_durations k ds s) = cache s"
  "metric_ops (flush_memory s) = metric_ops s" "cache (flush_memory s) = cache s"
  "metric_ops (publish_pids writable s) = metric_ops s" "cache (publish_pids writable s) = cache s"
  by (simp_all add: emit_def request_name_def see_pid_def touch_def push_durations_def flush_memory_def publish_pids_def)

lemma labels_ok_handlers:
  assumes "labels_ok cfg s" and "lists_keys (key_order cfg)"
  shows "labels_ok cfg (handle_event cfg now e s)" and "labels_ok cfg (handle_aggregated cfg now k t s)"
    and "labels_ok cfg (handle_launch cfg now lk t s)" and "labels_ok cfg (handle_nccl cfg now k t s)"
proof -
  have st: "state_ok cfg s" using assms(1) by (simp add: labels_ok_def)
  note handlers = state_ok_handlers [OF st assms(2)]
  note use = use_handle_labels [OF assms]
  obtain h s1 where u: "use_handle cfg e (event_key e) s = (h, s1)" by fastforce
  obtain nccl where ok: "labels_ok cfg s1" "handle_ok (full_mode cfg) nccl h"
    using use [OF _ u] by (auto simp: keys_of_inputs)
  have eff: "metric_ops (handle_event cfg now e s) = metric_ops s1 @ event_ops e h"
    "handles (cache (handle_event cfg now e s)) = handles (cache s1)"
    by (simp_all add: handle_event_def u Let_def)
  show "labels_ok cfg (handle_event cfg now e s)"
    by (rule labels_okI [OF ok(1) handlers(1) eff(1) handle_ops_ok(1) [OF ok(2)]]) (simp only: eff(2))
  obtain h s1 where u: "use_handle cfg (agg_synthetic k) (agg_cache_key k) s = (h, s1)" by fastforce
  obtain nccl where ok: "labels_ok cfg s1" "handle_ok (full_mode cfg) nccl h"
    using use [OF _ u] by (auto simp: keys_of_inputs)
  have eff: "metric_ops (handle_aggregated cfg now k t s) = metric_ops s1 @ agg_ops t h"
    "handles (cache (handle_aggregated cfg now k t s)) = handles (cache s1)"
    by (simp_all add: handle_aggregated_def u Let_def)
  show "labels_ok cfg (handle_aggregated cfg now k t s)"
    by (rule labels_okI [OF ok(1) handlers(2) eff(1) handle_ops_ok(2) [OF ok(2)]]) (simp only: eff(2))
  have eff: "metric_ops (handle_nccl cfg now k t s) = metric_ops s1 @ nccl_ops t h"
    "handles (cache (handle_nccl cfg now k t s)) = handles (cache s1)"
    by (simp_all add: handle_nccl_def u Let_def)
  show "labels_ok cfg (handle_nccl cfg now k t s)"
    by (rule labels_okI [OF ok(1) handlers(4) eff(1) handle_ops_ok(4) [OF ok(2)]]) (simp only: eff(2))
  obtain h s1 where u: "use_handle cfg
      (synthetic EVENT_CUDA_LAUNCH_KERNEL (lk_pid lk) 0 0 (lk_stream lk) (lk_host_fun lk))
      (EVENT_CUDA_LAUNCH_KERNEL, lk_pid lk, 0, 0, lk_stream lk, lk_host_fun lk, 0) s = (h, s1)" by fastforce
  obtain nccl where ok: "labels_ok cfg s1" "handle_ok (full_mode cfg) nccl h"
    using use [OF _ u] by (auto simp: keys_of_inputs)
  have eff: "metric_ops (handle_launch cfg now lk t s) = metric_ops s1 @ launch_ops t h"
    "handles (cache (handle_launch cfg now lk t s)) = handles (cache s1)"
    by (simp_all add: handle_launch_def u Let_def)
  show "labels_ok cfg (handle_launch cfg now lk t s)"
    by (rule labels_okI [OF ok(1) handlers(3) eff(1) handle_ops_ok(3) [OF ok(2)]]) (simp only: eff(2))
qed

lemma labels_ok_parts:
  "labels_ok cfg s \<Longrightarrow> labels_ok cfg (flush_memory s)"
  "labels_ok cfg s \<Longrightarrow> labels_ok cfg (s\<lparr>active_mem_delta := d\<rparr>)"
  "labels_ok cfg s \<Longrightarrow> labels_ok cfg (publish_pids writable s)"
  "labels_ok cfg s \<Longrightarrow> ops_ok (full_mode cfg) ops \<Longrightarrow> labels_ok cfg (emit ops s)"
  by (simp_all add: labels_ok_def)

lemma labels_ok_agg_branch:
  assumes "lists_keys (key_order cfg)" and "labels_ok cfg s"
  shows "labels_ok cfg (snd (agg_branch cfg now cpus ks st s))"
proof -
  note drain = drain_keys_inv [of "labels_ok cfg"]
  have closures: "labels_ok cfg s \<Longrightarrow> labels_ok cfg (aggregated_closure cfg now k vs s)"
    "labels_ok cfg s \<Longrightarrow> labels_ok cfg (launch_closure cfg now lk ls s)"
    "labels_ok cfg s \<Longrightarrow> labels_ok cfg (nccl_closure cfg now k ns s)" for s k vs lk ls ns
    using assms(1)
    by (simp_all add: aggregated_closure_def launch_closure_def nccl_closure_def Let_def labels_ok_handlers)
  show ?thesis
    using assms(2) unfolding agg_branch_def drain_percpu_hash_def Let_def case_prod_beta snd_conv
    by (auto intro!: labels_ok_parts drain closures)
qed

lemma remove_ops_ok:
  assumes "handles_ok full c"
    and "set removed \<subseteq> {x. \<exists>k h. handles c k = Some h \<and> x \<in> set (remove_handle_metrics full (key_type k) h)}"
  shows "ops_ok full (map (\<lambda>(f, l). Remove f l) removed)"
  unfolding ops_ok_def list_all_iff
proof
  fix op assume "op \<in> set (map (\<lambda>(f, l). Remove f l) removed)"
  then obtain f l k h where op: "op = Remove f l" and h: "handles c k = Some h"
    and "(f, l) \<in> set (remove_handle_metrics full (key_type k) h)"
    using assms(2) by fastforce
  then have "Remove f l \<in> set (map (\<lambda>(f, l). Remove f l) (remove_handle_metrics full (key_type k) h))" by force
  then show "series_ok full (op_series op)"
    using remove_handle_ok [OF handles_okD [OF assms(1) h]] unfolding op ops_ok_def list_all_iff by blast
qed

lemma labels_ok_invalidate:
  assumes "lists_keys (key_order cfg)" and "labels_ok cfg s"
  shows "labels_ok cfg (invalidate cfg pids s)"
proof -
  have st: "state_ok cfg s" and ok: "handles_ok (full_mode cfg) (cache s)" using assms(2) by (simp_all add: labels_ok_def)
  note fin = state_ok_finite [OF st]
  let ?r = "remove_handles (full_mode cfg) (key_order cfg) (\<lambda>p. p \<in> pids) (cache s)"
  have listed: "set (key_order cfg (handles (cache s))) = dom (handles (cache s))"
    using assms(1) fin by (simp add: lists_keys_def)
  have "set (fst ?r) \<subseteq> {x. \<exists>k h. handles (cache s) k = Some h \<and> x \<in> set (remove_handle_metrics (full_mode cfg) (key_type k) h)}"
    using listed by (fastforce simp: remove_handles_def Let_def simp del: split_paired_Ex)
  then have ops: "ops_ok (full_mode cfg) (map (\<lambda>(f, l). Remove f l) (fst ?r))" by (rule remove_ops_ok [OF ok])
  have eff: "metric_ops (invalidate cfg pids s) = metric_ops s @ map (\<lambda>(f, l). Remove f l) (fst ?r)"
    "handles (cache (invalidate cfg pids s)) = (\<lambda>k. if key_pid k \<in> pids then None else handles (cache s) k)"
    using remove_handles_eq [OF assms(1) fin] by (simp_all add: invalidate_def invalidate_pids_def case_prod_beta)
  show ?thesis
    by (rule labels_okI [OF assms(2) state_ok_invalidate [OF assms(1) st] eff(1) ops]) (simp add: eff(2) split: if_splits)
qed

lemma labels_ok_collect:
  assumes "lists_keys (key_order cfg)" and "labels_ok cfg s"
  shows "labels_ok cfg (collect cfg now stale_after listed s)"
proof -
  have st: "state_ok cfg s" and ok: "handles_ok (full_mode cfg) (cache s)" using assms(2) by (simp_all add: labels_ok_def)
  let ?stale = "gc_stale now stale_after listed (cache s)"
  let ?r = "gc_pids (full_mode cfg) (key_order cfg) ?stale (cache s)"
  note effect = gc_pids_effect [OF assms(1) state_ok_finite [OF st], of "full_mode cfg" ?stale]
  have "set (fst ?r) \<subseteq> {x. \<exists>k h. handles (cache s) k = Some h \<and> x \<in> set (remove_handle_metrics (full_mode cfg) (key_type k) h)}"
    using effect by (simp del: split_paired_Ex) blast
  then have ops: "ops_ok (full_mode cfg) (map (\<lambda>(f, l). Remove f l) (fst ?r))" by (rule remove_ops_ok [OF ok])
  have eff: "metric_ops (collect cfg now stale_after listed s) = metric_ops s @ map (\<lambda>(f, l). Remove f l) (fst ?r)"
    "handles (cache (collect cfg now stale_after listed s)) = (\<lambda>k. if key_pid k \<in> set ?stale then None else handles (cache s) k)"
    using effect by (simp_all add: collect_def gc_def Let_def case_prod_beta)
  show ?thesis
    by (rule labels_okI [OF assms(2) state_ok_collect [OF assms(1) st] eff(1) ops]) (simp add: eff(2) split: if_splits)
qed

lemma labels_ok_regs:
  assumes "full_mode cfg"
  shows "labels_ok cfg s \<Longrightarrow> handle_regs uni name_at regs s = Some s' \<Longrightarrow> labels_ok cfg s'"
proof (induction regs arbitrary: s)
  case (Cons reg regs)
  then obtain s1 where s1: "handle_reg uni name_at reg s = Some s1" "handle_regs uni name_at regs s1 = Some s'"
    by (auto split: option.splits)
  have "handle_regs uni name_at [reg] s = Some s1" using s1(1) by simp
  then have "state_ok cfg s1" using state_ok_regs assms Cons.prems(1) by (simp only: labels_ok_def) blast
  then have "labels_ok cfg s1"
    using s1(1) Cons.prems(1)
    by (auto simp: labels_ok_def handle_reg_def split: option.splits sum.splits if_splits)
  then show ?case using Cons.IH s1(2) by blast
qed simp

lemma take_names_ops: "take_names uni results s = Some s' \<Longrightarrow> metric_ops s' = metric_ops s \<and> cache s' = cache s"
  by (induction uni results s rule: take_names.induct) (auto simp: Let_def split: if_splits option.splits)

lemma loop_labels_ok:
  assumes "loop_reachable cfg s" and "lists_keys (key_order cfg)"
  shows "labels_ok cfg s"
  using assms(1)
proof induction
  case start
  have "handles_ok (full_mode cfg) new_cache" by (simp add: handles_ok_def new_cache_def)
  then show ?case
    using loop_reachable_ok [OF loop_reachable.start assms(2)] by (simp add: labels_ok_def) (simp add: loop_init_def)
next
  case (readable s uni name_at now changed events regs s')
  have "labels_ok cfg (fold (handle_event cfg now) events s0)" if "labels_ok cfg s0" for s0
    using that by (induction events arbitrary: s0) (simp_all add: labels_ok_handlers assms(2))
  then have "labels_ok cfg (fold (handle_event cfg now) events
      (if changed = {} then s else invalidate cfg changed s))"
    using labels_ok_invalidate [OF assms(2) readable.IH] readable.IH by simp
  then show ?case
    using readable.hyps(2) by (auto simp: readable_branch_def Let_def split: if_splits intro: labels_ok_regs)
next
  case (agg_tick s now cpus ks st)
  then show ?case by (intro labels_ok_agg_branch assms(2))
next
  case (gc_tick s uni now stale_after listed results writable hangs window_keys types s')
  from gc_tick.hyps(2) obtain s1 where s1: "take_names uni (if full_mode cfg then results else []) s = Some s1"
    by (auto simp: gc_branch_def split: option.splits)
  have "state_ok cfg s1"
    using s1 gc_tick.IH state_ok_names by (cases "full_mode cfg") (auto simp: labels_ok_def)
  then have "labels_ok cfg s1" using take_names_ops [OF s1] gc_tick.IH by (simp add: labels_ok_def)
  then have c: "labels_ok cfg (collect cfg now stale_after listed (publish_pids writable s1))"
    by (intro labels_ok_collect labels_ok_parts assms(2))
  let ?s2 = "collect cfg now stale_after listed (publish_pids writable s1)"
  let ?hangs = "map (\<lambda>(t, pid). Inc_by Nccl_hang_detected [operation_name t, fmt_dec (unat pid)] 1) hangs"
  have "labels_ok cfg (emit (ratio_ops cfg window_keys types (emit ?hangs ?s2)) (emit ?hangs ?s2))"
    by (intro labels_ok_parts c) (auto simp: ops_ok_def list_all_iff ratio_ops_def)
  then show ?case
    using gc_tick.hyps(2) s1 by (auto simp: gc_branch_def Let_def labels_ok_def)
qed



text \<open>The same for the hardware readings and the description of the devices.\<close>

lemma ecc_update_series:
  "ecc_update gpu uuid d (r, label, j) prevs = Some (ops, prevs') \<Longrightarrow> list_all (\<lambda>op. series_ok full (gpu_series op)) ops"
  by (auto simp: ecc_update_def Let_def split: option.splits if_splits)

lemma on_reading_series:
  "(\<And>x. list_all P (f x)) \<Longrightarrow> list_all P (on_reading r f)"
  by (simp add: on_reading_def split: option.split)

lemma gauge_ops_series:
  "list_all (\<lambda>op. series_ok full (gpu_series op)) (gauge_ops gpu uuid dev)"
  "list_all (\<lambda>op. series_ok full (gpu_series op)) (throttle_ops gpu uuid dev)"
  unfolding gauge_ops_def throttle_ops_def list_all_append
  by (intro conjI on_reading_series; simp split: prod.split)+

lemma poll_device_series:
  assumes "poll_device W d p = Some (ops, p')"
  shows "list_all (\<lambda>op. series_ok full (gpu_series op)) ops"
proof (cases "device_by_index W (dev_index (devices p ! d))")
  case None
  then show ?thesis using assms by (simp add: poll_device_def Let_def)
next
  case (Some dev)
  let ?gpu = "index_str (devices p ! d)" and ?uuid = "dev_uuid (devices p ! d)"
  obtain ops1 prevs1 ops2 prevs2 where
    u: "ecc_update ?gpu ?uuid d (ecc_corrected dev, ''corrected'', 0) (prev_ecc p) = Some (ops1, prevs1)"
       "ecc_update ?gpu ?uuid d (ecc_uncorrected dev, ''uncorrected'', 1) prevs1 = Some (ops2, prevs2)"
    and "ops = gauge_ops ?gpu ?uuid dev @ ops1 @ ops2 @ throttle_ops ?gpu ?uuid dev"
    using assms Some by (auto simp: poll_device_def Let_def split: option.splits prod.splits)
  then show ?thesis using gauge_ops_series ecc_update_series [OF u(1)] ecc_update_series [OF u(2)] by simp
qed

lemma poll_series: "poll_from W idxs p = Some (ops, p') \<Longrightarrow> list_all (\<lambda>op. series_ok full (gpu_series op)) ops"
  by (induction idxs arbitrary: p ops) (fastforce split: option.splits prod.splits dest: poll_device_series)+

lemma gpu_labels_match:
  "polls Ws p = Some (ops, p') \<Longrightarrow> list_all (\<lambda>op. series_ok full (gpu_series op)) ops"
  "list_all (series_ok full) (publish_gpu_info devs)"
proof -
  show "polls Ws p = Some (ops, p') \<Longrightarrow> list_all (\<lambda>op. series_ok full (gpu_series op)) ops"
    by (induction Ws arbitrary: p ops) (fastforce simp: poll_def split: option.splits prod.splits dest: poll_series)+
  show "list_all (series_ok full) (publish_gpu_info devs)"
    by (simp add: publish_gpu_info_def list_all_iff)
qed

section \<open>The registry accepts its families\<close>

text \<open>
  Every family has its own name, and label names are different from each other; \<open>le\<close> is reserved for
  histograms and not a label of one. So registering does not fail. Label names have no dot,
  which is what the export of \<^verbatim>\<open>Otlp\<close> asks of them.
\<close>

lemma registry_distinct: "distinct (map (fst \<circ> declared) (registered True))"
  by code_simp

lemma registry_labels:
  "list_all (\<lambda>m. case declared m of (name, kind, labels) \<Rightarrow> distinct labels \<and>
     (kind = Histogram_metric \<longrightarrow> ''le'' \<notin> set labels)) (registered True)"
  "list_all (\<lambda>m. list_all (\<lambda>l. CHR ''.'' \<notin> set l) (label_names m)) (registered True)"
  by code_simp+

lemma registered_subset: "set (registered full) \<subseteq> set (registered True)"
  by (auto simp: registered_def)

text \<open>
  The own metrics that are not exported are those under the prefix; the counter of drops at the
  limit on series is not, although it is declared among them.
\<close>

lemma cardinality_drops_exported:
  "\<not> should_skip_metric (fst (declared Cardinality_drops))" "should_skip_metric (fst (declared Handle_cache_size))"
  by (simp_all add: should_skip_metric_def SELF_OBS_PREFIX_def)

end
