(* ===== verification/Server.thy ===== *)
theory Server
  imports Auth Attach
begin

text \<open>
  The routes of the HTTP server (\<^verbatim>\<open>src/src/server.rs\<close>) behind the middleware of \<^verbatim>\<open>Auth\<close>, for
  GET requests: the metrics, the two probes and the status page. The text of the metrics is an
  argument; times are in nanoseconds since the start of the process.
\<close>

record AppState =
  heartbeat_ns :: u64
  ring_buffer_open :: bool
  app_libs_attached :: nat
  k8s_ready :: bool
  app_events_processed :: u64
  app_tracked_pids :: int
  app_kernel_mode :: string

record StatusResponse =
  attached_libraries :: nat
  tracked_pids :: int
  status_events_processed :: u64
  uptime_ns :: u64
  status_kernel_mode :: string

definition handle_status :: "AppState \<Rightarrow> u64 \<Rightarrow> StatusResponse" where
  "handle_status state elapsed =
     \<lparr> attached_libraries = app_libs_attached state, tracked_pids = app_tracked_pids state,
       status_events_processed = app_events_processed state, uptime_ns = elapsed,
       status_kernel_mode = app_kernel_mode state \<rparr>"

datatype body = Text string | Json StatusResponse

datatype response = Refused | Response nat body

definition base_router :: "string \<Rightarrow> AppState \<Rightarrow> u64 \<Rightarrow> string \<Rightarrow> response" where
  "base_router encoded state elapsed path =
     (if path = ''/metrics'' then Response 200 (Text encoded)
      else if path = ''/health'' then
        (case handle_health (heartbeat_ns state) elapsed of (code, t) \<Rightarrow> Response code (Text t))
      else if path = ''/ready'' then
        (case handle_ready (app_libs_attached state) (ring_buffer_open state) (k8s_ready state) of
           (code, t) \<Rightarrow> Response code (Text t))
      else if path = ''/status'' then Response 200 (Json (handle_status state elapsed))
      else Response 404 (Text []))"

text \<open>A request, with the clock of the middleware: the handshake, the middleware, and the route.\<close>

definition respond ::
    "auth_world \<Rightarrow> MetricsSecurityArgs \<Rightarrow> string \<Rightarrow> AppState \<Rightarrow> u64 \<Rightarrow> nat \<Rightarrow> request \<Rightarrow> auth_state \<Rightarrow> response \<times> auth_state" where
  "respond W args encoded state elapsed now req s =
     (case serve_request W args now req s of
        (None, s') \<Rightarrow> (Refused, s')
      | (Some Unauthorized, s') \<Rightarrow> (Response 401 (Text (''unauthorized'' @ [CHR 0x0A])), s')
      | (Some Pass, s') \<Rightarrow> (base_router encoded state elapsed (req_path req), s'))"

section \<open>Facts\<close>

text \<open>
  The probes answer every client that completes the handshake, whatever its token, and touch
  nothing of the authentication.
\<close>

lemma probes_open:
  assumes "handshake W (metrics_tls_mode args) (req_cert_ok req)" and "req_path req \<in> {''/health'', ''/ready''}"
  shows "respond W args encoded state elapsed now req s = (base_router encoded state elapsed (req_path req), s)"
  using assms
  by (simp add: respond_def serve_request_def auth_middleware_def is_unauthenticated_path_def)

text \<open>
  A route other than the probes is answered only when the middleware passes the request: then
  the answer is that of the route, and otherwise it holds neither metrics nor status.
\<close>

lemma details_guarded:
  "fst (respond W args encoded state elapsed now req s) =
     (case fst (serve_request W args now req s) of
        None \<Rightarrow> Refused
      | Some Unauthorized \<Rightarrow> Response 401 (Text (''unauthorized'' @ [CHR 0x0A]))
      | Some Pass \<Rightarrow> base_router encoded state elapsed (req_path req))"
  by (auto simp: respond_def split: prod.splits option.splits outcome.splits)

text \<open>Readiness at startup: with the file of the runtime library there, readiness does not depend on a probe.\<close>

lemma ready_without_probe:
  assumes "exists cudart" "\<And>l. \<not> accepts l" "ring_buffer_open state" "k8s_ready state"
    and "app_libs_attached state = libs_attached (fst (initial_attach accepts exists metadata m pr cudart))"
  shows "base_router encoded state elapsed ''/ready'' = Response 200 (Text (''ready'' @ [CHR 0x0A])) \<and>
    attached_links (fst (initial_attach accepts exists metadata m pr cudart)) = []"
  using startup_counts_unattached [of exists cudart accepts metadata m pr] assms
  by (simp add: base_router_def handle_ready_def)

end
