(* ===== verification/Spec2Isabelle.thy ===== *)
theory Spec2Isabelle
  imports Allocations Sampling NvtxRanges LaunchModes Registration RustEvents Exposition Ticks HandleCache Pipeline LoopFacts Auth EnrichFacts Attach Otlp Nvml Registry Server
begin

text \<open>
  A verification library for \<^bold>\<open>profi\<close>, a profiler of CUDA and NCCL programs. It has two
  halves. The kernel half (\<^verbatim>\<open>src/src/bpf/profi.bpf.c\<close>, \<^verbatim>\<open>src/src/bpf/profi_events.h\<close>) is a
  set of BPF programs attached to the entry and return of the traced library functions: an
  entry probe files the call under its thread, the return probe takes it out again and adds it
  to an aggregate map or sends it through a ring buffer. The user half (\<^verbatim>\<open>src/src/*.rs\<close>)
  drains the maps on a timer, turns keys into labels and exports counters and histograms.

  \<^bold>\<open>How the code is modelled.\<close> Definitions carry the names of the source. Integers have their
  widths as words, so every sum wraps where the code's does. A map of the kernel half is a
  field of the record \<^verbatim>\<open>bpf_state\<close>; what the BPF runtime decides on its own (eviction from
  an LRU map, a failed insert, a refused reservation, memory reads of the traced process, the
  clock, the CPU) is the record \<^verbatim>\<open>env\<close>, quantified over in every theorem. One firing of a
  probe is one atomic step: probes on different CPUs work on different per-CPU slots and
  different threads, and interleavings are lists of firings. The one place where atomicity
  is taken apart is the drain, whose lookup and delete are two system calls. Rust strings are
  lists of UTF-8 bytes, a panic is \<^verbatim>\<open>None\<close>, arithmetic is that of a release build. The order
  in which a hash map or the kernel lists its keys is an argument of the definitions with
  the hypothesis that it lists every key once. The metrics library is outside the program:
  what the code asks of it is returned as a value.

  \<^bold>\<open>Shared vocabulary.\<close> \<^verbatim>\<open>Prelude\<close> has the word types, the collections of rewrite rules and
  lemmas on words, sums and maps. \<^verbatim>\<open>RustStrings\<close> has the operations on strings of the Rust
  standard library that the user half calls, with round trips for splitting and for
  numerals.

  \<^bold>\<open>The kernel half.\<close>
  \<^item> \<^verbatim>\<open>Events\<close>: the constants, tables, structs, classification and bucket functions of
    \<^verbatim>\<open>profi_events.h\<close>. The locale \<open>bucketing\<close> states what a bucket function promises (the
    cell of a value is the one whose interval holds it) and is interpreted for the three.
  \<^item> \<^verbatim>\<open>BpfMaps\<close>, \<^verbatim>\<open>BpfCore\<close>, \<^verbatim>\<open>Probes\<close>: the map types, the state, \<^verbatim>\<open>save_entry\<close>, \<^verbatim>\<open>emit_exit\<close>
    and the 60 programs, with \<open>fire\<close> as their dispatch. The locale \<open>keyed_map\<close> is the contract
    of lookup, update and delete.
  \<^item> \<^verbatim>\<open>Aggregates\<close>, \<^verbatim>\<open>CoreFacts\<close>, \<^verbatim>\<open>ProbeFacts\<close>: the values of the aggregate maps as
    accumulators (locales \<open>accumulator\<close>, \<open>histogram\<close>) and the effect of every helper and
    program on every field.
  \<^item> \<^verbatim>\<open>Invariants\<close>: the transition system of firings and reader actions, its reachable
    states and the invariant of the maps (\<open>reachable_invariant\<close> below).
  \<^item> \<^verbatim>\<open>Refinement\<close>: the abstract view of a run is the list of its completed calls; every
    slot of the three aggregate maps is the summary of its calls, the event ring holds their
    records, the drop counters what was refused.
  \<^item> \<^verbatim>\<open>Threads\<close>, \<^verbatim>\<open>Allocations\<close>, \<^verbatim>\<open>Sampling\<close>, \<^verbatim>\<open>NvtxRanges\<close>, \<^verbatim>\<open>LaunchModes\<close>, \<^verbatim>\<open>Registration\<close>:
    pairing of calls with their returns across interleavings, allocation sizes, the sampling
    decision, range names, anonymous and detailed launches, kernel registration, with what
    goes wrong for nested calls, failed allocations and nested ranges.
  \<^item> \<^verbatim>\<open>CLayout\<close>, \<^verbatim>\<open>KernelBase\<close>, \<^verbatim>\<open>KernelBpf\<close>, \<^verbatim>\<open>KernelTrace\<close>, \<^verbatim>\<open>KernelTask\<close>, \<^verbatim>\<open>Layouts\<close>,
    \<^verbatim>\<open>RustEvents\<close>: the layout rules of C, the kernel declarations of \<^verbatim>\<open>vmlinux.h\<close> behind the
    maps, programs, probes and tasks, the layout of the shared structs and map declarations,
    and the agreement of the Rust mirror \<^verbatim>\<open>events.rs\<close> with the header.

  \<^bold>\<open>The user half.\<close>
  \<^item> \<^verbatim>\<open>Drain\<close>, \<^verbatim>\<open>DrainFacts\<close> (\<^verbatim>\<open>main.rs\<close>): the drain of the per-CPU maps. A tick handles at most
    8192 keys (\<^verbatim>\<open>PERCPU_HASH_DRAIN_KEY_BUDGET\<close>); what it reports is the exact total of the calls,
    enough ticks empty a map, and a call that falls between lookup and delete is lost. The
    locale \<open>totalled\<close> is the contract of adding up per-CPU values.
  \<^item> \<^verbatim>\<open>MetricNames\<close>, \<^verbatim>\<open>Exposition\<close> (\<^verbatim>\<open>metrics.rs\<close>, \<^verbatim>\<open>main.rs\<close>): label values, and that the
    exported cumulative histogram counts exactly the calls within each bound, from the probe
    to the label text.
  \<^item> \<^verbatim>\<open>Ticks\<close> (\<^verbatim>\<open>main.rs\<close>): drop counters, the adaptive drain interval, the synchronisation of
    upgraded processes and the scan for hanging collectives.
  \<^item> \<^verbatim>\<open>KernelNames\<close> (\<^verbatim>\<open>kernel.rs\<close>): normalisation, classification and phase names.
  \<^item> \<^verbatim>\<open>HandleCache\<close> (\<^verbatim>\<open>cache.rs\<close>): the cache of metric handles, its limits, invalidation and
    collection.
  \<^item> \<^verbatim>\<open>TermReport\<close> (\<^verbatim>\<open>report.rs\<close>): the statistics of the terminal report as a refinement of
    the recorded calls; the locale \<open>mergeable\<close> is the contract of statistics that may be
    collected in batches.
  \<^item> \<^verbatim>\<open>Symbols\<close> (\<^verbatim>\<open>symbols.rs\<close>): memory maps, symbol tables, the binary search and the resolver
    thread with its caches, which are shown to be transparent.
  \<^item> \<^verbatim>\<open>NcclWindow\<close> (\<^verbatim>\<open>main.rs\<close>): the windows of durations and the straggler ratios.
  \<^item> \<^verbatim>\<open>EventLoop\<close> (\<^verbatim>\<open>main.rs\<close>): the three branches of the main loop (\<open>readable_branch\<close>,
    \<open>agg_branch\<close>, \<open>gc_branch\<close>) over one state, composed from the theories above.
  \<^item> \<^verbatim>\<open>EventFacts\<close>, \<^verbatim>\<open>LoopFacts\<close>, \<^verbatim>\<open>Pipeline\<close>: every call is counted once through any sequence
    of inputs (the locale \<open>drained\<close> is the contract of the three drain handlers); the
    invariant of the loop by induction over its steps; the balance of active memory; and the
    composition from the probes to the exported counters.
  \<^item> \<^verbatim>\<open>Auth\<close> (\<^verbatim>\<open>http_security.rs\<close>, \<^verbatim>\<open>server.rs\<close>, \<^verbatim>\<open>pem.rs\<close>): who gets to read the metrics.
  \<^item> \<^verbatim>\<open>Enrichment\<close>, \<^verbatim>\<open>EnrichFacts\<close> (\<^verbatim>\<open>enrichment.rs\<close>): the names of containers and GPUs in the
    process file system, the pod watcher and the caches of labels. The abstract view is the
    cluster as it was reported; \<open>enriching\<close> is the transition system of lookups, reports and
    evictions. Labels are those of the pod, and only annotated pods get full detail.
  \<^item> \<^verbatim>\<open>Discovery\<close> (\<^verbatim>\<open>discovery.rs\<close>, \<^verbatim>\<open>main.rs\<close>): the scan for libraries of running processes and
    the thread that sends each file once.
  \<^item> \<^verbatim>\<open>Attach\<close> (\<^verbatim>\<open>main.rs\<close>): the tables of probes, their attachment, and that each traced
    function is recorded as its operation, which connects the tables with the probe programs.
  \<^item> \<^verbatim>\<open>Otlp\<close> (\<^verbatim>\<open>otlp.rs\<close>): the settings of the export task, the conversion of the gathered
    families and the message of a tick; the specification is the view a collector can
    reconstruct, \<open>decode\<close>, which is what Prometheus exposes.
  \<^item> \<^verbatim>\<open>Nvml\<close> (\<^verbatim>\<open>nvml.rs\<close>): a poll of the hardware readings, and the counting of memory errors.
  \<^item> \<^verbatim>\<open>Registry\<close> (\<^verbatim>\<open>metrics.rs\<close>): the families with their labels, and that the main loop and the
    hardware poller never ask for a series the registry does not have.
  \<^item> \<^verbatim>\<open>Server\<close> (\<^verbatim>\<open>server.rs\<close>): the routes behind the middleware, the probes and the status page.

  \<^bold>\<open>Not modelled.\<close> System calls and network I/O: loading the programs, polling the ring buffers,
  the accesses to \<^verbatim>\<open>/proc\<close>, listening and TLS, the OTLP client, the cluster API and NVML; the
  kernel, the file system and these libraries are arguments where the code depends on their
  answers. The parsing of the command line and the floating-point formats of the report. The rest of
  \<^verbatim>\<open>vmlinux.h\<close>, which declares thousands of types the program does not touch. The build
  script and the generated BPF skeleton.
\<close>

section \<open>Properties of the whole kernel side\<close>

text \<open>
  C2. The invariant of the maps. In every state that any sequence of probe firings (with any
  outcome of every helper call) and reader actions can reach from the loaded program, the
  arrays have their one element; every key of the three aggregate maps belongs to its
  class of events, and in every per-CPU slot of every key the histogram has its declared
  number of cells and its cells sum up, modulo 2 to the 32, to the count; every event in
  the ring is complete and of a kind no aggregate takes; tracked allocations have
  addresses; range names are terminated; and all padding bytes are zero.
\<close>

theorem reachable_invariant:
  assumes "reachable st"
  shows "bpf_inv st"
  using assms by (rule reachable_inv)

theorem reachable_invariant_witness:
  "bpf_inv (run memcpy_run (initial 0 1 0))"
proof (rule reachable_invariant)
  show "reachable (run memcpy_run (initial 0 1 0))"
    by (rule run_reachable) (auto simp: memcpy_run_def intro: reachable.start)
qed

text \<open>
  C22. Each completed call is recorded in one place. A firing that completes a call of an
  aggregatable type touches, of the maps user space reads, only \<^verbatim>\<open>AGGREGATED\<close>; a collective
  only \<^verbatim>\<open>NCCL_AGG\<close>; a launch only \<^verbatim>\<open>LAUNCH_AGG\<close> or its drop counter and, when it is reported
  in detail, the event ring or its drop counter; any other call only the event ring or its
  drop counter. A firing that completes no call touches none of them.
\<close>

theorem recorded_in_one_place:
  "(AGGREGATED (fire E p st) \<noteq> AGGREGATED st \<longrightarrow>
      (\<exists>e. completed E p st = Some e \<and> profi_is_aggregatable (ed_event_type e))) \<and>
   (NCCL_AGG (fire E p st) \<noteq> NCCL_AGG st \<longrightarrow>
      (\<exists>e. completed E p st = Some e \<and> profi_is_nccl_event (ed_event_type e) \<and>
           \<not> profi_is_aggregatable (ed_event_type e))) \<and>
   (LAUNCH_AGG (fire E p st) \<noteq> LAUNCH_AGG st \<or> LAUNCH_DROPPED (fire E p st) \<noteq> LAUNCH_DROPPED st \<longrightarrow>
      (\<exists>e. completed E p st = Some e \<and> ed_event_type e = EVENT_CUDA_LAUNCH_KERNEL)) \<and>
   (EVENTS (fire E p st) \<noteq> EVENTS st \<or> DROPPED (fire E p st) \<noteq> DROPPED st \<longrightarrow>
      (\<exists>e. completed E p st = Some e \<and> \<not> profi_is_aggregatable (ed_event_type e) \<and>
           \<not> profi_is_nccl_event (ed_event_type e)))"
proof (cases "completed E p st")
  case None
  then show ?thesis
    by (cases "is_exit p") (auto simp: completed_def fire_exit emit_exit_fields fire_frame split: if_splits)
next
  case (Some e)
  then have "is_exit p" and "INFLIGHT st (pid_tgid E) = Some e"
    by (auto simp: completed_def split: if_splits)
  with Some show ?thesis
    using classes_disjoint [of "ed_event_type e"]
    by (auto simp: fire_exit emit_exit_fields emits_event_def)
qed

theorem recorded_in_one_place_witness:
  "\<exists>e. completed (sample_env 1600 7 0) (Memory P_cuda_memcpy_ret)
         (run (butlast memcpy_run) (initial 0 1 0)) = Some e \<and>
       profi_is_aggregatable (ed_event_type e)"
  using recorded_in_one_place [of "sample_env 1600 7 0" "Memory P_cuda_memcpy_ret"
      "run (butlast memcpy_run) (initial 0 1 0)"]
  by (simp add: memcpy_run_def run_eval cuda_memcpy_def profi_is_aggregatable_def)

text \<open>
  Histogram cells are closed intervals above: for each of the three bucket tables and every
  duration, the index the probes compute is the one cell whose upper bound is not below
  the duration while the previous bound is; durations above the last bound fall in the
  last cell.
\<close>

lemma bucket_intervals:
  "(nat (profi_cuda_bucket_idx d) = i \<longleftrightarrow> i \<le> 13 \<and> in_bucket CUDA_BUCKET_BOUNDS_NS i d) \<and>
   (nat (profi_nccl_bucket_idx d) = i \<longleftrightarrow> i \<le> 11 \<and> in_bucket NCCL_BUCKET_BOUNDS_NS i d) \<and>
   (nat (profi_kernel_bucket_idx d) = i \<longleftrightarrow> i \<le> 8 \<and> in_bucket KERNEL_BUCKET_BOUNDS_NS i d)"
  using cuda_hist.idx_iff_in_bucket [of d i] nccl_hist.idx_iff_in_bucket [of d i]
    kernel_hist.idx_iff_in_bucket [of d i]
  by simp

text \<open>
  The size of a collective. The recorded bytes are the element count times the element size
  of its data type (between one and eight bytes; one for a type the table does not know),
  reduced modulo 2 to the 64.
\<close>

lemma nccl_bytes_exact:
  "(let s = (if unat (ed_arg1 e) < 10 then unat (NCCL_DTYPE_SIZES ! unat (ed_arg1 e)) else 1)
    in unat (nccl_bytes e) = unat (ed_arg0 e) * s mod 2 ^ 64 \<and> 1 \<le> s \<and> s \<le> 8)"
proof -
  let ?s = "if unat (ed_arg1 e) < 10 then unat (NCCL_DTYPE_SIZES ! unat (ed_arg1 e)) else 1"
  have size: "unat (nccl_dtype_size (ed_arg1 e)) = ?s"
    by (simp add: nccl_dtype_size_def word_less_nat_alt)
  have "unat (nccl_bytes e) = unat (ed_arg0 e) * ?s mod 2 ^ 64"
    unfolding nccl_bytes_def size [symmetric] by (simp add: unat_word_ariths)
  moreover have "1 \<le> unat (NCCL_DTYPE_SIZES ! i) \<and> unat (NCCL_DTYPE_SIZES ! i) \<le> 8" if "i < 10" for i
  proof -
    have "list_all (\<lambda>w. 1 \<le> unat w \<and> unat w \<le> 8) NCCL_DTYPE_SIZES" "length NCCL_DTYPE_SIZES = 10"
      by (simp_all add: NCCL_DTYPE_SIZES_def)
    with that show ?thesis by (simp add: list_all_length)
  qed
  ultimately show ?thesis by (simp add: Let_def)
qed

end
